(* ===== verification/Go_Prelude.thy ===== *)
theory Go_Prelude
  imports Main "HOL-Library.Word" "HOL-Library.AList" "HOL-Library.Monad_Syntax"
begin

text \<open>
  The vocabulary every component shares: identifiers and instants, Go's error values with their
  wrapping chains, the outside world a service talks to (clock, identifier source, random source,
  network), and the three control-flow idioms the services are written in.

  \<^item> \<open>uuid\<close> is the 16-byte array of \<^verbatim>\<open>google/uuid\<close>, a 128-bit word; \<open>uuid_Nil\<close> is the zero value.
  \<^item> \<open>time\<close> is an instant in nanoseconds, as \<^verbatim>\<open>time.Time\<close> counts it.
  \<^item> \<open>env\<close> holds what the services do not control: third-party functions (printing and parsing
    of uuids, the timestamp layout), the clock readings, the fresh identifiers, the outcome of
    every network call and the answer of every HTTP server, each as a function of a call counter
    or of the requests sent so far. Nothing is assumed of them here.
  \<^item> \<open>go_state\<close> holds the counters and the two logs (HTTP requests sent, messages stored in the
    NATS stream). The worlds of the three services extend it by their tables.
\<close>

subsection \<open>Collections of facts\<close>

named_theorems go_simps \<open>evaluation of the effect combinators\<close>
named_theorems go_frame \<open>what an operation leaves unchanged\<close>

subsection \<open>Identifiers and instants\<close>

type_synonym uuid = "128 word"
type_synonym time = int

definition uuid_Nil :: uuid where
  "uuid_Nil = 0"

abbreviation Second :: time where "Second \<equiv> 1000000000"
abbreviation Hour :: time where "Hour \<equiv> 3600 * Second"

subsection \<open>JSON values\<close>

text \<open>Request, response and message bodies are carried as parsed JSON values; a body that is not
  JSON is \<open>None\<close> where one is expected.\<close>

datatype json =
    JNull
  | JBool bool
  | JNum int
  | JStr string
  | JArr "json list"
  | JObj "(string \<times> json) list"

subsection \<open>Errors\<close>

text \<open>
  An \<^verbatim>\<open>error\<close> value: a package-level sentinel (\<open>errors.New\<close>), the typed validation error, an error
  reply of the PostgreSQL server (its code and constraint), \<open>pgx.ErrNoRows\<close>, any other error of
  a library or of the transport, a run-time panic on its way to the recovering middleware, and
  \<open>fmt.Errorf\<close> with a prefix, a colon and \<open>%w\<close>, which wraps the cause.
\<close>

datatype 's go_error =
    Sentinel 's
  | InvalidInput string
  | PgError string string
  | NoRows
  | ExtError string
  | Panicked string
  | Wrapped string "'s go_error"

fun errors_Is :: "'s go_error \<Rightarrow> 's go_error \<Rightarrow> bool" where
  "errors_Is (Wrapped p e) target = errors_Is e target"
| "errors_Is e target = (e = target)"

fun errors_As_PgError :: "'s go_error \<Rightarrow> (string \<times> string) option" where
  "errors_As_PgError (Wrapped p e) = errors_As_PgError e"
| "errors_As_PgError (PgError code con) = Some (code, con)"
| "errors_As_PgError _ = None"

fun IsInvalidInput :: "'s go_error \<Rightarrow> bool" where
  "IsInvalidInput (Wrapped p e) = IsInvalidInput e"
| "IsInvalidInput (InvalidInput msg) = True"
| "IsInvalidInput _ = False"

text \<open>\<open>err.Error()\<close>, given the texts of the package's sentinels.\<close>

fun error_text :: "('s \<Rightarrow> string) \<Rightarrow> 's go_error \<Rightarrow> string" where
  "error_text txt (Sentinel s) = txt s"
| "error_text txt (InvalidInput msg) = ''invalid input: '' @ msg"
| "error_text txt (PgError code con) = ''ERROR: '' @ con @ '' (SQLSTATE '' @ code @ '')''"
| "error_text txt NoRows = ''no rows in result set''"
| "error_text txt (ExtError msg) = msg"
| "error_text txt (Panicked msg) = msg"
| "error_text txt (Wrapped p e) = p @ '': '' @ error_text txt e"

fun err_cause :: "'s go_error \<Rightarrow> 's go_error" where
  "err_cause (Wrapped p e) = err_cause e"
| "err_cause e = e"

lemma err_cause_not_wrapped [simp]: "err_cause e \<noteq> Wrapped p e'"
  by (induction e) auto

lemma errors_Is_cause: "(\<And>p e'. t \<noteq> Wrapped p e') \<Longrightarrow> errors_Is e t \<longleftrightarrow> err_cause e = t"
  by (induction e) auto

lemma errors_Is_sentinel [simp]: "errors_Is e (Sentinel s) \<longleftrightarrow> err_cause e = Sentinel s"
  by (rule errors_Is_cause) simp

lemma errors_Is_NoRows [simp]: "errors_Is e NoRows \<longleftrightarrow> err_cause e = NoRows"
  by (rule errors_Is_cause) simp

lemma IsInvalidInput_cause [simp]: "IsInvalidInput e \<longleftrightarrow> (\<exists>m. err_cause e = InvalidInput m)"
  by (induction e) auto

lemma errors_As_PgError_cause:
  "errors_As_PgError e = (case err_cause e of PgError c n \<Rightarrow> Some (c, n) | _ \<Rightarrow> None)"
  by (induction e) auto

lemma err_cause_Wrapped_iff: "err_cause e = err_cause e' \<Longrightarrow> err_cause (Wrapped p e) = err_cause e'"
  by simp

subsection \<open>The outside world\<close>

text \<open>
  A network call reaches its server and is answered (\<open>Reached\<close>), never gets there (\<open>Refused\<close>), or
  takes effect while its answer is lost (\<open>ReplyLost\<close>); in the last two cases the caller sees an
  error with the given text.
\<close>

datatype net_outcome = Reached | Refused string | ReplyLost string

datatype req_body = NoReqBody | JsonBody json | FormBody string

record http_request =
  hr_method :: string
  hr_url :: string
  hr_query :: "(string \<times> string) list"
  hr_header :: "(string \<times> string) list"
  hr_body :: req_body

record http_response =
  hs_status :: int
  hs_body :: "json option"

record env =
  e_now :: "nat \<Rightarrow> time"
  e_dbnow :: "nat \<Rightarrow> time"
  e_newid :: "nat \<Rightarrow> uuid"
  e_rand :: "nat \<Rightarrow> string option"
  e_net :: "nat \<Rightarrow> net_outcome"
  e_http :: "http_request list \<Rightarrow> http_request \<Rightarrow> string + http_response"
  e_tsz :: "time \<Rightarrow> time"
  e_collate :: "string \<Rightarrow> nat"
  e_uuid_str :: "uuid \<Rightarrow> string"
  e_uuid_parse :: "string \<Rightarrow> uuid option"
  e_uuid_partial :: "string \<Rightarrow> uuid"
  e_time_str :: "time \<Rightarrow> string"
  e_time_parse :: "string \<Rightarrow> time option"
  e_jwt_sign :: "string \<Rightarrow> string \<Rightarrow> json \<Rightarrow> string + string"

record go_state =
  n_now :: nat
  n_ids :: nat
  n_rand :: nat
  n_net :: nat
  http_log :: "http_request list"
  js_log :: "(string \<times> json) list"

text \<open>A fallible operation on a world: Go's pair of a result and an error, and the world after it.\<close>

type_synonym ('s, 'a, 'w) go_op = "'w \<Rightarrow> ('s go_error + 'a) \<times> 'w"

definition time_Now :: "env \<Rightarrow> 'x go_state_scheme \<Rightarrow> time \<times> 'x go_state_scheme" where
  "time_Now E w = (e_now E (n_now w), w\<lparr>n_now := Suc (n_now w)\<rparr>)"

definition db_now :: "env \<Rightarrow> 'x go_state_scheme \<Rightarrow> time \<times> 'x go_state_scheme" where
  "db_now E w = (e_dbnow E (n_now w), w\<lparr>n_now := Suc (n_now w)\<rparr>)"

definition uuid_New :: "env \<Rightarrow> 'x go_state_scheme \<Rightarrow> uuid \<times> 'x go_state_scheme" where
  "uuid_New E w = (e_newid E (n_ids w), w\<lparr>n_ids := Suc (n_ids w)\<rparr>)"

text \<open>One call over the network: the counter moves on, then the call's fate decides.\<close>

definition net_call :: "env \<Rightarrow> ('s, 'a, 'x go_state_scheme) go_op \<Rightarrow> ('s, 'a, 'x go_state_scheme) go_op" where
  "net_call E act w =
     (let w1 = w\<lparr>n_net := Suc (n_net w)\<rparr>
      in case e_net E (n_net w) of
           Reached \<Rightarrow> act w1
         | Refused msg \<Rightarrow> (Inl (ExtError msg), w1)
         | ReplyLost msg \<Rightarrow> (Inl (ExtError msg), snd (act w1)))"

text \<open>\<open>http.Client.Do\<close>: the request joins the log; the server's answer depends on what was sent
  before it.\<close>

definition http_Do :: "env \<Rightarrow> http_request \<Rightarrow> ('s, http_response, 'x go_state_scheme) go_op" where
  "http_Do E req w =
     (let w1 = w\<lparr>http_log := http_log w @ [req]\<rparr>
      in case e_http E (http_log w) req of
           Inl msg \<Rightarrow> (Inl (ExtError msg), w1)
         | Inr resp \<Rightarrow> (Inr resp, w1))"

text \<open>\<open>jetstream.Publish\<close>: the stream stores the message when the call takes effect.\<close>

definition js_Publish :: "env \<Rightarrow> string \<Rightarrow> json \<Rightarrow> ('s, unit, 'x go_state_scheme) go_op" where
  "js_Publish E subject payload =
     net_call E (\<lambda>w. (Inr (), w\<lparr>js_log := js_log w @ [(subject, payload)]\<rparr>))"

subsection \<open>Control-flow idioms\<close>

text \<open>\<open>x, err := m; if err != nil { return fmt.Errorf("p: %w", err) }; k x\<close>\<close>

definition check_err :: "string \<Rightarrow> ('s, 'a, 'w) go_op \<Rightarrow> ('a \<Rightarrow> ('s, 'b, 'w) go_op) \<Rightarrow> ('s, 'b, 'w) go_op" where
  "check_err p m k w =
     (case m w of
        (Inl e, w') \<Rightarrow> (Inl (Wrapped p e), w')
      | (Inr x, w') \<Rightarrow> k x w')"

text \<open>\<open>x, err := m; if err != nil { return err }; k x\<close>\<close>

definition pass_err :: "('s, 'a, 'w) go_op \<Rightarrow> ('a \<Rightarrow> ('s, 'b, 'w) go_op) \<Rightarrow> ('s, 'b, 'w) go_op" where
  "pass_err m k w =
     (case m w of
        (Inl e, w') \<Rightarrow> (Inl e, w')
      | (Inr x, w') \<Rightarrow> k x w')"

text \<open>\<open>_ = m\<close>: best effort, the error is dropped.\<close>

definition ignore_err :: "('s, 'a, 'w) go_op \<Rightarrow> 'w \<Rightarrow> 'w" where
  "ignore_err m w = snd (m w)"

text \<open>A call whose error and result are converted on the way out, as the repository adapters do.\<close>

definition conv :: "('s go_error \<Rightarrow> 's go_error) \<Rightarrow> ('a \<Rightarrow> 'b) \<Rightarrow> ('s, 'a, 'w) go_op \<Rightarrow> ('s, 'b, 'w) go_op" where
  "conv f g m w =
     (case m w of
        (Inl e, w') \<Rightarrow> (Inl (f e), w')
      | (Inr x, w') \<Rightarrow> (Inr (g x), w'))"

lemma snd_conv_op [simp, go_simps]: "snd (conv f g m w) = snd (m w)"
  by (auto simp: conv_def split: prod.splits sum.splits)

lemma conv_InrE:
  assumes "conv f g m w = (Inr y, w')"
  obtains x where "m w = (Inr x, w')" "y = g x"
  using assms by (auto simp: conv_def split: prod.splits sum.splits)

lemma conv_InlE:
  assumes "conv f g m w = (Inl e', w')"
  obtains e where "m w = (Inl e, w')" "e' = f e"
  using assms by (auto simp: conv_def split: prod.splits sum.splits)

lemma check_err_Inl [go_simps]: "m w = (Inl e, w') \<Longrightarrow> check_err p m k w = (Inl (Wrapped p e), w')"
  and check_err_Inr [go_simps]: "m w = (Inr x, w') \<Longrightarrow> check_err p m k w = k x w'"
  by (simp_all add: check_err_def)

lemma check_err_cases:
  assumes "check_err p m k w = (r, w'')"
  obtains (failed) e where "m w = (Inl e, w'')" "r = Inl (Wrapped p e)"
        | (passed) x w' where "m w = (Inr x, w')" "k x w' = (r, w'')"
  using assms by (auto simp: check_err_def split: prod.splits sum.splits)

lemma check_err_InrE:
  assumes "check_err p m k w = (Inr y, w'')"
  obtains x w' where "m w = (Inr x, w')" "k x w' = (Inr y, w'')"
  using assms by (auto simp: check_err_def split: prod.splits sum.splits)

lemma pass_err_cases:
  assumes "pass_err m k w = (r, w'')"
  obtains (failed) e where "m w = (Inl e, w'')" "r = Inl e"
        | (passed) x w' where "m w = (Inr x, w')" "k x w' = (r, w'')"
  using assms by (auto simp: pass_err_def split: prod.splits sum.splits)

text \<open>The result of a run, once it has been computed.\<close>

lemma run_eqI: "(case fst (m w) of Inl e \<Rightarrow> False | Inr x \<Rightarrow> x = y) \<Longrightarrow> m w = (Inr y, snd (m w))"
  by (cases "m w") (auto split: sum.splits)

text \<open>A relation between the world before and after that is reflexive and transitive passes through
  the combinators: the way every frame property below is proved.\<close>

definition keeps :: "('w \<Rightarrow> 'v) \<Rightarrow> ('w \<Rightarrow> 'r \<times> 'w) \<Rightarrow> bool" where
  "keeps f m \<longleftrightarrow> (\<forall>w. f (snd (m w)) = f w)"

lemma keepsI: "(\<And>w. f (snd (m w)) = f w) \<Longrightarrow> keeps f m"
  by (simp add: keeps_def)

lemma keepsD [dest]: "keeps f m \<Longrightarrow> f (snd (m w)) = f w"
  by (simp add: keeps_def)

lemma keeps_eq: "keeps f m \<Longrightarrow> m w = (r, w') \<Longrightarrow> f w' = f w"
  by (metis keepsD snd_conv)

lemma keeps_check_err [intro]:
  assumes "keeps f m" and "\<And>x. keeps f (k x)"
  shows "keeps f (check_err p m k)"
  unfolding keeps_def
proof
  fix w
  obtain r w' where m: "m w = (r, w')" by (cases "m w")
  have "f w' = f w" using assms(1) m by (rule keeps_eq)
  then show "f (snd (check_err p m k w)) = f w"
    using assms(2) m by (cases r) (simp_all add: check_err_def keeps_def)
qed

lemma keeps_pass_err [intro]:
  assumes "keeps f m" and "\<And>x. keeps f (k x)"
  shows "keeps f (pass_err m k)"
  unfolding keeps_def
proof
  fix w
  obtain r w' where m: "m w = (r, w')" by (cases "m w")
  have "f w' = f w" using assms(1) m by (rule keeps_eq)
  then show "f (snd (pass_err m k w)) = f w"
    using assms(2) m by (cases r) (simp_all add: pass_err_def keeps_def)
qed

lemma keeps_conv [intro]: "keeps f m \<Longrightarrow> keeps f (conv g h m)"
  by (simp add: keeps_def)

lemma keeps_ignore_err [simp]: "keeps f m \<Longrightarrow> f (ignore_err m w) = f w"
  by (auto simp: ignore_err_def)

lemma keeps_net_call [intro]:
  assumes act: "keeps f act" and cnt: "\<And>w n. f (w\<lparr>n_net := n\<rparr>) = f w"
  shows "keeps f (net_call E act)"
  using act by (auto simp: keeps_def net_call_def Let_def cnt split: net_outcome.splits)

lemma net_call_Inr:
  assumes "net_call E act w = (Inr x, w')"
  shows "e_net E (n_net w) = Reached" and "act (w\<lparr>n_net := Suc (n_net w)\<rparr>) = (Inr x, w')"
  using assms by (auto simp: net_call_def Let_def split: net_outcome.splits)

text \<open>What an operation does to a part of the world is, over the network, done or not done.\<close>

lemma net_call_effect:
  assumes "\<And>w n. f (w\<lparr>n_net := n\<rparr>) = f w"
  shows "f (snd (net_call E act w)) = f w \<or>
         f (snd (net_call E act w)) = f (snd (act (w\<lparr>n_net := Suc (n_net w)\<rparr>)))"
  using assms by (auto simp: net_call_def Let_def split: net_outcome.splits)

subsection \<open>Preservation and frames\<close>

text \<open>An operation preserves a predicate on the world; as for \<open>keeps\<close>, the combinators pass it on.\<close>

definition preserves :: "('w \<Rightarrow> bool) \<Rightarrow> ('w \<Rightarrow> 'r \<times> 'w) \<Rightarrow> bool" where
  "preserves P m \<longleftrightarrow> (\<forall>w. P w \<longrightarrow> P (snd (m w)))"

lemma preservesI: "(\<And>w. P w \<Longrightarrow> P (snd (m w))) \<Longrightarrow> preserves P m"
  by (simp add: preserves_def)

lemma preservesD: "preserves P m \<Longrightarrow> P w \<Longrightarrow> P (snd (m w))"
  by (simp add: preserves_def)

lemma preserves_eq: "preserves P m \<Longrightarrow> m w = (r, w') \<Longrightarrow> P w \<Longrightarrow> P w'"
  by (metis preservesD snd_conv)

lemma keeps_preserves: "keeps f m \<Longrightarrow> (\<And>w w'. f w' = f w \<Longrightarrow> P w \<Longrightarrow> P w') \<Longrightarrow> preserves P m"
  unfolding preserves_def keeps_def by blast

lemma preserves_check_err:
  assumes "preserves P m" and "\<And>x. preserves P (k x)"
  shows "preserves P (check_err p m k)"
  unfolding preserves_def
proof (intro allI impI)
  fix w assume "P w"
  obtain r w' where m: "m w = (r, w')" by (cases "m w")
  have "P w'" using assms(1) m \<open>P w\<close> by (rule preserves_eq)
  then show "P (snd (check_err p m k w))"
    using assms(2) m by (cases r) (simp_all add: check_err_def preserves_def)
qed

lemma preserves_pass_err:
  assumes "preserves P m" and "\<And>x. preserves P (k x)"
  shows "preserves P (pass_err m k)"
  unfolding preserves_def
proof (intro allI impI)
  fix w assume "P w"
  obtain r w' where m: "m w = (r, w')" by (cases "m w")
  have "P w'" using assms(1) m \<open>P w\<close> by (rule preserves_eq)
  then show "P (snd (pass_err m k w))"
    using assms(2) m by (cases r) (simp_all add: pass_err_def preserves_def)
qed

text \<open>The rest of an operation need only preserve what the results of its first call can be.\<close>

text \<open>From one world: what follows a successful call may use what the call returned and left behind.\<close>

lemma check_err_from:
  assumes "P (snd (m w))" and "\<And>x w'. m w = (Inr x, w') \<Longrightarrow> P w' \<Longrightarrow> P (snd (k x w'))"
  shows "P (snd (check_err p m k w))"
  using assms by (cases "m w") (auto simp: check_err_def split: sum.splits)

lemma preserves_check_err_result:
  assumes "preserves P m" and "\<And>x w w'. m w = (Inr x, w') \<Longrightarrow> preserves P (k x)"
  shows "preserves P (check_err p m k)"
  unfolding preserves_def
proof (intro allI impI)
  fix w assume "P w"
  obtain r w' where m: "m w = (r, w')" by (cases "m w")
  have "P w'" using assms(1) m \<open>P w\<close> by (rule preserves_eq)
  then show "P (snd (check_err p m k w))"
    using assms(2) m by (cases r) (auto simp add: check_err_def preserves_def)
qed

lemma preserves_const: "preserves P (\<lambda>w. (r, w))"
  by (simp add: preserves_def)

lemma preserves_conv: "preserves P m \<Longrightarrow> preserves P (conv f g m)"
  by (simp add: preserves_def)

lemma preserves_ignore_err: "preserves P m \<Longrightarrow> P w \<Longrightarrow> P (ignore_err m w)"
  by (simp add: ignore_err_def preservesD)

lemma preserves_net_call:
  assumes "preserves P act" and "\<And>w n. P (w\<lparr>n_net := n\<rparr>) = P w"
  shows "preserves P (net_call E act)"
  using assms by (auto simp: preserves_def net_call_def Let_def split: net_outcome.splits)

lemma net_call_writes:
  assumes "\<And>w n. P (w\<lparr>n_net := n\<rparr>) = P w" and "\<And>w. P w \<Longrightarrow> P (snd (act w))"
  shows "preserves P (net_call E act)"
  using assms by (intro preserves_net_call preservesI)

text \<open>
  The tables of a world: the world with its counters and logs blanked out. Two worlds have the same
  tables when they agree on everything a service extends \<open>go_state\<close> by.
\<close>

definition tables_of :: "'x go_state_scheme \<Rightarrow> 'x go_state_scheme" where
  "tables_of w = w\<lparr>n_now := 0, n_ids := 0, n_rand := 0, n_net := 0, http_log := [], js_log := []\<rparr>"

lemma tables_of_simps [simp]:
  "tables_of (w\<lparr>n_now := a\<rparr>) = tables_of w"
  "tables_of (w\<lparr>n_ids := a\<rparr>) = tables_of w"
  "tables_of (w\<lparr>n_rand := a\<rparr>) = tables_of w"
  "tables_of (w\<lparr>n_net := a\<rparr>) = tables_of w"
  "tables_of (w\<lparr>http_log := hl\<rparr>) = tables_of w"
  "tables_of (w\<lparr>js_log := jl\<rparr>) = tables_of w"
  "tables_of (tables_of w) = tables_of w"
  by (simp_all add: tables_of_def)

lemma time_Now_simps [simp]:
  "fst (time_Now E w) = e_now E (n_now w)" "snd (time_Now E w) = w\<lparr>n_now := Suc (n_now w)\<rparr>"
  by (simp_all add: time_Now_def)

lemma tables_http_Do [intro]: "keeps tables_of (http_Do E req)"
  by (auto simp: keeps_def http_Do_def Let_def split: sum.splits)

lemma tables_js_Publish [intro]: "keeps tables_of (js_Publish E subj payload)"
  by (auto simp: js_Publish_def keeps_def net_call_def Let_def split: net_outcome.splits)

subsection \<open>Lists and texts\<close>

lemma map_of_distinct_in: "distinct (map f xs) \<Longrightarrow> x \<in> set xs \<Longrightarrow> find (\<lambda>y. f y = f x) xs = Some x"
  by (induction xs) (auto simp: rev_image_eqI)

lemma find_key_Some: "find (\<lambda>y. f y = k) xs = Some x \<Longrightarrow> x \<in> set xs \<and> f x = k"
  by (induction xs) (auto split: if_splits)

lemma find_key_None [simp]: "find (\<lambda>y. f y = k) xs = None \<longleftrightarrow> k \<notin> f ` set xs"
  by (induction xs) auto

lemma find_snoc:
  "find P (xs @ [x]) = (case find P xs of Some y \<Rightarrow> Some y | None \<Rightarrow> if P x then Some x else None)"
  by (induction xs) auto

lemma comp_update: "(\<And>r. f (g r) = f r) \<Longrightarrow> f \<circ> (\<lambda>r. if P r then g r else r) = f"
  by (auto simp: fun_eq_iff)

lemma list_all_filter_mono: "list_all P xs \<Longrightarrow> list_all P (filter Q xs)"
  by (auto simp: list_all_iff)

declare distinct_map_filter [simp, intro]

text \<open>A table with a key, read as a finite map: insertion and deletion of rows.\<close>

definition table_map :: "('r \<Rightarrow> 'k) \<Rightarrow> ('r \<Rightarrow> 'v) \<Rightarrow> 'r list \<Rightarrow> 'k \<Rightarrow> 'v option" where
  "table_map key val rs k = map_option val (find (\<lambda>r. key r = k) rs)"

lemma table_map_None: "table_map key val rs k = None \<longleftrightarrow> k \<notin> key ` set rs"
  by (simp add: table_map_def)

lemma table_map_snoc:
  "key r \<notin> key ` set rs \<Longrightarrow>
   table_map key val (rs @ [r]) = (table_map key val rs)(key r \<mapsto> val r)"
  by (auto simp: fun_eq_iff table_map_def find_snoc image_iff split: option.splits dest!: find_key_Some)

lemma table_map_filter:
  "table_map key val (filter (\<lambda>r. key r \<noteq> k) rs) = (table_map key val rs)(k := None)"
  unfolding table_map_def by (rule ext, induction rs) auto

lemma table_map_found: "find (\<lambda>r. key r = k) rs = Some r \<Longrightarrow> table_map key val rs k = Some (val r)"
  by (simp add: table_map_def)

lemma table_map_update:
  "(\<And>r. key (g r) = key r) \<Longrightarrow>
   table_map key val (map (\<lambda>r. if P r then g r else r) rs) k =
     map_option (\<lambda>r. val (if P r then g r else r)) (find (\<lambda>r. key r = k) rs)"
  unfolding table_map_def by (induction rs) auto

lemma table_map_update_key:
  assumes "\<And>r. key (g r) = key r"
  shows "table_map key val (map (\<lambda>r. if key r = i then g r else r) rs) =
    (case find (\<lambda>r. key r = i) rs of
       None \<Rightarrow> table_map key val rs
     | Some r \<Rightarrow> (table_map key val rs)(i \<mapsto> val (g r)))"
  unfolding table_map_def using assms
  by (induction rs) (auto simp: fun_eq_iff split: option.splits dest!: find_key_Some)

lemma table_map_member:
  "distinct (map key rs) \<Longrightarrow>
   r \<in> set rs \<Longrightarrow> table_map key val rs (key r) = Some (val r)"
  by (simp add: table_map_def map_of_distinct_in)

lemma table_map_Some:
  "table_map key val rs k = Some v \<Longrightarrow> \<exists>r \<in> set rs. key r = k \<and> val r = v"
  unfolding table_map_def by (auto dest: find_key_Some)

text \<open>\<open>INSERT ... ON CONFLICT (key) DO UPDATE\<close>: the row with the key is changed in place, or a row is
  added.\<close>

definition upsert_row :: "('r \<Rightarrow> 'k) \<Rightarrow> 'r \<Rightarrow> ('r \<Rightarrow> 'r) \<Rightarrow> 'r list \<Rightarrow> 'r list" where
  "upsert_row key r upd rs =
     (if key r \<in> key ` set rs then map (\<lambda>x. if key x = key r then upd x else x) rs else rs @ [r])"

text \<open>An upsert, read as an update of the finite map.\<close>

lemma table_map_upsert:
  assumes "\<And>x. key (upd x) = key x"
  shows "table_map key val (upsert_row key r upd rs) =
    (case find (\<lambda>x. key x = key r) rs of
       None \<Rightarrow> (table_map key val rs)(key r \<mapsto> val r)
     | Some x \<Rightarrow> (table_map key val rs)(key r \<mapsto> val (upd x)))"
proof (cases "find (\<lambda>x. key x = key r) rs")
  case None
  then show ?thesis
    by (auto simp: upsert_row_def table_map_snoc image_iff split: option.split dest!: find_key_Some)
next
  case (Some x)
  then have "key r \<in> key ` set rs" by (metis find_key_None option.distinct(1))
  with Some show ?thesis
    using table_map_update_key [where key = key and g = upd and val = val and i = "key r" and rs = rs] assms
    by (simp add: upsert_row_def)
qed

lemma filter_upsert_row:
  assumes "\<not> Q r" and "\<And>x. key x = key r \<Longrightarrow> \<not> Q x \<and> \<not> Q (upd x)"
  shows "filter Q (upsert_row key r upd rs) = filter Q rs"
proof -
  have "filter Q (map (\<lambda>x. if key x = key r then upd x else x) rs) = filter Q rs"
    using assms(2) by (induction rs) auto
  then show ?thesis using assms(1) by (simp add: upsert_row_def)
qed

lemma distinct_upsert_row:
  assumes "distinct (map f rs)" and "\<And>x. f (upd x) = f x"
    and "key r \<notin> key ` set rs \<Longrightarrow> f r \<notin> f ` set rs"
  shows "distinct (map f (upsert_row key r upd rs))"
  using assms by (simp add: upsert_row_def comp_update)

lemma list_all_upsert_row:
  assumes "list_all Q rs" and "Q r" and "\<And>x. Q x \<Longrightarrow> key x = key r \<Longrightarrow> Q (upd x)"
  shows "list_all Q (upsert_row key r upd rs)"
  using assms by (auto simp: upsert_row_def list_all_iff)

lemma upsert_row_key:
  assumes "distinct (map key rs)" and "\<And>x. key (upd x) = key x"
  shows "\<exists>x. filter (\<lambda>x. key x = key r) (upsert_row key r upd rs) = [x] \<and>
    (x = r \<or> (\<exists>y \<in> set rs. key y = key r \<and> x = upd y))"
proof (cases "key r \<in> key ` set rs")
  case False
  then show ?thesis by (auto simp: upsert_row_def filter_empty_conv image_iff)
next
  case True
  then obtain y where y: "y \<in> set rs" "key y = key r" by auto
  then have "filter (\<lambda>x. key x = key r) rs = [y]"
    using assms(1) by (induction rs) (auto simp: filter_empty_conv image_iff)
  moreover have "filter (\<lambda>x. key x = key r) (map (\<lambda>x. if key x = key r then upd x else x) rs) =
      map upd (filter (\<lambda>x. key x = key r) rs)"
    using assms(2) by (induction rs) auto
  ultimately show ?thesis using True y by (auto simp: upsert_row_def)
qed

text \<open>\<open>strings.HasPrefix\<close> and \<open>strings.TrimPrefix\<close>.\<close>

definition HasPrefix :: "string \<Rightarrow> string \<Rightarrow> bool" where
  "HasPrefix s p = (take (length p) s = p)"

definition TrimPrefix :: "string \<Rightarrow> string \<Rightarrow> string" where
  "TrimPrefix s p = (if HasPrefix s p then drop (length p) s else s)"

lemma HasPrefix_append [simp]: "HasPrefix (p @ s) p"
  by (simp add: HasPrefix_def)

lemma HasPrefix_iff: "HasPrefix s p \<longleftrightarrow> (\<exists>t. s = p @ t)"
  by (metis HasPrefix_append HasPrefix_def append_take_drop_id)

lemma TrimPrefix_append [simp]: "TrimPrefix (p @ s) p = s"
  by (simp add: TrimPrefix_def)

text \<open>\<open>hex.EncodeToString\<close>: two lower-case hexadecimal digits for every byte.\<close>

definition hex_digit :: "nat \<Rightarrow> char" where
  "hex_digit n = (if n < 10 then char_of (48 + n) else char_of (87 + n))"

fun hex_EncodeToString :: "string \<Rightarrow> string" where
  "hex_EncodeToString [] = []"
| "hex_EncodeToString (b # bs) =
     hex_digit (of_char b div 16) # hex_digit (of_char b mod 16) # hex_EncodeToString bs"

lemma length_hex_EncodeToString [simp]: "length (hex_EncodeToString bs) = 2 * length bs"
  by (induction bs) auto

lemma of_char_hex_digit:
  "n < 16 \<Longrightarrow> of_char (hex_digit n) = (if n < 10 then 48 + n else 87 + n)"
  by (simp add: hex_digit_def)

lemma hex_digit_inj: "m < 16 \<Longrightarrow> n < 16 \<Longrightarrow> hex_digit m = hex_digit n \<Longrightarrow> m = n"
  by (drule arg_cong [where f = "of_char :: char \<Rightarrow> nat"]) (auto simp: of_char_hex_digit split: if_splits)

lemma of_char_less_256: "(of_char c :: nat) < 256"
  using nat_of_char_less_256 by simp

lemma hex_EncodeToString_inj: "hex_EncodeToString xs = hex_EncodeToString ys \<Longrightarrow> xs = ys"
proof (induction xs arbitrary: ys)
  case Nil
  then show ?case by (cases ys) auto
next
  case (Cons x xs)
  then obtain y ys' where ys: "ys = y # ys'" by (cases ys) auto
  let ?n = "of_char :: char \<Rightarrow> nat"
  have lt: "?n c div 16 < 16" "?n c mod 16 < 16" for c
    using of_char_less_256 [of c] by (auto simp: less_mult_imp_div_less)
  from Cons.prems ys have "?n x div 16 = ?n y div 16" "?n x mod 16 = ?n y mod 16"
    by (auto dest!: hex_digit_inj [OF lt(1) lt(1)] hex_digit_inj [OF lt(2) lt(2)])
  then have "?n x = ?n y" by (metis div_mult_mod_eq)
  with Cons.prems ys Cons.IH [of ys'] show ?case by (simp add: of_char_eq_iff)
qed

end
