(* ===== verification/Org_Domain.thy ===== *)
theory Org_Domain
  imports Go_Prelude
begin

text \<open>
  The org service's domain layer (\<^verbatim>\<open>services/org/domain\<close>): its sentinel errors, its aggregates and
  value types as records, its events, and their constructors and methods. A method that changes an
  aggregate returns the new value; a constructor that calls \<open>uuid.New\<close> or \<open>time.Now\<close> takes and
  returns the world. Field names carry the struct's initial, the way Go qualifies them.
\<close>

subsection \<open>Errors (errors.go)\<close>

datatype org_sentinel =
    ErrOrgNotFound | ErrMemberNotFound | ErrSlugTaken | ErrAlreadyExists | ErrNotAuthorized
  | ErrInviteNotFound | ErrInviteExpired | ErrGroupNotFound | ErrRoleNotFound

type_synonym org_error = "org_sentinel go_error"
type_synonym ('a, 'w) org_op = "(org_sentinel, 'a, 'w) go_op"

fun org_sentinel_text :: "org_sentinel \<Rightarrow> string" where
  "org_sentinel_text ErrOrgNotFound = ''organization not found''"
| "org_sentinel_text ErrMemberNotFound = ''member not found''"
| "org_sentinel_text ErrSlugTaken = ''slug already taken''"
| "org_sentinel_text ErrAlreadyExists = ''resource already exists''"
| "org_sentinel_text ErrNotAuthorized = ''not authorized''"
| "org_sentinel_text ErrInviteNotFound = ''invitation not found''"
| "org_sentinel_text ErrInviteExpired = ''invitation has expired''"
| "org_sentinel_text ErrGroupNotFound = ''group not found''"
| "org_sentinel_text ErrRoleNotFound = ''role not found''"

subsection \<open>Members and invitations (member.go)\<close>

type_synonym MemberRole = string

definition RoleOwner :: MemberRole where "RoleOwner = ''owner''"
definition RoleAdmin :: MemberRole where "RoleAdmin = ''admin''"
definition RoleMember :: MemberRole where "RoleMember = ''member''"

definition ValidRole :: "MemberRole \<Rightarrow> bool" where
  "ValidRole r = (r = RoleOwner \<or> r = RoleAdmin \<or> r = RoleMember)"

record OrgMember =
  m_OrgID :: uuid
  m_UserID :: uuid
  m_Role :: MemberRole
  m_InvitedBy :: "uuid option"
  m_JoinedAt :: time

record Invitation =
  i_ID :: uuid
  i_OrgID :: uuid
  i_Email :: string
  i_Role :: MemberRole
  i_Token :: string
  i_ExpiresAt :: time
  i_AcceptedAt :: "time option"
  i_CreatedAt :: time

text \<open>\<open>time.Now().UTC().After(i.ExpiresAt)\<close>: strictly later.\<close>

definition IsExpired :: "env \<Rightarrow> Invitation \<Rightarrow> 'x go_state_scheme \<Rightarrow> bool \<times> 'x go_state_scheme" where
  "IsExpired E i w = (let (now, w') = time_Now E w in (now > i_ExpiresAt i, w'))"

definition IsAccepted :: "Invitation \<Rightarrow> bool" where
  "IsAccepted i = (i_AcceptedAt i \<noteq> None)"

subsection \<open>Events (event.go)\<close>

datatype DomainEvent =
    OrgCreatedEvent (oc_OrgID: uuid) (oc_OwnerUserID: uuid) (oc_Slug: string) (OccurredAt: time)
  | MemberInvitedEvent (mi_OrgID: uuid) (mi_Email: string) (mi_Role: MemberRole) (OccurredAt: time)
  | MemberJoinedEvent (mj_OrgID: uuid) (mj_UserID: uuid) (mj_Role: MemberRole) (OccurredAt: time)
  | GroupCreatedEvent (gc_GroupID: uuid) (gc_OrgID: uuid) (gc_AppID: uuid) (gc_CreatedBy: uuid)
      (gc_Ephemeral: bool) (gc_ExpiresAt: "time option") (OccurredAt: time)
  | MemberAddedToGroupEvent (ma_GroupID: uuid) (ma_OrgID: uuid) (ma_AppID: uuid) (ma_UserID: uuid)
      (OccurredAt: time)
  | MemberRemovedFromGroupEvent (mr_GroupID: uuid) (mr_OrgID: uuid) (mr_AppID: uuid)
      (mr_UserID: uuid) (OccurredAt: time)
  | GroupDeletedEvent (gd_GroupID: uuid) (gd_OrgID: uuid) (gd_AppID: uuid) (OccurredAt: time)

fun EventType :: "DomainEvent \<Rightarrow> string" where
  "EventType (OrgCreatedEvent _ _ _ _) = ''org.organization.created''"
| "EventType (MemberInvitedEvent _ _ _ _) = ''org.member.invited''"
| "EventType (MemberJoinedEvent _ _ _ _) = ''org.member.joined''"
| "EventType (GroupCreatedEvent _ _ _ _ _ _ _) = ''org.group.created''"
| "EventType (MemberAddedToGroupEvent _ _ _ _ _) = ''org.group.member_added''"
| "EventType (MemberRemovedFromGroupEvent _ _ _ _ _) = ''org.group.member_removed''"
| "EventType (GroupDeletedEvent _ _ _ _) = ''org.group.deleted''"

subsection \<open>Organizations (organization.go)\<close>

record Organization =
  o_ID :: uuid
  o_Name :: string
  o_Slug :: string
  o_OwnerUserID :: uuid
  o_Plan :: string
  o_CreatedAt :: time
  o_UpdatedAt :: time
  o_SuspendedAt :: "time option"
  o_events :: "DomainEvent list"

definition org_raise :: "DomainEvent \<Rightarrow> Organization \<Rightarrow> Organization" where
  "org_raise e o' = o'\<lparr>o_events := o_events o' @ [e]\<rparr>"

definition org_PopEvents :: "Organization \<Rightarrow> DomainEvent list \<times> Organization" where
  "org_PopEvents o' = (o_events o', o'\<lparr>o_events := []\<rparr>)"

definition NewOrganization ::
    "env \<Rightarrow> string \<Rightarrow> string \<Rightarrow> uuid \<Rightarrow> (Organization, 'x go_state_scheme) org_op" where
  "NewOrganization E name slug ownerUserID w =
     (if name = [] then (Inl (InvalidInput ''name must not be empty''), w)
      else if slug = [] then (Inl (InvalidInput ''slug must not be empty''), w)
      else if ownerUserID = uuid_Nil then (Inl (InvalidInput ''ownerUserID must not be nil''), w)
      else let (now, w1) = time_Now E w;
               (newid, w2) = uuid_New E w1;
               org = \<lparr>o_ID = newid, o_Name = name, o_Slug = slug, o_OwnerUserID = ownerUserID,
                      o_Plan = ''free'', o_CreatedAt = now, o_UpdatedAt = now,
                      o_SuspendedAt = None, o_events = []\<rparr>
           in (Inr (org_raise (OrgCreatedEvent (o_ID org) ownerUserID slug now) org), w2))"

record OrgPatch =
  op_Name :: "string option"
  op_Plan :: "string option"

definition org_Update :: "env \<Rightarrow> OrgPatch \<Rightarrow> Organization \<Rightarrow> 'x go_state_scheme \<Rightarrow>
    Organization \<times> 'x go_state_scheme" where
  "org_Update E patch o' w =
     (let o1 = (case op_Name patch of Some n \<Rightarrow> o'\<lparr>o_Name := n\<rparr> | None \<Rightarrow> o');
          o2 = (case op_Plan patch of Some p \<Rightarrow> o1\<lparr>o_Plan := p\<rparr> | None \<Rightarrow> o1);
          (now, w') = time_Now E w
      in (o2\<lparr>o_UpdatedAt := now\<rparr>, w'))"

subsection \<open>Groups (group.go)\<close>

record Group =
  g_ID :: uuid
  g_OrgID :: uuid
  g_AppID :: uuid
  g_Name :: string
  g_Description :: string
  g_Ephemeral :: bool
  g_ExpiresAt :: "time option"
  g_CreatedBy :: uuid
  g_CreatedAt :: time

definition NewGroup ::
    "env \<Rightarrow> uuid \<Rightarrow> uuid \<Rightarrow> uuid \<Rightarrow> string \<Rightarrow> string \<Rightarrow> bool \<Rightarrow> time option \<Rightarrow>
     (Group, 'x go_state_scheme) org_op" where
  "NewGroup E orgID appID createdBy name description ephemeral expiresAt w =
     (if orgID = uuid_Nil then (Inl (InvalidInput ''orgID must not be nil''), w)
      else if appID = uuid_Nil then (Inl (InvalidInput ''appID must not be nil''), w)
      else if createdBy = uuid_Nil then (Inl (InvalidInput ''createdBy must not be nil''), w)
      else if name = [] then (Inl (InvalidInput ''group name must not be empty''), w)
      else if ephemeral \<and> expiresAt = None
        then (Inl (InvalidInput ''ephemeral groups must have an expires_at''), w)
      else let (newid, w1) = uuid_New E w;
               (now, w2) = time_Now E w1
           in (Inr \<lparr>g_ID = newid, g_OrgID = orgID, g_AppID = appID, g_Name = name,
                    g_Description = description, g_Ephemeral = ephemeral, g_ExpiresAt = expiresAt,
                    g_CreatedBy = createdBy, g_CreatedAt = now\<rparr>, w2))"

record GroupMember =
  gm_GroupID :: uuid
  gm_UserID :: uuid
  gm_AppID :: uuid

subsection \<open>Roles (role.go)\<close>

text \<open>\<open>Permissions\<close> is a slice: \<open>None\<close> is the nil slice, which the response layer tells apart.\<close>

record Role =
  r_ID :: uuid
  r_OrgID :: uuid
  r_Name :: string
  r_Permissions :: "string list option"
  r_CreatedAt :: time

definition NewRole :: "env \<Rightarrow> uuid \<Rightarrow> string \<Rightarrow> string list option \<Rightarrow> (Role, 'x go_state_scheme) org_op" where
  "NewRole E orgID name permissions w =
     (if orgID = uuid_Nil then (Inl (InvalidInput ''orgID must not be nil''), w)
      else if name = [] then (Inl (InvalidInput ''role name must not be empty''), w)
      else let (newid, w1) = uuid_New E w;
               (now, w2) = time_Now E w1
           in (Inr \<lparr>r_ID = newid, r_OrgID = orgID, r_Name = name, r_Permissions = permissions,
                    r_CreatedAt = now\<rparr>, w2))"

subsection \<open>Lemmas of the domain layer\<close>

lemmas domain_effects = time_Now_def uuid_New_def Let_def

lemma ValidRole_iff: "ValidRole r \<longleftrightarrow> r \<in> {''owner'', ''admin'', ''member''}"
  by (auto simp: ValidRole_def RoleOwner_def RoleAdmin_def RoleMember_def)

lemma ValidRole_RoleOwner [simp]: "ValidRole RoleOwner"
  by (simp add: ValidRole_def)

lemma NewOrganization_Inr:
  assumes "NewOrganization E name slug owner w = (Inr org, w')"
  shows "name \<noteq> []" "slug \<noteq> []" "owner \<noteq> uuid_Nil"
    and "org = \<lparr>o_ID = e_newid E (n_ids w), o_Name = name, o_Slug = slug, o_OwnerUserID = owner,
                o_Plan = ''free'', o_CreatedAt = e_now E (n_now w), o_UpdatedAt = e_now E (n_now w),
                o_SuspendedAt = None,
                o_events = [OrgCreatedEvent (e_newid E (n_ids w)) owner slug (e_now E (n_now w))]\<rparr>"
    and "w' = w\<lparr>n_now := Suc (n_now w), n_ids := Suc (n_ids w)\<rparr>"
  using assms by (auto simp: NewOrganization_def domain_effects org_raise_def split: if_splits)

lemma NewGroup_Inr:
  assumes "NewGroup E orgID appID by name descr eph expires w = (Inr g, w')"
  shows "orgID \<noteq> uuid_Nil" "appID \<noteq> uuid_Nil" "by \<noteq> uuid_Nil" "name \<noteq> []"
    and "eph \<longrightarrow> expires \<noteq> None"
    and "g = \<lparr>g_ID = e_newid E (n_ids w), g_OrgID = orgID, g_AppID = appID, g_Name = name,
              g_Description = descr, g_Ephemeral = eph, g_ExpiresAt = expires,
              g_CreatedBy = by, g_CreatedAt = e_now E (n_now w)\<rparr>"
    and "w' = w\<lparr>n_ids := Suc (n_ids w), n_now := Suc (n_now w)\<rparr>"
  using assms by (auto simp: NewGroup_def domain_effects split: if_splits)

lemma NewGroup_Inl:
  assumes "NewGroup E orgID appID by name descr eph expires w = (Inl e, w')"
  shows "w' = w" and "\<exists>msg. e = InvalidInput msg"
  using assms by (auto simp: NewGroup_def domain_effects split: if_splits)

lemma NewOrganization_Inl:
  assumes "NewOrganization E name slug owner w = (Inl e, w')"
  shows "w' = w" and "\<exists>msg. e = InvalidInput msg"
  using assms by (auto simp: NewOrganization_def domain_effects split: if_splits)

lemma NewOrganization_invalid:
  "name = [] \<or> slug = [] \<or> owner = uuid_Nil \<Longrightarrow>
   \<exists>msg. NewOrganization E name slug owner w = (Inl (InvalidInput msg), w)"
  by (auto simp: NewOrganization_def)

lemma NewRole_Inr:
  assumes "NewRole E orgID name perms w = (Inr r, w')"
  shows "orgID \<noteq> uuid_Nil" "name \<noteq> []"
    and "r = \<lparr>r_ID = e_newid E (n_ids w), r_OrgID = orgID, r_Name = name, r_Permissions = perms,
              r_CreatedAt = e_now E (n_now w)\<rparr>"
    and "w' = w\<lparr>n_ids := Suc (n_ids w), n_now := Suc (n_now w)\<rparr>"
  using assms by (auto simp: NewRole_def domain_effects split: if_splits)

lemma NewRole_Inl:
  assumes "NewRole E orgID name perms w = (Inl e, w')"
  shows "w' = w" and "\<exists>msg. e = InvalidInput msg"
  using assms by (auto simp: NewRole_def domain_effects split: if_splits)

lemma org_PopEvents_drains: "org_PopEvents (snd (org_PopEvents o')) = ([], snd (org_PopEvents o'))"
  by (simp add: org_PopEvents_def)

end
