(* ===== verification/Org_Ports.thy ===== *)
theory Org_Ports
  imports Org_Domain
begin

text \<open>
  The org service's outbound ports (\<^verbatim>\<open>services/org/domain/ports/repositories.go\<close>) as records of
  functions over the world \<open>'w\<close> they act on, the way a Go interface value is a table of methods, and
  the contracts of the ports as locales. A contract speaks of an abstract view of the world (which
  organizations, members, invitations and groups there are) and says what every method does to that
  view when it succeeds, when it fails, and when it succeeds but its reply is lost.
\<close>

subsection \<open>Interfaces\<close>

record 'w OrgRepository =
  or_Create :: "Organization \<Rightarrow> (unit, 'w) org_op"
  or_FindByID :: "uuid \<Rightarrow> (Organization, 'w) org_op"
  or_FindBySlug :: "string \<Rightarrow> (Organization, 'w) org_op"
  or_Update :: "Organization \<Rightarrow> (unit, 'w) org_op"

record 'w MemberRepository =
  mr_Add :: "OrgMember \<Rightarrow> (unit, 'w) org_op"
  mr_Remove :: "uuid \<Rightarrow> uuid \<Rightarrow> (unit, 'w) org_op"
  mr_FindByOrgAndUser :: "uuid \<Rightarrow> uuid \<Rightarrow> (OrgMember, 'w) org_op"
  mr_ListByOrg :: "uuid \<Rightarrow> (OrgMember list, 'w) org_op"

record 'w InvitationRepository =
  ir_Create :: "Invitation \<Rightarrow> (unit, 'w) org_op"
  ir_FindByToken :: "string \<Rightarrow> (Invitation, 'w) org_op"
  ir_MarkAccepted :: "uuid \<Rightarrow> (unit, 'w) org_op"

record 'w GroupRepository =
  gr_Create :: "Group \<Rightarrow> (unit, 'w) org_op"
  gr_FindByID :: "uuid \<Rightarrow> (Group, 'w) org_op"
  gr_ListByOrg :: "uuid \<Rightarrow> (Group list, 'w) org_op"
  gr_ListExpired :: "time \<Rightarrow> (Group list, 'w) org_op"
  gr_Delete :: "uuid \<Rightarrow> (unit, 'w) org_op"
  gr_AddMember :: "uuid \<Rightarrow> uuid \<Rightarrow> uuid \<Rightarrow> (unit, 'w) org_op"
  gr_RemoveMember :: "uuid \<Rightarrow> uuid \<Rightarrow> (unit, 'w) org_op"
  gr_ListMembers :: "uuid \<Rightarrow> (GroupMember list, 'w) org_op"

record 'w RoleRepository =
  rr_Create :: "Role \<Rightarrow> (unit, 'w) org_op"
  rr_FindByID :: "uuid \<Rightarrow> (Role, 'w) org_op"
  rr_ListByOrg :: "uuid \<Rightarrow> (Role list, 'w) org_op"
  rr_Delete :: "uuid \<Rightarrow> (unit, 'w) org_op"

record 'w EventPublisher =
  ep_Publish :: "DomainEvent list \<Rightarrow> (unit, 'w) org_op"

record 'w AuthzPort =
  az_Check :: "string \<Rightarrow> string \<Rightarrow> string \<Rightarrow> (bool, 'w) org_op"
  az_WriteRelation :: "string \<Rightarrow> string \<Rightarrow> string \<Rightarrow> (unit, 'w) org_op"
  az_DeleteRelation :: "string \<Rightarrow> string \<Rightarrow> string \<Rightarrow> (unit, 'w) org_op"

subsection \<open>What the services ask of side-effecting ports\<close>

text \<open>Publishing an event or talking to the authorization server does not touch the tables: the part
  \<open>tab\<close> of the world the repositories own.\<close>

locale side_channels =
  fixes pub :: "'w EventPublisher" and az :: "'w AuthzPort" and tab :: "'w \<Rightarrow> 't"
  assumes publish_keeps: "keeps tab (ep_Publish pub evs)"
    and check_keeps: "keeps tab (az_Check az s r o')"
    and write_keeps: "keeps tab (az_WriteRelation az s r o')"
    and delete_keeps: "keeps tab (az_DeleteRelation az s r o')"
begin

lemmas side_keeps = publish_keeps check_keeps write_keeps delete_keeps

lemma side_ignored [simp]:
  "tab (ignore_err (ep_Publish pub evs) w) = tab w"
  "tab (ignore_err (az_WriteRelation az s r o') w) = tab w"
  "tab (ignore_err (az_DeleteRelation az s r o') w) = tab w"
  by (simp_all add: side_keeps)

end

subsection \<open>The contract of the group repository\<close>

text \<open>
  \<open>gview t\<close> is the finite map of the groups of the tables \<open>t\<close>, \<open>mview t\<close> the map from a group and a
  user to the application the membership was recorded under; \<open>stored\<close> is what becomes of a group that
  is written and read back. \<open>Delete\<close> promises nothing about the memberships of the deleted group.
\<close>

locale group_repository =
  fixes repo :: "'w GroupRepository"
    and tab :: "'w \<Rightarrow> 't"
    and gview :: "'t \<Rightarrow> uuid \<Rightarrow> Group option"
    and mview :: "'t \<Rightarrow> uuid \<times> uuid \<Rightarrow> uuid option"
    and inv :: "'t \<Rightarrow> bool"
    and stored :: "Group \<Rightarrow> Group"
    and instant :: "time \<Rightarrow> time"
  assumes stored_id: "g_ID (stored g) = g_ID g"
    and find_keeps: "keeps tab (gr_FindByID repo i)"
    and find_found: "gr_FindByID repo i w = (Inr g, w') \<Longrightarrow> gview (tab w) i = Some g \<and> g_ID g = i"
    and find_missing:
      "gr_FindByID repo i w = (Inl e, w') \<Longrightarrow> err_cause e = Sentinel ErrGroupNotFound \<Longrightarrow>
       gview (tab w) i = None"
    and list_keeps: "keeps tab (gr_ListMembers repo i)"
    and list_members:
      "inv (tab w) \<Longrightarrow> gr_ListMembers repo i w = (Inr ms, w') \<Longrightarrow>
       m \<in> set ms \<longleftrightarrow> gm_GroupID m = i \<and> mview (tab w) (i, gm_UserID m) = Some (gm_AppID m)"
    and expired_keeps: "keeps tab (gr_ListExpired repo now)"
    and list_expired:
      "inv (tab w) \<Longrightarrow> gr_ListExpired repo now w = (Inr gs, w') \<Longrightarrow>
       g \<in> set gs \<longleftrightarrow> gview (tab w) (g_ID g) = Some g \<and> g_Ephemeral g \<and>
         (\<exists>x. g_ExpiresAt g = Some x \<and> x < instant now)"
    and create_ok:
      "gr_Create repo g w = (Inr (), w') \<Longrightarrow>
       gview (tab w) (g_ID g) = None \<and> gview (tab w') = (gview (tab w))(g_ID g \<mapsto> stored g)"
    and create_err:
      "gr_Create repo g w = (Inl e, w') \<Longrightarrow>
       gview (tab w') = gview (tab w) \<or>
       gview (tab w) (g_ID g) = None \<and> gview (tab w') = (gview (tab w))(g_ID g \<mapsto> stored g)"
    and create_members: "mview (tab (snd (gr_Create repo g w))) = mview (tab w)"
    and add_ok:
      "gr_AddMember repo i u a w = (Inr (), w') \<Longrightarrow>
       mview (tab w') = (if mview (tab w) (i, u) = None then (mview (tab w))((i, u) \<mapsto> a)
                         else mview (tab w))"
    and add_groups: "gview (tab (snd (gr_AddMember repo i u a w))) = gview (tab w)"
    and remove_ok:
      "gr_RemoveMember repo i u w = (Inr (), w') \<Longrightarrow> mview (tab w') = (mview (tab w))((i, u) := None)"
    and remove_groups: "gview (tab (snd (gr_RemoveMember repo i u w))) = gview (tab w)"
    and delete_ok:
      "gr_Delete repo i w = (Inr (), w') \<Longrightarrow> gview (tab w') = (gview (tab w))(i := None)"
    and delete_err:
      "gr_Delete repo i w = (Inl e, w') \<Longrightarrow>
       gview (tab w') = gview (tab w) \<or> gview (tab w') = (gview (tab w))(i := None)"
    and delete_others: "j \<noteq> i \<Longrightarrow> mview (tab (snd (gr_Delete repo i w))) (j, u) = mview (tab w) (j, u)"
    and create_inv: "inv (tab w) \<Longrightarrow> inv (tab (snd (gr_Create repo g w)))"
    and add_inv: "inv (tab w) \<Longrightarrow> inv (tab (snd (gr_AddMember repo i u a w)))"
    and remove_inv: "inv (tab w) \<Longrightarrow> inv (tab (snd (gr_RemoveMember repo i u w)))"
    and delete_inv: "inv (tab w) \<Longrightarrow> inv (tab (snd (gr_Delete repo i w)))"
begin

lemma delete_view:
  "gview (tab (snd (gr_Delete repo i w))) = gview (tab w) \<or>
   gview (tab (snd (gr_Delete repo i w))) = (gview (tab w))(i := None)"
proof (cases "gr_Delete repo i w")
  case (Pair r w')
  then show ?thesis using delete_ok [of i w w'] delete_err [of i w _ w'] by (cases r) auto
qed

lemma delete_view_other: "j \<noteq> i \<Longrightarrow> gview (tab (snd (gr_Delete repo i w))) j = gview (tab w) j"
  using delete_view [of i w] by auto

end

subsection \<open>The contracts of the member and invitation repositories\<close>

locale member_repository =
  fixes repo :: "'w MemberRepository"
    and tab :: "'w \<Rightarrow> 't"
    and view :: "'t \<Rightarrow> uuid \<times> uuid \<Rightarrow> OrgMember option"
    and stored :: "OrgMember \<Rightarrow> OrgMember"
  assumes add_ok:
      "mr_Add repo m w = (Inr (), w') \<Longrightarrow>
       ValidRole (m_Role m) \<and> view (tab w) (m_OrgID m, m_UserID m) = None \<and>
       view (tab w') = (view (tab w))((m_OrgID m, m_UserID m) \<mapsto> stored m)"
    and add_err:
      "mr_Add repo m w = (Inl e, w') \<Longrightarrow>
       view (tab w') = view (tab w) \<or>
       view (tab w) (m_OrgID m, m_UserID m) = None \<and>
       view (tab w') = (view (tab w))((m_OrgID m, m_UserID m) \<mapsto> stored m)"
    and add_dup:
      "view (tab w) (m_OrgID m, m_UserID m) \<noteq> None \<Longrightarrow> mr_Add repo m w = (r, w') \<Longrightarrow>
       \<exists>e. r = Inl e \<and> tab w' = tab w"
    and remove_ok:
      "mr_Remove repo i u w = (Inr (), w') \<Longrightarrow> view (tab w') = (view (tab w))((i, u) := None)"
    and find_keeps: "keeps tab (mr_FindByOrgAndUser repo i u)"
    and find_found: "mr_FindByOrgAndUser repo i u w = (Inr m, w') \<Longrightarrow> view (tab w) (i, u) = Some m"
    and list_keeps: "keeps tab (mr_ListByOrg repo i)"

locale invitation_repository =
  fixes repo :: "'w InvitationRepository"
    and tab :: "'w \<Rightarrow> 't"
    and view :: "'t \<Rightarrow> string \<Rightarrow> Invitation option"
    and stored :: "Invitation \<Rightarrow> Invitation"
  assumes create_ok:
      "ir_Create repo i w = (Inr (), w') \<Longrightarrow>
       view (tab w) (i_Token i) = None \<and> view (tab w') = (view (tab w))(i_Token i \<mapsto> stored i)"
    and find_keeps: "keeps tab (ir_FindByToken repo t)"
    and find_found: "ir_FindByToken repo t w = (Inr i, w') \<Longrightarrow> view (tab w) t = Some i"
    and mark_others:
      "view (tab w) t = Some i \<Longrightarrow> i_ID i \<noteq> j \<Longrightarrow>
       view (tab (snd (ir_MarkAccepted repo j w))) t = Some i"
    and mark_ok:
      "ir_MarkAccepted repo (i_ID i) w = (Inr (), w') \<Longrightarrow> view (tab w) t = Some i \<Longrightarrow>
       \<exists>at. view (tab w') t = Some (i\<lparr>i_AcceptedAt := Some at\<rparr>)"

end
