(* ===== verification/Org_Store.thy ===== *)
theory Org_Store
  imports Org_Domain
begin

text \<open>
  The org service's database (\<^verbatim>\<open>services/org/infrastructure/postgres/sqlc\<close>). A table is the list of
  its rows in the order they were inserted; a query is its SQL statement read off \<^verbatim>\<open>query.sql.go\<close>,
  executed over \<open>net_call\<close>, so it may fail before or after it took effect. The constraints are
  those of the schema: a violated primary key, \<open>UNIQUE\<close> or \<open>CHECK\<close> is an error reply and changes
  nothing. A \<open>TIMESTAMPTZ\<close> column stores \<open>e_tsz E t\<close> for a Go instant \<open>t\<close> (its resolution is
  coarser); a nullable column is an \<open>option\<close>, for sqlc's value with a \<open>Valid\<close> flag. Rows of equal
  sort key keep their table order, where SQL leaves their order open.
\<close>

subsection \<open>Rows and tables (models.go, schema.sql)\<close>

record OrganizationRow =
  ro_id :: uuid
  ro_name :: string
  ro_slug :: string
  ro_owner_user_id :: uuid
  ro_plan :: string
  ro_created_at :: time
  ro_updated_at :: time
  ro_suspended_at :: "time option"

record OrgMemberRow =
  rm_org_id :: uuid
  rm_user_id :: uuid
  rm_role :: string
  rm_invited_by :: "uuid option"
  rm_joined_at :: time

record OrgInvitationRow =
  ri_id :: uuid
  ri_org_id :: uuid
  ri_email :: string
  ri_role :: string
  ri_token :: string
  ri_expires_at :: time
  ri_accepted_at :: "time option"
  ri_created_at :: time

record GroupRow =
  rg_id :: uuid
  rg_org_id :: uuid
  rg_app_id :: uuid
  rg_name :: string
  rg_description :: string
  rg_ephemeral :: bool
  rg_expires_at :: "time option"
  rg_created_by :: uuid
  rg_created_at :: time

record GroupMemberRow =
  rgm_group_id :: uuid
  rgm_user_id :: uuid
  rgm_app_id :: uuid

record RoleRow =
  rr_id :: uuid
  rr_org_id :: uuid
  rr_name :: string
  rr_permissions :: "string list option"
  rr_created_at :: time

record OutboxRow =
  rx_id :: uuid
  rx_aggregate_id :: uuid
  rx_event_type :: string
  rx_payload :: json
  rx_created_at :: time
  rx_published_at :: "time option"

record org_db = go_state +
  organizations :: "OrganizationRow list"
  org_members :: "OrgMemberRow list"
  org_invitations :: "OrgInvitationRow list"
  groups :: "GroupRow list"
  group_members :: "GroupMemberRow list"
  roles :: "RoleRow list"
  outbox :: "OutboxRow list"

abbreviation member_key :: "OrgMemberRow \<Rightarrow> uuid \<times> uuid" where
  "member_key r \<equiv> (rm_org_id r, rm_user_id r)"

abbreviation group_member_key :: "GroupMemberRow \<Rightarrow> uuid \<times> uuid" where
  "group_member_key r \<equiv> (rgm_group_id r, rgm_user_id r)"

subsection \<open>Error codes\<close>

definition pgErrUniqueViolation :: string where "pgErrUniqueViolation = ''23505''"
definition pgErrForeignKeyViolation :: string where "pgErrForeignKeyViolation = ''23503''"
definition pgCheckViolation :: string where "pgCheckViolation = ''23514''"

lemmas pg_codes = pgErrUniqueViolation_def pgErrForeignKeyViolation_def pgCheckViolation_def

definition role_check :: "string \<Rightarrow> bool" where
  "role_check r = (r = ''owner'' \<or> r = ''admin'' \<or> r = ''member'')"

lemma role_check_ValidRole: "role_check r \<longleftrightarrow> ValidRole r"
  by (auto simp: role_check_def ValidRole_iff)

subsection \<open>organizations\<close>

definition CreateOrganization ::
    "env \<Rightarrow> uuid \<Rightarrow> string \<Rightarrow> string \<Rightarrow> uuid \<Rightarrow> string \<Rightarrow> time \<Rightarrow> time \<Rightarrow> (unit, org_db) org_op" where
  "CreateOrganization E ident name slug owner_user_id plan created_at updated_at =
     net_call E (\<lambda>w.
       if ident \<in> ro_id ` set (organizations w)
         then (Inl (PgError pgErrUniqueViolation ''organizations_pkey''), w)
       else if slug \<in> ro_slug ` set (organizations w)
         then (Inl (PgError pgErrUniqueViolation ''organizations_slug_key''), w)
       else (Inr (), w\<lparr>organizations := organizations w @
               [\<lparr>ro_id = ident, ro_name = name, ro_slug = slug, ro_owner_user_id = owner_user_id,
                 ro_plan = plan, ro_created_at = e_tsz E created_at,
                 ro_updated_at = e_tsz E updated_at, ro_suspended_at = None\<rparr>]\<rparr>))"

definition GetOrganizationByID :: "env \<Rightarrow> uuid \<Rightarrow> (OrganizationRow, org_db) org_op" where
  "GetOrganizationByID E ident =
     net_call E (\<lambda>w. case find (\<lambda>r. ro_id r = ident) (organizations w) of
       None \<Rightarrow> (Inl NoRows, w) | Some r \<Rightarrow> (Inr r, w))"

definition GetOrganizationBySlug :: "env \<Rightarrow> string \<Rightarrow> (OrganizationRow, org_db) org_op" where
  "GetOrganizationBySlug E slug =
     net_call E (\<lambda>w. case find (\<lambda>r. ro_slug r = slug) (organizations w) of
       None \<Rightarrow> (Inl NoRows, w) | Some r \<Rightarrow> (Inr r, w))"

definition UpdateOrganization ::
    "env \<Rightarrow> uuid \<Rightarrow> string \<Rightarrow> string \<Rightarrow> time \<Rightarrow> (unit, org_db) org_op" where
  "UpdateOrganization E ident name plan updated_at =
     net_call E (\<lambda>w. (Inr (), w\<lparr>organizations :=
       map (\<lambda>r. if ro_id r = ident
                then r\<lparr>ro_name := name, ro_plan := plan, ro_updated_at := e_tsz E updated_at\<rparr>
                else r) (organizations w)\<rparr>))"

subsection \<open>org\_members\<close>

definition AddOrgMember ::
    "env \<Rightarrow> uuid \<Rightarrow> uuid \<Rightarrow> string \<Rightarrow> uuid option \<Rightarrow> time \<Rightarrow> (unit, org_db) org_op" where
  "AddOrgMember E org_id user_id role invited_by joined_at =
     net_call E (\<lambda>w.
       if \<not> role_check role then (Inl (PgError pgCheckViolation ''chk_role''), w)
       else if (org_id, user_id) \<in> member_key ` set (org_members w)
         then (Inl (PgError pgErrUniqueViolation ''org_members_pkey''), w)
       else (Inr (), w\<lparr>org_members := org_members w @
               [\<lparr>rm_org_id = org_id, rm_user_id = user_id, rm_role = role,
                 rm_invited_by = invited_by, rm_joined_at = e_tsz E joined_at\<rparr>]\<rparr>))"

definition RemoveOrgMember :: "env \<Rightarrow> uuid \<Rightarrow> uuid \<Rightarrow> (unit, org_db) org_op" where
  "RemoveOrgMember E org_id user_id =
     net_call E (\<lambda>w. (Inr (), w\<lparr>org_members :=
       filter (\<lambda>r. \<not> (rm_org_id r = org_id \<and> rm_user_id r = user_id)) (org_members w)\<rparr>))"

definition GetOrgMember :: "env \<Rightarrow> uuid \<Rightarrow> uuid \<Rightarrow> (OrgMemberRow, org_db) org_op" where
  "GetOrgMember E org_id user_id =
     net_call E (\<lambda>w. case find (\<lambda>r. member_key r = (org_id, user_id)) (org_members w) of
       None \<Rightarrow> (Inl NoRows, w) | Some r \<Rightarrow> (Inr r, w))"

definition ListOrgMembers :: "env \<Rightarrow> uuid \<Rightarrow> (OrgMemberRow list, org_db) org_op" where
  "ListOrgMembers E org_id =
     net_call E (\<lambda>w.
       (Inr (sort_key rm_joined_at (filter (\<lambda>r. rm_org_id r = org_id) (org_members w))), w))"

subsection \<open>org\_invitations\<close>

definition CreateInvitation ::
    "env \<Rightarrow> uuid \<Rightarrow> uuid \<Rightarrow> string \<Rightarrow> string \<Rightarrow> string \<Rightarrow> time \<Rightarrow> time \<Rightarrow> (unit, org_db) org_op" where
  "CreateInvitation E ident org_id email role token expires_at created_at =
     net_call E (\<lambda>w.
       if \<not> role_check role then (Inl (PgError pgCheckViolation ''chk_role''), w)
       else if ident \<in> ri_id ` set (org_invitations w)
         then (Inl (PgError pgErrUniqueViolation ''org_invitations_pkey''), w)
       else if token \<in> ri_token ` set (org_invitations w)
         then (Inl (PgError pgErrUniqueViolation ''org_invitations_token_key''), w)
       else (Inr (), w\<lparr>org_invitations := org_invitations w @
               [\<lparr>ri_id = ident, ri_org_id = org_id, ri_email = email, ri_role = role,
                 ri_token = token, ri_expires_at = e_tsz E expires_at, ri_accepted_at = None,
                 ri_created_at = e_tsz E created_at\<rparr>]\<rparr>))"

definition GetInvitationByToken :: "env \<Rightarrow> string \<Rightarrow> (OrgInvitationRow, org_db) org_op" where
  "GetInvitationByToken E token =
     net_call E (\<lambda>w. case find (\<lambda>r. ri_token r = token) (org_invitations w) of
       None \<Rightarrow> (Inl NoRows, w) | Some r \<Rightarrow> (Inr r, w))"

definition MarkInvitationAccepted :: "env \<Rightarrow> uuid \<Rightarrow> (unit, org_db) org_op" where
  "MarkInvitationAccepted E ident =
     net_call E (\<lambda>w. let (now, w1) = db_now E w in
       (Inr (), w1\<lparr>org_invitations :=
          map (\<lambda>r. if ri_id r = ident then r\<lparr>ri_accepted_at := Some now\<rparr> else r)
            (org_invitations w1)\<rparr>))"

subsection \<open>groups\<close>

definition CreateGroupRow ::
    "env \<Rightarrow> uuid \<Rightarrow> uuid \<Rightarrow> uuid \<Rightarrow> string \<Rightarrow> string \<Rightarrow> bool \<Rightarrow> time option \<Rightarrow> uuid \<Rightarrow> time \<Rightarrow>
     (unit, org_db) org_op" where
  "CreateGroupRow E ident org_id app_id name description ephemeral expires_at created_by created_at =
     net_call E (\<lambda>w.
       if ident \<in> rg_id ` set (groups w)
         then (Inl (PgError pgErrUniqueViolation ''groups_pkey''), w)
       else (Inr (), w\<lparr>groups := groups w @
               [\<lparr>rg_id = ident, rg_org_id = org_id, rg_app_id = app_id, rg_name = name,
                 rg_description = description, rg_ephemeral = ephemeral,
                 rg_expires_at = map_option (e_tsz E) expires_at, rg_created_by = created_by,
                 rg_created_at = e_tsz E created_at\<rparr>]\<rparr>))"

definition GetGroupByID :: "env \<Rightarrow> uuid \<Rightarrow> (GroupRow, org_db) org_op" where
  "GetGroupByID E ident =
     net_call E (\<lambda>w. case find (\<lambda>r. rg_id r = ident) (groups w) of
       None \<Rightarrow> (Inl NoRows, w) | Some r \<Rightarrow> (Inr r, w))"

definition ListGroupsByOrg :: "env \<Rightarrow> uuid \<Rightarrow> (GroupRow list, org_db) org_op" where
  "ListGroupsByOrg E org_id =
     net_call E (\<lambda>w. (Inr (sort_key (\<lambda>r. e_collate E (rg_name r))
                            (filter (\<lambda>r. rg_org_id r = org_id) (groups w))), w))"

text \<open>\<open>WHERE ephemeral = true AND expires_at IS NOT NULL AND expires_at < $1\<close>\<close>

definition expired_row :: "time \<Rightarrow> GroupRow \<Rightarrow> bool" where
  "expired_row t r = (rg_ephemeral r \<and> (case rg_expires_at r of None \<Rightarrow> False | Some x \<Rightarrow> x < t))"

definition ListExpiredGroups :: "env \<Rightarrow> time \<Rightarrow> (GroupRow list, org_db) org_op" where
  "ListExpiredGroups E now =
     net_call E (\<lambda>w. (Inr (filter (expired_row (e_tsz E now)) (groups w)), w))"

definition DeleteGroup :: "env \<Rightarrow> uuid \<Rightarrow> (unit, org_db) org_op" where
  "DeleteGroup E ident =
     net_call E (\<lambda>w. (Inr (), w\<lparr>groups := filter (\<lambda>r. rg_id r \<noteq> ident) (groups w)\<rparr>))"

subsection \<open>group\_members\<close>

text \<open>\<open>ON CONFLICT DO NOTHING\<close>: a second insertion of the key succeeds and changes nothing.\<close>

definition AddGroupMemberRow :: "env \<Rightarrow> uuid \<Rightarrow> uuid \<Rightarrow> uuid \<Rightarrow> (unit, org_db) org_op" where
  "AddGroupMemberRow E group_id user_id app_id =
     net_call E (\<lambda>w.
       if (group_id, user_id) \<in> group_member_key ` set (group_members w) then (Inr (), w)
       else (Inr (), w\<lparr>group_members := group_members w @
               [\<lparr>rgm_group_id = group_id, rgm_user_id = user_id, rgm_app_id = app_id\<rparr>]\<rparr>))"

definition RemoveGroupMemberRow :: "env \<Rightarrow> uuid \<Rightarrow> uuid \<Rightarrow> (unit, org_db) org_op" where
  "RemoveGroupMemberRow E group_id user_id =
     net_call E (\<lambda>w. (Inr (), w\<lparr>group_members :=
       filter (\<lambda>r. \<not> (rgm_group_id r = group_id \<and> rgm_user_id r = user_id)) (group_members w)\<rparr>))"

definition ListGroupMemberRows :: "env \<Rightarrow> uuid \<Rightarrow> (GroupMemberRow list, org_db) org_op" where
  "ListGroupMemberRows E group_id =
     net_call E (\<lambda>w. (Inr (filter (\<lambda>r. rgm_group_id r = group_id) (group_members w)), w))"

subsection \<open>roles\<close>

text \<open>\<open>permissions\<close> is \<open>NOT NULL\<close>; a nil slice is sent as SQL \<open>NULL\<close>.\<close>

definition pgNotNullViolation :: string where "pgNotNullViolation = ''23502''"

definition CreateRoleRow ::
    "env \<Rightarrow> uuid \<Rightarrow> uuid \<Rightarrow> string \<Rightarrow> string list option \<Rightarrow> time \<Rightarrow> (unit, org_db) org_op" where
  "CreateRoleRow E ident org_id name permissions created_at =
     net_call E (\<lambda>w.
       if permissions = None then (Inl (PgError pgNotNullViolation []), w)
       else if ident \<in> rr_id ` set (roles w)
         then (Inl (PgError pgErrUniqueViolation ''roles_pkey''), w)
       else (Inr (), w\<lparr>roles := roles w @
               [\<lparr>rr_id = ident, rr_org_id = org_id, rr_name = name, rr_permissions = permissions,
                 rr_created_at = e_tsz E created_at\<rparr>]\<rparr>))"

definition GetRoleByID :: "env \<Rightarrow> uuid \<Rightarrow> (RoleRow, org_db) org_op" where
  "GetRoleByID E ident =
     net_call E (\<lambda>w. case find (\<lambda>r. rr_id r = ident) (roles w) of
       None \<Rightarrow> (Inl NoRows, w) | Some r \<Rightarrow> (Inr r, w))"

definition ListRolesByOrg :: "env \<Rightarrow> uuid \<Rightarrow> (RoleRow list, org_db) org_op" where
  "ListRolesByOrg E org_id =
     net_call E (\<lambda>w. (Inr (sort_key (\<lambda>r. e_collate E (rr_name r))
                            (filter (\<lambda>r. rr_org_id r = org_id) (roles w))), w))"

definition DeleteRoleRow :: "env \<Rightarrow> uuid \<Rightarrow> (unit, org_db) org_op" where
  "DeleteRoleRow E ident =
     net_call E (\<lambda>w. (Inr (), w\<lparr>roles := filter (\<lambda>r. rr_id r \<noteq> ident) (roles w)\<rparr>))"

subsection \<open>outbox\<close>

definition InsertOutboxEventRow :: "env \<Rightarrow> uuid \<Rightarrow> string \<Rightarrow> json \<Rightarrow> (unit, org_db) org_op" where
  "InsertOutboxEventRow E aggregate_id event_type payload =
     net_call E (\<lambda>w. let (ident, w1) = uuid_New E w; (now, w2) = db_now E w1 in
       if ident \<in> rx_id ` set (outbox w2)
         then (Inl (PgError pgErrUniqueViolation ''outbox_pkey''), w2)
       else (Inr (), w2\<lparr>outbox := outbox w2 @
               [\<lparr>rx_id = ident, rx_aggregate_id = aggregate_id, rx_event_type = event_type,
                 rx_payload = payload, rx_created_at = now, rx_published_at = None\<rparr>]\<rparr>))"

definition GetUnpublishedOutboxEvents :: "env \<Rightarrow> nat \<Rightarrow> (OutboxRow list, org_db) org_op" where
  "GetUnpublishedOutboxEvents E limit =
     net_call E (\<lambda>w. (Inr (take limit (sort_key rx_created_at
                            (filter (\<lambda>r. rx_published_at r = None) (outbox w)))), w))"

definition MarkOutboxEventPublished :: "env \<Rightarrow> uuid \<Rightarrow> (unit, org_db) org_op" where
  "MarkOutboxEventPublished E ident =
     net_call E (\<lambda>w. let (now, w1) = db_now E w in
       (Inr (), w1\<lparr>outbox :=
          map (\<lambda>r. if rx_id r = ident then r\<lparr>rx_published_at := Some now\<rparr> else r) (outbox w1)\<rparr>))"

lemmas org_query_defs =
  CreateOrganization_def GetOrganizationByID_def GetOrganizationBySlug_def UpdateOrganization_def
  AddOrgMember_def RemoveOrgMember_def GetOrgMember_def ListOrgMembers_def
  CreateInvitation_def GetInvitationByToken_def MarkInvitationAccepted_def
  CreateGroupRow_def GetGroupByID_def ListGroupsByOrg_def ListExpiredGroups_def DeleteGroup_def
  AddGroupMemberRow_def RemoveGroupMemberRow_def ListGroupMemberRows_def
  CreateRoleRow_def GetRoleByID_def ListRolesByOrg_def DeleteRoleRow_def
  InsertOutboxEventRow_def GetUnpublishedOutboxEvents_def MarkOutboxEventPublished_def

end
