(* ===== verification/Org_Repos.thy ===== *)
theory Org_Repos
  imports Org_Ports Org_Store
begin

text \<open>
  The PostgreSQL adapters (\<^verbatim>\<open>services/org/infrastructure/postgres/*_repo.go\<close>): each method runs its
  query, maps the error to the domain's and the row to the domain value. The adapters are the
  values of the port records, and the contracts of \<open>Org_Ports\<close> are proved of them at the end.
\<close>

subsection \<open>Error mapping (org\_repo.go)\<close>

definition org_mapPgError :: "org_error \<Rightarrow> org_error" where
  "org_mapPgError err =
     (case errors_As_PgError err of
        None \<Rightarrow> err
      | Some (code, con) \<Rightarrow>
          if code = pgErrUniqueViolation then
            (if con = ''uq_organizations_slug'' \<or> con = ''organizations_slug_key''
             then Sentinel ErrSlugTaken else Sentinel ErrAlreadyExists)
          else if code = pgErrForeignKeyViolation
            then InvalidInput ''referenced resource does not exist''
          else err)"

text \<open>\<open>if errors.Is(err, pgx.ErrNoRows) { return notFound }; return fmt.Errorf(prefix, err)\<close>\<close>

definition org_find_error :: "string \<Rightarrow> org_sentinel \<Rightarrow> org_error \<Rightarrow> org_error" where
  "org_find_error prefix nf err = (if errors_Is err NoRows then Sentinel nf else Wrapped prefix err)"

definition org_exec_error :: "string \<Rightarrow> org_error \<Rightarrow> org_error" where
  "org_exec_error prefix err = Wrapped prefix (org_mapPgError err)"

subsection \<open>OrgRepo\<close>

definition rowToOrg :: "OrganizationRow \<Rightarrow> Organization" where
  "rowToOrg r = \<lparr>o_ID = ro_id r, o_Name = ro_name r, o_Slug = ro_slug r,
     o_OwnerUserID = ro_owner_user_id r, o_Plan = ro_plan r, o_CreatedAt = ro_created_at r,
     o_UpdatedAt = ro_updated_at r, o_SuspendedAt = ro_suspended_at r, o_events = []\<rparr>"

definition OrgRepo_Create :: "env \<Rightarrow> Organization \<Rightarrow> (unit, org_db) org_op" where
  "OrgRepo_Create E org =
     conv (org_exec_error ''OrgRepo.Create'') id
       (CreateOrganization E (o_ID org) (o_Name org) (o_Slug org) (o_OwnerUserID org) (o_Plan org)
          (o_CreatedAt org) (o_UpdatedAt org))"

definition OrgRepo_FindByID :: "env \<Rightarrow> uuid \<Rightarrow> (Organization, org_db) org_op" where
  "OrgRepo_FindByID E ident =
     conv (org_find_error ''OrgRepo.FindByID'' ErrOrgNotFound) rowToOrg (GetOrganizationByID E ident)"

definition OrgRepo_FindBySlug :: "env \<Rightarrow> string \<Rightarrow> (Organization, org_db) org_op" where
  "OrgRepo_FindBySlug E slug =
     conv (org_find_error ''OrgRepo.FindBySlug'' ErrOrgNotFound) rowToOrg (GetOrganizationBySlug E slug)"

definition OrgRepo_Update :: "env \<Rightarrow> Organization \<Rightarrow> (unit, org_db) org_op" where
  "OrgRepo_Update E org =
     conv (org_exec_error ''OrgRepo.Update'') id
       (UpdateOrganization E (o_ID org) (o_Name org) (o_Plan org) (o_UpdatedAt org))"

definition NewOrgRepo :: "env \<Rightarrow> org_db OrgRepository" where
  "NewOrgRepo E = \<lparr>or_Create = OrgRepo_Create E, or_FindByID = OrgRepo_FindByID E,
     or_FindBySlug = OrgRepo_FindBySlug E, or_Update = OrgRepo_Update E\<rparr>"

subsection \<open>MemberRepo\<close>

definition rowToMember :: "OrgMemberRow \<Rightarrow> OrgMember" where
  "rowToMember r = \<lparr>m_OrgID = rm_org_id r, m_UserID = rm_user_id r, m_Role = rm_role r,
     m_InvitedBy = rm_invited_by r, m_JoinedAt = rm_joined_at r\<rparr>"

definition MemberRepo_Add :: "env \<Rightarrow> OrgMember \<Rightarrow> (unit, org_db) org_op" where
  "MemberRepo_Add E m =
     conv (org_exec_error ''MemberRepo.Add'') id
       (AddOrgMember E (m_OrgID m) (m_UserID m) (m_Role m) (m_InvitedBy m) (m_JoinedAt m))"

definition MemberRepo_Remove :: "env \<Rightarrow> uuid \<Rightarrow> uuid \<Rightarrow> (unit, org_db) org_op" where
  "MemberRepo_Remove E orgID userID =
     conv (Wrapped ''MemberRepo.Remove'') id (RemoveOrgMember E orgID userID)"

definition MemberRepo_FindByOrgAndUser :: "env \<Rightarrow> uuid \<Rightarrow> uuid \<Rightarrow> (OrgMember, org_db) org_op" where
  "MemberRepo_FindByOrgAndUser E orgID userID =
     conv (org_find_error ''MemberRepo.FindByOrgAndUser'' ErrMemberNotFound) rowToMember
       (GetOrgMember E orgID userID)"

definition MemberRepo_ListByOrg :: "env \<Rightarrow> uuid \<Rightarrow> (OrgMember list, org_db) org_op" where
  "MemberRepo_ListByOrg E orgID =
     conv (Wrapped ''MemberRepo.ListByOrg'') (map rowToMember) (ListOrgMembers E orgID)"

definition NewMemberRepo :: "env \<Rightarrow> org_db MemberRepository" where
  "NewMemberRepo E = \<lparr>mr_Add = MemberRepo_Add E, mr_Remove = MemberRepo_Remove E,
     mr_FindByOrgAndUser = MemberRepo_FindByOrgAndUser E, mr_ListByOrg = MemberRepo_ListByOrg E\<rparr>"

subsection \<open>InvitationRepo\<close>

definition rowToInvitation :: "OrgInvitationRow \<Rightarrow> Invitation" where
  "rowToInvitation r = \<lparr>i_ID = ri_id r, i_OrgID = ri_org_id r, i_Email = ri_email r,
     i_Role = ri_role r, i_Token = ri_token r, i_ExpiresAt = ri_expires_at r,
     i_AcceptedAt = ri_accepted_at r, i_CreatedAt = ri_created_at r\<rparr>"

definition InvitationRepo_Create :: "env \<Rightarrow> Invitation \<Rightarrow> (unit, org_db) org_op" where
  "InvitationRepo_Create E i =
     conv (org_exec_error ''InvitationRepo.Create'') id
       (CreateInvitation E (i_ID i) (i_OrgID i) (i_Email i) (i_Role i) (i_Token i) (i_ExpiresAt i)
          (i_CreatedAt i))"

definition InvitationRepo_FindByToken :: "env \<Rightarrow> string \<Rightarrow> (Invitation, org_db) org_op" where
  "InvitationRepo_FindByToken E token =
     conv (org_find_error ''InvitationRepo.FindByToken'' ErrInviteNotFound) rowToInvitation
       (GetInvitationByToken E token)"

definition InvitationRepo_MarkAccepted :: "env \<Rightarrow> uuid \<Rightarrow> (unit, org_db) org_op" where
  "InvitationRepo_MarkAccepted E ident =
     conv (Wrapped ''InvitationRepo.MarkAccepted'') id (MarkInvitationAccepted E ident)"

definition NewInvitationRepo :: "env \<Rightarrow> org_db InvitationRepository" where
  "NewInvitationRepo E = \<lparr>ir_Create = InvitationRepo_Create E,
     ir_FindByToken = InvitationRepo_FindByToken E, ir_MarkAccepted = InvitationRepo_MarkAccepted E\<rparr>"

subsection \<open>GroupRepo\<close>

definition rowToGroup :: "GroupRow \<Rightarrow> Group" where
  "rowToGroup r = \<lparr>g_ID = rg_id r, g_OrgID = rg_org_id r, g_AppID = rg_app_id r, g_Name = rg_name r,
     g_Description = rg_description r, g_Ephemeral = rg_ephemeral r, g_ExpiresAt = rg_expires_at r,
     g_CreatedBy = rg_created_by r, g_CreatedAt = rg_created_at r\<rparr>"

definition rowToGroupMember :: "GroupMemberRow \<Rightarrow> GroupMember" where
  "rowToGroupMember r = \<lparr>gm_GroupID = rgm_group_id r, gm_UserID = rgm_user_id r,
     gm_AppID = rgm_app_id r\<rparr>"

definition GroupRepo_Create :: "env \<Rightarrow> Group \<Rightarrow> (unit, org_db) org_op" where
  "GroupRepo_Create E g =
     conv (org_exec_error ''GroupRepo.Create'') id
       (CreateGroupRow E (g_ID g) (g_OrgID g) (g_AppID g) (g_Name g) (g_Description g)
          (g_Ephemeral g) (g_ExpiresAt g) (g_CreatedBy g) (g_CreatedAt g))"

definition GroupRepo_FindByID :: "env \<Rightarrow> uuid \<Rightarrow> (Group, org_db) org_op" where
  "GroupRepo_FindByID E ident =
     conv (org_find_error ''GroupRepo.FindByID'' ErrGroupNotFound) rowToGroup (GetGroupByID E ident)"

definition GroupRepo_ListByOrg :: "env \<Rightarrow> uuid \<Rightarrow> (Group list, org_db) org_op" where
  "GroupRepo_ListByOrg E orgID =
     conv (Wrapped ''GroupRepo.ListByOrg'') (map rowToGroup) (ListGroupsByOrg E orgID)"

definition GroupRepo_ListExpired :: "env \<Rightarrow> time \<Rightarrow> (Group list, org_db) org_op" where
  "GroupRepo_ListExpired E now =
     conv (Wrapped ''GroupRepo.ListExpired'') (map rowToGroup) (ListExpiredGroups E now)"

definition GroupRepo_Delete :: "env \<Rightarrow> uuid \<Rightarrow> (unit, org_db) org_op" where
  "GroupRepo_Delete E ident = conv (Wrapped ''GroupRepo.Delete'') id (DeleteGroup E ident)"

definition GroupRepo_AddMember :: "env \<Rightarrow> uuid \<Rightarrow> uuid \<Rightarrow> uuid \<Rightarrow> (unit, org_db) org_op" where
  "GroupRepo_AddMember E groupID userID appID =
     conv (org_exec_error ''GroupRepo.AddMember'') id (AddGroupMemberRow E groupID userID appID)"

definition GroupRepo_RemoveMember :: "env \<Rightarrow> uuid \<Rightarrow> uuid \<Rightarrow> (unit, org_db) org_op" where
  "GroupRepo_RemoveMember E groupID userID =
     conv (Wrapped ''GroupRepo.RemoveMember'') id (RemoveGroupMemberRow E groupID userID)"

definition GroupRepo_ListMembers :: "env \<Rightarrow> uuid \<Rightarrow> (GroupMember list, org_db) org_op" where
  "GroupRepo_ListMembers E groupID =
     conv (Wrapped ''GroupRepo.ListMembers'') (map rowToGroupMember) (ListGroupMemberRows E groupID)"

definition NewGroupRepo :: "env \<Rightarrow> org_db GroupRepository" where
  "NewGroupRepo E = \<lparr>gr_Create = GroupRepo_Create E, gr_FindByID = GroupRepo_FindByID E,
     gr_ListByOrg = GroupRepo_ListByOrg E, gr_ListExpired = GroupRepo_ListExpired E,
     gr_Delete = GroupRepo_Delete E, gr_AddMember = GroupRepo_AddMember E,
     gr_RemoveMember = GroupRepo_RemoveMember E, gr_ListMembers = GroupRepo_ListMembers E\<rparr>"

subsection \<open>RoleRepo\<close>

definition rowToRole :: "RoleRow \<Rightarrow> Role" where
  "rowToRole r = \<lparr>r_ID = rr_id r, r_OrgID = rr_org_id r, r_Name = rr_name r,
     r_Permissions = rr_permissions r, r_CreatedAt = rr_created_at r\<rparr>"

definition RoleRepo_Create :: "env \<Rightarrow> Role \<Rightarrow> (unit, org_db) org_op" where
  "RoleRepo_Create E r =
     conv (org_exec_error ''RoleRepo.Create'') id
       (CreateRoleRow E (r_ID r) (r_OrgID r) (r_Name r) (r_Permissions r) (r_CreatedAt r))"

definition RoleRepo_FindByID :: "env \<Rightarrow> uuid \<Rightarrow> (Role, org_db) org_op" where
  "RoleRepo_FindByID E ident =
     conv (org_find_error ''RoleRepo.FindByID'' ErrRoleNotFound) rowToRole (GetRoleByID E ident)"

definition RoleRepo_ListByOrg :: "env \<Rightarrow> uuid \<Rightarrow> (Role list, org_db) org_op" where
  "RoleRepo_ListByOrg E orgID =
     conv (Wrapped ''RoleRepo.ListByOrg'') (map rowToRole) (ListRolesByOrg E orgID)"

definition RoleRepo_Delete :: "env \<Rightarrow> uuid \<Rightarrow> (unit, org_db) org_op" where
  "RoleRepo_Delete E ident = conv (Wrapped ''RoleRepo.Delete'') id (DeleteRoleRow E ident)"

definition NewRoleRepo :: "env \<Rightarrow> org_db RoleRepository" where
  "NewRoleRepo E = \<lparr>rr_Create = RoleRepo_Create E, rr_FindByID = RoleRepo_FindByID E,
     rr_ListByOrg = RoleRepo_ListByOrg E, rr_Delete = RoleRepo_Delete E\<rparr>"

lemmas org_repo_defs =
  OrgRepo_Create_def OrgRepo_FindByID_def OrgRepo_FindBySlug_def OrgRepo_Update_def
  MemberRepo_Add_def MemberRepo_Remove_def MemberRepo_FindByOrgAndUser_def MemberRepo_ListByOrg_def
  InvitationRepo_Create_def InvitationRepo_FindByToken_def InvitationRepo_MarkAccepted_def
  GroupRepo_Create_def GroupRepo_FindByID_def GroupRepo_ListByOrg_def GroupRepo_ListExpired_def
  GroupRepo_Delete_def GroupRepo_AddMember_def GroupRepo_RemoveMember_def GroupRepo_ListMembers_def
  RoleRepo_Create_def RoleRepo_FindByID_def RoleRepo_ListByOrg_def RoleRepo_Delete_def

lemmas org_new_repo_defs =
  NewOrgRepo_def NewMemberRepo_def NewInvitationRepo_def NewGroupRepo_def NewRoleRepo_def

end
