(* ===== verification/Org_Contracts.thy ===== *)
theory Org_Contracts
  imports Org_Repos
begin

text \<open>
  The PostgreSQL adapters keep the contracts of the ports: the views of the org database, its
  well-formedness (the schema's keys and checks) and that every query preserves it, and the
  interpretations of the port locales on the adapters.
\<close>

subsection \<open>Views\<close>

definition group_view :: "org_db \<Rightarrow> uuid \<Rightarrow> Group option" where
  "group_view t = table_map rg_id rowToGroup (groups t)"

definition membership_view :: "org_db \<Rightarrow> uuid \<times> uuid \<Rightarrow> uuid option" where
  "membership_view t = table_map group_member_key rgm_app_id (group_members t)"

definition member_view :: "org_db \<Rightarrow> uuid \<times> uuid \<Rightarrow> OrgMember option" where
  "member_view t = table_map member_key rowToMember (org_members t)"

definition invitation_view :: "org_db \<Rightarrow> string \<Rightarrow> Invitation option" where
  "invitation_view t = table_map ri_token rowToInvitation (org_invitations t)"

text \<open>What the columns make of a value: timestamps at the column's resolution.\<close>

definition stored_group :: "env \<Rightarrow> Group \<Rightarrow> Group" where
  "stored_group E g = g\<lparr>g_ExpiresAt := map_option (e_tsz E) (g_ExpiresAt g),
                        g_CreatedAt := e_tsz E (g_CreatedAt g)\<rparr>"

definition stored_member :: "env \<Rightarrow> OrgMember \<Rightarrow> OrgMember" where
  "stored_member E m = m\<lparr>m_JoinedAt := e_tsz E (m_JoinedAt m)\<rparr>"

definition stored_invitation :: "env \<Rightarrow> Invitation \<Rightarrow> Invitation" where
  "stored_invitation E i = i\<lparr>i_ExpiresAt := e_tsz E (i_ExpiresAt i), i_AcceptedAt := None,
                             i_CreatedAt := e_tsz E (i_CreatedAt i)\<rparr>"

subsection \<open>Well-formed tables\<close>

definition org_db_wf :: "org_db \<Rightarrow> bool" where
  "org_db_wf t \<longleftrightarrow>
     distinct (map ro_id (organizations t)) \<and> distinct (map ro_slug (organizations t)) \<and>
     distinct (map member_key (org_members t)) \<and> list_all (role_check \<circ> rm_role) (org_members t) \<and>
     distinct (map ri_id (org_invitations t)) \<and> distinct (map ri_token (org_invitations t)) \<and>
     list_all (role_check \<circ> ri_role) (org_invitations t) \<and>
     distinct (map rg_id (groups t)) \<and> distinct (map group_member_key (group_members t)) \<and>
     distinct (map rr_id (roles t)) \<and> distinct (map rx_id (outbox t))"

lemma org_db_wf_tables [simp]: "org_db_wf (tables_of w) = org_db_wf w"
  by (simp add: org_db_wf_def tables_of_def)

lemma table_simps [simp]:
  "organizations (tables_of w) = organizations w" "org_members (tables_of w) = org_members w"
  "org_invitations (tables_of w) = org_invitations w" "groups (tables_of w) = groups w"
  "group_members (tables_of w) = group_members w" "roles (tables_of w) = roles w"
  "outbox (tables_of w) = outbox w"
  by (simp_all add: tables_of_def)

lemma view_simps [simp]:
  "group_view (tables_of w) = group_view w" "membership_view (tables_of w) = membership_view w"
  "member_view (tables_of w) = member_view w" "invitation_view (tables_of w) = invitation_view w"
  by (simp_all add: fun_eq_iff group_view_def membership_view_def member_view_def invitation_view_def)

lemma view_counters [simp]:
  "group_view (w\<lparr>n_net := n\<rparr>) = group_view w" "membership_view (w\<lparr>n_net := n\<rparr>) = membership_view w"
  "member_view (w\<lparr>n_net := n\<rparr>) = member_view w" "invitation_view (w\<lparr>n_net := n\<rparr>) = invitation_view w"
  "group_view (w\<lparr>n_now := n\<rparr>) = group_view w" "membership_view (w\<lparr>n_now := n\<rparr>) = membership_view w"
  "member_view (w\<lparr>n_now := n\<rparr>) = member_view w" "invitation_view (w\<lparr>n_now := n\<rparr>) = invitation_view w"
  "org_db_wf (w\<lparr>n_net := n\<rparr>) = org_db_wf w" "org_db_wf (w\<lparr>n_now := n\<rparr>) = org_db_wf w"
  by (simp_all add: fun_eq_iff group_view_def membership_view_def member_view_def
        invitation_view_def org_db_wf_def)

lemma wf_preserved [intro!]:
  "preserves org_db_wf (CreateOrganization E i n s u p c d)"
  "preserves org_db_wf (GetOrganizationByID E i)"
  "preserves org_db_wf (GetOrganizationBySlug E s)"
  "preserves org_db_wf (UpdateOrganization E i n p d)"
  "preserves org_db_wf (AddOrgMember E i u r b d)"
  "preserves org_db_wf (RemoveOrgMember E i u)"
  "preserves org_db_wf (GetOrgMember E i u)"
  "preserves org_db_wf (ListOrgMembers E i)"
  "preserves org_db_wf (CreateInvitation E i j m r tok c d)"
  "preserves org_db_wf (GetInvitationByToken E tok)"
  "preserves org_db_wf (MarkInvitationAccepted E i)"
  unfolding org_query_defs
  by (rule preserves_net_call,
      (rule preservesI, auto simp: org_db_wf_def db_now_def Let_def comp_update list.pred_map
         list_all_filter_mono split: option.splits)[1], simp)+

lemma wf_preserved_groups [intro!]:
  "preserves org_db_wf (CreateGroupRow E i j a n ds b x c d)"
  "preserves org_db_wf (GetGroupByID E i)"
  "preserves org_db_wf (ListGroupsByOrg E i)"
  "preserves org_db_wf (ListExpiredGroups E now)"
  "preserves org_db_wf (DeleteGroup E i)"
  "preserves org_db_wf (AddGroupMemberRow E i u a)"
  "preserves org_db_wf (RemoveGroupMemberRow E i u)"
  "preserves org_db_wf (ListGroupMemberRows E i)"
  "preserves org_db_wf (CreateRoleRow E i j n perms d)"
  "preserves org_db_wf (GetRoleByID E i)"
  "preserves org_db_wf (ListRolesByOrg E i)"
  "preserves org_db_wf (DeleteRoleRow E i)"
  "preserves org_db_wf (InsertOutboxEventRow E i n payload)"
  "preserves org_db_wf (GetUnpublishedOutboxEvents E k)"
  "preserves org_db_wf (MarkOutboxEventPublished E i)"
  unfolding org_query_defs
  by (rule preserves_net_call,
      (rule preservesI, auto simp: org_db_wf_def db_now_def uuid_New_def Let_def comp_update list.pred_map
         split: option.splits)[1], simp)+

subsection \<open>The group repository keeps its contract\<close>

lemmas org_views = group_view_def membership_view_def member_view_def invitation_view_def

lemmas org_op_splits =
  net_outcome.splits if_splits option.splits sum.splits prod.splits

lemmas group_repo_defs =
  NewGroupRepo_def GroupRepo_Create_def GroupRepo_FindByID_def GroupRepo_ListExpired_def
  GroupRepo_Delete_def GroupRepo_AddMember_def GroupRepo_RemoveMember_def GroupRepo_ListMembers_def
  CreateGroupRow_def GetGroupByID_def ListExpiredGroups_def DeleteGroup_def AddGroupMemberRow_def
  RemoveGroupMemberRow_def ListGroupMemberRows_def

lemmas org_op_defs = conv_def net_call_def Let_def

lemma rowToGroup_sel [simp]:
  "g_ID (rowToGroup r) = rg_id r" "g_Ephemeral (rowToGroup r) = rg_ephemeral r"
  "g_ExpiresAt (rowToGroup r) = rg_expires_at r"
  by (simp_all add: rowToGroup_def)

lemma err_cause_find [simp]:
  "err_cause (org_find_error p nf e) = (if err_cause e = NoRows then Sentinel nf else err_cause e)"
  by (simp add: org_find_error_def)

lemma stored_group_row [simp]:
  "rowToGroup \<lparr>rg_id = g_ID g, rg_org_id = g_OrgID g, rg_app_id = g_AppID g, rg_name = g_Name g,
     rg_description = g_Description g, rg_ephemeral = g_Ephemeral g,
     rg_expires_at = map_option (e_tsz E) (g_ExpiresAt g), rg_created_by = g_CreatedBy g,
     rg_created_at = e_tsz E (g_CreatedAt g)\<rparr> = stored_group E g"
  by (cases g) (simp add: rowToGroup_def stored_group_def)

lemma group_members_listed:
  assumes "distinct (map group_member_key rs)"
  shows "m \<in> rowToGroupMember ` {r \<in> set rs. rgm_group_id r = i} \<longleftrightarrow>
         gm_GroupID m = i \<and> table_map group_member_key rgm_app_id rs (i, gm_UserID m) = Some (gm_AppID m)"
    (is "?l \<longleftrightarrow> ?r")
proof
  assume ?l
  then obtain r where "r \<in> set rs" "rgm_group_id r = i" "m = rowToGroupMember r" by auto
  with table_map_member [OF assms, of r rgm_app_id] show ?r by (simp add: rowToGroupMember_def)
next
  assume ?r
  then obtain r where r: "r \<in> set rs" "group_member_key r = (i, gm_UserID m)" "rgm_app_id r = gm_AppID m"
    by (auto dest: table_map_Some)
  with \<open>?r\<close> have "m = rowToGroupMember r" by (cases m) (simp add: rowToGroupMember_def)
  with r show ?l by auto
qed

lemma groups_expired_listed:
  assumes "distinct (map rg_id rs)"
  shows "g \<in> rowToGroup ` {r \<in> set rs. expired_row t r} \<longleftrightarrow>
         table_map rg_id rowToGroup rs (g_ID g) = Some g \<and> g_Ephemeral g \<and>
         (\<exists>x. g_ExpiresAt g = Some x \<and> x < t)"
    (is "?l \<longleftrightarrow> ?r")
proof
  assume ?l
  then obtain r where "r \<in> set rs" "expired_row t r" "g = rowToGroup r" by auto
  with table_map_member [OF assms, of r rowToGroup] show ?r
    by (auto simp: expired_row_def split: option.splits)
next
  assume ?r
  then obtain r where "r \<in> set rs" "rowToGroup r = g" by (auto dest: table_map_Some)
  with \<open>?r\<close> show ?l by (auto simp: expired_row_def)
qed

lemma key_not_eq: "(\<not> (a = c \<and> b = d)) = ((a, b) \<noteq> (c, d))"
  by simp

lemmas table_map_simps = table_map_found table_map_snoc table_map_filter table_map_None

lemma table_map_pair_filter:
  "table_map group_member_key v (filter (\<lambda>r. rgm_group_id r = i \<longrightarrow> rgm_user_id r \<noteq> u) rs) =
   (table_map group_member_key v rs)((i, u) := None)"
  using table_map_filter [of group_member_key v "(i, u)" rs] by (simp add: case_prod_beta)

lemma wf_groups: "org_db_wf w \<Longrightarrow> distinct (map rg_id (groups w))"
  and wf_group_members: "org_db_wf w \<Longrightarrow> distinct (map group_member_key (group_members w))"
  by (simp_all add: org_db_wf_def)

interpretation pg_groups: group_repository "NewGroupRepo E" tables_of group_view membership_view
    org_db_wf "stored_group E" "e_tsz E" for E
proof (unfold_locales, goal_cases)
  case (1 g)
  then show ?case by (simp add: stored_group_def)
next
  case (6 w i ms w' m)
  then have "ms = map rowToGroupMember (filter (\<lambda>r. rgm_group_id r = i) (group_members w))"
    by (auto simp: group_repo_defs org_op_defs split: org_op_splits)
  with 6(1) show ?case
    by (simp add: group_members_listed wf_group_members membership_view_def)
next
  case (8 w now gs w' g)
  then have "gs = map rowToGroup (filter (expired_row (e_tsz E now)) (groups w))"
    by (auto simp: group_repo_defs org_op_defs split: org_op_splits)
  with 8(1) show ?case
    by (simp add: groups_expired_listed wf_groups group_view_def)
next
  case (19 w g)
  then show ?case by (auto simp: NewGroupRepo_def GroupRepo_Create_def intro: preservesD)
next
  case (20 w i u a)
  then show ?case by (auto simp: NewGroupRepo_def GroupRepo_AddMember_def intro: preservesD)
next
  case (21 w i u)
  then show ?case by (auto simp: NewGroupRepo_def GroupRepo_RemoveMember_def intro: preservesD)
next
  case (22 w i)
  then show ?case by (auto simp: NewGroupRepo_def GroupRepo_Delete_def intro: preservesD)
qed (auto simp: keeps_def group_repo_defs org_op_defs org_views table_map_simps
       table_map_pair_filter dest: find_key_Some split: org_op_splits)

subsection \<open>The member and invitation repositories keep theirs\<close>

lemmas member_repo_defs =
  NewMemberRepo_def MemberRepo_Add_def MemberRepo_Remove_def MemberRepo_FindByOrgAndUser_def
  MemberRepo_ListByOrg_def AddOrgMember_def RemoveOrgMember_def GetOrgMember_def ListOrgMembers_def

lemmas invitation_repo_defs =
  NewInvitationRepo_def InvitationRepo_Create_def InvitationRepo_FindByToken_def
  InvitationRepo_MarkAccepted_def CreateInvitation_def GetInvitationByToken_def
  MarkInvitationAccepted_def

lemma stored_member_row [simp]:
  "rowToMember \<lparr>rm_org_id = m_OrgID m, rm_user_id = m_UserID m, rm_role = m_Role m,
     rm_invited_by = m_InvitedBy m, rm_joined_at = e_tsz E (m_JoinedAt m)\<rparr> = stored_member E m"
  by (cases m) (simp add: rowToMember_def stored_member_def)

lemma stored_invitation_row [simp]:
  "rowToInvitation \<lparr>ri_id = i_ID i, ri_org_id = i_OrgID i, ri_email = i_Email i, ri_role = i_Role i,
     ri_token = i_Token i, ri_expires_at = e_tsz E (i_ExpiresAt i), ri_accepted_at = None,
     ri_created_at = e_tsz E (i_CreatedAt i)\<rparr> = stored_invitation E i"
  by (cases i) (simp add: rowToInvitation_def stored_invitation_def)

lemma table_map_member_filter:
  "table_map member_key v (filter (\<lambda>r. rm_org_id r = i \<longrightarrow> rm_user_id r \<noteq> u) rs) =
   (table_map member_key v rs)((i, u) := None)"
  using table_map_filter [of member_key v "(i, u)" rs] by (simp add: case_prod_beta)

interpretation pg_members: member_repository "NewMemberRepo E" tables_of member_view
    "stored_member E" for E
  by unfold_locales
    (auto simp: keeps_def member_repo_defs org_op_defs org_views table_map_simps
       table_map_member_filter role_check_ValidRole split: org_op_splits)

interpretation pg_invitations: invitation_repository "NewInvitationRepo E" tables_of
    invitation_view "stored_invitation E" for E
proof (unfold_locales, goal_cases)
  case (4 w t i j)
  then obtain r where "find (\<lambda>r. ri_token r = t) (org_invitations w) = Some r" "rowToInvitation r = i"
    by (auto simp: org_views table_map_def)
  with 4(2) show ?case
    by (auto simp: invitation_repo_defs org_op_defs org_views db_now_def table_map_update
        rowToInvitation_def table_map_found split: org_op_splits)
next
  case (5 i w w' t)
  then obtain r where r: "find (\<lambda>r. ri_token r = t) (org_invitations w) = Some r" "rowToInvitation r = i"
    by (auto simp: org_views table_map_def)
  with 5(1) have "invitation_view (tables_of w') t =
      Some (rowToInvitation (r\<lparr>ri_accepted_at := Some (e_dbnow E (n_now w))\<rparr>))"
    by (auto simp: invitation_repo_defs org_op_defs org_views db_now_def table_map_update
        rowToInvitation_def table_map_found split: org_op_splits)
  with r(2) show ?case by (auto simp: rowToInvitation_def)
qed (auto simp: keeps_def invitation_repo_defs org_op_defs org_views table_map_simps
       split: org_op_splits)

end
