(* ===== verification/Org_Services.thy ===== *)
theory Org_Services
  imports Org_Ports
begin

text \<open>
  The org service's use cases (\<^verbatim>\<open>services/org/application\<close>): a service is the record of its ports, an
  operation takes the service, the command and the world. Tracing spans are left out; every call
  through a port is kept, in its order, with the way its error is treated: wrapped and returned
  (\<open>check_err\<close>) or dropped (\<open>ignore_err\<close>).
\<close>

subsection \<open>Commands (application/ports/inbound.go)\<close>

record CreateOrgCommand =
  co_Name :: string
  co_Slug :: string
  co_OwnerUserID :: uuid

record InviteMemberCommand =
  im_OrgID :: uuid
  im_Email :: string
  im_Role :: MemberRole
  im_InviterID :: uuid

record AcceptInvitationCommand =
  ai_Token :: string
  ai_UserID :: uuid

record RemoveMemberCommand =
  rmc_OrgID :: uuid
  rmc_UserID :: uuid
  rmc_CallerID :: uuid

record CreateGroupCommand =
  cg_OrgID :: uuid
  cg_AppID :: uuid
  cg_Name :: string
  cg_Description :: string
  cg_Ephemeral :: bool
  cg_ExpiresAt :: "time option"
  cg_CreatedBy :: uuid

record AddGroupMemberCommand =
  ag_GroupID :: uuid
  ag_UserID :: uuid
  ag_AppID :: uuid

record RemoveGroupMemberCommand =
  rgc_GroupID :: uuid
  rgc_UserID :: uuid

record IssueSubscriptionTokenCommand =
  it_GroupID :: uuid
  it_UserID :: uuid

record CreateRoleCommand =
  cr_OrgID :: uuid
  cr_Name :: string
  cr_Permissions :: "string list option"

record DeleteRoleCommand =
  dr_OrgID :: uuid
  dr_RoleID :: uuid

subsection \<open>OrgService (org\_service.go)\<close>

record 'w OrgService =
  os_orgs :: "'w OrgRepository"
  os_members :: "'w MemberRepository"
  os_publisher :: "'w EventPublisher"

definition CreateOrg ::
    "env \<Rightarrow> 'x go_state_scheme OrgService \<Rightarrow> CreateOrgCommand \<Rightarrow> (Organization, 'x go_state_scheme) org_op" where
  "CreateOrg E s cmd =
     check_err ''OrgService.CreateOrg new org'' (NewOrganization E (co_Name cmd) (co_Slug cmd) (co_OwnerUserID cmd)) (\<lambda>org.
     check_err ''OrgService.CreateOrg persist'' (or_Create (os_orgs s) org) (\<lambda>_.
     check_err ''OrgService.CreateOrg add owner''
       (mr_Add (os_members s) \<lparr>m_OrgID = o_ID org, m_UserID = co_OwnerUserID cmd, m_Role = RoleOwner,
          m_InvitedBy = None, m_JoinedAt = o_CreatedAt org\<rparr>) (\<lambda>_ w.
     let (evts, org') = org_PopEvents org
     in (Inr org', ignore_err (ep_Publish (os_publisher s) evts) w))))"

definition GetOrg :: "'w OrgService \<Rightarrow> uuid \<Rightarrow> (Organization, 'w) org_op" where
  "GetOrg s ident = check_err ''OrgService.GetOrg'' (or_FindByID (os_orgs s) ident) (\<lambda>org w. (Inr org, w))"

subsection \<open>MemberService (member\_service.go)\<close>

record 'w MemberService =
  ms_members :: "'w MemberRepository"
  ms_invitations :: "'w InvitationRepository"
  ms_publisher :: "'w EventPublisher"

text \<open>32 random bytes, in hexadecimal.\<close>

definition generateToken :: "env \<Rightarrow> (string, 'x go_state_scheme) org_op" where
  "generateToken E w =
     (let w1 = w\<lparr>n_rand := Suc (n_rand w)\<rparr>
      in case e_rand E (n_rand w) of
           None \<Rightarrow> (Inl (ExtError ''crypto/rand''), w1)
         | Some b \<Rightarrow> (Inr (hex_EncodeToString b), w1))"

definition invitation_ttl :: time where
  "invitation_ttl = 7 * 24 * Hour"

definition InviteMember ::
    "env \<Rightarrow> 'x go_state_scheme MemberService \<Rightarrow> InviteMemberCommand \<Rightarrow> (Invitation, 'x go_state_scheme) org_op" where
  "InviteMember E s cmd =
     (if im_Email cmd = [] then (\<lambda>w. (Inl (InvalidInput ''email must not be empty''), w))
      else if \<not> ValidRole (im_Role cmd) then (\<lambda>w. (Inl (InvalidInput ''invalid role''), w))
      else check_err ''MemberService.InviteMember generate token'' (generateToken E) (\<lambda>token w.
        let (now, w1) = time_Now E w;
            (newid, w2) = uuid_New E w1;
            inv = \<lparr>i_ID = newid, i_OrgID = im_OrgID cmd, i_Email = im_Email cmd,
                   i_Role = im_Role cmd, i_Token = token, i_ExpiresAt = now + invitation_ttl,
                   i_AcceptedAt = None, i_CreatedAt = now\<rparr>
        in check_err ''MemberService.InviteMember persist'' (ir_Create (ms_invitations s) inv) (\<lambda>_ w3.
             (Inr inv, ignore_err (ep_Publish (ms_publisher s)
               [MemberInvitedEvent (im_OrgID cmd) (im_Email cmd) (im_Role cmd) now]) w3)) w2))"

definition AcceptInvitation ::
    "env \<Rightarrow> 'x go_state_scheme MemberService \<Rightarrow> AcceptInvitationCommand \<Rightarrow> (OrgMember, 'x go_state_scheme) org_op" where
  "AcceptInvitation E s cmd =
     check_err ''MemberService.AcceptInvitation find'' (ir_FindByToken (ms_invitations s) (ai_Token cmd)) (\<lambda>inv w.
       if IsAccepted inv then (Inl (Sentinel ErrAlreadyExists), w)
       else let (expired, w1) = IsExpired E inv w in
       if expired then (Inl (Sentinel ErrInviteExpired), w1)
       else let (now, w2) = time_Now E w1;
                member = \<lparr>m_OrgID = i_OrgID inv, m_UserID = ai_UserID cmd, m_Role = i_Role inv,
                          m_InvitedBy = None, m_JoinedAt = now\<rparr>
       in check_err ''MemberService.AcceptInvitation add member'' (mr_Add (ms_members s) member) (\<lambda>_.
          check_err ''MemberService.AcceptInvitation mark accepted''
            (ir_MarkAccepted (ms_invitations s) (i_ID inv)) (\<lambda>_ w3.
          (Inr member, ignore_err (ep_Publish (ms_publisher s)
             [MemberJoinedEvent (i_OrgID inv) (ai_UserID cmd) (i_Role inv) now]) w3))) w2)"

definition RemoveMember :: "'w MemberService \<Rightarrow> RemoveMemberCommand \<Rightarrow> (unit, 'w) org_op" where
  "RemoveMember s cmd =
     check_err ''MemberService.RemoveMember'' (mr_Remove (ms_members s) (rmc_OrgID cmd) (rmc_UserID cmd))
       (\<lambda>_ w. (Inr (), w))"

definition ListMembers :: "'w MemberService \<Rightarrow> uuid \<Rightarrow> (OrgMember list, 'w) org_op" where
  "ListMembers s orgID =
     check_err ''MemberService.ListMembers'' (mr_ListByOrg (ms_members s) orgID) (\<lambda>ms w. (Inr ms, w))"

subsection \<open>GroupService (group\_service.go)\<close>

text \<open>The token issuer is an interface value that is nil when no secret is configured; calling a
  method of a nil interface panics.\<close>

type_synonym TokenIssuer = "uuid \<Rightarrow> uuid \<Rightarrow> time \<Rightarrow> org_error + string"

record 'w GroupService =
  gs_groups :: "'w GroupRepository"
  gs_publisher :: "'w EventPublisher"
  gs_authz :: "'w AuthzPort"
  gs_tokens :: "TokenIssuer option"

definition group_object :: "env \<Rightarrow> uuid \<Rightarrow> string" where
  "group_object E i = ''Group:'' @ e_uuid_str E i"

definition CreateGroup ::
    "env \<Rightarrow> 'x go_state_scheme GroupService \<Rightarrow> CreateGroupCommand \<Rightarrow> (Group, 'x go_state_scheme) org_op" where
  "CreateGroup E s cmd =
     check_err ''GroupService.CreateGroup new group''
       (NewGroup E (cg_OrgID cmd) (cg_AppID cmd) (cg_CreatedBy cmd) (cg_Name cmd) (cg_Description cmd)
          (cg_Ephemeral cmd) (cg_ExpiresAt cmd)) (\<lambda>group.
     check_err ''GroupService.CreateGroup persist'' (gr_Create (gs_groups s) group) (\<lambda>_ w.
     let w1 = (if \<not> g_Ephemeral group
               then ignore_err (az_WriteRelation (gs_authz s) (e_uuid_str E (cg_CreatedBy cmd)) ''admin''
                                 (group_object E (g_ID group))) w
               else w);
         (now, w2) = time_Now E w1
     in (Inr group, ignore_err (ep_Publish (gs_publisher s)
          [GroupCreatedEvent (g_ID group) (g_OrgID group) (g_AppID group) (g_CreatedBy group)
             (g_Ephemeral group) (g_ExpiresAt group) now]) w2)))"

definition AddGroupMember ::
    "env \<Rightarrow> 'x go_state_scheme GroupService \<Rightarrow> AddGroupMemberCommand \<Rightarrow> (unit, 'x go_state_scheme) org_op" where
  "AddGroupMember E s cmd =
     check_err ''GroupService.AddGroupMember find group'' (gr_FindByID (gs_groups s) (ag_GroupID cmd)) (\<lambda>group.
     check_err ''GroupService.AddGroupMember''
       (gr_AddMember (gs_groups s) (ag_GroupID cmd) (ag_UserID cmd) (ag_AppID cmd)) (\<lambda>_ w.
     let w1 = (if \<not> g_Ephemeral group
               then ignore_err (az_WriteRelation (gs_authz s) (e_uuid_str E (ag_UserID cmd)) ''member''
                                 (group_object E (ag_GroupID cmd))) w
               else w);
         (now, w2) = time_Now E w1
     in (Inr (), ignore_err (ep_Publish (gs_publisher s)
          [MemberAddedToGroupEvent (ag_GroupID cmd) (g_OrgID group) (ag_AppID cmd) (ag_UserID cmd) now]) w2)))"

definition RemoveGroupMember ::
    "env \<Rightarrow> 'x go_state_scheme GroupService \<Rightarrow> RemoveGroupMemberCommand \<Rightarrow> (unit, 'x go_state_scheme) org_op" where
  "RemoveGroupMember E s cmd =
     check_err ''GroupService.RemoveGroupMember find group'' (gr_FindByID (gs_groups s) (rgc_GroupID cmd)) (\<lambda>group.
     check_err ''GroupService.RemoveGroupMember''
       (gr_RemoveMember (gs_groups s) (rgc_GroupID cmd) (rgc_UserID cmd)) (\<lambda>_ w.
     let w1 = (if \<not> g_Ephemeral group
               then ignore_err (az_DeleteRelation (gs_authz s) (e_uuid_str E (rgc_UserID cmd)) ''member''
                                 (group_object E (rgc_GroupID cmd))) w
               else w);
         (now, w2) = time_Now E w1
     in (Inr (), ignore_err (ep_Publish (gs_publisher s)
          [MemberRemovedFromGroupEvent (rgc_GroupID cmd) (g_OrgID group) (g_AppID group)
             (rgc_UserID cmd) now]) w2)))"

definition ListGroups :: "'w GroupService \<Rightarrow> uuid \<Rightarrow> (Group list, 'w) org_op" where
  "ListGroups s orgID =
     check_err ''GroupService.ListGroups'' (gr_ListByOrg (gs_groups s) orgID) (\<lambda>gs w. (Inr gs, w))"

definition ListGroupMembers :: "'w GroupService \<Rightarrow> uuid \<Rightarrow> (GroupMember list, 'w) org_op" where
  "ListGroupMembers s groupID =
     check_err ''GroupService.ListGroupMembers'' (gr_ListMembers (gs_groups s) groupID) (\<lambda>ms w. (Inr ms, w))"

definition IssueSubscriptionToken ::
    "env \<Rightarrow> 'x go_state_scheme GroupService \<Rightarrow> IssueSubscriptionTokenCommand \<Rightarrow> (string, 'x go_state_scheme) org_op" where
  "IssueSubscriptionToken E s cmd =
     check_err ''GroupService.IssueSubscriptionToken find group'' (gr_FindByID (gs_groups s) (it_GroupID cmd)) (\<lambda>group w.
     if \<not> g_Ephemeral group
       then (Inl (InvalidInput ''subscription tokens are only for ephemeral groups''), w)
     else case g_ExpiresAt group of
       None \<Rightarrow> (Inl (Sentinel ErrGroupNotFound), w)
     | Some expires \<Rightarrow>
         let (now, w1) = time_Now E w in
         if expires < now then (Inl (Sentinel ErrGroupNotFound), w1)
         else check_err ''GroupService.IssueSubscriptionToken list members''
           (gr_ListMembers (gs_groups s) (it_GroupID cmd)) (\<lambda>members w2.
             if \<not> list_ex (\<lambda>m. gm_UserID m = it_UserID cmd) members
               then (Inl (Sentinel ErrNotAuthorized), w2)
             else case gs_tokens s of
               None \<Rightarrow> (Inl (Panicked ''invalid memory address or nil pointer dereference''), w2)
             | Some issue \<Rightarrow>
                 (case issue (it_UserID cmd) (it_GroupID cmd) expires of
                    Inl e \<Rightarrow> (Inl (Wrapped ''GroupService.IssueSubscriptionToken sign'' e), w2)
                  | Inr token \<Rightarrow> (Inr token, w2))) w1)"

subsection \<open>RoleService (role\_service.go)\<close>

record 'w RoleService =
  rs_roles :: "'w RoleRepository"

definition CreateRole ::
    "env \<Rightarrow> 'x go_state_scheme RoleService \<Rightarrow> CreateRoleCommand \<Rightarrow> (Role, 'x go_state_scheme) org_op" where
  "CreateRole E s cmd =
     check_err ''RoleService.CreateRole new role'' (NewRole E (cr_OrgID cmd) (cr_Name cmd) (cr_Permissions cmd)) (\<lambda>role.
     check_err ''RoleService.CreateRole persist'' (rr_Create (rs_roles s) role) (\<lambda>_ w. (Inr role, w)))"

definition DeleteRole :: "'w RoleService \<Rightarrow> DeleteRoleCommand \<Rightarrow> (unit, 'w) org_op" where
  "DeleteRole s cmd =
     check_err ''RoleService.DeleteRole'' (rr_Delete (rs_roles s) (dr_RoleID cmd)) (\<lambda>_ w. (Inr (), w))"

definition ListRoles :: "'w RoleService \<Rightarrow> uuid \<Rightarrow> (Role list, 'w) org_op" where
  "ListRoles s orgID =
     check_err ''RoleService.ListRoles'' (rr_ListByOrg (rs_roles s) orgID) (\<lambda>rs w. (Inr rs, w))"

subsection \<open>The expiry sweeper (group\_expiry\_sweeper.go)\<close>

record 'w GroupExpirySweeper =
  sw_groups :: "'w GroupRepository"
  sw_publisher :: "'w EventPublisher"
  sw_authz :: "'w AuthzPort"

text \<open>The loop that drops the member relations of a group.\<close>

fun sweep_relations :: "env \<Rightarrow> 'w AuthzPort \<Rightarrow> uuid \<Rightarrow> GroupMember list \<Rightarrow> 'w \<Rightarrow> 'w" where
  "sweep_relations E az i [] w = w"
| "sweep_relations E az i (m # ms) w =
     sweep_relations E az i ms
       (ignore_err (az_DeleteRelation az (e_uuid_str E (gm_UserID m)) ''member'' (group_object E i)) w)"

text \<open>A failed listing leaves the members nil and goes on; a failed deletion ends without an event.\<close>

definition sweep_deleteGroup ::
    "env \<Rightarrow> 'x go_state_scheme GroupExpirySweeper \<Rightarrow> Group \<Rightarrow> 'x go_state_scheme \<Rightarrow> 'x go_state_scheme" where
  "sweep_deleteGroup E s g w =
     (let (res, w1) = gr_ListMembers (sw_groups s) (g_ID g) w;
          members = (case res of Inl _ \<Rightarrow> [] | Inr ms \<Rightarrow> ms);
          w2 = sweep_relations E (sw_authz s) (g_ID g) members w1;
          w3 = ignore_err (az_DeleteRelation (sw_authz s) (e_uuid_str E (g_CreatedBy g)) ''admin''
                 (group_object E (g_ID g))) w2
      in case gr_Delete (sw_groups s) (g_ID g) w3 of
           (Inl e, w4) \<Rightarrow> w4
         | (Inr _, w4) \<Rightarrow>
             let (now, w5) = time_Now E w4
             in ignore_err (ep_Publish (sw_publisher s)
                  [GroupDeletedEvent (g_ID g) (g_OrgID g) (g_AppID g) now]) w5)"

fun sweep_loop ::
    "env \<Rightarrow> 'x go_state_scheme GroupExpirySweeper \<Rightarrow> Group list \<Rightarrow> 'x go_state_scheme \<Rightarrow> 'x go_state_scheme" where
  "sweep_loop E s [] w = w"
| "sweep_loop E s (g # gs) w = sweep_loop E s gs (sweep_deleteGroup E s g w)"

definition sweep :: "env \<Rightarrow> 'x go_state_scheme GroupExpirySweeper \<Rightarrow> 'x go_state_scheme \<Rightarrow> 'x go_state_scheme" where
  "sweep E s w =
     (let (now, w1) = time_Now E w
      in case gr_ListExpired (sw_groups s) now w1 of
           (Inl e, w2) \<Rightarrow> w2
         | (Inr expired, w2) \<Rightarrow> sweep_loop E s expired w2)"

text \<open>\<open>Run\<close>: one sweep for every tick until the context is done; the ticks that arrive before are
  the input.\<close>

fun sweeper_Run ::
    "env \<Rightarrow> 'x go_state_scheme GroupExpirySweeper \<Rightarrow> nat \<Rightarrow> 'x go_state_scheme \<Rightarrow> 'x go_state_scheme" where
  "sweeper_Run E s 0 w = w"
| "sweeper_Run E s (Suc ticks) w = sweeper_Run E s ticks (sweep E s w)"

end
