(* ===== verification/Go_Json.thy ===== *)
theory Go_Json
  imports Go_Prelude
begin

text \<open>
  What the services use of \<^verbatim>\<open>encoding/json\<close>: decoding a JSON object into a struct. A key is assigned
  to the field whose name it equals, or equals when case is ignored; a later key overrides an earlier
  one; \<open>null\<close> leaves the field as it is; a value of another type is an error. Unknown keys are
  ignored, and a field without a key keeps its zero value. The fields of a struct differ even when
  case is ignored, so the keys of one field can be read off on their own.
\<close>

definition ascii_lower :: "char \<Rightarrow> char" where
  "ascii_lower c = (let n = (of_char c :: nat) in if 65 \<le> n \<and> n \<le> 90 then char_of (n + 32) else c)"

definition fold_name :: "string \<Rightarrow> string" where
  "fold_name s = map ascii_lower s"

definition json_field :: "string \<Rightarrow> (string \<times> json) list \<Rightarrow> json list" where
  "json_field name obj = map snd (filter (\<lambda>kv. fold_name (fst kv) = fold_name name) obj)"

text \<open>\<open>None\<close> is the decoder's type error.\<close>

fun dec_values :: "(json \<Rightarrow> 'a option) \<Rightarrow> 'a \<Rightarrow> json list \<Rightarrow> 'a option" where
  "dec_values d acc [] = Some acc"
| "dec_values d acc (v # vs) =
     (if v = JNull then dec_values d acc vs
      else case d v of None \<Rightarrow> None | Some x \<Rightarrow> dec_values d x vs)"

fun json_string :: "json \<Rightarrow> string option" where
  "json_string (JStr s) = Some s" | "json_string _ = None"

fun json_bool :: "json \<Rightarrow> bool option" where
  "json_bool (JBool b) = Some b" | "json_bool _ = None"

fun json_int :: "json \<Rightarrow> int option" where
  "json_int (JNum n) = Some n" | "json_int _ = None"

fun json_strings :: "json list \<Rightarrow> string list option" where
  "json_strings [] = Some []"
| "json_strings (JStr s # vs) = map_option ((#) s) (json_strings vs)"
| "json_strings (JNull # vs) = map_option ((#) []) (json_strings vs)"
| "json_strings (_ # vs) = None"

fun json_string_list :: "json \<Rightarrow> string list option" where
  "json_string_list (JArr vs) = json_strings vs" | "json_string_list _ = None"

definition dec_string :: "string \<Rightarrow> (string \<times> json) list \<Rightarrow> string option" where
  "dec_string name obj = dec_values json_string [] (json_field name obj)"

definition dec_bool :: "string \<Rightarrow> (string \<times> json) list \<Rightarrow> bool option" where
  "dec_bool name obj = dec_values json_bool False (json_field name obj)"

definition dec_int :: "string \<Rightarrow> (string \<times> json) list \<Rightarrow> int option" where
  "dec_int name obj = dec_values json_int 0 (json_field name obj)"

text \<open>A pointer field: the zero value is nil, and \<open>null\<close> sets it to nil.\<close>

fun dec_pointer :: "(json \<Rightarrow> 'a option) \<Rightarrow> 'a option \<Rightarrow> json list \<Rightarrow> 'a option option" where
  "dec_pointer d acc [] = Some acc"
| "dec_pointer d acc (v # vs) =
     (if v = JNull then dec_pointer d None vs
      else case d v of None \<Rightarrow> None | Some x \<Rightarrow> dec_pointer d (Some x) vs)"

definition dec_opt_string :: "string \<Rightarrow> (string \<times> json) list \<Rightarrow> string option option" where
  "dec_opt_string name obj = dec_pointer json_string None (json_field name obj)"

text \<open>A slice field, nil when absent or \<open>null\<close>.\<close>

definition dec_string_list :: "string \<Rightarrow> (string \<times> json) list \<Rightarrow> string list option option" where
  "dec_string_list name obj = dec_pointer json_string_list None (json_field name obj)"

text \<open>A \<open>*time.Time\<close> field, parsed by the environment's layout.\<close>

definition dec_opt_time :: "env \<Rightarrow> string \<Rightarrow> (string \<times> json) list \<Rightarrow> time option option" where
  "dec_opt_time E name obj =
     dec_pointer (\<lambda>v. case v of JStr s \<Rightarrow> e_time_parse E s | _ \<Rightarrow> None) None (json_field name obj)"

text \<open>A raw field (\<open>json.RawMessage\<close>): the value of the last key, \<open>None\<close> when there is none.\<close>

definition dec_raw :: "string \<Rightarrow> (string \<times> json) list \<Rightarrow> json option" where
  "dec_raw name obj = (case rev (json_field name obj) of [] \<Rightarrow> None | v # _ \<Rightarrow> Some v)"

text \<open>Decoding a body into a struct: \<open>null\<close> leaves the zero struct, anything but an object is an
  error.\<close>

fun dec_struct :: "((string \<times> json) list \<Rightarrow> 'a option) \<Rightarrow> json \<Rightarrow> 'a option" where
  "dec_struct d (JObj obj) = d obj"
| "dec_struct d JNull = d []"
| "dec_struct d _ = None"

lemma json_field_Nil [simp]: "json_field name [] = []"
  by (simp add: json_field_def)

lemma json_field_absent:
  "list_all (\<lambda>kv. fold_name (fst kv) \<noteq> fold_name name) obj \<Longrightarrow> json_field name obj = []"
  by (induction obj) (auto simp: json_field_def)

lemma dec_absent:
  assumes "json_field name obj = []"
  shows "dec_string name obj = Some []" and "dec_bool name obj = Some False"
    and "dec_opt_string name obj = Some None" and "dec_raw name obj = None"
  using assms by (simp_all add: dec_string_def dec_bool_def dec_opt_string_def dec_raw_def)

subsection \<open>Numbers in messages\<close>

fun dec_digits :: "nat \<Rightarrow> string" where
  "dec_digits n = (if n < 10 then [char_of (48 + n)] else dec_digits (n div 10) @ [char_of (48 + n mod 10)])"

declare dec_digits.simps [simp del]

definition int_str :: "int \<Rightarrow> string" where
  "int_str i = (if i < 0 then ''-'' @ dec_digits (nat (- i)) else dec_digits (nat i))"

end
