(* ===== verification/Httpmw.thy ===== *)
theory Httpmw
  imports Go_Json
begin

text \<open>
  The HTTP side every service shares (\<^verbatim>\<open>internal/platform/httpmw\<close>): requests and replies, the claims of an
  authenticated caller, the request log, and the bearer-token middleware with its process-wide cache
  of introspection results. The middleware runs a handler on a pair of the cache and the world. Hydra,
  which introspects the tokens, is not part of the repository: its answers are the environment's.
\<close>

subsection \<open>Requests and replies\<close>

record Claims =
  c_Subject :: string
  c_AppID :: string
  c_Scopes :: "string list"

text \<open>A header or a route parameter that is absent reads as the empty string; a body that is not JSON
  is \<open>None\<close>.\<close>

record request =
  rq_claims :: "Claims option"
  rq_header :: "string \<Rightarrow> string"
  rq_param :: "string \<Rightarrow> string"
  rq_query :: "string \<Rightarrow> string"
  rq_body :: "json option"

datatype reply_body =
    NoContent
  | JsonReply json
  | ProblemReply (pb_type: string) (pb_title: string) (pb_status: int) (pb_detail: string)

record reply =
  rp_status :: int
  rp_body :: reply_body

type_synonym 'w handler = "request \<Rightarrow> 'w \<Rightarrow> reply \<times> 'w"

definition StatusText :: "int \<Rightarrow> string" where
  "StatusText c =
     (if c = 400 then ''Bad Request'' else if c = 401 then ''Unauthorized''
      else if c = 403 then ''Forbidden'' else if c = 404 then ''Not Found''
      else if c = 409 then ''Conflict'' else if c = 410 then ''Gone''
      else if c = 422 then ''Unprocessable Entity'' else if c = 500 then ''Internal Server Error''
      else if c = 503 then ''Service Unavailable'' else [])"

definition ClaimsFromContext :: "request \<Rightarrow> Claims option" where
  "ClaimsFromContext r = rq_claims r"

definition WithClaims :: "Claims \<Rightarrow> request \<Rightarrow> request" where
  "WithClaims c r = r\<lparr>rq_claims := Some c\<rparr>"

definition mw_writeProblem :: "int \<Rightarrow> string \<Rightarrow> reply" where
  "mw_writeProblem status detail =
     \<lparr>rp_status = status,
      rp_body = ProblemReply ''urn:mobpilot:auth:unauthorized'' (StatusText status) status detail\<rparr>"

subsection \<open>The introspection cache\<close>

record cacheEntry =
  ce_claims :: Claims
  ce_expiresAt :: time

type_synonym introspectCache = "string \<Rightarrow> cacheEntry option"

definition cache_get ::
    "env \<Rightarrow> string \<Rightarrow> introspectCache \<times> 'x go_state_scheme \<Rightarrow>
     Claims option \<times> introspectCache \<times> 'x go_state_scheme" where
  "cache_get E token cw =
     (case cw of (c, w) \<Rightarrow>
        case c token of
          None \<Rightarrow> (None, c(token := None), w)
        | Some e \<Rightarrow>
            (let (now, w1) = time_Now E w
             in if now > ce_expiresAt e then (None, c(token := None), w1)
                else (Some (ce_claims e), c, w1)))"

definition cache_set ::
    "env \<Rightarrow> string \<Rightarrow> Claims \<Rightarrow> time \<Rightarrow> introspectCache \<times> 'x go_state_scheme \<Rightarrow>
     introspectCache \<times> 'x go_state_scheme" where
  "cache_set E token claims ttl cw =
     (case cw of (c, w) \<Rightarrow>
        let (now, w1) = time_Now E w
        in (c(token \<mapsto> \<lparr>ce_claims = claims, ce_expiresAt = now + ttl\<rparr>), w1))"

subsection \<open>Introspection\<close>

definition extractBearer :: "request \<Rightarrow> string" where
  "extractBearer r =
     (let auth = rq_header r ''Authorization''
      in if \<not> HasPrefix auth ''Bearer '' then [] else TrimPrefix auth ''Bearer '')"

definition is_space :: "char \<Rightarrow> bool" where
  "is_space c = (c \<in> {CHR '' '', CHR 0x09, CHR 0x0A, CHR 0x0B, CHR 0x0C, CHR 0x0D})"

fun Fields_aux :: "string \<Rightarrow> string \<Rightarrow> string list" where
  "Fields_aux cur [] = (if cur = [] then [] else [cur])"
| "Fields_aux cur (c # cs) =
     (if is_space c then (if cur = [] then Fields_aux [] cs else cur # Fields_aux [] cs)
      else Fields_aux (cur @ [c]) cs)"

definition Fields :: "string \<Rightarrow> string list" where
  "Fields s = Fields_aux [] s"

record introspectResponse =
  ir_Active :: bool
  ir_Subject :: string
  ir_Scope :: string
  ir_ExtAppID :: string

text \<open>The nested \<open>ext\<close> struct: the objects given for it, one after the other.\<close>

fun json_objects :: "json list \<Rightarrow> (string \<times> json) list option" where
  "json_objects [] = Some []"
| "json_objects (JObj o' # vs) = map_option ((@) o') (json_objects vs)"
| "json_objects (JNull # vs) = json_objects vs"
| "json_objects (_ # vs) = None"

definition dec_introspect :: "(string \<times> json) list \<Rightarrow> introspectResponse option" where
  "dec_introspect obj =
     Option.bind (dec_bool ''active'' obj) (\<lambda>active.
     Option.bind (dec_string ''sub'' obj) (\<lambda>sub.
     Option.bind (dec_string ''scope'' obj) (\<lambda>scope.
     Option.bind (json_objects (json_field ''ext'' obj)) (\<lambda>ext.
     Option.bind (dec_string ''mobpilot_app_id'' ext) (\<lambda>app.
     Some \<lparr>ir_Active = active, ir_Subject = sub, ir_Scope = scope, ir_ExtAppID = app\<rparr>)))))"

definition introspect_request :: "string \<Rightarrow> string \<Rightarrow> http_request" where
  "introspect_request url token =
     \<lparr>hr_method = ''POST'', hr_url = url, hr_query = [],
      hr_header = [(''Content-Type'', ''application/x-www-form-urlencoded'')],
      hr_body = FormBody (''token='' @ token)\<rparr>"

text \<open>What the middleware makes of the server's answer.\<close>

definition introspect_answer :: "string + http_response \<Rightarrow> unit go_error + Claims" where
  "introspect_answer ans =
     (case ans of
        Inl msg \<Rightarrow> Inl (Wrapped ''introspect request'' (ExtError msg))
      | Inr resp \<Rightarrow>
          (case Option.bind (hs_body resp) (dec_struct dec_introspect) of
             None \<Rightarrow> Inl (Wrapped ''introspect decode'' (ExtError ''json''))
           | Some ir \<Rightarrow>
               if \<not> ir_Active ir then Inl (ExtError ''token inactive'')
               else Inr \<lparr>c_Subject = ir_Subject ir, c_AppID = ir_ExtAppID ir,
                         c_Scopes = Fields (ir_Scope ir)\<rparr>))"

definition introspect ::
    "env \<Rightarrow> string \<Rightarrow> string \<Rightarrow> 'x go_state_scheme \<Rightarrow> (unit go_error + Claims) \<times> 'x go_state_scheme" where
  "introspect E url token w =
     (introspect_answer (e_http E (http_log w) (introspect_request url token)),
      w\<lparr>http_log := http_log w @ [introspect_request url token]\<rparr>)"

subsection \<open>BearerAuth\<close>

definition cache_ttl :: time where
  "cache_ttl = 30 * Second"

definition introspect_url :: "string \<Rightarrow> string" where
  "introspect_url hydraAdminURL =
     rev (dropWhile (\<lambda>c. c = CHR ''/'') (rev hydraAdminURL)) @ ''/admin/oauth2/introspect''"

definition BearerAuth ::
    "env \<Rightarrow> string \<Rightarrow> 'x go_state_scheme handler \<Rightarrow> (introspectCache \<times> 'x go_state_scheme) handler" where
  "BearerAuth E hydraAdminURL next r cw =
     (let token = extractBearer r in
      if token = [] then (mw_writeProblem 401 ''missing or invalid Authorization header'', cw)
      else case cache_get E token cw of
        (Some claims, c1, w1) \<Rightarrow>
          (let (rep, w2) = next (WithClaims claims r) w1 in (rep, c1, w2))
      | (None, c1, w1) \<Rightarrow>
          (case introspect E (introspect_url hydraAdminURL) token w1 of
             (Inl e, w2) \<Rightarrow> (mw_writeProblem 401 ''token validation failed'', c1, w2)
           | (Inr claims, w2) \<Rightarrow>
               (let (c3, w3) = cache_set E token claims cache_ttl (c1, w2);
                    (rep, w4) = next (WithClaims claims r) w3
                in (rep, c3, w4))))"

subsection \<open>Whose claims a handler sees\<close>

text \<open>
  What happens around the middleware of one process: requests for any handler, and whatever the rest of
  the process does to the world in between.
\<close>

datatype 'w mw_event = Serve "'w handler" request | Meanwhile "'w \<Rightarrow> 'w"

fun mw_run ::
    "env \<Rightarrow> string \<Rightarrow> 'x go_state_scheme mw_event list \<Rightarrow> introspectCache \<times> 'x go_state_scheme \<Rightarrow>
     introspectCache \<times> 'x go_state_scheme" where
  "mw_run E url [] cw = cw"
| "mw_run E url (Serve nxt r # es) cw = mw_run E url es (snd (BearerAuth E url nxt r cw))"
| "mw_run E url (Meanwhile f # es) cw = mw_run E url es (fst cw, f (snd cw))"

text \<open>
  \<open>introspected E url es cw token claims t\<close>: among the events is a request with that very token that the
  cache could not answer; Hydra was asked about the token and gave the claims, and the clock then read
  \<open>t\<close>.
\<close>

definition introspected ::
    "env \<Rightarrow> string \<Rightarrow> 'x go_state_scheme mw_event list \<Rightarrow> introspectCache \<times> 'x go_state_scheme \<Rightarrow>
     string \<Rightarrow> Claims \<Rightarrow> time \<Rightarrow> bool" where
  "introspected E url es cw token claims t \<longleftrightarrow>
     (\<exists>es1 nxt r es2 c1 w1 w2. es = es1 @ Serve nxt r # es2 \<and> extractBearer r = token \<and> token \<noteq> [] \<and>
        cache_get E token (mw_run E url es1 cw) = (None, c1, w1) \<and>
        introspect E (introspect_url url) token w1 = (Inr claims, w2) \<and> t = e_now E (n_now w2))"

lemma cache_get_cases:
  assumes "cache_get E token (c, w) = (res, c1, w1)"
  shows "http_log w1 = http_log w" and "n_now w \<le> n_now w1" and "c1 = c \<or> c1 = c(token := None)"
    and "res = Some claims \<Longrightarrow>
      \<exists>e. c token = Some e \<and> ce_claims e = claims \<and> e_now E (n_now w) \<le> ce_expiresAt e"
  using assms by (auto simp: cache_get_def time_Now_def split: option.splits if_splits)

lemma cache_set_world:
  "cache_set E token claims ttl (c, w) = (c', w') \<Longrightarrow> w' = w\<lparr>n_now := Suc (n_now w)\<rparr>"
  by (auto simp: cache_set_def time_Now_def)

text \<open>The three ways a request goes through the middleware.\<close>

lemma BearerAuth_cases:
  assumes "BearerAuth E url nxt r cw = (rep, cw')"
  obtains (no_token) "extractBearer r = []" "rp_status rep = 401" "cw' = cw"
  | (rejected) c1 w1 e w2 where "extractBearer r \<noteq> []"
      "cache_get E (extractBearer r) cw = (None, c1, w1)"
      "introspect E (introspect_url url) (extractBearer r) w1 = (Inl e, w2)"
      "rp_status rep = 401" "cw' = (c1, w2)"
  | (cached) claims c1 w1 w2 where "extractBearer r \<noteq> []"
      "cache_get E (extractBearer r) cw = (Some claims, c1, w1)"
      "nxt (WithClaims claims r) w1 = (rep, w2)" "cw' = (c1, w2)"
  | (fresh) c1 w1 claims w2 c3 w3 w4 where "extractBearer r \<noteq> []"
      "cache_get E (extractBearer r) cw = (None, c1, w1)"
      "introspect E (introspect_url url) (extractBearer r) w1 = (Inr claims, w2)"
      "cache_set E (extractBearer r) claims cache_ttl (c1, w2) = (c3, w3)"
      "nxt (WithClaims claims r) w3 = (rep, w4)" "cw' = (c3, w4)"
  using assms
  by (auto simp: BearerAuth_def Let_def mw_writeProblem_def split: if_splits prod.splits option.splits sum.splits)

lemma mw_run_append [simp]: "mw_run E url (es @ fs) cw = mw_run E url fs (mw_run E url es cw)"
  by (induction E url es cw rule: mw_run.induct) simp_all

lemma introspected_later: "introspected E url es cw token claims t \<Longrightarrow> introspected E url (es @ fs) cw token claims t"
  unfolding introspected_def by (metis append.assoc append_Cons)

lemma introspected_now:
  assumes "extractBearer r \<noteq> []" and "cache_get E (extractBearer r) (mw_run E url es cw) = (None, c1, w1)"
    and "introspect E (introspect_url url) (extractBearer r) w1 = (Inr claims, w2)"
  shows "introspected E url (es @ [Serve nxt r]) cw (extractBearer r) claims (e_now E (n_now w2))"
  using assms unfolding introspected_def by blast

lemma cache_get_subset:
  "cache_get E token (c, w) = (res, c1, w1) \<Longrightarrow> c1 t = Some e \<Longrightarrow> c t = Some e"
  by (auto simp: cache_get_def Let_def split: option.splits if_splits prod.splits)

text \<open>Every entry of the cache was put there by such a request.\<close>

lemma cache_entries_introspected:
  assumes "fst (mw_run E url es (Map.empty, w)) token = Some e"
  shows "\<exists>t. introspected E url es (Map.empty, w) token (ce_claims e) t \<and> ce_expiresAt e = t + cache_ttl"
  using assms
proof (induction es arbitrary: token e rule: rev_induct)
  case (snoc ev es)
  let ?cw = "mw_run E url es (Map.empty, w)"
  have old: ?case if "fst ?cw token = Some e"
    using snoc.IH [OF that] introspected_later by blast
  show ?case
  proof (cases ev)
    case (Meanwhile f)
    with snoc.prems old show ?thesis by simp
  next
    case (Serve nxt r)
    obtain rep cw' where run: "BearerAuth E url nxt r ?cw = (rep, cw')" by (metis surj_pair)
    with snoc.prems Serve have e: "fst cw' token = Some e" by simp
    obtain c w0 where cw: "?cw = (c, w0)" by (metis surj_pair)
    from run show ?thesis
    proof (cases rule: BearerAuth_cases)
      case no_token
      with e old show ?thesis by simp
    next
      case (rejected c1 w1 er w2)
      with e old cw show ?thesis by (auto dest: cache_get_subset)
    next
      case (cached claims c1 w1 w2)
      with e old cw show ?thesis by (auto dest: cache_get_subset)
    next
      case (fresh c1 w1 claims w2 c3 w3 w4)
      have c3: "c3 = c1(extractBearer r \<mapsto> \<lparr>ce_claims = claims, ce_expiresAt = e_now E (n_now w2) + cache_ttl\<rparr>)"
        using fresh(4) by (auto simp: cache_set_def time_Now_def)
      show ?thesis
      proof (cases "token = extractBearer r")
        case True
        with e fresh(6) c3 introspected_now [OF fresh(1,2,3), of nxt] Serve show ?thesis by auto
      next
        case False
        with e fresh(6) c3 cache_get_subset [OF fresh(2) [unfolded cw]] old cw show ?thesis by simp
      qed
    qed
  qed
qed simp

text \<open>Who gets through: the claims are Hydra's for the token, given now or at most thirty seconds ago.\<close>

lemma BearerAuth_gate:
  assumes hist: "mw_run E url es (Map.empty, w0) = (c, w)"
    and run: "BearerAuth E url nxt r (c, w) = (rep, c', w')"
  shows "rp_status rep = 401 \<and> tables_of w' = tables_of w \<and> js_log w' = js_log w \<or>
     (\<exists>claims w1. extractBearer r \<noteq> [] \<and> nxt (WithClaims claims r) w1 = (rep, w') \<and> tables_of w1 = tables_of w \<and>
        ((\<exists>t. introspected E url es (Map.empty, w0) (extractBearer r) claims t \<and>
              e_now E (n_now w) \<le> t + 30 * Second \<and> http_log w1 = http_log w) \<or>
         introspect_answer (e_http E (http_log w) (introspect_request (introspect_url url) (extractBearer r))) = Inr claims \<and>
           http_log w1 = http_log w @ [introspect_request (introspect_url url) (extractBearer r)]))"
  using run
proof (cases rule: BearerAuth_cases)
  case no_token
  then show ?thesis by simp
next
  case (rejected c1 w1 e w2)
  have "tables_of w2 = tables_of w1" "js_log w2 = js_log w1"
    using rejected(3) by (auto simp: introspect_def)
  moreover have "tables_of w1 = tables_of w" "js_log w1 = js_log w"
    using rejected(2) by (auto simp: cache_get_def time_Now_def split: option.splits if_splits)
  ultimately show ?thesis using rejected by simp
next
  case (cached claims c1 w1 w2)
  have "tables_of w1 = tables_of w"
    using cached(2) by (auto simp: cache_get_def time_Now_def split: option.splits if_splits)
  moreover have "http_log w1 = http_log w" by (rule cache_get_cases(1) [OF cached(2)])
  moreover obtain e where "c (extractBearer r) = Some e" "ce_claims e = claims" "e_now E (n_now w) \<le> ce_expiresAt e"
    using cache_get_cases(4) [OF cached(2)] by auto
  moreover from this(1) hist
  obtain t where "introspected E url es (Map.empty, w0) (extractBearer r) (ce_claims e) t" "ce_expiresAt e = t + cache_ttl"
    using cache_entries_introspected [of E url es w0 "extractBearer r" e] by auto
  ultimately show ?thesis
    using cached unfolding cache_ttl_def by fastforce
next
  case (fresh c1 w1 claims w2 c3 w3 w4)
  have "w2 = w1\<lparr>http_log := http_log w1 @ [introspect_request (introspect_url url) (extractBearer r)]\<rparr>"
    "introspect_answer (e_http E (http_log w1) (introspect_request (introspect_url url) (extractBearer r))) = Inr claims"
    using fresh(3) by (auto simp: introspect_def)
  moreover have "tables_of w1 = tables_of w"
    using fresh(2) by (auto simp: cache_get_def time_Now_def split: option.splits if_splits)
  moreover have "http_log w1 = http_log w" by (rule cache_get_cases(1) [OF fresh(2)])
  moreover have "w3 = w2\<lparr>n_now := Suc (n_now w2)\<rparr>" using fresh(4) by (rule cache_set_world)
  ultimately show ?thesis using fresh by (intro disjI2 exI [of _ claims] exI [of _ w3]) simp
qed

definition ex_bearer :: "string \<Rightarrow> request" where
  "ex_bearer token = \<lparr>rq_claims = None,
     rq_header = (\<lambda>h. if h = ''Authorization'' then ''Bearer '' @ token else []),
     rq_param = (\<lambda>_. []), rq_query = (\<lambda>_. []), rq_body = None\<rparr>"

subsection \<open>The request log\<close>

record access_entry =
  ac_method :: string
  ac_path :: string
  ac_status :: int
  ac_bytes :: nat
  ac_duration :: time
  ac_remote_addr :: string

text \<open>
  The request's method, path and peer and the length of a printed reply are parameters. The middleware
  runs its handler on the log of the process, what the handler itself works on besides the world
  (\<open>'c\<close>, the cache behind a public server), and the world.
\<close>

definition Logger ::
    "env \<Rightarrow> (request \<Rightarrow> string \<times> string \<times> string) \<Rightarrow> (reply \<Rightarrow> nat) \<Rightarrow> ('c \<times> 'x go_state_scheme) handler \<Rightarrow>
     (access_entry list \<times> 'c \<times> 'x go_state_scheme) handler" where
  "Logger E about size_of next r lw =
     (case lw of (log, c, w) \<Rightarrow>
        let (start, w1) = time_Now E w;
            (rep, c1, w2) = next r (c, w1);
            (now, w3) = time_Now E w2;
            (method, path, peer) = about r
        in (rep, log @ [\<lparr>ac_method = method, ac_path = path, ac_status = rp_status rep, ac_bytes = size_of rep,
                          ac_duration = now - start, ac_remote_addr = peer\<rparr>], c1, w3))"

text \<open>It answers what its handler answers, started one clock reading later, and logs that status.\<close>

lemma Logger_run:
  assumes "Logger E about size_of nxt r (log, c, w) = (rep, log', c', w')"
  obtains w1 entry where "nxt r (c, w\<lparr>n_now := Suc (n_now w)\<rparr>) = (rep, c', w1)"
    "w' = w1\<lparr>n_now := Suc (n_now w1)\<rparr>" "log' = log @ [entry]" "ac_status entry = rp_status rep"
    "ac_duration entry = e_now E (n_now w1) - e_now E (n_now w)"
  using assms by (auto simp: Logger_def time_Now_def Let_def split: prod.splits)

subsection \<open>The idioms of the handlers\<close>

text \<open>
  Every handler opens with the same blocks; the first argument is the service's \<open>writeProblem\<close>.
  \<^item> \<open>require_claims\<close>: \<^verbatim>\<open>claims := ClaimsFromContext(ctx); if claims == nil { 401 }\<close>
  \<^item> \<open>parse_uuid\<close>: \<^verbatim>\<open>id, err := uuid.Parse(s); if err != nil { 400 }\<close>
  \<^item> \<open>decode_body\<close>: \<^verbatim>\<open>json.NewDecoder(r.Body).Decode(&req); if err != nil { 400 }\<close>
  \<^item> \<open>respond\<close>: the use case is called; its error goes to \<open>writeError\<close>, its result to the reply.
\<close>

definition require_claims :: "(int \<Rightarrow> string \<Rightarrow> reply) \<Rightarrow> (Claims \<Rightarrow> 'w handler) \<Rightarrow> 'w handler" where
  "require_claims problem k r w =
     (case ClaimsFromContext r of
        None \<Rightarrow> (problem 401 ''unauthenticated'', w)
      | Some claims \<Rightarrow> k claims r w)"

definition parse_uuid ::
    "env \<Rightarrow> (int \<Rightarrow> string \<Rightarrow> reply) \<Rightarrow> string \<Rightarrow> string \<Rightarrow> (uuid \<Rightarrow> 'w handler) \<Rightarrow> 'w handler" where
  "parse_uuid E problem name s k r w =
     (case e_uuid_parse E s of
        None \<Rightarrow> (problem 400 (''invalid '' @ name), w)
      | Some i \<Rightarrow> k i r w)"

definition uuid_param ::
    "env \<Rightarrow> (int \<Rightarrow> string \<Rightarrow> reply) \<Rightarrow> string \<Rightarrow> (uuid \<Rightarrow> 'w handler) \<Rightarrow> 'w handler" where
  "uuid_param E problem name k r w = parse_uuid E problem name (rq_param r name) k r w"

definition decode_body ::
    "(int \<Rightarrow> string \<Rightarrow> reply) \<Rightarrow> (json \<Rightarrow> 'a option) \<Rightarrow> ('a \<Rightarrow> 'w handler) \<Rightarrow> 'w handler" where
  "decode_body problem dec k r w =
     (case Option.bind (rq_body r) dec of
        None \<Rightarrow> (problem 400 ''invalid request body'', w)
      | Some x \<Rightarrow> k x r w)"

definition respond ::
    "('s go_error \<Rightarrow> reply) \<Rightarrow> ('a \<Rightarrow> reply) \<Rightarrow> ('s, 'a, 'w) go_op \<Rightarrow> 'w handler" where
  "respond writeError reply_of m r w =
     (case m w of
        (Inl e, w') \<Rightarrow> (writeError e, w')
      | (Inr x, w') \<Rightarrow> (reply_of x, w'))"

definition writeJSON :: "int \<Rightarrow> json \<Rightarrow> reply" where
  "writeJSON status v = \<lparr>rp_status = status, rp_body = JsonReply v\<rparr>"

definition write_status :: "int \<Rightarrow> reply" where
  "write_status status = \<lparr>rp_status = status, rp_body = NoContent\<rparr>"

text \<open>\<open>mustParseUUID\<close>: a subject that is no uuid becomes the nil uuid.\<close>

definition mustParseUUID :: "env \<Rightarrow> string \<Rightarrow> uuid" where
  "mustParseUUID E s = (case e_uuid_parse E s of None \<Rightarrow> uuid_Nil | Some i \<Rightarrow> i)"

text \<open>\<open>t.Format(time.RFC3339)\<close>: the layout of \<open>e_time_str\<close>, cut to whole seconds.\<close>

definition Format_RFC3339 :: "env \<Rightarrow> time \<Rightarrow> json" where
  "Format_RFC3339 E t = JStr (e_time_str E (t div Second * Second))"

definition omitempty_time :: "env \<Rightarrow> string \<Rightarrow> time option \<Rightarrow> (string \<times> json) list" where
  "omitempty_time E name t = (case t of None \<Rightarrow> [] | Some x \<Rightarrow> [(name, Format_RFC3339 E x)])"

definition items_json :: "('a \<Rightarrow> json) \<Rightarrow> 'a list \<Rightarrow> json" where
  "items_json f xs = JObj [(''items'', JArr (map f xs))]"

lemmas handler_defs =
  require_claims_def parse_uuid_def uuid_param_def decode_body_def respond_def ClaimsFromContext_def

lemma require_claims_None:
  "rq_claims r = None \<Longrightarrow> require_claims problem k r w = (problem 401 ''unauthenticated'', w)"
  by (simp add: handler_defs)

lemma snd_respond [simp]: "snd (respond we f m r w) = snd (m w)"
  by (auto simp: respond_def split: prod.splits sum.splits)

lemma preserves_respond: "preserves P m \<Longrightarrow> P w \<Longrightarrow> P (snd (respond we f m r w))"
  by (simp add: preserves_def)

text \<open>A handler that preserves a predicate on the world, whatever the request.\<close>

definition handler_preserves :: "('w \<Rightarrow> bool) \<Rightarrow> 'w handler \<Rightarrow> bool" where
  "handler_preserves P h \<longleftrightarrow> (\<forall>r w. P w \<longrightarrow> P (snd (h r w)))"

lemma handler_preservesD: "handler_preserves P h \<Longrightarrow> P w \<Longrightarrow> P (snd (h r w))"
  by (simp add: handler_preserves_def)

lemma handler_preserves_intros [intro!]:
  "(\<And>c. handler_preserves P (k c)) \<Longrightarrow> handler_preserves P (require_claims problem k)"
  "(\<And>i. handler_preserves P (k' i)) \<Longrightarrow> handler_preserves P (uuid_param E problem name k')"
  "(\<And>i. handler_preserves P (k' i)) \<Longrightarrow> handler_preserves P (parse_uuid E problem name s k')"
  "(\<And>x. handler_preserves P (k'' x)) \<Longrightarrow> handler_preserves P (decode_body problem dec k'')"
  "preserves P m \<Longrightarrow> handler_preserves P (respond we f m)"
  by (auto simp: handler_preserves_def require_claims_def uuid_param_def parse_uuid_def decode_body_def
      preservesD split: option.splits)

end
