(* ===== verification/Org_Events.thy ===== *)
theory Org_Events
  imports Org_Ports Org_Store Go_Json
begin

text \<open>
  How the org service's events leave it: the JetStream publisher
  (\<^verbatim>\<open>services/org/infrastructure/nats/publisher.go\<close>) and the outbox worker
  (\<^verbatim>\<open>services/org/infrastructure/postgres/outbox_worker.go\<close>). The event structs carry no JSON tags, so
  their keys are the Go field names; a map is encoded with its keys in order. Instants are printed by
  the environment's layout.
\<close>

subsection \<open>Events as JSON\<close>

definition json_uuid :: "env \<Rightarrow> uuid \<Rightarrow> json" where
  "json_uuid E i = JStr (e_uuid_str E i)"

definition json_time :: "env \<Rightarrow> time \<Rightarrow> json" where
  "json_time E t = JStr (e_time_str E t)"

definition json_opt_time :: "env \<Rightarrow> time option \<Rightarrow> json" where
  "json_opt_time E t = (case t of None \<Rightarrow> JNull | Some x \<Rightarrow> json_time E x)"

fun event_json :: "env \<Rightarrow> DomainEvent \<Rightarrow> json" where
  "event_json E (OrgCreatedEvent orgID owner slug t) =
     JObj [(''OrgID'', json_uuid E orgID), (''OwnerUserID'', json_uuid E owner), (''Slug'', JStr slug),
           (''OccurredAt_'', json_time E t)]"
| "event_json E (MemberInvitedEvent orgID email role t) =
     JObj [(''OrgID'', json_uuid E orgID), (''Email'', JStr email), (''Role'', JStr role),
           (''OccurredAt_'', json_time E t)]"
| "event_json E (MemberJoinedEvent orgID userID role t) =
     JObj [(''OrgID'', json_uuid E orgID), (''UserID'', json_uuid E userID), (''Role'', JStr role),
           (''OccurredAt_'', json_time E t)]"
| "event_json E (GroupCreatedEvent groupID orgID appID createdBy eph expires t) =
     JObj [(''GroupID'', json_uuid E groupID), (''OrgID'', json_uuid E orgID),
           (''AppID'', json_uuid E appID), (''CreatedBy'', json_uuid E createdBy),
           (''Ephemeral'', JBool eph), (''ExpiresAt'', json_opt_time E expires),
           (''OccurredAt_'', json_time E t)]"
| "event_json E (MemberAddedToGroupEvent groupID orgID appID userID t) =
     JObj [(''GroupID'', json_uuid E groupID), (''OrgID'', json_uuid E orgID),
           (''AppID'', json_uuid E appID), (''UserID'', json_uuid E userID),
           (''OccurredAt_'', json_time E t)]"
| "event_json E (MemberRemovedFromGroupEvent groupID orgID appID userID t) =
     JObj [(''GroupID'', json_uuid E groupID), (''OrgID'', json_uuid E orgID),
           (''AppID'', json_uuid E appID), (''UserID'', json_uuid E userID),
           (''OccurredAt_'', json_time E t)]"
| "event_json E (GroupDeletedEvent groupID orgID appID t) =
     JObj [(''GroupID'', json_uuid E groupID), (''OrgID'', json_uuid E orgID),
           (''AppID'', json_uuid E appID), (''OccurredAt_'', json_time E t)]"

definition event_payload :: "env \<Rightarrow> DomainEvent \<Rightarrow> json" where
  "event_payload E e =
     JObj [(''data'', event_json E e), (''event_type'', JStr (EventType e)),
           (''occurred_at'', json_time E (OccurredAt e))]"

definition event_subject :: "DomainEvent \<Rightarrow> string" where
  "event_subject e = ''mobpilot.events.'' @ EventType e"

subsection \<open>EventPublisher\<close>

fun Publish :: "env \<Rightarrow> DomainEvent list \<Rightarrow> (unit, 'x go_state_scheme) org_op" where
  "Publish E [] w = (Inr (), w)"
| "Publish E (e # es) w =
     check_err (''nats.EventPublisher publish '' @ event_subject e)
       (js_Publish E (event_subject e) (event_payload E e)) (\<lambda>_. Publish E es) w"

definition NewEventPublisher :: "env \<Rightarrow> 'x go_state_scheme EventPublisher" where
  "NewEventPublisher E = \<lparr>ep_Publish = Publish E\<rparr>"

lemma Publish_Nil: "Publish E [] = (\<lambda>w. (Inr (), w))"
  and Publish_Cons: "Publish E (e # es) =
     check_err (''nats.EventPublisher publish '' @ event_subject e)
       (js_Publish E (event_subject e) (event_payload E e)) (\<lambda>_. Publish E es)"
  by (rule ext, simp)+

declare Publish.simps [simp del]

lemma Publish_keeps_tables [intro!, simp]: "keeps tables_of (Publish E es)"
  by (induction es) (auto simp: Publish_Nil Publish_Cons keepsI)

lemma js_Publish_keeps_http [intro!]: "keeps http_log (js_Publish E s pl)"
  unfolding js_Publish_def by (rule keeps_net_call) (auto simp: keeps_def)

lemma Publish_keeps_http [intro!, simp]: "keeps http_log (Publish E es)"
  by (induction es) (auto simp: Publish_Nil Publish_Cons keepsI)

subsection \<open>The outbox worker\<close>

definition outbox_envelope :: "env \<Rightarrow> OutboxRow \<Rightarrow> json" where
  "outbox_envelope E r =
     JObj [(''data'', rx_payload r), (''event_id'', json_uuid E (rx_id r)),
           (''event_type'', JStr (rx_event_type r)), (''occurred_at'', json_time E (rx_created_at r))]"

definition outbox_subject :: "OutboxRow \<Rightarrow> string" where
  "outbox_subject r = ''mobpilot.events.'' @ rx_event_type r"

definition publishRow :: "env \<Rightarrow> OutboxRow \<Rightarrow> (unit, org_db) org_op" where
  "publishRow E r =
     check_err (''nats publish '' @ outbox_subject r)
       (js_Publish E (outbox_subject r) (outbox_envelope E r)) (\<lambda>_ w. (Inr (), w))"

text \<open>A row that cannot be published is skipped; a mark that fails is logged.\<close>

fun poll_loop :: "env \<Rightarrow> OutboxRow list \<Rightarrow> org_db \<Rightarrow> org_db" where
  "poll_loop E [] w = w"
| "poll_loop E (r # rs) w =
     (case publishRow E r w of
        (Inl e, w1) \<Rightarrow> poll_loop E rs w1
      | (Inr _, w1) \<Rightarrow> poll_loop E rs (ignore_err (MarkOutboxEventPublished E (rx_id r)) w1))"

definition outbox_poll :: "env \<Rightarrow> org_db \<Rightarrow> org_db" where
  "outbox_poll E w =
     (case GetUnpublishedOutboxEvents E 100 w of
        (Inl e, w1) \<Rightarrow> w1
      | (Inr rows, w1) \<Rightarrow> poll_loop E rows w1)"

fun outbox_Run :: "env \<Rightarrow> nat \<Rightarrow> org_db \<Rightarrow> org_db" where
  "outbox_Run E 0 w = w"
| "outbox_Run E (Suc ticks) w = outbox_Run E ticks (outbox_poll E w)"

definition InsertOutboxEvent :: "env \<Rightarrow> uuid \<Rightarrow> string \<Rightarrow> json \<Rightarrow> (unit, org_db) org_op" where
  "InsertOutboxEvent E aggregateID eventType data = InsertOutboxEventRow E aggregateID eventType data"

subsection \<open>Nothing is lost\<close>

text \<open>
  The obligation of the worker: whatever is marked as published is in the stream. \<open>delivered E w i\<close>
  says that the stream holds the envelope of the row with identifier \<open>i\<close>.
\<close>

definition delivered :: "env \<Rightarrow> org_db \<Rightarrow> OutboxRow \<Rightarrow> bool" where
  "delivered E w r \<longleftrightarrow> (outbox_subject r, outbox_envelope E r) \<in> set (js_log w)"

text \<open>Two versions of a row that differ in the mark only have the same envelope.\<close>

definition same_event :: "OutboxRow \<Rightarrow> OutboxRow \<Rightarrow> bool" where
  "same_event r r' \<longleftrightarrow> r\<lparr>rx_published_at := None\<rparr> = r'\<lparr>rx_published_at := None\<rparr>"

lemma same_event_refl [simp]: "same_event r r"
  by (simp add: same_event_def)

lemma same_event_trans: "same_event a b \<Longrightarrow> same_event b c \<Longrightarrow> same_event a c"
  by (simp add: same_event_def)

lemma same_event_mark [simp]: "same_event r (r\<lparr>rx_published_at := x\<rparr>)"
  by (simp add: same_event_def)

lemma same_event_sel:
  assumes "same_event r r'"
  shows "rx_id r' = rx_id r" "rx_event_type r' = rx_event_type r" "rx_payload r' = rx_payload r"
    "rx_created_at r' = rx_created_at r"
  using assms unfolding same_event_def by (metis OutboxRow.select_convs OutboxRow.update_convs(6)
      OutboxRow.surjective)+

lemma delivered_same_event: "same_event r r' \<Longrightarrow> delivered E w r' = delivered E w r"
  using same_event_sel [of r r'] by (simp add: delivered_def outbox_subject_def outbox_envelope_def)

text \<open>
  The step of the worker on the table: rows are neither added nor removed, a row that was marked
  before stays as it is marked or is marked again, and a row that is newly marked is in the stream.
\<close>

definition poll_safe :: "env \<Rightarrow> org_db \<Rightarrow> org_db \<Rightarrow> bool" where
  "poll_safe E w w' \<longleftrightarrow>
     set (js_log w) \<subseteq> set (js_log w') \<and>
     list_all2 (\<lambda>r r'. same_event r r' \<and>
        (rx_published_at r' = rx_published_at r \<or> rx_published_at r' \<noteq> None \<and> delivered E w' r))
       (outbox w) (outbox w')"

lemma delivered_mono: "set (js_log w) \<subseteq> set (js_log w') \<Longrightarrow> delivered E w r \<Longrightarrow> delivered E w' r"
  by (auto simp: delivered_def)

lemma poll_safe_refl [simp]: "poll_safe E w w"
  by (auto simp: poll_safe_def list_all2_same)

lemma poll_safe_trans:
  assumes "poll_safe E a b" and "poll_safe E b c"
  shows "poll_safe E a c"
proof -
  have log: "set (js_log b) \<subseteq> set (js_log c)" using assms(2) by (simp add: poll_safe_def)
  have "list_all2 (\<lambda>r r'. same_event r r' \<and>
        (rx_published_at r' = rx_published_at r \<or> rx_published_at r' \<noteq> None \<and> delivered E c r))
       (outbox a) (outbox c)"
  proof (rule list_all2_trans)
    show "list_all2 (\<lambda>r r'. same_event r r' \<and>
        (rx_published_at r' = rx_published_at r \<or> rx_published_at r' \<noteq> None \<and> delivered E b r))
       (outbox a) (outbox b)"
      using assms(1) by (simp add: poll_safe_def)
    show "list_all2 (\<lambda>r r'. same_event r r' \<and>
        (rx_published_at r' = rx_published_at r \<or> rx_published_at r' \<noteq> None \<and> delivered E c r))
       (outbox b) (outbox c)"
      using assms(2) by (simp add: poll_safe_def)
  next
    fix r1 r2 r3
    assume "same_event r1 r2 \<and> (rx_published_at r2 = rx_published_at r1 \<or>
        rx_published_at r2 \<noteq> None \<and> delivered E b r1)"
      and "same_event r2 r3 \<and> (rx_published_at r3 = rx_published_at r2 \<or>
        rx_published_at r3 \<noteq> None \<and> delivered E c r2)"
    then show "same_event r1 r3 \<and> (rx_published_at r3 = rx_published_at r1 \<or>
        rx_published_at r3 \<noteq> None \<and> delivered E c r1)"
      using log by (metis delivered_mono delivered_same_event same_event_trans)
  qed
  with assms log show ?thesis by (auto simp: poll_safe_def)
qed

lemma poll_safe_ids: "poll_safe E w w' \<Longrightarrow> map rx_id (outbox w') = map rx_id (outbox w)"
  unfolding poll_safe_def by (auto simp: list_all2_conv_all_nth same_event_sel intro!: nth_equalityI)

lemma poll_safe_row:
  assumes "poll_safe E w w'" and "r \<in> set (outbox w)"
  obtains r' where "r' \<in> set (outbox w')" "same_event r r'"
  using assms unfolding poll_safe_def list_all2_conv_all_nth in_set_conv_nth by metis

lemma js_Publish_outbox [simp]: "outbox (snd (js_Publish E s pl w)) = outbox w"
  by (auto simp: js_Publish_def net_call_def Let_def split: net_outcome.splits)

lemma js_Publish_log: "set (js_log w) \<subseteq> set (js_log (snd (js_Publish E s pl w)))"
  by (auto simp: js_Publish_def net_call_def Let_def split: net_outcome.splits)

lemma publishRow_safe: "poll_safe E w (snd (publishRow E r w))"
  by (auto simp: publishRow_def check_err_def js_Publish_def net_call_def Let_def poll_safe_def
      list_all2_same split: net_outcome.splits)

lemma publishRow_delivers: "publishRow E r w = (Inr (), w') \<Longrightarrow> delivered E w' r"
  by (auto simp: publishRow_def check_err_def js_Publish_def net_call_def Let_def delivered_def
      split: prod.splits sum.splits net_outcome.splits)

text \<open>Marking a delivered row is safe: no other row has its identifier.\<close>

lemma mark_safe:
  assumes ids: "distinct (map rx_id (outbox w))" and r0: "r0 \<in> set (outbox w)" "same_event r0 r"
    and del: "delivered E w r"
  shows "poll_safe E w (ignore_err (MarkOutboxEventPublished E (rx_id r)) w)"
proof -
  let ?w' = "ignore_err (MarkOutboxEventPublished E (rx_id r)) w"
  have log: "js_log ?w' = js_log w"
    by (auto simp: ignore_err_def MarkOutboxEventPublished_def db_now_def net_call_def Let_def
        split: net_outcome.splits)
  let ?x = "e_dbnow E (n_now w)"
  have cases: "outbox ?w' = outbox w \<or>
     outbox ?w' = map (\<lambda>r'. if rx_id r' = rx_id r then r'\<lparr>rx_published_at := Some ?x\<rparr> else r') (outbox w)"
    by (auto simp: ignore_err_def MarkOutboxEventPublished_def db_now_def net_call_def Let_def
        split: net_outcome.splits)
  have "delivered E ?w' r'" if "r' \<in> set (outbox w)" "rx_id r' = rx_id r" for r'
  proof -
    have "rx_id r0 = rx_id r'" using that(2) same_event_sel(1) [OF r0(2)] by simp
    with ids that(1) r0(1) have "r0 = r'" by (metis distinct_map inj_onD)
    have "delivered E ?w' r" using del log by (simp add: delivered_def)
    with r0(2) \<open>r0 = r'\<close> show ?thesis by (simp add: delivered_same_event)
  qed
  note d = this
  from cases show ?thesis
  proof
    assume "outbox ?w' = outbox w"
    with log show ?thesis by (simp add: poll_safe_def list_all2_same)
  next
    assume upd: "outbox ?w' =
      map (\<lambda>r'. if rx_id r' = rx_id r then r'\<lparr>rx_published_at := Some ?x\<rparr> else r') (outbox w)"
    show ?thesis
      unfolding poll_safe_def upd list_all2_map2 list_all2_same using d log by simp
  qed
qed

lemma poll_loop_safe:
  assumes "distinct (map rx_id (outbox w))"
    and "\<forall>r \<in> set rows. \<exists>r0 \<in> set (outbox w). same_event r0 r"
  shows "poll_safe E w (poll_loop E rows w)"
  using assms
proof (induction rows arbitrary: w)
  case Nil
  then show ?case by simp
next
  case (Cons r rows)
  obtain res w1 where pub: "publishRow E r w = (res, w1)" by (cases "publishRow E r w")
  define w2 where "w2 = (case res of Inl _ \<Rightarrow> w1 | Inr _ \<Rightarrow>
      ignore_err (MarkOutboxEventPublished E (rx_id r)) w1)"
  have s1: "poll_safe E w w1" using publishRow_safe [of E w r] pub by simp
  have s2: "poll_safe E w1 w2"
  proof (cases res)
    case (Inr u)
    obtain r0 where "r0 \<in> set (outbox w)" "same_event r0 r" using Cons.prems(2) by auto
    with s1 obtain r1 where r1: "r1 \<in> set (outbox w1)" "same_event r0 r1" by (auto elim: poll_safe_row)
    have "same_event r1 r" using r1(2) \<open>same_event r0 r\<close> by (simp add: same_event_def)
    moreover have "delivered E w1 r" using pub Inr publishRow_delivers by simp
    moreover have "distinct (map rx_id (outbox w1))" using poll_safe_ids [OF s1] Cons.prems(1) by simp
    ultimately show ?thesis using mark_safe r1(1) Inr by (simp add: w2_def)
  qed (simp add: w2_def)
  have s12: "poll_safe E w w2" using s1 s2 by (rule poll_safe_trans)
  have "poll_safe E w2 (poll_loop E rows w2)"
  proof (rule Cons.IH)
    show "distinct (map rx_id (outbox w2))" using poll_safe_ids [OF s12] Cons.prems(1) by simp
    show "\<forall>r \<in> set rows. \<exists>r0 \<in> set (outbox w2). same_event r0 r"
    proof
      fix q assume "q \<in> set rows"
      then obtain r0 where "r0 \<in> set (outbox w)" "same_event r0 q" using Cons.prems(2) by auto
      with s12 obtain r1 where "r1 \<in> set (outbox w2)" "same_event r0 r1" by (auto elim: poll_safe_row)
      with \<open>same_event r0 q\<close> show "\<exists>r0 \<in> set (outbox w2). same_event r0 q"
        by (auto simp: same_event_def intro!: bexI [of _ r1])
    qed
  qed
  moreover have "poll_loop E (r # rows) w = poll_loop E rows w2"
    using pub by (auto simp: w2_def split: sum.splits)
  ultimately show ?case using s12 by (metis poll_safe_trans)
qed

lemma GetUnpublished_Inr:
  assumes "GetUnpublishedOutboxEvents E k w = (Inr rows, w')"
  shows "rows = take k (sort_key rx_created_at (filter (\<lambda>r. rx_published_at r = None) (outbox w)))"
    and "w' = w\<lparr>n_net := Suc (n_net w)\<rparr>"
  using assms by (auto simp: GetUnpublishedOutboxEvents_def net_call_def Let_def split: net_outcome.splits)

lemma GetUnpublished_poll_safe: "poll_safe E w (snd (GetUnpublishedOutboxEvents E k w))"
  by (auto simp: GetUnpublishedOutboxEvents_def net_call_def Let_def poll_safe_def list_all2_same
      split: net_outcome.splits)

lemma outbox_poll_safe:
  assumes "distinct (map rx_id (outbox w))"
  shows "poll_safe E w (outbox_poll E w)"
proof (cases "GetUnpublishedOutboxEvents E 100 w")
  case (Pair res w1)
  have s: "poll_safe E w w1" using GetUnpublished_poll_safe [of E w 100] Pair by simp
  show ?thesis
  proof (cases res)
    case (Inr rows)
    have "distinct (map rx_id (outbox w1))" using poll_safe_ids [OF s] assms by simp
    moreover have "\<forall>r \<in> set rows. \<exists>r0 \<in> set (outbox w1). same_event r0 r"
      using GetUnpublished_Inr [of E 100 w rows w1] Pair Inr
      by (auto dest!: in_set_takeD intro!: bexI [where P = "\<lambda>r0. same_event r0 _", OF same_event_refl])
    ultimately have "poll_safe E w1 (poll_loop E rows w1)" by (rule poll_loop_safe)
    with s Pair Inr show ?thesis by (auto simp: outbox_poll_def intro: poll_safe_trans)
  qed (use s Pair in \<open>simp add: outbox_poll_def\<close>)
qed

lemma outbox_Run_safe:
  "distinct (map rx_id (outbox w)) \<Longrightarrow> poll_safe E w (outbox_Run E ticks w)"
proof (induction ticks arbitrary: w)
  case 0
  then show ?case by simp
next
  case (Suc ticks)
  have s: "poll_safe E w (outbox_poll E w)" using Suc.prems by (rule outbox_poll_safe)
  with Suc.prems poll_safe_ids [OF s] Suc.IH [of "outbox_poll E w"] show ?case
    by (auto intro: poll_safe_trans)
qed

subsection \<open>The outbox drains\<close>

definition unpublished :: "org_db \<Rightarrow> OutboxRow list" where
  "unpublished w = filter (\<lambda>r. rx_published_at r = None) (outbox w)"

definition net_up :: "env \<Rightarrow> bool" where
  "net_up E \<longleftrightarrow> (\<forall>k. e_net E k = Reached)"

lemma unpublished_mark:
  "filter (\<lambda>r. rx_published_at r = None)
     (map (\<lambda>r. if rx_id r = i then r\<lparr>rx_published_at := Some t\<rparr> else r) rs) =
   filter (\<lambda>r. rx_id r \<noteq> i) (filter (\<lambda>r. rx_published_at r = None) rs)"
  by (induction rs) auto

lemma unpublished_loop:
  assumes "net_up E"
  shows "unpublished (poll_loop E rows w) = filter (\<lambda>r. rx_id r \<notin> rx_id ` set rows) (unpublished w)"
  using assms
proof (induction rows arbitrary: w)
  case Nil
  then show ?case by simp
next
  case (Cons r rows)
  obtain w1 where pub: "publishRow E r w = (Inr (), w1)" and out: "outbox w1 = outbox w"
    using Cons.prems by (auto simp: publishRow_def check_err_def js_Publish_def net_call_def net_up_def)
  have "unpublished (ignore_err (MarkOutboxEventPublished E (rx_id r)) w1) =
        filter (\<lambda>q. rx_id q \<noteq> rx_id r) (unpublished w)"
    using Cons.prems out
    by (simp add: ignore_err_def MarkOutboxEventPublished_def net_call_def net_up_def db_now_def
        Let_def unpublished_def unpublished_mark)
  then show ?case using Cons.IH [OF Cons.prems] pub
    by (auto intro!: filter_cong)
qed

lemma length_filter_out:
  assumes "distinct (map f xs)" and "set ys \<subseteq> set xs" and "distinct ys"
  shows "length (filter (\<lambda>x. f x \<notin> f ` set ys) xs) = length xs - length ys"
proof -
  have inj: "inj_on f (set xs)" and dx: "distinct xs" using assms(1) by (auto simp: distinct_map)
  have "filter (\<lambda>x. f x \<notin> f ` set ys) xs = filter (\<lambda>x. x \<notin> set ys) xs"
    using inj assms(2) by (intro filter_cong) (auto dest: inj_onD)
  also have "length \<dots> = card (set xs - set ys)"
    using dx by (metis distinct_card distinct_filter set_diff_eq set_filter)
  also have "\<dots> = length xs - length ys"
    using dx assms(2,3) by (simp add: card_Diff_subset distinct_card)
  finally show ?thesis .
qed

lemma unpublished_poll:
  assumes "net_up E" and "distinct (map rx_id (outbox w))"
  shows "length (unpublished (outbox_poll E w)) = length (unpublished w) - 100"
proof -
  let ?rows = "take 100 (sort_key rx_created_at (unpublished w))"
  let ?w1 = "w\<lparr>n_net := Suc (n_net w)\<rparr>"
  have "outbox_poll E w = poll_loop E ?rows ?w1"
    using assms(1) by (simp add: outbox_poll_def GetUnpublishedOutboxEvents_def net_call_def net_up_def
        unpublished_def)
  then have "unpublished (outbox_poll E w) =
      filter (\<lambda>r. rx_id r \<notin> rx_id ` set ?rows) (unpublished w)"
    using assms(1) by (simp add: unpublished_loop) (simp add: unpublished_def)
  also have "length \<dots> = length (unpublished w) - length ?rows"
  proof (rule length_filter_out)
    show "distinct (map rx_id (unpublished w))" using assms(2) by (simp add: unpublished_def)
    then show "distinct ?rows" by (auto simp: distinct_map)
    show "set ?rows \<subseteq> set (unpublished w)" by (auto dest: in_set_takeD)
  qed
  finally show ?thesis by simp
qed

lemma outbox_Run_drains:
  assumes "net_up E" and "distinct (map rx_id (outbox w))" and "length (unpublished w) \<le> 100 * ticks"
  shows "unpublished (outbox_Run E ticks w) = []"
  using assms(2,3)
proof (induction ticks arbitrary: w)
  case 0
  then show ?case by simp
next
  case (Suc ticks)
  have "poll_safe E w (outbox_poll E w)" using Suc.prems(1) by (rule outbox_poll_safe)
  then have "distinct (map rx_id (outbox (outbox_poll E w)))"
    using Suc.prems(1) by (simp add: poll_safe_ids)
  moreover have "length (unpublished (outbox_poll E w)) \<le> 100 * ticks"
    using unpublished_poll [OF assms(1) Suc.prems(1)] Suc.prems(2) by simp
  ultimately show ?case using Suc.IH by simp
qed

end
