(* ===== verification/Org_Centrifugo.thy ===== *)
theory Org_Centrifugo
  imports Org_Ports Httpmw Org_Events
begin

text \<open>
  The org service's two Centrifugo endpoints (\<^verbatim>\<open>services/org/infrastructure/http/centrifugo_proxy.go\<close> and
  \<^verbatim>\<open>centrifugo_token.go\<close>): the subscribe proxy, which asks the authorization port, and the issuer of
  connection and subscription tokens. Signing a JWT is the environment's \<open>e_jwt_sign\<close>; what is signed
  is the claim set built here.
\<close>

subsection \<open>The subscribe proxy\<close>

record centrifugoProxyRequest =
  cp_UserID :: string
  cp_Channel :: string
  cp_Transport :: string

definition dec_proxy_request :: "json \<Rightarrow> centrifugoProxyRequest option" where
  "dec_proxy_request = dec_struct (\<lambda>obj.
     Option.bind (dec_string ''user'' obj) (\<lambda>user.
     Option.bind (dec_string ''channel'' obj) (\<lambda>channel.
     Option.bind (dec_string ''transport'' obj) (\<lambda>transport.
     Some \<lparr>cp_UserID = user, cp_Channel = channel, cp_Transport = transport\<rparr>))))"

record 'w centrifugoProxyHandler =
  ph_authz :: "'w AuthzPort"
  ph_proxySecret :: string

definition checkSubscription ::
    "'w centrifugoProxyHandler \<Rightarrow> centrifugoProxyRequest \<Rightarrow> (bool, 'w) org_op" where
  "checkSubscription h req =
     (let channel = cp_Channel req; userID = cp_UserID req in
      if HasPrefix channel ''group:''
        then az_Check (ph_authz h) userID ''member'' (''Group:'' @ TrimPrefix channel ''group:'')
      else if HasPrefix channel ''user:''
        then (\<lambda>w. (Inr (userID = TrimPrefix channel ''user:''), w))
      else (\<lambda>w. (Inr False, w)))"

text \<open>Centrifugo requires status 200 also for a denial.\<close>

definition writeCentrifugoError :: "int \<Rightarrow> string \<Rightarrow> reply" where
  "writeCentrifugoError code message =
     writeJSON 200 (JObj [(''error'', JObj [(''code'', JNum code), (''message'', JStr message)])])"

definition centrifugo_allow :: reply where
  "centrifugo_allow = writeJSON 200 (JObj [(''result'', JObj [])])"

definition proxy_ServeHTTP :: "'w centrifugoProxyHandler \<Rightarrow> 'w handler" where
  "proxy_ServeHTTP h r w =
     (if rq_header r ''X-Centrifugo-Proxy-Secret'' \<noteq> ph_proxySecret h then (write_status 401, w)
      else case Option.bind (rq_body r) dec_proxy_request of
        None \<Rightarrow> (write_status 400, w)
      | Some req \<Rightarrow>
          (case checkSubscription h req w of
             (Inl e, w1) \<Rightarrow> (writeCentrifugoError 500 ''internal error'', w1)
           | (Inr allowed, w1) \<Rightarrow>
               if \<not> allowed then (writeCentrifugoError 403 ''not authorized'', w1)
               else (centrifugo_allow, w1)))"

subsection \<open>The token issuer\<close>

text \<open>\<open>t.Unix()\<close>: whole seconds, rounded down.\<close>

definition Unix :: "time \<Rightarrow> int" where
  "Unix t = t div Second"

definition connection_claims :: "env \<Rightarrow> uuid \<Rightarrow> time \<Rightarrow> json" where
  "connection_claims E userID now =
     JObj [(''exp'', JNum (Unix (now + Hour))), (''sub'', json_uuid E userID)]"

definition IssueConnectionToken ::
    "env \<Rightarrow> string \<Rightarrow> uuid \<Rightarrow> (string, 'x go_state_scheme) org_op" where
  "IssueConnectionToken E secret userID w =
     (let (now, w1) = time_Now E w
      in case e_jwt_sign E ''HS256'' secret (connection_claims E userID now) of
           Inl msg \<Rightarrow> (Inl (Wrapped ''CentrifugoTokenIssuer.IssueConnectionToken'' (ExtError msg)), w1)
         | Inr token \<Rightarrow> (Inr token, w1))"

definition group_claims :: "env \<Rightarrow> uuid \<Rightarrow> uuid \<Rightarrow> time \<Rightarrow> json" where
  "group_claims E userID groupID expiresAt =
     JObj [(''channel'', JStr (''ephemeral-group:'' @ e_uuid_str E groupID)),
           (''exp'', JNum (Unix expiresAt)),
           (''info'', JObj [(''groupId'', json_uuid E groupID), (''role'', JStr ''member'')]),
           (''sub'', json_uuid E userID)]"

definition IssueGroupToken :: "env \<Rightarrow> string \<Rightarrow> uuid \<Rightarrow> uuid \<Rightarrow> time \<Rightarrow> org_error + string" where
  "IssueGroupToken E secret userID groupID expiresAt =
     (case e_jwt_sign E ''HS256'' secret (group_claims E userID groupID expiresAt) of
        Inl msg \<Rightarrow> Inl (Wrapped ''CentrifugoTokenIssuer.IssueGroupToken'' (ExtError msg))
      | Inr token \<Rightarrow> Inr token)"

subsection \<open>Who may subscribe\<close>

lemma allow_not_error [simp]:
  "centrifugo_allow \<noteq> writeCentrifugoError code msg" "writeCentrifugoError code msg \<noteq> centrifugo_allow"
  "centrifugo_allow \<noteq> write_status s" "write_status s \<noteq> centrifugo_allow"
  by (simp_all add: centrifugo_allow_def writeCentrifugoError_def writeJSON_def write_status_def)

text \<open>The proxy allows exactly when the secret matches, the body decodes and the check says yes.\<close>

lemma proxy_allows_iff:
  "fst (proxy_ServeHTTP h r w) = centrifugo_allow \<longleftrightarrow>
     rq_header r ''X-Centrifugo-Proxy-Secret'' = ph_proxySecret h \<and>
     (\<exists>req. Option.bind (rq_body r) dec_proxy_request = Some req \<and>
        fst (checkSubscription h req w) = Inr True)"
  by (auto simp: proxy_ServeHTTP_def split: option.splits prod.splits sum.splits)

lemma checkSubscription_user:
  assumes "cp_Channel req = ''user:'' @ u"
  shows "checkSubscription h req w = (Inr (cp_UserID req = u), w)"
  using assms by (simp add: checkSubscription_def HasPrefix_def TrimPrefix_def)

lemma checkSubscription_group:
  assumes "cp_Channel req = ''group:'' @ g"
  shows "checkSubscription h req = az_Check (ph_authz h) (cp_UserID req) ''member'' (''Group:'' @ g)"
  using assms by (simp add: checkSubscription_def HasPrefix_def TrimPrefix_def)

end
