(* ===== verification/Org_Http.thy ===== *)
theory Org_Http
  imports Org_Services Org_Centrifugo
begin

text \<open>
  The org service's HTTP API (\<^verbatim>\<open>services/org/infrastructure/http/handler.go\<close>): one definition per
  handler, the request decoders, the response encoders, the error mapping and the two route tables.
  The router itself (chi) is not part of the repository: a route is a method, a pattern and its
  handler, and the handler reads its parameters through \<open>rq_param\<close>.
\<close>

subsection \<open>Errors and problems\<close>

definition org_problemType :: "int \<Rightarrow> string" where
  "org_problemType status =
     (if status = 404 then ''urn:mobpilot:org:not-found''
      else if status = 401 then ''urn:mobpilot:auth:unauthorized''
      else if status = 403 then ''urn:mobpilot:auth:forbidden''
      else if status = 409 then ''urn:mobpilot:org:conflict''
      else if status = 410 then ''urn:mobpilot:org:expired''
      else if status = 422 then ''urn:mobpilot:org:invalid-input''
      else ''urn:mobpilot:internal-error'')"

definition org_writeProblem :: "int \<Rightarrow> string \<Rightarrow> reply" where
  "org_writeProblem status detail =
     \<lparr>rp_status = status,
      rp_body = ProblemReply (org_problemType status) (StatusText status) status detail\<rparr>"

definition org_writeError :: "org_error \<Rightarrow> reply" where
  "org_writeError err =
     (let text = error_text org_sentinel_text err in
      if errors_Is err (Sentinel ErrOrgNotFound) \<or> errors_Is err (Sentinel ErrMemberNotFound) \<or>
         errors_Is err (Sentinel ErrGroupNotFound) \<or> errors_Is err (Sentinel ErrRoleNotFound) \<or>
         errors_Is err (Sentinel ErrInviteNotFound) then org_writeProblem 404 text
      else if errors_Is err (Sentinel ErrNotAuthorized) then org_writeProblem 403 text
      else if errors_Is err (Sentinel ErrAlreadyExists) \<or> errors_Is err (Sentinel ErrSlugTaken)
        then org_writeProblem 409 text
      else if errors_Is err (Sentinel ErrInviteExpired) then org_writeProblem 410 text
      else if IsInvalidInput err then org_writeProblem 422 text
      else org_writeProblem 500 ''internal server error'')"

text \<open>A panic leaves the handler; the recovering middleware answers 500 without a body. The only call
  that can panic is the one on the nil token issuer.\<close>

definition org_fail :: "org_error \<Rightarrow> reply" where
  "org_fail err = (case err_cause err of Panicked msg \<Rightarrow> write_status 500 | _ \<Rightarrow> org_writeError err)"

subsection \<open>Requests\<close>

definition dec_createOrgRequest :: "json \<Rightarrow> (string \<times> string) option" where
  "dec_createOrgRequest = dec_struct (\<lambda>obj.
     Option.bind (dec_string ''name'' obj) (\<lambda>name.
     Option.bind (dec_string ''slug'' obj) (\<lambda>slug. Some (name, slug))))"

definition dec_inviteMemberRequest :: "json \<Rightarrow> (string \<times> string) option" where
  "dec_inviteMemberRequest = dec_struct (\<lambda>obj.
     Option.bind (dec_string ''email'' obj) (\<lambda>email.
     Option.bind (dec_string ''role'' obj) (\<lambda>role. Some (email, role))))"

definition dec_acceptInvitationRequest :: "json \<Rightarrow> string option" where
  "dec_acceptInvitationRequest = dec_struct (dec_string ''token'')"

record createGroupRequest =
  cgr_Name :: string
  cgr_Description :: string
  cgr_Ephemeral :: bool
  cgr_ExpiresAt :: "time option"

definition dec_createGroupRequest :: "env \<Rightarrow> json \<Rightarrow> createGroupRequest option" where
  "dec_createGroupRequest E = dec_struct (\<lambda>obj.
     Option.bind (dec_string ''name'' obj) (\<lambda>name.
     Option.bind (dec_string ''description'' obj) (\<lambda>description.
     Option.bind (dec_bool ''ephemeral'' obj) (\<lambda>ephemeral.
     Option.bind (dec_opt_time E ''expires_at'' obj) (\<lambda>expires.
     Some \<lparr>cgr_Name = name, cgr_Description = description, cgr_Ephemeral = ephemeral,
           cgr_ExpiresAt = expires\<rparr>)))))"

definition dec_addGroupMemberRequest :: "json \<Rightarrow> string option" where
  "dec_addGroupMemberRequest = dec_struct (dec_string ''user_id'')"

definition dec_createRoleRequest :: "json \<Rightarrow> (string \<times> string list option) option" where
  "dec_createRoleRequest = dec_struct (\<lambda>obj.
     Option.bind (dec_string ''name'' obj) (\<lambda>name.
     Option.bind (dec_string_list ''permissions'' obj) (\<lambda>perms. Some (name, perms))))"

subsection \<open>Responses\<close>

definition orgToResponse :: "env \<Rightarrow> Organization \<Rightarrow> json" where
  "orgToResponse E o' =
     JObj ([(''id'', json_uuid E (o_ID o')), (''name'', JStr (o_Name o')), (''slug'', JStr (o_Slug o')),
            (''owner_user_id'', json_uuid E (o_OwnerUserID o')), (''plan'', JStr (o_Plan o')),
            (''created_at'', Format_RFC3339 E (o_CreatedAt o')),
            (''updated_at'', Format_RFC3339 E (o_UpdatedAt o'))] @
           omitempty_time E ''suspended_at'' (o_SuspendedAt o'))"

definition memberToResponse :: "env \<Rightarrow> OrgMember \<Rightarrow> json" where
  "memberToResponse E m =
     JObj [(''org_id'', json_uuid E (m_OrgID m)), (''user_id'', json_uuid E (m_UserID m)),
           (''role'', JStr (m_Role m)), (''joined_at'', Format_RFC3339 E (m_JoinedAt m))]"

definition groupToResponse :: "env \<Rightarrow> Group \<Rightarrow> json" where
  "groupToResponse E g =
     JObj ([(''id'', json_uuid E (g_ID g)), (''org_id'', json_uuid E (g_OrgID g)),
            (''app_id'', json_uuid E (g_AppID g)), (''name'', JStr (g_Name g)),
            (''description'', JStr (g_Description g)), (''ephemeral'', JBool (g_Ephemeral g))] @
           omitempty_time E ''expires_at'' (g_ExpiresAt g) @
           [(''created_at'', Format_RFC3339 E (g_CreatedAt g))])"

definition groupMemberToResponse :: "env \<Rightarrow> GroupMember \<Rightarrow> json" where
  "groupMemberToResponse E m =
     JObj [(''group_id'', json_uuid E (gm_GroupID m)), (''user_id'', json_uuid E (gm_UserID m)),
           (''app_id'', json_uuid E (gm_AppID m))]"

definition membersToResponse :: "env \<Rightarrow> GroupMember list \<Rightarrow> json" where
  "membersToResponse E ms = items_json (groupMemberToResponse E) ms"

definition roleToResponse :: "env \<Rightarrow> Role \<Rightarrow> json" where
  "roleToResponse E r =
     (let perms = (case r_Permissions r of None \<Rightarrow> [] | Some ps \<Rightarrow> ps)
      in JObj [(''id'', json_uuid E (r_ID r)), (''org_id'', json_uuid E (r_OrgID r)),
               (''name'', JStr (r_Name r)), (''permissions'', JArr (map JStr perms)),
               (''created_at'', Format_RFC3339 E (r_CreatedAt r))])"

definition token_json :: "string \<Rightarrow> json" where
  "token_json t = JObj [(''token'', JStr t)]"

subsection \<open>The handler\<close>

text \<open>The token issuer is nil when no secret is configured; the proxy handler may be nil.\<close>

record 'w OrgHandler =
  h_orgs :: "'w OrgService"
  h_members :: "'w MemberService"
  h_groups :: "'w GroupService"
  h_roles :: "'w RoleService"
  h_tokenIssuer :: "string option"
  h_proxyHandler :: "'w centrifugoProxyHandler option"

definition internalListGroupMembers :: "env \<Rightarrow> 'w OrgHandler \<Rightarrow> 'w handler" where
  "internalListGroupMembers E h =
     uuid_param E org_writeProblem ''groupID'' (\<lambda>groupID.
     respond org_writeError (\<lambda>ms. writeJSON 200 (membersToResponse E ms))
       (ListGroupMembers (h_groups h) groupID))"

definition createOrg :: "env \<Rightarrow> 'x go_state_scheme OrgHandler \<Rightarrow> 'x go_state_scheme handler" where
  "createOrg E h =
     require_claims org_writeProblem (\<lambda>claims.
     decode_body org_writeProblem dec_createOrgRequest (\<lambda>(name, slug).
     respond org_writeError (\<lambda>org. writeJSON 201 (orgToResponse E org))
       (CreateOrg E (h_orgs h) \<lparr>co_Name = name, co_Slug = slug,
          co_OwnerUserID = mustParseUUID E (c_Subject claims)\<rparr>)))"

definition getOrg :: "env \<Rightarrow> 'w OrgHandler \<Rightarrow> 'w handler" where
  "getOrg E h =
     require_claims org_writeProblem (\<lambda>claims.
     uuid_param E org_writeProblem ''orgID'' (\<lambda>orgID.
     respond org_writeError (\<lambda>org. writeJSON 200 (orgToResponse E org)) (GetOrg (h_orgs h) orgID)))"

definition listMembers :: "env \<Rightarrow> 'w OrgHandler \<Rightarrow> 'w handler" where
  "listMembers E h =
     require_claims org_writeProblem (\<lambda>claims.
     uuid_param E org_writeProblem ''orgID'' (\<lambda>orgID.
     respond org_writeError (\<lambda>ms. writeJSON 200 (items_json (memberToResponse E) ms))
       (ListMembers (h_members h) orgID)))"

definition inviteMember :: "env \<Rightarrow> 'x go_state_scheme OrgHandler \<Rightarrow> 'x go_state_scheme handler" where
  "inviteMember E h =
     require_claims org_writeProblem (\<lambda>claims.
     uuid_param E org_writeProblem ''orgID'' (\<lambda>orgID.
     decode_body org_writeProblem dec_inviteMemberRequest (\<lambda>(email, role).
     respond org_writeError
       (\<lambda>inv. writeJSON 201 (JObj [(''id'', json_uuid E (i_ID inv)), (''token'', JStr (i_Token inv))]))
       (InviteMember E (h_members h) \<lparr>im_OrgID = orgID, im_Email = email, im_Role = role,
          im_InviterID = mustParseUUID E (c_Subject claims)\<rparr>))))"

definition acceptInvitation :: "env \<Rightarrow> 'x go_state_scheme OrgHandler \<Rightarrow> 'x go_state_scheme handler" where
  "acceptInvitation E h =
     require_claims org_writeProblem (\<lambda>claims.
     decode_body org_writeProblem dec_acceptInvitationRequest (\<lambda>token.
     respond org_writeError (\<lambda>m. writeJSON 200 (memberToResponse E m))
       (AcceptInvitation E (h_members h) \<lparr>ai_Token = token,
          ai_UserID = mustParseUUID E (c_Subject claims)\<rparr>)))"

definition removeMember :: "env \<Rightarrow> 'w OrgHandler \<Rightarrow> 'w handler" where
  "removeMember E h =
     require_claims org_writeProblem (\<lambda>claims.
     uuid_param E org_writeProblem ''orgID'' (\<lambda>orgID.
     uuid_param E org_writeProblem ''userID'' (\<lambda>userID.
     respond org_writeError (\<lambda>_. write_status 204)
       (RemoveMember (h_members h) \<lparr>rmc_OrgID = orgID, rmc_UserID = userID,
          rmc_CallerID = mustParseUUID E (c_Subject claims)\<rparr>))))"

definition createGroup :: "env \<Rightarrow> 'x go_state_scheme OrgHandler \<Rightarrow> 'x go_state_scheme handler" where
  "createGroup E h =
     require_claims org_writeProblem (\<lambda>claims.
     uuid_param E org_writeProblem ''orgID'' (\<lambda>orgID.
     decode_body org_writeProblem (dec_createGroupRequest E) (\<lambda>req.
     respond org_writeError (\<lambda>g. writeJSON 201 (groupToResponse E g))
       (CreateGroup E (h_groups h) \<lparr>cg_OrgID = orgID, cg_AppID = mustParseUUID E (c_AppID claims),
          cg_Name = cgr_Name req, cg_Description = cgr_Description req,
          cg_Ephemeral = cgr_Ephemeral req, cg_ExpiresAt = cgr_ExpiresAt req,
          cg_CreatedBy = mustParseUUID E (c_Subject claims)\<rparr>))))"

definition listGroups :: "env \<Rightarrow> 'w OrgHandler \<Rightarrow> 'w handler" where
  "listGroups E h =
     require_claims org_writeProblem (\<lambda>claims.
     uuid_param E org_writeProblem ''orgID'' (\<lambda>orgID.
     respond org_writeError (\<lambda>gs. writeJSON 200 (items_json (groupToResponse E) gs))
       (ListGroups (h_groups h) orgID)))"

definition addGroupMember :: "env \<Rightarrow> 'x go_state_scheme OrgHandler \<Rightarrow> 'x go_state_scheme handler" where
  "addGroupMember E h =
     require_claims org_writeProblem (\<lambda>claims.
     uuid_param E org_writeProblem ''groupID'' (\<lambda>groupID.
     decode_body org_writeProblem dec_addGroupMemberRequest (\<lambda>user.
     parse_uuid E org_writeProblem ''user_id'' user (\<lambda>userID.
     respond org_writeError (\<lambda>_. write_status 204)
       (AddGroupMember E (h_groups h) \<lparr>ag_GroupID = groupID, ag_UserID = userID,
          ag_AppID = mustParseUUID E (c_AppID claims)\<rparr>)))))"

definition listGroupMembers :: "env \<Rightarrow> 'w OrgHandler \<Rightarrow> 'w handler" where
  "listGroupMembers E h =
     require_claims org_writeProblem (\<lambda>claims.
     uuid_param E org_writeProblem ''groupID'' (\<lambda>groupID.
     respond org_writeError (\<lambda>ms. writeJSON 200 (membersToResponse E ms))
       (ListGroupMembers (h_groups h) groupID)))"

definition removeGroupMember :: "env \<Rightarrow> 'x go_state_scheme OrgHandler \<Rightarrow> 'x go_state_scheme handler" where
  "removeGroupMember E h =
     require_claims org_writeProblem (\<lambda>claims.
     uuid_param E org_writeProblem ''groupID'' (\<lambda>groupID.
     uuid_param E org_writeProblem ''userID'' (\<lambda>userID.
     respond org_writeError (\<lambda>_. write_status 204)
       (RemoveGroupMember E (h_groups h) \<lparr>rgc_GroupID = groupID, rgc_UserID = userID\<rparr>))))"

definition groupSubscriptionToken :: "env \<Rightarrow> 'x go_state_scheme OrgHandler \<Rightarrow> 'x go_state_scheme handler" where
  "groupSubscriptionToken E h =
     require_claims org_writeProblem (\<lambda>claims.
     uuid_param E org_writeProblem ''groupID'' (\<lambda>groupID.
     respond org_fail (\<lambda>token. writeJSON 200 (token_json token))
       (IssueSubscriptionToken E (h_groups h) \<lparr>it_GroupID = groupID,
          it_UserID = mustParseUUID E (c_Subject claims)\<rparr>)))"

definition em_dash :: string where
  "em_dash = [CHR 0xE2, CHR 0x80, CHR 0x94]"

definition centrifugoConnectionToken :: "env \<Rightarrow> 'x go_state_scheme OrgHandler \<Rightarrow> 'x go_state_scheme handler" where
  "centrifugoConnectionToken E h =
     require_claims org_writeProblem (\<lambda>claims r w.
     case h_tokenIssuer h of
       None \<Rightarrow> (org_writeProblem 503 (''Centrifugo not configured '' @ em_dash @ '' set CENTRIFUGO_TOKEN_SECRET''), w)
     | Some secret \<Rightarrow>
         respond (\<lambda>_. org_writeProblem 500 ''token signing failed'')
           (\<lambda>token. writeJSON 200 (token_json token))
           (IssueConnectionToken E secret (mustParseUUID E (c_Subject claims))) r w)"

definition createRole :: "env \<Rightarrow> 'x go_state_scheme OrgHandler \<Rightarrow> 'x go_state_scheme handler" where
  "createRole E h =
     require_claims org_writeProblem (\<lambda>claims.
     uuid_param E org_writeProblem ''orgID'' (\<lambda>orgID.
     decode_body org_writeProblem dec_createRoleRequest (\<lambda>(name, perms).
     respond org_writeError (\<lambda>role. writeJSON 201 (roleToResponse E role))
       (CreateRole E (h_roles h) \<lparr>cr_OrgID = orgID, cr_Name = name, cr_Permissions = perms\<rparr>))))"

definition listRoles :: "env \<Rightarrow> 'w OrgHandler \<Rightarrow> 'w handler" where
  "listRoles E h =
     require_claims org_writeProblem (\<lambda>claims.
     uuid_param E org_writeProblem ''orgID'' (\<lambda>orgID.
     respond org_writeError (\<lambda>rs. writeJSON 200 (items_json (roleToResponse E) rs))
       (ListRoles (h_roles h) orgID)))"

text \<open>The organization of the command is left at its zero value.\<close>

definition deleteRole :: "env \<Rightarrow> 'w OrgHandler \<Rightarrow> 'w handler" where
  "deleteRole E h =
     require_claims org_writeProblem (\<lambda>claims.
     uuid_param E org_writeProblem ''roleID'' (\<lambda>roleID.
     respond org_writeError (\<lambda>_. write_status 204)
       (DeleteRole (h_roles h) \<lparr>dr_OrgID = uuid_Nil, dr_RoleID = roleID\<rparr>)))"

subsection \<open>Routes\<close>

type_synonym 'w route = "string \<times> string \<times> 'w handler"

definition org_Mount :: "env \<Rightarrow> 'x go_state_scheme OrgHandler \<Rightarrow> 'x go_state_scheme route list" where
  "org_Mount E h =
     [(''POST'', ''/v1/org/organizations'', createOrg E h),
      (''GET'', ''/v1/org/organizations/{orgID}'', getOrg E h),
      (''GET'', ''/v1/org/organizations/{orgID}/members'', listMembers E h),
      (''POST'', ''/v1/org/organizations/{orgID}/members/invite'', inviteMember E h),
      (''POST'', ''/v1/org/invitations/accept'', acceptInvitation E h),
      (''DELETE'', ''/v1/org/organizations/{orgID}/members/{userID}'', removeMember E h),
      (''POST'', ''/v1/org/organizations/{orgID}/groups'', createGroup E h),
      (''GET'', ''/v1/org/organizations/{orgID}/groups'', listGroups E h),
      (''POST'', ''/v1/org/groups/{groupID}/members'', addGroupMember E h),
      (''GET'', ''/v1/org/groups/{groupID}/members'', listGroupMembers E h),
      (''DELETE'', ''/v1/org/groups/{groupID}/members/{userID}'', removeGroupMember E h),
      (''GET'', ''/v1/org/groups/{groupID}/subscription-token'', groupSubscriptionToken E h),
      (''GET'', ''/v1/org/centrifugo/token'', centrifugoConnectionToken E h),
      (''POST'', ''/v1/org/organizations/{orgID}/roles'', createRole E h),
      (''GET'', ''/v1/org/organizations/{orgID}/roles'', listRoles E h),
      (''DELETE'', ''/v1/org/roles/{roleID}'', deleteRole E h)]"

definition org_MountInternal :: "env \<Rightarrow> 'w OrgHandler \<Rightarrow> 'w route list" where
  "org_MountInternal E h =
     (case h_proxyHandler h of
        None \<Rightarrow> []
      | Some ph \<Rightarrow> [(''POST'', ''/internal/centrifugo/subscribe'', proxy_ServeHTTP ph)]) @
     [(''GET'', ''/internal/groups/{groupID}/members'', internalListGroupMembers E h)]"

abbreviation route_handler :: "'w route \<Rightarrow> 'w handler" where
  "route_handler rt \<equiv> snd (snd rt)"

lemmas org_handler_defs =
  createOrg_def getOrg_def listMembers_def inviteMember_def acceptInvitation_def removeMember_def
  createGroup_def listGroups_def addGroupMember_def listGroupMembers_def removeGroupMember_def
  groupSubscriptionToken_def centrifugoConnectionToken_def createRole_def listRoles_def deleteRole_def

text \<open>Every public route starts by asking for the claims.\<close>

lemma org_Mount_guarded:
  assumes "rt \<in> set (org_Mount E h)"
  shows "\<exists>k. route_handler rt = require_claims org_writeProblem k"
  using assms unfolding org_Mount_def by (auto simp: org_handler_defs)

subsection \<open>The status of an error\<close>

definition org_error_status :: "org_error \<Rightarrow> int" where
  "org_error_status err =
     (case err_cause err of
        Sentinel s \<Rightarrow>
          (case s of ErrNotAuthorized \<Rightarrow> 403 | ErrAlreadyExists \<Rightarrow> 409 | ErrSlugTaken \<Rightarrow> 409
                   | ErrInviteExpired \<Rightarrow> 410 | _ \<Rightarrow> 404)
      | InvalidInput msg \<Rightarrow> 422
      | _ \<Rightarrow> 500)"

lemma org_writeError_status: "rp_status (org_writeError err) = org_error_status err"
  by (auto simp: org_writeError_def org_error_status_def org_writeProblem_def Let_def
      split: go_error.splits org_sentinel.splits)

end
