(* ===== verification/Org_Group_Service.thy ===== *)
theory Org_Group_Service
  imports Org_Services
begin

text \<open>
  What the group use cases and the expiry sweeper do to the groups and memberships, proved from the
  contracts of the ports alone: the locale \<open>group_service\<close> joins the group repository's contract with
  the promise that publishing and authorization calls leave the tables alone.
\<close>

locale group_service =
  group_repository repo tab gview mview inv stored instant + side_channels pub az tab
  for repo :: "'x go_state_scheme GroupRepository" and tab :: "'x go_state_scheme \<Rightarrow> 't"
    and gview :: "'t \<Rightarrow> uuid \<Rightarrow> Group option" and mview :: "'t \<Rightarrow> uuid \<times> uuid \<Rightarrow> uuid option"
    and inv :: "'t \<Rightarrow> bool" and stored :: "Group \<Rightarrow> Group" and instant :: "time \<Rightarrow> time"
    and pub :: "'x go_state_scheme EventPublisher" and az :: "'x go_state_scheme AuthzPort" +
  assumes clock_tab: "tab (w\<lparr>n_now := n\<rparr>) = tab w"
    and ids_tab: "tab (w\<lparr>n_ids := n\<rparr>) = tab w"
begin

lemmas clock_simps [simp] = clock_tab ids_tab

lemma domain_tab [simp]: "tab (snd (time_Now E w)) = tab w"
  by simp

lemma NewGroup_tab: "NewGroup E a b c d e f g w = (r, w') \<Longrightarrow> tab w' = tab w"
  by (cases r) (auto dest: NewGroup_Inl NewGroup_Inr(7))

lemma find_tab: "gr_FindByID repo i w = (r, w') \<Longrightarrow> tab w' = tab w"
  using find_keeps by (rule keeps_eq)

lemma list_tab: "gr_ListMembers repo i w = (r, w') \<Longrightarrow> tab w' = tab w"
  using list_keeps by (rule keeps_eq)

lemma expired_tab: "gr_ListExpired repo now w = (r, w') \<Longrightarrow> tab w' = tab w"
  using expired_keeps by (rule keeps_eq)

subsection \<open>CreateGroup\<close>

lemma CreateGroup_ok:
  assumes s: "gs_groups s = repo" "gs_publisher s = pub" "gs_authz s = az"
    and run: "CreateGroup E s cmd w = (Inr g, w')"
  shows "gview (tab w) (g_ID g) = None"
    and "gview (tab w') = (gview (tab w))(g_ID g \<mapsto> stored g)"
    and "mview (tab w') = mview (tab w)"
    and "\<exists>w1. NewGroup E (cg_OrgID cmd) (cg_AppID cmd) (cg_CreatedBy cmd) (cg_Name cmd)
           (cg_Description cmd) (cg_Ephemeral cmd) (cg_ExpiresAt cmd) w = (Inr g, w1)"
proof -
  from run obtain g' w1 w2 where new: "NewGroup E (cg_OrgID cmd) (cg_AppID cmd) (cg_CreatedBy cmd)
      (cg_Name cmd) (cg_Description cmd) (cg_Ephemeral cmd) (cg_ExpiresAt cmd) w = (Inr g', w1)"
    and create: "gr_Create repo g' w1 = (Inr (), w2)" and g: "g' = g" and tab': "tab w' = tab w2"
    unfolding CreateGroup_def s
    by (elim check_err_InrE) (auto simp: time_Now_def Let_def split: if_splits)
  have "tab w1 = tab w" using new by (rule NewGroup_tab)
  with create_ok [OF create] create_members [of g' w1] create tab' g
  show "gview (tab w) (g_ID g) = None" "gview (tab w') = (gview (tab w))(g_ID g \<mapsto> stored g)"
    "mview (tab w') = mview (tab w)" by simp_all
  show "\<exists>w1. NewGroup E (cg_OrgID cmd) (cg_AppID cmd) (cg_CreatedBy cmd) (cg_Name cmd)
      (cg_Description cmd) (cg_Ephemeral cmd) (cg_ExpiresAt cmd) w = (Inr g, w1)"
    using new g by blast
qed

subsection \<open>AddGroupMember and RemoveGroupMember\<close>

lemma AddGroupMember_ok:
  assumes s: "gs_groups s = repo" "gs_publisher s = pub" "gs_authz s = az"
    and run: "AddGroupMember E s cmd w = (Inr (), w')"
  shows "gview (tab w) (ag_GroupID cmd) \<noteq> None"
    and "gview (tab w') = gview (tab w)"
    and "mview (tab w') = (if mview (tab w) (ag_GroupID cmd, ag_UserID cmd) = None
           then (mview (tab w))((ag_GroupID cmd, ag_UserID cmd) \<mapsto> ag_AppID cmd) else mview (tab w))"
proof -
  from run obtain g w1 w2 where find: "gr_FindByID repo (ag_GroupID cmd) w = (Inr g, w1)"
    and add: "gr_AddMember repo (ag_GroupID cmd) (ag_UserID cmd) (ag_AppID cmd) w1 = (Inr (), w2)"
    and tab': "tab w' = tab w2"
    unfolding AddGroupMember_def s
    by (elim check_err_InrE) (auto simp: time_Now_def Let_def split: if_splits)
  show "gview (tab w) (ag_GroupID cmd) \<noteq> None" using find_found [OF find] by simp
  show "gview (tab w') = gview (tab w)"
    using add_groups [of "ag_GroupID cmd" "ag_UserID cmd" "ag_AppID cmd" w1] add tab' find_tab [OF find]
    by simp
  show "mview (tab w') = (if mview (tab w) (ag_GroupID cmd, ag_UserID cmd) = None
      then (mview (tab w))((ag_GroupID cmd, ag_UserID cmd) \<mapsto> ag_AppID cmd) else mview (tab w))"
    using add_ok [OF add] tab' find_tab [OF find] by simp
qed

lemma RemoveGroupMember_ok:
  assumes s: "gs_groups s = repo" "gs_publisher s = pub" "gs_authz s = az"
    and run: "RemoveGroupMember E s cmd w = (Inr (), w')"
  shows "gview (tab w) (rgc_GroupID cmd) \<noteq> None"
    and "gview (tab w') = gview (tab w)"
    and "mview (tab w') = (mview (tab w))((rgc_GroupID cmd, rgc_UserID cmd) := None)"
proof -
  from run obtain g w1 w2 where find: "gr_FindByID repo (rgc_GroupID cmd) w = (Inr g, w1)"
    and rem: "gr_RemoveMember repo (rgc_GroupID cmd) (rgc_UserID cmd) w1 = (Inr (), w2)"
    and tab': "tab w' = tab w2"
    unfolding RemoveGroupMember_def s
    by (elim check_err_InrE) (auto simp: time_Now_def Let_def split: if_splits)
  show "gview (tab w) (rgc_GroupID cmd) \<noteq> None" using find_found [OF find] by simp
  show "gview (tab w') = gview (tab w)"
    using remove_groups [of "rgc_GroupID cmd" "rgc_UserID cmd" w1] rem tab' find_tab [OF find] by simp
  show "mview (tab w') = (mview (tab w))((rgc_GroupID cmd, rgc_UserID cmd) := None)"
    using remove_ok [OF rem] tab' find_tab [OF find] by simp
qed

subsection \<open>IssueSubscriptionToken\<close>

text \<open>The verdict the use case owes its caller, over the views.\<close>

definition may_subscribe :: "'t \<Rightarrow> uuid \<Rightarrow> uuid \<Rightarrow> time \<Rightarrow> time \<Rightarrow> bool" where
  "may_subscribe t i u now expires \<longleftrightarrow>
     (\<exists>g. gview t i = Some g \<and> g_Ephemeral g \<and> g_ExpiresAt g = Some expires) \<and> now \<le> expires \<and>
     mview t (i, u) \<noteq> None"

lemma listed_member:
  assumes "inv (tab w)" and "gr_ListMembers repo i w = (Inr ms, w')"
  shows "list_ex (\<lambda>m. gm_UserID m = u) ms \<longleftrightarrow> mview (tab w) (i, u) \<noteq> None"
proof
  assume "list_ex (\<lambda>m. gm_UserID m = u) ms"
  then obtain m where "m \<in> set ms" "gm_UserID m = u" by (auto simp: list_ex_iff)
  with list_members [OF assms] show "mview (tab w) (i, u) \<noteq> None" by auto
next
  assume "mview (tab w) (i, u) \<noteq> None"
  then obtain a where "mview (tab w) (i, u) = Some a" by auto
  then have "\<lparr>gm_GroupID = i, gm_UserID = u, gm_AppID = a\<rparr> \<in> set ms" by (simp add: list_members [OF assms])
  then show "list_ex (\<lambda>m. gm_UserID m = u) ms" by (force simp: list_ex_iff)
qed

lemma IssueSubscriptionToken_ok:
  assumes s: "gs_groups s = repo" and inv: "inv (tab w)"
    and run: "IssueSubscriptionToken E s cmd w = (Inr token, w')"
  shows "\<exists>w1 expires issue. tab w1 = tab w \<and>
           may_subscribe (tab w) (it_GroupID cmd) (it_UserID cmd) (e_now E (n_now w1)) expires \<and>
           gs_tokens s = Some issue \<and> issue (it_UserID cmd) (it_GroupID cmd) expires = Inr token"
    and "tab w' = tab w"
proof -
  from run obtain g w1 expires ms w2 issue where
    find: "gr_FindByID repo (it_GroupID cmd) w = (Inr g, w1)" and eph: "g_Ephemeral g"
    and x: "g_ExpiresAt g = Some expires" "\<not> expires < e_now E (n_now w1)"
    and ms: "gr_ListMembers repo (it_GroupID cmd) (w1\<lparr>n_now := Suc (n_now w1)\<rparr>) = (Inr ms, w2)"
    and mem: "list_ex (\<lambda>m. gm_UserID m = it_UserID cmd) ms"
    and iss: "gs_tokens s = Some issue" "issue (it_UserID cmd) (it_GroupID cmd) expires = Inr token"
    and w': "w' = w2"
    unfolding IssueSubscriptionToken_def s
    by (elim check_err_InrE)
       (auto simp: time_Now_def Let_def check_err_def split: if_splits option.splits sum.splits prod.splits)
  have t1: "tab w1 = tab w" using find by (rule find_tab)
  have "inv (tab (w1\<lparr>n_now := Suc (n_now w1)\<rparr>))" using inv t1 by simp
  from listed_member [OF this ms] mem have "mview (tab w) (it_GroupID cmd, it_UserID cmd) \<noteq> None"
    using t1 by simp
  with find_found [OF find] eph x have
    "may_subscribe (tab w) (it_GroupID cmd) (it_UserID cmd) (e_now E (n_now w1)) expires"
    by (auto simp: may_subscribe_def)
  with t1 iss show "\<exists>w1 expires issue. tab w1 = tab w \<and>
      may_subscribe (tab w) (it_GroupID cmd) (it_UserID cmd) (e_now E (n_now w1)) expires \<and>
      gs_tokens s = Some issue \<and> issue (it_UserID cmd) (it_GroupID cmd) expires = Inr token" by blast
  show "tab w' = tab w" using list_tab [OF ms] t1 w' by simp
qed

subsection \<open>The sweeper\<close>

lemma sweep_relations_tab [simp]: "tab (sweep_relations E az i ms w) = tab w"
  by (induction ms arbitrary: w) auto

text \<open>Deleting a group is deleting it or not deleting it, and nothing else.\<close>

lemma sweep_deleteGroup_tab:
  assumes s: "sw_groups s = repo" "sw_publisher s = pub" "sw_authz s = az"
  shows "\<exists>w0. tab w0 = tab w \<and> tab (sweep_deleteGroup E s g w) = tab (snd (gr_Delete repo (g_ID g) w0))"
proof -
  obtain res w1 where lm: "gr_ListMembers repo (g_ID g) w = (res, w1)"
    by (cases "gr_ListMembers repo (g_ID g) w")
  define w0 where "w0 = ignore_err (az_DeleteRelation az (e_uuid_str E (g_CreatedBy g)) ''admin''
      (group_object E (g_ID g)))
    (sweep_relations E az (g_ID g) (case res of Inl _ \<Rightarrow> [] | Inr ms \<Rightarrow> ms) w1)"
  have "tab w0 = tab w" using list_tab [OF lm] by (simp add: w0_def)
  moreover have "tab (sweep_deleteGroup E s g w) = tab (snd (gr_Delete repo (g_ID g) w0))"
    unfolding sweep_deleteGroup_def s lm Let_def split w0_def [symmetric]
    by (auto simp: time_Now_def split: prod.splits sum.splits)
  ultimately show ?thesis by blast
qed

lemma sweep_deleteGroup_view:
  assumes "sw_groups s = repo" "sw_publisher s = pub" "sw_authz s = az"
  shows "gview (tab (sweep_deleteGroup E s g w)) = gview (tab w) \<or>
         gview (tab (sweep_deleteGroup E s g w)) = (gview (tab w))(g_ID g := None)"
    and "j \<noteq> g_ID g \<Longrightarrow> mview (tab (sweep_deleteGroup E s g w)) (j, u) = mview (tab w) (j, u)"
    and "inv (tab w) \<Longrightarrow> inv (tab (sweep_deleteGroup E s g w))"
  using sweep_deleteGroup_tab [OF assms, of w E g] delete_view delete_others delete_inv by metis+

lemma sweep_loop_view:
  assumes s: "sw_groups s = repo" "sw_publisher s = pub" "sw_authz s = az"
  shows "gview (tab (sweep_loop E s gs w)) i = gview (tab w) i \<or>
         i \<in> g_ID ` set gs \<and> gview (tab (sweep_loop E s gs w)) i = None"
    and "i \<notin> g_ID ` set gs \<Longrightarrow> mview (tab (sweep_loop E s gs w)) (i, u) = mview (tab w) (i, u)"
    and "inv (tab w) \<Longrightarrow> inv (tab (sweep_loop E s gs w))"
proof (induction gs arbitrary: w)
  case (Cons g gs)
  {
    case 1
    then show ?case
      using Cons.IH(1) [of "sweep_deleteGroup E s g w"] sweep_deleteGroup_view(1) [OF s, of E g w]
      by (auto split: if_splits)
  next
    case 2
    then show ?case
      using Cons.IH(2) [of "sweep_deleteGroup E s g w"] sweep_deleteGroup_view(2) [OF s, of i g E w u]
      by simp
  next
    case 3
    then show ?case
      using Cons.IH(3) [of "sweep_deleteGroup E s g w"] sweep_deleteGroup_view(3) [OF s, of w E g]
      by simp
  }
qed auto

text \<open>One sweep: a group that is gone was ephemeral and expired at the instant of the sweep, whatever
  failed on the way; every other group and its memberships are as before.\<close>

lemma sweep_safe:
  assumes s: "sw_groups s = repo" "sw_publisher s = pub" "sw_authz s = az" and inv: "inv (tab w)"
  shows "gview (tab (sweep E s w)) i = gview (tab w) i \<or>
         gview (tab (sweep E s w)) i = None \<and>
         (\<exists>g x. gview (tab w) i = Some g \<and> g_Ephemeral g \<and> g_ExpiresAt g = Some x \<and>
                x < instant (e_now E (n_now w)))"
    and "\<not> (\<exists>g x. gview (tab w) i = Some g \<and> g_Ephemeral g \<and> g_ExpiresAt g = Some x \<and>
                x < instant (e_now E (n_now w))) \<Longrightarrow>
         mview (tab (sweep E s w)) (i, u) = mview (tab w) (i, u)"
    and "inv (tab (sweep E s w))"
proof -
  let ?w1 = "w\<lparr>n_now := Suc (n_now w)\<rparr>"
  obtain res w2 where lst: "gr_ListExpired repo (e_now E (n_now w)) ?w1 = (res, w2)"
    by (cases "gr_ListExpired repo (e_now E (n_now w)) ?w1")
  have t2: "tab w2 = tab w" using expired_tab [OF lst] by simp
  have sw: "sweep E s w = (case res of Inl e \<Rightarrow> w2 | Inr gs \<Rightarrow> sweep_loop E s gs w2)"
    using lst by (auto simp: sweep_def time_Now_def s split: sum.splits)
  have inv1: "inv (tab ?w1)" using inv by simp
  have exp: "\<exists>g x. gview (tab w) i = Some g \<and> g_Ephemeral g \<and> g_ExpiresAt g = Some x \<and>
      x < instant (e_now E (n_now w))" if "res = Inr gs" "i \<in> g_ID ` set gs" for gs
    using that list_expired [OF inv1, of "e_now E (n_now w)" gs w2] lst by auto
  show "gview (tab (sweep E s w)) i = gview (tab w) i \<or>
      gview (tab (sweep E s w)) i = None \<and>
      (\<exists>g x. gview (tab w) i = Some g \<and> g_Ephemeral g \<and> g_ExpiresAt g = Some x \<and>
             x < instant (e_now E (n_now w)))"
  proof (cases res)
    case (Inr gs)
    with sweep_loop_view(1) [OF s, of E gs w2 i] exp [OF Inr] show ?thesis by (auto simp: sw t2)
  qed (simp add: sw t2)
  show "mview (tab (sweep E s w)) (i, u) = mview (tab w) (i, u)"
    if none: "\<not> (\<exists>g x. gview (tab w) i = Some g \<and> g_Ephemeral g \<and> g_ExpiresAt g = Some x \<and>
                x < instant (e_now E (n_now w)))"
  proof (cases res)
    case (Inr gs)
    have "i \<notin> g_ID ` set gs" using exp [OF Inr] none by blast
    with sweep_loop_view(2) [OF s this, of E w2 u] Inr show ?thesis by (simp add: sw t2)
  qed (simp add: sw t2)
  show "inv (tab (sweep E s w))"
    using sweep_loop_view(3) [OF s, of w2 E] inv by (cases res) (simp_all add: sw t2)
qed

text \<open>When every deletion succeeds, the listed groups are gone.\<close>

lemma sweep_loop_complete:
  assumes s: "sw_groups s = repo" "sw_publisher s = pub" "sw_authz s = az"
    and up: "\<And>i w. \<exists>w'. gr_Delete repo i w = (Inr (), w')"
    and i: "i \<in> g_ID ` set gs"
  shows "gview (tab (sweep_loop E s gs w)) i = None"
  using i
proof (induction gs arbitrary: w)
  case (Cons g gs)
  show ?case
  proof (cases "i \<in> g_ID ` set gs")
    case True
    with Cons.IH show ?thesis by simp
  next
    case False
    with Cons.prems have i: "i = g_ID g" by simp
    obtain w0 where "tab (sweep_deleteGroup E s g w) = tab (snd (gr_Delete repo i w0))"
      using sweep_deleteGroup_tab [OF s, of w E g] i by auto
    moreover obtain w1 where "gr_Delete repo i w0 = (Inr (), w1)" using up by blast
    ultimately have "gview (tab (sweep_deleteGroup E s g w)) i = None" using delete_ok by simp
    with sweep_loop_view(1) [OF s, of E gs "sweep_deleteGroup E s g w" i] show ?thesis by auto
  qed
qed simp

lemma sweep_complete:
  assumes s: "sw_groups s = repo" "sw_publisher s = pub" "sw_authz s = az" and inv: "inv (tab w)"
    and up: "\<And>i w. \<exists>w'. gr_Delete repo i w = (Inr (), w')"
    and listed: "\<And>now w. \<exists>gs w'. gr_ListExpired repo now w = (Inr gs, w')"
    and g: "gview (tab w) i = Some g" "g_ID g = i" "g_Ephemeral g" "g_ExpiresAt g = Some x"
      "x < instant (e_now E (n_now w))"
  shows "gview (tab (sweep E s w)) i = None"
proof -
  let ?w1 = "w\<lparr>n_now := Suc (n_now w)\<rparr>"
  obtain gs w2 where lst: "gr_ListExpired repo (e_now E (n_now w)) ?w1 = (Inr gs, w2)"
    using listed by blast
  have "inv (tab ?w1)" using inv by simp
  from list_expired [OF this lst, of g] g have "g \<in> set gs" by simp
  then have "i \<in> g_ID ` set gs" using g(2) by auto
  from sweep_loop_complete [OF s up this] lst show ?thesis by (simp add: sweep_def time_Now_def s)
qed

end

end
