(* ===== verification/Org_Member_Service.thy ===== *)
theory Org_Member_Service
  imports Org_Services
begin

text \<open>
  What the member use cases do to the memberships and invitations, proved from the contracts of the
  two repositories. The locale adds to them that each repository leaves the other's view alone.
\<close>

locale member_service =
  member: member_repository mrepo tab mview mstored +
  invite: invitation_repository irepo tab iview istored +
  side_channels pub az tab
  for mrepo :: "'x go_state_scheme MemberRepository" and tab :: "'x go_state_scheme \<Rightarrow> 't"
    and mview :: "'t \<Rightarrow> uuid \<times> uuid \<Rightarrow> OrgMember option" and mstored :: "OrgMember \<Rightarrow> OrgMember"
    and irepo :: "'x go_state_scheme InvitationRepository"
    and iview :: "'t \<Rightarrow> string \<Rightarrow> Invitation option" and istored :: "Invitation \<Rightarrow> Invitation"
    and pub :: "'x go_state_scheme EventPublisher" and az :: "'x go_state_scheme AuthzPort" +
  assumes clock_tab: "tab (w\<lparr>n_now := n\<rparr>) = tab w"
    and ids_tab: "tab (w\<lparr>n_ids := n\<rparr>) = tab w"
    and rand_tab: "tab (w\<lparr>n_rand := n\<rparr>) = tab w"
    and add_invites: "iview (tab (snd (mr_Add mrepo m w))) = iview (tab w)"
    and remove_invites: "iview (tab (snd (mr_Remove mrepo i u w))) = iview (tab w)"
    and create_members: "mview (tab (snd (ir_Create irepo i' w))) = mview (tab w)"
    and mark_members: "mview (tab (snd (ir_MarkAccepted irepo j w))) = mview (tab w)"
begin

lemmas clock_simps [simp] = clock_tab ids_tab rand_tab

lemma find_tab: "ir_FindByToken irepo t w = (r, w') \<Longrightarrow> tab w' = tab w"
  using invite.find_keeps by (rule keeps_eq)

text \<open>The steps of a successful acceptance.\<close>

lemma AcceptInvitation_steps:
  assumes s: "ms_members s = mrepo" "ms_invitations s = irepo" "ms_publisher s = pub"
    and run: "AcceptInvitation E s cmd w = (Inr m, w')"
  obtains inv w1 w2 w3 where
    "iview (tab w) (ai_Token cmd) = Some inv" "i_AcceptedAt inv = None" "tab w1 = tab w"
    "e_now E (n_now w1) \<le> i_ExpiresAt inv"
    "m = \<lparr>m_OrgID = i_OrgID inv, m_UserID = ai_UserID cmd, m_Role = i_Role inv, m_InvitedBy = None,
         m_JoinedAt = e_now E (Suc (n_now w1))\<rparr>"
    "mr_Add mrepo m (w1\<lparr>n_now := Suc (Suc (n_now w1))\<rparr>) = (Inr (), w2)"
    "ir_MarkAccepted irepo (i_ID inv) w2 = (Inr (), w3)" "tab w' = tab w3"
proof -
  from run obtain inv w1 where find: "ir_FindByToken irepo (ai_Token cmd) w = (Inr inv, w1)"
    and rest: "(if IsAccepted inv then (Inl (Sentinel ErrAlreadyExists), w1)
       else let (expired, w1) = IsExpired E inv w1 in
       if expired then (Inl (Sentinel ErrInviteExpired), w1)
       else let (now, w2) = time_Now E w1;
                member = \<lparr>m_OrgID = i_OrgID inv, m_UserID = ai_UserID cmd, m_Role = i_Role inv,
                          m_InvitedBy = None, m_JoinedAt = now\<rparr>
       in check_err ''MemberService.AcceptInvitation add member'' (mr_Add mrepo member) (\<lambda>_.
          check_err ''MemberService.AcceptInvitation mark accepted''
            (ir_MarkAccepted irepo (i_ID inv)) (\<lambda>_ w3.
          (Inr member, ignore_err (ep_Publish pub
             [MemberJoinedEvent (i_OrgID inv) (ai_UserID cmd) (i_Role inv) now]) w3))) w2) = (Inr m, w')"
    unfolding AcceptInvitation_def s by (rule check_err_InrE)
  let ?m = "\<lparr>m_OrgID = i_OrgID inv, m_UserID = ai_UserID cmd, m_Role = i_Role inv,
             m_InvitedBy = None, m_JoinedAt = e_now E (Suc (n_now w1))\<rparr>"
  from rest have acc: "i_AcceptedAt inv = None" and exp: "e_now E (n_now w1) \<le> i_ExpiresAt inv"
    and tail: "check_err ''MemberService.AcceptInvitation add member'' (mr_Add mrepo ?m) (\<lambda>_.
          check_err ''MemberService.AcceptInvitation mark accepted''
            (ir_MarkAccepted irepo (i_ID inv)) (\<lambda>_ w3.
          (Inr ?m, ignore_err (ep_Publish pub
             [MemberJoinedEvent (i_OrgID inv) (ai_UserID cmd) (i_Role inv) (e_now E (Suc (n_now w1)))]) w3)))
          (w1\<lparr>n_now := Suc (Suc (n_now w1))\<rparr>) = (Inr m, w')"
    by (auto simp: IsAccepted_def IsExpired_def time_Now_def Let_def split: if_splits)
  from tail obtain w2 w3 where add: "mr_Add mrepo ?m (w1\<lparr>n_now := Suc (Suc (n_now w1))\<rparr>) = (Inr (), w2)"
    and mark: "ir_MarkAccepted irepo (i_ID inv) w2 = (Inr (), w3)"
    and m: "m = ?m" and w': "tab w' = tab w3"
    by (elim check_err_InrE) auto
  show thesis
    using that [OF invite.find_found [OF find] acc find_tab [OF find] exp m _ mark w'] add m by simp
qed

text \<open>A successful acceptance: the invitation was open and not expired, the member is new, has the
  role of the invitation, and the invitation is marked.\<close>

lemma AcceptInvitation_ok:
  assumes s: "ms_members s = mrepo" "ms_invitations s = irepo" "ms_publisher s = pub"
    and run: "AcceptInvitation E s cmd w = (Inr m, w')"
  shows "\<exists>inv w1 at. iview (tab w) (ai_Token cmd) = Some inv \<and> i_AcceptedAt inv = None \<and>
      tab w1 = tab w \<and> e_now E (n_now w1) \<le> i_ExpiresAt inv \<and>
      m_OrgID m = i_OrgID inv \<and> m_UserID m = ai_UserID cmd \<and> m_Role m = i_Role inv \<and>
      mview (tab w) (i_OrgID inv, ai_UserID cmd) = None \<and>
      mview (tab w') = (mview (tab w))((i_OrgID inv, ai_UserID cmd) \<mapsto> mstored m) \<and>
      iview (tab w') (ai_Token cmd) = Some (inv\<lparr>i_AcceptedAt := Some at\<rparr>)"
proof -
  from s run obtain inv w1 w2 w3 where
    i: "iview (tab w) (ai_Token cmd) = Some inv" "i_AcceptedAt inv = None" "tab w1 = tab w"
      "e_now E (n_now w1) \<le> i_ExpiresAt inv"
    and m: "m = \<lparr>m_OrgID = i_OrgID inv, m_UserID = ai_UserID cmd, m_Role = i_Role inv,
         m_InvitedBy = None, m_JoinedAt = e_now E (Suc (n_now w1))\<rparr>"
    and add: "mr_Add mrepo m (w1\<lparr>n_now := Suc (Suc (n_now w1))\<rparr>) = (Inr (), w2)"
    and mark: "ir_MarkAccepted irepo (i_ID inv) w2 = (Inr (), w3)" and w': "tab w' = tab w3"
    by (rule AcceptInvitation_steps)
  have "iview (tab w2) (ai_Token cmd) = Some inv"
    using add_invites [of m "w1\<lparr>n_now := Suc (Suc (n_now w1))\<rparr>"] add i by simp
  from invite.mark_ok [OF mark this] w' obtain "at" where
    "iview (tab w') (ai_Token cmd) = Some (inv\<lparr>i_AcceptedAt := Some at\<rparr>)" by auto
  moreover have "mview (tab w') = (mview (tab w))((i_OrgID inv, ai_UserID cmd) \<mapsto> mstored m)"
    "mview (tab w) (i_OrgID inv, ai_UserID cmd) = None"
    using member.add_ok [OF add] mark_members [of "i_ID inv" w2] mark w' i(3) m by simp_all
  ultimately show ?thesis using i m by force
qed

text \<open>An invitation that is accepted or expired lets nobody in, whatever the network does.\<close>

lemma AcceptInvitation_refused:
  assumes s: "ms_members s = mrepo" "ms_invitations s = irepo" "ms_publisher s = pub"
    and inv: "iview (tab w) (ai_Token cmd) = Some i0"
    and dead: "i_AcceptedAt i0 \<noteq> None \<or> (\<forall>k. i_ExpiresAt i0 < e_now E k)"
    and run: "AcceptInvitation E s cmd w = (r, w')"
  shows "\<exists>e. r = Inl e" and "tab w' = tab w"
proof -
  obtain r1 w1 where find: "ir_FindByToken irepo (ai_Token cmd) w = (r1, w1)"
    by (cases "ir_FindByToken irepo (ai_Token cmd) w")
  have t1: "tab w1 = tab w" using find by (rule find_tab)
  have same: "i = i0" if "r1 = Inr i" for i using invite.find_found find inv that by force
  show "\<exists>e. r = Inl e" "tab w' = tab w"
    using run find dead same t1 unfolding AcceptInvitation_def s check_err_def
    by (auto simp: IsAccepted_def IsExpired_def time_Now_def split: sum.splits if_splits)
qed

lemma AcceptInvitation_twice:
  assumes s: "ms_members s = mrepo" "ms_invitations s = irepo" "ms_publisher s = pub"
    and first: "AcceptInvitation E s cmd w = (Inr m, w1)"
    and then_: "tab w2 = tab w1" and tok: "ai_Token cmd' = ai_Token cmd"
    and second: "AcceptInvitation E s cmd' w2 = (r, w3)"
  shows "\<exists>e. r = Inl e" and "tab w3 = tab w1"
proof -
  obtain inv "at" where "iview (tab w2) (ai_Token cmd') = Some (inv\<lparr>i_AcceptedAt := Some at\<rparr>)"
    using AcceptInvitation_ok [OF s first] then_ tok by auto
  from AcceptInvitation_refused [OF s this _ second] then_
  show "\<exists>e. r = Inl e" "tab w3 = tab w1" by simp_all
qed

subsection \<open>InviteMember\<close>

lemma generateToken_Inr:
  assumes "generateToken E w = (Inr t, w')"
  shows "\<exists>b. e_rand E (n_rand w) = Some b \<and> t = hex_EncodeToString b" and "tab w' = tab w"
    and "n_now w' = n_now w" and "n_ids w' = n_ids w"
  using assms by (auto simp: generateToken_def Let_def split: option.splits)

lemma InviteMember_ok:
  assumes s: "ms_members s = mrepo" "ms_invitations s = irepo" "ms_publisher s = pub"
    and run: "InviteMember E s cmd w = (Inr i, w')"
  shows "im_Email cmd \<noteq> []" and "ValidRole (im_Role cmd)"
    and "\<exists>b. e_rand E (n_rand w) = Some b \<and> i_Token i = hex_EncodeToString b"
    and "i_ExpiresAt i = e_now E (n_now w) + invitation_ttl" and "i_AcceptedAt i = None"
    and "i_OrgID i = im_OrgID cmd" and "i_Role i = im_Role cmd" and "i_Email i = im_Email cmd"
    and "iview (tab w) (i_Token i) = None"
    and "iview (tab w') = (iview (tab w))(i_Token i \<mapsto> istored i)"
    and "mview (tab w') = mview (tab w)"
proof -
  from run show ok: "im_Email cmd \<noteq> []" "ValidRole (im_Role cmd)"
    by (auto simp: InviteMember_def split: if_splits)
  let ?i = "\<lambda>t w1. \<lparr>i_ID = e_newid E (n_ids w1), i_OrgID = im_OrgID cmd, i_Email = im_Email cmd,
             i_Role = im_Role cmd, i_Token = t, i_ExpiresAt = e_now E (n_now w1) + invitation_ttl,
             i_AcceptedAt = None, i_CreatedAt = e_now E (n_now w1)\<rparr>"
  from run ok obtain t w1 w2 where tok: "generateToken E w = (Inr t, w1)" and i: "i = ?i t w1"
    and create: "ir_Create irepo (?i t w1) (w1\<lparr>n_now := Suc (n_now w1), n_ids := Suc (n_ids w1)\<rparr>) = (Inr (), w2)"
    and w': "tab w' = tab w2"
    unfolding InviteMember_def s
    by (auto simp: time_Now_def uuid_New_def Let_def elim!: check_err_InrE)
  note g = generateToken_Inr [OF tok]
  note create = create [folded i]
  from i g show "\<exists>b. e_rand E (n_rand w) = Some b \<and> i_Token i = hex_EncodeToString b"
    "i_ExpiresAt i = e_now E (n_now w) + invitation_ttl" "i_AcceptedAt i = None"
    "i_OrgID i = im_OrgID cmd" "i_Role i = im_Role cmd" "i_Email i = im_Email cmd" by simp_all
  from invite.create_ok [OF create] g(2) w' show "iview (tab w) (i_Token i) = None"
    "iview (tab w') = (iview (tab w))(i_Token i \<mapsto> istored i)" by simp_all
  show "mview (tab w') = mview (tab w)"
    using create_members [of i "w1\<lparr>n_now := Suc (n_now w1), n_ids := Suc (n_ids w1)\<rparr>"] create g(2) w'
    by simp
qed

end

end
