(* ===== verification/Keto_Checker.thy ===== *)
theory Keto_Checker
  imports Go_Json
begin

text \<open>
  The authorization client (\<^verbatim>\<open>internal/platform/authz/authz.go\<close>): relation tuples are checked, written
  and deleted through Ory Keto's REST API. The Keto server is not part of the repository: its answers
  are the environment's. Building a request cannot fail here (the base URLs are configured once); the
  response text that ends an error message is left out.
\<close>

record relationTuple =
  rt_Namespace :: string
  rt_Object :: string
  rt_Relation :: string
  rt_SubjectID :: string

definition tuple_json :: "relationTuple \<Rightarrow> json" where
  "tuple_json t = JObj [(''namespace'', JStr (rt_Namespace t)), (''object'', JStr (rt_Object t)),
                        (''relation'', JStr (rt_Relation t)), (''subject_id'', JStr (rt_SubjectID t))]"

record ketoChecker =
  k_readURL :: string
  k_writeURL :: string

definition TrimRightSlash :: "string \<Rightarrow> string" where
  "TrimRightSlash s = rev (dropWhile (\<lambda>c. c = CHR ''/'') (rev s))"

definition NewKetoChecker :: "string \<Rightarrow> string \<Rightarrow> ketoChecker" where
  "NewKetoChecker readURL writeURL =
     \<lparr>k_readURL = TrimRightSlash readURL, k_writeURL = TrimRightSlash writeURL\<rparr>"

text \<open>The namespace is what stands before the first colon.\<close>

definition parseObject :: "string \<Rightarrow> 's go_error + (string \<times> string)" where
  "parseObject object =
     (if CHR '':'' \<notin> set object
      then Inl (ExtError (''authz: invalid object format '' @ object @ '': expected Namespace:objectID''))
      else Inr (takeWhile (\<lambda>c. c \<noteq> CHR '':'') object, tl (dropWhile (\<lambda>c. c \<noteq> CHR '':'') object)))"

definition keto_Check ::
    "env \<Rightarrow> ketoChecker \<Rightarrow> string \<Rightarrow> string \<Rightarrow> string \<Rightarrow> ('s, bool, 'x go_state_scheme) go_op" where
  "keto_Check E k subject relation object w =
     (case parseObject object of
        Inl e \<Rightarrow> (Inl (Wrapped ''ketoChecker.Check'' e), w)
      | Inr (namespace, objectID) \<Rightarrow>
          (let tuple = \<lparr>rt_Namespace = namespace, rt_Object = objectID, rt_Relation = relation,
                        rt_SubjectID = subject\<rparr>;
               req = \<lparr>hr_method = ''POST'', hr_url = k_readURL k @ ''/relation-tuples/check'',
                      hr_query = [], hr_header = [(''Content-Type'', ''application/json'')],
                      hr_body = JsonBody (tuple_json tuple)\<rparr>
           in case http_Do E req w of
                (Inl e, w1) \<Rightarrow> (Inl (Wrapped ''ketoChecker.Check: execute request'' e), w1)
              | (Inr resp, w1) \<Rightarrow>
                  if hs_status resp = 403 then (Inr False, w1)
                  else if hs_status resp \<noteq> 200
                    then (Inl (ExtError (''ketoChecker.Check: unexpected status '' @ int_str (hs_status resp))), w1)
                  else case Option.bind (hs_body resp) (dec_struct (dec_bool ''allowed'')) of
                         None \<Rightarrow> (Inl (Wrapped ''ketoChecker.Check: decode response'' (ExtError ''json'')), w1)
                       | Some allowed \<Rightarrow> (Inr allowed, w1)))"

definition keto_WriteRelation ::
    "env \<Rightarrow> ketoChecker \<Rightarrow> string \<Rightarrow> string \<Rightarrow> string \<Rightarrow> ('s, unit, 'x go_state_scheme) go_op" where
  "keto_WriteRelation E k subject relation object w =
     (case parseObject object of
        Inl e \<Rightarrow> (Inl (Wrapped ''ketoChecker.WriteRelation'' e), w)
      | Inr (namespace, objectID) \<Rightarrow>
          (let tuple = \<lparr>rt_Namespace = namespace, rt_Object = objectID, rt_Relation = relation,
                        rt_SubjectID = subject\<rparr>;
               req = \<lparr>hr_method = ''PUT'', hr_url = k_writeURL k @ ''/admin/relation-tuples'',
                      hr_query = [], hr_header = [(''Content-Type'', ''application/json'')],
                      hr_body = JsonBody (tuple_json tuple)\<rparr>
           in case http_Do E req w of
                (Inl e, w1) \<Rightarrow> (Inl (Wrapped ''ketoChecker.WriteRelation: execute request'' e), w1)
              | (Inr resp, w1) \<Rightarrow>
                  if hs_status resp \<noteq> 201 \<and> hs_status resp \<noteq> 204
                  then (Inl (ExtError (''ketoChecker.WriteRelation: unexpected status '' @ int_str (hs_status resp))), w1)
                  else (Inr (), w1)))"

text \<open>The query is encoded with its keys in order.\<close>

definition keto_DeleteRelation ::
    "env \<Rightarrow> ketoChecker \<Rightarrow> string \<Rightarrow> string \<Rightarrow> string \<Rightarrow> ('s, unit, 'x go_state_scheme) go_op" where
  "keto_DeleteRelation E k subject relation object w =
     (case parseObject object of
        Inl e \<Rightarrow> (Inl (Wrapped ''ketoChecker.DeleteRelation'' e), w)
      | Inr (namespace, objectID) \<Rightarrow>
          (let req = \<lparr>hr_method = ''DELETE'', hr_url = k_writeURL k @ ''/admin/relation-tuples'',
                      hr_query = [(''namespace'', namespace), (''object'', objectID),
                                  (''relation'', relation), (''subject_id'', subject)],
                      hr_header = [], hr_body = NoReqBody\<rparr>
           in case http_Do E req w of
                (Inl e, w1) \<Rightarrow> (Inl (Wrapped ''ketoChecker.DeleteRelation: execute request'' e), w1)
              | (Inr resp, w1) \<Rightarrow>
                  if hs_status resp \<noteq> 204 \<and> hs_status resp \<noteq> 200
                  then (Inl (ExtError (''ketoChecker.DeleteRelation: unexpected status '' @ int_str (hs_status resp))), w1)
                  else (Inr (), w1)))"

lemmas keto_defs = keto_Check_def keto_WriteRelation_def keto_DeleteRelation_def

subsection \<open>Objects\<close>

lemma parseObject_colon:
  assumes "CHR '':'' \<notin> set ns"
  shows "parseObject (ns @ '':'' @ ident) = Inr (ns, ident)"
proof -
  have "takeWhile (\<lambda>c. c \<noteq> CHR '':'') (ns @ '':'' @ ident) = ns"
    using assms by (subst takeWhile_append2) auto
  moreover have "dropWhile (\<lambda>c. c \<noteq> CHR '':'') (ns @ '':'' @ ident) = '':'' @ ident"
    using assms by (subst dropWhile_append2) auto
  ultimately show ?thesis by (simp add: parseObject_def)
qed

lemma parseObject_Inr:
  assumes "parseObject object = Inr (ns, ident)"
  shows "object = ns @ '':'' @ ident" and "CHR '':'' \<notin> set ns"
proof -
  from assms have c: "CHR '':'' \<in> set object" and ns: "ns = takeWhile (\<lambda>c. c \<noteq> CHR '':'') object"
    and i: "ident = tl (dropWhile (\<lambda>c. c \<noteq> CHR '':'') object)"
    by (auto simp: parseObject_def split: if_splits)
  from c have ne: "dropWhile (\<lambda>c. c \<noteq> CHR '':'') object \<noteq> []" by auto
  with hd_dropWhile [OF ne] have "dropWhile (\<lambda>c. c \<noteq> CHR '':'') object = CHR '':'' # ident"
    using i by (metis (mono_tags) list.exhaust_sel)
  with ns show "object = ns @ '':'' @ ident"
    by (metis append.left_neutral append_Cons takeWhile_dropWhile_id)
  from ns show "CHR '':'' \<notin> set ns" by (auto dest: set_takeWhileD)
qed

lemma parseObject_group [simp]: "parseObject (''Group:'' @ i) = Inr (''Group'', i)"
  using parseObject_colon [of "''Group''" i] by simp

subsection \<open>What the client leaves alone\<close>

lemma keto_keeps_tables [intro!, simp]:
  "keeps tables_of (keto_Check E k s r ob)"
  "keeps tables_of (keto_WriteRelation E k s r ob)"
  "keeps tables_of (keto_DeleteRelation E k s r ob)"
  by (auto simp: keeps_def keto_defs http_Do_def Let_def split: sum.splits option.splits)

lemma keto_keeps_stream [intro!, simp]:
  "keeps js_log (keto_Check E k s r ob)"
  "keeps js_log (keto_WriteRelation E k s r ob)"
  "keeps js_log (keto_DeleteRelation E k s r ob)"
  by (auto simp: keeps_def keto_defs http_Do_def Let_def split: sum.splits option.splits)

end
