(* ===== verification/Org_System.thy ===== *)
theory Org_System
  imports Org_Contracts Org_Http Org_Group_Service Org_Member_Service Keto_Checker
begin

text \<open>
  The org service put together (\<^verbatim>\<open>services/org/cmd/org/main.go\<close>): the adapters plugged into the use
  cases, the contracts interpreted on them, the transitions of the running service and the invariant
  of its database. Every transition is one request or one tick of a background worker; the network
  calls inside it may each fail.
\<close>

subsection \<open>Wiring\<close>

text \<open>The environment variables main.go reads; an unset one is the empty string.\<close>

record org_config =
  KETO_READ_URL :: string
  KETO_WRITE_URL :: string
  CENTRIFUGO_TOKEN_SECRET :: string
  CENTRIFUGO_PROXY_SECRET :: string

definition keto_authz :: "env \<Rightarrow> ketoChecker \<Rightarrow> 'x go_state_scheme AuthzPort" where
  "keto_authz E k = \<lparr>az_Check = keto_Check E k, az_WriteRelation = keto_WriteRelation E k,
                     az_DeleteRelation = keto_DeleteRelation E k\<rparr>"

definition org_authz :: "env \<Rightarrow> org_config \<Rightarrow> org_db AuthzPort" where
  "org_authz E cfg = keto_authz E (NewKetoChecker (KETO_READ_URL cfg) (KETO_WRITE_URL cfg))"

definition NewGroupService :: "env \<Rightarrow> org_config \<Rightarrow> org_db GroupService" where
  "NewGroupService E cfg =
     \<lparr>gs_groups = NewGroupRepo E, gs_publisher = NewEventPublisher E, gs_authz = org_authz E cfg,
      gs_tokens = (if CENTRIFUGO_TOKEN_SECRET cfg = [] then None
                   else Some (IssueGroupToken E (CENTRIFUGO_TOKEN_SECRET cfg)))\<rparr>"

definition NewMemberService :: "env \<Rightarrow> org_db MemberService" where
  "NewMemberService E = \<lparr>ms_members = NewMemberRepo E, ms_invitations = NewInvitationRepo E,
                         ms_publisher = NewEventPublisher E\<rparr>"

definition NewOrgService :: "env \<Rightarrow> org_db OrgService" where
  "NewOrgService E = \<lparr>os_orgs = NewOrgRepo E, os_members = NewMemberRepo E,
                      os_publisher = NewEventPublisher E\<rparr>"

definition NewGroupExpirySweeper :: "env \<Rightarrow> org_config \<Rightarrow> org_db GroupExpirySweeper" where
  "NewGroupExpirySweeper E cfg = \<lparr>sw_groups = NewGroupRepo E, sw_publisher = NewEventPublisher E,
                                  sw_authz = org_authz E cfg\<rparr>"

definition org_proxy :: "env \<Rightarrow> org_config \<Rightarrow> org_db centrifugoProxyHandler" where
  "org_proxy E cfg = \<lparr>ph_authz = org_authz E cfg, ph_proxySecret = CENTRIFUGO_PROXY_SECRET cfg\<rparr>"

definition org_main :: "env \<Rightarrow> org_config \<Rightarrow> org_db OrgHandler" where
  "org_main E cfg =
     \<lparr>h_orgs = NewOrgService E, h_members = NewMemberService E, h_groups = NewGroupService E cfg,
      h_roles = \<lparr>rs_roles = NewRoleRepo E\<rparr>,
      h_tokenIssuer = (if CENTRIFUGO_TOKEN_SECRET cfg = [] then None
                       else Some (CENTRIFUGO_TOKEN_SECRET cfg)),
      h_proxyHandler = Some (org_proxy E cfg)\<rparr>"

lemmas org_wiring = NewGroupService_def NewMemberService_def NewOrgService_def
  NewGroupExpirySweeper_def org_proxy_def org_main_def

abbreviation "org_keto cfg \<equiv> NewKetoChecker (KETO_READ_URL cfg) (KETO_WRITE_URL cfg)"

lemma NewMemberService_sel:
  "ms_members (NewMemberService E) = NewMemberRepo E"
  "ms_invitations (NewMemberService E) = NewInvitationRepo E"
  "ms_publisher (NewMemberService E) = NewEventPublisher E"
  by (simp_all add: NewMemberService_def)

lemma NewGroupService_sel:
  "gs_groups (NewGroupService E cfg) = NewGroupRepo E"
  "gs_publisher (NewGroupService E cfg) = NewEventPublisher E"
  "gs_authz (NewGroupService E cfg) = keto_authz E (org_keto cfg)"
  by (simp_all add: NewGroupService_def org_authz_def)

lemma NewGroupExpirySweeper_sel:
  "sw_groups (NewGroupExpirySweeper E cfg) = NewGroupRepo E"
  "sw_publisher (NewGroupExpirySweeper E cfg) = NewEventPublisher E"
  "sw_authz (NewGroupExpirySweeper E cfg) = keto_authz E (org_keto cfg)"
  by (simp_all add: NewGroupExpirySweeper_def org_authz_def)

subsection \<open>The contracts on the adapters\<close>

interpretation org_side: side_channels "NewEventPublisher E" "keto_authz E k" tables_of for E k
  by unfold_locales (auto simp: NewEventPublisher_def keto_authz_def)

interpretation org_grp: group_service "NewGroupRepo E" tables_of group_view membership_view
    org_db_wf "stored_group E" "e_tsz E" "NewEventPublisher E" "keto_authz E k" for E k
  by unfold_locales simp_all

lemma member_repo_frame:
  "org_invitations (snd (MemberRepo_Add E m w)) = org_invitations w"
  "org_invitations (snd (MemberRepo_Remove E i u w)) = org_invitations w"
  "org_members (snd (InvitationRepo_Create E i' w)) = org_members w"
  "org_members (snd (InvitationRepo_MarkAccepted E j w)) = org_members w"
  by (auto simp: member_repo_defs invitation_repo_defs net_call_def db_now_def Let_def
      split: net_outcome.splits)

interpretation org_mem: member_service "NewMemberRepo E" tables_of member_view "stored_member E"
    "NewInvitationRepo E" invitation_view "stored_invitation E" "NewEventPublisher E"
    "keto_authz E k" for E k
  by unfold_locales (simp_all add: fun_eq_iff NewMemberRepo_def NewInvitationRepo_def member_view_def
      invitation_view_def member_repo_frame)

subsection \<open>The transitions\<close>

inductive org_step :: "env \<Rightarrow> org_config \<Rightarrow> org_db \<Rightarrow> org_db \<Rightarrow> bool" for E cfg where
  public: "rt \<in> set (org_Mount E (org_main E cfg)) \<Longrightarrow> org_step E cfg w (snd (route_handler rt r w))"
| internal:
    "rt \<in> set (org_MountInternal E (org_main E cfg)) \<Longrightarrow> org_step E cfg w (snd (route_handler rt r w))"
| sweeper_tick: "org_step E cfg w (sweep E (NewGroupExpirySweeper E cfg) w)"
| outbox_tick: "org_step E cfg w (outbox_poll E w)"

inductive_cases org_stepE: "org_step E cfg w w'"

inductive org_reachable :: "env \<Rightarrow> org_config \<Rightarrow> org_db \<Rightarrow> bool" for E cfg where
  initial: "organizations w = [] \<Longrightarrow> org_members w = [] \<Longrightarrow> org_invitations w = [] \<Longrightarrow>
     groups w = [] \<Longrightarrow> group_members w = [] \<Longrightarrow> roles w = [] \<Longrightarrow> outbox w = [] \<Longrightarrow> org_reachable E cfg w"
| step: "org_reachable E cfg w \<Longrightarrow> org_step E cfg w w' \<Longrightarrow> org_reachable E cfg w'"

subsection \<open>The invariant\<close>

definition org_row_ok :: "OrganizationRow \<Rightarrow> bool" where
  "org_row_ok r \<longleftrightarrow> ro_name r \<noteq> [] \<and> ro_slug r \<noteq> [] \<and> ro_owner_user_id r \<noteq> uuid_Nil \<and>
     ro_plan r = ''free'' \<and> ro_suspended_at r = None \<and> ro_updated_at r = ro_created_at r"

text \<open>A token comes from the random source, and the invitation is valid for seven days.\<close>

definition invitation_row_ok :: "env \<Rightarrow> OrgInvitationRow \<Rightarrow> bool" where
  "invitation_row_ok E r \<longleftrightarrow> ri_email r \<noteq> [] \<and>
     (\<exists>k b. e_rand E k = Some b \<and> ri_token r = hex_EncodeToString b) \<and>
     (\<exists>k. ri_created_at r = e_tsz E (e_now E k) \<and> ri_expires_at r = e_tsz E (e_now E k + invitation_ttl))"

definition group_row_ok :: "GroupRow \<Rightarrow> bool" where
  "group_row_ok r \<longleftrightarrow> rg_org_id r \<noteq> uuid_Nil \<and> rg_app_id r \<noteq> uuid_Nil \<and> rg_created_by r \<noteq> uuid_Nil \<and>
     rg_name r \<noteq> [] \<and> (rg_ephemeral r \<longrightarrow> rg_expires_at r \<noteq> None)"

definition role_row_ok :: "RoleRow \<Rightarrow> bool" where
  "role_row_ok r \<longleftrightarrow> rr_org_id r \<noteq> uuid_Nil \<and> rr_name r \<noteq> [] \<and> rr_permissions r \<noteq> None"

definition org_inv :: "env \<Rightarrow> org_db \<Rightarrow> bool" where
  "org_inv E w \<longleftrightarrow> org_db_wf w \<and> list_all org_row_ok (organizations w) \<and>
     list_all (\<lambda>r. rm_invited_by r = None) (org_members w) \<and>
     list_all (invitation_row_ok E) (org_invitations w) \<and> list_all group_row_ok (groups w) \<and>
     list_all role_row_ok (roles w)"

end
