(* ===== verification/Org_Invariant.thy ===== *)
theory Org_Invariant
  imports Org_System
begin

text \<open>
  Predicates on the org database that every transition of the running service preserves. The locale
  \<open>org_predicate\<close> asks that a predicate depends on the tables only and survives each statement that
  writes, for the arguments the use cases pass; inside it every use case, handler and worker is shown
  to preserve the predicate. Its interpretations are the invariant of the database, and facts that
  never go away once they are true: an accepted invitation, an organization's row.
\<close>

text \<open>The statements that only read.\<close>

lemma read_only [intro!, simp]:
  "keeps tables_of (GetOrganizationByID E i)"
  "keeps tables_of (ListOrgMembers E i)"
  "keeps tables_of (GetInvitationByToken E tok)"
  "keeps tables_of (GetGroupByID E i)"
  "keeps tables_of (ListGroupsByOrg E i)"
  "keeps tables_of (ListExpiredGroups E now)"
  "keeps tables_of (ListGroupMemberRows E i)"
  "keeps tables_of (GetUnpublishedOutboxEvents E k)"
  "keeps tables_of (ListRolesByOrg E i)"
  unfolding org_query_defs by (auto simp: keeps_def net_call_def Let_def split: net_outcome.splits option.splits)

lemma ListMembers_keeps: "keeps tables_of (gr_ListMembers (NewGroupRepo E) i)"
  by (rule pg_groups.list_keeps)

lemma IssueSubscriptionToken_keeps_tables:
  "keeps tables_of (IssueSubscriptionToken E (NewGroupService E cfg) cmd)"
proof -
  have "keeps tables_of (\<lambda>w2. if \<not> list_ex (\<lambda>m. gm_UserID m = u) ms
      then (Inl (Sentinel ErrNotAuthorized), w2)
      else case tok of
             None \<Rightarrow> (Inl (Panicked p), w2)
           | Some issue \<Rightarrow> (case issue u j x of Inl e \<Rightarrow> (Inl (Wrapped q e), w2) | Inr t \<Rightarrow> (Inr t, w2)))"
    for u ms tok p j x q
    by (auto simp: keeps_def split: option.splits sum.splits)
  note k1 = keeps_check_err [OF ListMembers_keeps this]
  show ?thesis
    unfolding IssueSubscriptionToken_def
    by (rule keeps_check_err)
       (auto simp: org_wiring pg_groups.find_keeps time_Now_def Let_def intro!: keepsI
          keepsD [OF k1, THEN trans] split: option.splits)
qed

text \<open>Where a membership comes from: the organization's founding, or an invitation to the role.\<close>

definition member_source :: "org_db \<Rightarrow> uuid \<Rightarrow> uuid \<Rightarrow> string \<Rightarrow> bool" where
  "member_source w i u rl \<longleftrightarrow>
     rl = RoleOwner \<and> (\<exists>r \<in> set (organizations w). ro_id r = i \<and> ro_owner_user_id r = u) \<or>
     (\<exists>r \<in> set (org_invitations w). ri_org_id r = i \<and> ri_role r = rl)"

lemma member_source_counters [simp]:
  "member_source (w\<lparr>n_now := n\<rparr>) = member_source w" "member_source (w\<lparr>n_net := n\<rparr>) = member_source w"
  by (simp_all add: member_source_def fun_eq_iff)

lemma CreateOrg_source:
  assumes "or_Create (NewOrgRepo E) org w = (Inr (), w')"
  shows "member_source w' (o_ID org) (o_OwnerUserID org) RoleOwner"
  using assms
  by (auto simp: NewOrgRepo_def OrgRepo_Create_def conv_def CreateOrganization_def net_call_def Let_def member_source_def
      split: net_outcome.splits if_splits)

lemma FindByToken_source:
  assumes "ir_FindByToken (NewInvitationRepo E) tok w = (Inr v, w')"
  shows "member_source w' (i_OrgID v) u (i_Role v)"
  using assms
  by (auto simp: NewInvitationRepo_def InvitationRepo_FindByToken_def conv_def GetInvitationByToken_def net_call_def
      Let_def member_source_def rowToInvitation_def find_Some_iff split: net_outcome.splits option.splits)

locale org_predicate =
  fixes E :: env and P :: "org_db \<Rightarrow> bool"
  assumes P_tables: "tables_of w = tables_of w' \<Longrightarrow> P w = P w'"
    and q_CreateOrganization:
      "org_row_ok \<lparr>ro_id = i, ro_name = n, ro_slug = s, ro_owner_user_id = u, ro_plan = p,
         ro_created_at = e_tsz E c, ro_updated_at = e_tsz E d, ro_suspended_at = None\<rparr> \<Longrightarrow>
       preserves P (CreateOrganization E i n s u p c d)"
    and q_AddOrgMember: "P w \<Longrightarrow> member_source w i u rl \<Longrightarrow> P (snd (AddOrgMember E i u rl None d w))"
    and q_RemoveOrgMember: "preserves P (RemoveOrgMember E i u)"
    and q_CreateInvitation:
      "invitation_row_ok E \<lparr>ri_id = i, ri_org_id = j, ri_email = m, ri_role = rl, ri_token = tok,
         ri_expires_at = e_tsz E c, ri_accepted_at = None, ri_created_at = e_tsz E d\<rparr> \<Longrightarrow>
       preserves P (CreateInvitation E i j m rl tok c d)"
    and q_MarkAccepted: "preserves P (MarkInvitationAccepted E i)"
    and q_CreateGroup:
      "group_row_ok \<lparr>rg_id = i, rg_org_id = j, rg_app_id = a, rg_name = n, rg_description = ds,
         rg_ephemeral = b, rg_expires_at = map_option (e_tsz E) x, rg_created_by = u,
         rg_created_at = e_tsz E d\<rparr> \<Longrightarrow>
       preserves P (CreateGroupRow E i j a n ds b x u d)"
    and q_DeleteGroup: "preserves P (DeleteGroup E i)"
    and q_AddGroupMember: "preserves P (AddGroupMemberRow E i u a)"
    and q_RemoveGroupMember: "preserves P (RemoveGroupMemberRow E i u)"
    and q_CreateRole: "j \<noteq> uuid_Nil \<Longrightarrow> n \<noteq> [] \<Longrightarrow> preserves P (CreateRoleRow E i j n perms d)"
    and q_DeleteRole: "preserves P (DeleteRoleRow E i)"
    and q_MarkOutbox: "preserves P (MarkOutboxEventPublished E i)"
begin

lemma P_counters [simp]:
  "P (w\<lparr>n_now := n\<rparr>) = P w" "P (w\<lparr>n_ids := n\<rparr>) = P w"
  "P (w\<lparr>n_rand := n\<rparr>) = P w" "P (w\<lparr>n_net := n\<rparr>) = P w"
  by (rule P_tables, simp)+

lemma tables_P: "keeps tables_of m \<Longrightarrow> preserves P m"
  by (rule keeps_preserves) (auto dest: P_tables)

lemmas P_read [intro!] = read_only [THEN tables_P]

lemmas P_write [intro!] = q_RemoveOrgMember q_MarkAccepted q_DeleteGroup
  q_AddGroupMember q_RemoveGroupMember q_DeleteRole q_MarkOutbox

lemma inv_publish [simp]:
  "P (ignore_err (ep_Publish (NewEventPublisher E) evs) w) = P w"
  by (rule P_tables) simp

lemma inv_authz [simp]:
  "P (ignore_err (az_WriteRelation (org_authz E cfg) s r ob) w) = P w"
  "P (ignore_err (az_DeleteRelation (org_authz E cfg) s r ob) w) = P w"
  by (rule P_tables, simp add: org_authz_def)+

lemma inv_check: "preserves P (az_Check (org_authz E cfg) s r ob)"
  by (rule tables_P) (simp add: org_authz_def keto_authz_def)

lemma NewOrganization_inv: "preserves P (NewOrganization E n s u)"
  by (rule tables_P, rule keepsI) (simp add: NewOrganization_def domain_effects)

lemma NewGroup_inv: "preserves P (NewGroup E a b c d e f g)"
  by (rule tables_P, rule keepsI) (simp add: NewGroup_def domain_effects)

lemma NewRole_inv: "preserves P (NewRole E a b c)"
  by (rule tables_P, rule keepsI) (simp add: NewRole_def domain_effects)

lemma generateToken_inv: "preserves P (generateToken E)"
  by (rule tables_P, rule keepsI) (simp add: generateToken_def Let_def split: option.splits)

lemmas repo_unfold = org_new_repo_defs org_repo_defs

lemma add_member_P:
  assumes "P w" and "member_source w (m_OrgID m) (m_UserID m) (m_Role m)" and "m_InvitedBy m = None"
  shows "P (snd (mr_Add (NewMemberRepo E) m w))"
  using q_AddOrgMember [OF assms(1,2)] assms(3) by (simp add: NewMemberRepo_def MemberRepo_Add_def)

lemma CreateOrg_inv: "preserves P (CreateOrg E (NewOrgService E) cmd)"
proof (rule preservesI)
  fix w assume "P w"
  show "P (snd (CreateOrg E (NewOrgService E) cmd w))"
    unfolding CreateOrg_def
  proof (rule check_err_from)
    show "P (snd (NewOrganization E (co_Name cmd) (co_Slug cmd) (co_OwnerUserID cmd) w))"
      using NewOrganization_inv \<open>P w\<close> by (rule preservesD)
    fix org w1
    assume new: "NewOrganization E (co_Name cmd) (co_Slug cmd) (co_OwnerUserID cmd) w = (Inr org, w1)" and "P w1"
    have "preserves P (CreateOrganization E (o_ID org) (o_Name org) (o_Slug org)
        (o_OwnerUserID org) (o_Plan org) (o_CreatedAt org) (o_UpdatedAt org))"
      using NewOrganization_Inr [OF new] by (intro q_CreateOrganization) (simp add: org_row_ok_def)
    then have create: "preserves P (or_Create (NewOrgRepo E) org)"
      by (auto simp: repo_unfold intro: preserves_conv)
    have owner: "o_OwnerUserID org = co_OwnerUserID cmd" using NewOrganization_Inr(4) [OF new] by simp
    show "P (snd (check_err ''OrgService.CreateOrg persist'' (or_Create (os_orgs (NewOrgService E)) org) (\<lambda>_.
       check_err ''OrgService.CreateOrg add owner''
         (mr_Add (os_members (NewOrgService E)) \<lparr>m_OrgID = o_ID org, m_UserID = co_OwnerUserID cmd,
            m_Role = RoleOwner, m_InvitedBy = None, m_JoinedAt = o_CreatedAt org\<rparr>)
         (\<lambda>_ w. let (evts, org') = org_PopEvents org
                in (Inr org', ignore_err (ep_Publish (os_publisher (NewOrgService E)) evts) w))) w1))"
    proof (rule check_err_from, goal_cases)
      case 1
      show ?case using preservesD [OF create \<open>P w1\<close>] by (simp add: org_wiring)
    next
      case (2 x w2)
      then have source: "member_source w2 (o_ID org) (co_OwnerUserID cmd) RoleOwner"
        using CreateOrg_source [of E org w1 w2] by (simp add: org_wiring owner)
      show ?case
      proof (rule check_err_from, goal_cases)
        case 1
        show ?case using add_member_P [OF 2(2)] source by (simp add: org_wiring)
      qed (simp add: org_wiring org_PopEvents_def)
    qed
  qed
qed

lemma GetOrg_inv: "preserves P (GetOrg (NewOrgService E) i)"
  unfolding GetOrg_def
  by (auto simp: org_wiring repo_unfold intro!: preserves_check_err preserves_conv preserves_const)

lemma InviteMember_inv: "preserves P (InviteMember E (NewMemberService E) cmd)"
proof (rule preservesI)
  fix w assume inv: "P w"
  let ?i = "\<lambda>t w1. \<lparr>i_ID = e_newid E (n_ids w1), i_OrgID = im_OrgID cmd, i_Email = im_Email cmd,
             i_Role = im_Role cmd, i_Token = t, i_ExpiresAt = e_now E (n_now w1) + invitation_ttl,
             i_AcceptedAt = None, i_CreatedAt = e_now E (n_now w1)\<rparr>"
  have create: "preserves P (ir_Create (NewInvitationRepo E) (?i t w1))"
    if "generateToken E w = (Inr t, w1)" "im_Email cmd \<noteq> []" for t w1
  proof -
    have "\<exists>b. e_rand E (n_rand w) = Some b \<and> t = hex_EncodeToString b"
      using that(1) by (auto simp: generateToken_def Let_def split: option.splits)
    with that(2) have "invitation_row_ok E \<lparr>ri_id = i_ID (?i t w1), ri_org_id = i_OrgID (?i t w1),
        ri_email = i_Email (?i t w1), ri_role = i_Role (?i t w1), ri_token = i_Token (?i t w1),
        ri_expires_at = e_tsz E (i_ExpiresAt (?i t w1)), ri_accepted_at = None,
        ri_created_at = e_tsz E (i_CreatedAt (?i t w1))\<rparr>"
      by (auto simp: invitation_row_ok_def)
    then show ?thesis
      unfolding NewInvitationRepo_def InvitationRepo_Create_def InvitationRepository.select_convs
      by (intro preserves_conv q_CreateInvitation)
  qed
  show "P (snd (InviteMember E (NewMemberService E) cmd w))"
  proof (cases "im_Email cmd = [] \<or> \<not> ValidRole (im_Role cmd)")
    case True
    with inv show ?thesis by (auto simp: InviteMember_def)
  next
    case False
    obtain r w1 where tok: "generateToken E w = (r, w1)" by (cases "generateToken E w")
    have inv1: "P w1" using generateToken_inv tok inv by (rule preserves_eq)
    show ?thesis
    proof (cases r)
      case (Inr t)
      let ?w2 = "w1\<lparr>n_now := Suc (n_now w1), n_ids := Suc (n_ids w1)\<rparr>"
      have "P (snd (ir_Create (NewInvitationRepo E) (?i t w1) ?w2))"
        using create [of t w1] tok Inr False inv1 by (auto simp: preserves_def)
      with Inr tok False show ?thesis
        by (auto simp: InviteMember_def check_err_def time_Now_def uuid_New_def Let_def org_wiring
            split: prod.splits sum.splits)
    qed (use tok inv1 False in \<open>simp add: InviteMember_def check_err_def\<close>)
  qed
qed

lemma AcceptInvitation_inv: "preserves P (AcceptInvitation E (NewMemberService E) cmd)"
proof (rule preservesI)
  fix w assume "P w"
  show "P (snd (AcceptInvitation E (NewMemberService E) cmd w))"
    unfolding AcceptInvitation_def
  proof (rule check_err_from)
    have "preserves P (ir_FindByToken (ms_invitations (NewMemberService E)) (ai_Token cmd))"
      by (auto simp: org_wiring repo_unfold intro!: preserves_conv)
    then show "P (snd (ir_FindByToken (ms_invitations (NewMemberService E)) (ai_Token cmd) w))"
      using \<open>P w\<close> by (rule preservesD)
    fix i w1
    assume "ir_FindByToken (ms_invitations (NewMemberService E)) (ai_Token cmd) w = (Inr i, w1)" and "P w1"
    then have source: "member_source w1 (i_OrgID i) (ai_UserID cmd) (i_Role i)"
      by (intro FindByToken_source [of E]) (simp add: org_wiring)
    have mark: "preserves P (ir_MarkAccepted (NewInvitationRepo E) (i_ID i))"
      by (auto simp: repo_unfold intro!: preserves_conv)
    have tail: "P (snd (check_err ''MemberService.AcceptInvitation add member''
           (mr_Add (ms_members (NewMemberService E)) \<lparr>m_OrgID = i_OrgID i, m_UserID = ai_UserID cmd,
              m_Role = i_Role i, m_InvitedBy = None, m_JoinedAt = now\<rparr>)
           (\<lambda>_. check_err ''MemberService.AcceptInvitation mark accepted''
              (ir_MarkAccepted (ms_invitations (NewMemberService E)) (i_ID i)) (\<lambda>_ w3.
              (Inr m, ignore_err (ep_Publish (ms_publisher (NewMemberService E)) evs) w3)))
           (w1\<lparr>n_now := k\<rparr>)))" for now m evs k
    proof (rule check_err_from, goal_cases)
      case 1
      show ?case using add_member_P [of "w1\<lparr>n_now := k\<rparr>"] source \<open>P w1\<close> by (simp add: org_wiring)
    next
      case (2 x w2)
      show ?case
      proof (rule check_err_from, goal_cases)
        case 1
        show ?case using preservesD [OF mark 2(2)] by (simp add: org_wiring)
      qed (simp add: org_wiring)
    qed
    show "P (snd (if IsAccepted i then (Inl (Sentinel ErrAlreadyExists), w1)
       else let (expired, w1) = IsExpired E i w1 in
       if expired then (Inl (Sentinel ErrInviteExpired), w1)
       else let (now, w2) = time_Now E w1;
                member = \<lparr>m_OrgID = i_OrgID i, m_UserID = ai_UserID cmd, m_Role = i_Role i,
                          m_InvitedBy = None, m_JoinedAt = now\<rparr>
       in check_err ''MemberService.AcceptInvitation add member''
            (mr_Add (ms_members (NewMemberService E)) member) (\<lambda>_.
          check_err ''MemberService.AcceptInvitation mark accepted''
            (ir_MarkAccepted (ms_invitations (NewMemberService E)) (i_ID i)) (\<lambda>_ w3.
          (Inr member, ignore_err (ep_Publish (ms_publisher (NewMemberService E))
             [MemberJoinedEvent (i_OrgID i) (ai_UserID cmd) (i_Role i) now]) w3))) w2))"
      using \<open>P w1\<close> tail by (auto simp: IsExpired_def time_Now_def Let_def)
  qed
qed

lemma simple_use_cases_inv:
  "preserves P (RemoveMember (NewMemberService E) rmc)"
  "preserves P (ListMembers (NewMemberService E) i)"
  "preserves P (ListGroups (NewGroupService E cfg) i)"
  "preserves P (ListGroupMembers (NewGroupService E cfg) i)"
  "preserves P (DeleteRole \<lparr>rs_roles = NewRoleRepo E\<rparr> dr)"
  "preserves P (ListRoles \<lparr>rs_roles = NewRoleRepo E\<rparr> i)"
  unfolding RemoveMember_def ListMembers_def ListGroups_def ListGroupMembers_def DeleteRole_def
    ListRoles_def
  by (auto simp: org_wiring repo_unfold intro!: preserves_check_err preserves_conv preserves_const)

lemma CreateRole_inv: "preserves P (CreateRole E \<lparr>rs_roles = NewRoleRepo E\<rparr> cmd)"
  unfolding CreateRole_def
proof (rule preserves_check_err_result [OF NewRole_inv], rule preserves_check_err)
  fix r w w'
  assume new: "NewRole E (cr_OrgID cmd) (cr_Name cmd) (cr_Permissions cmd) w = (Inr r, w')"
  have "preserves P (CreateRoleRow E (r_ID r) (r_OrgID r) (r_Name r) (r_Permissions r) (r_CreatedAt r))"
    using NewRole_Inr [OF new] by (intro q_CreateRole) simp_all
  then show "preserves P (rr_Create (rs_roles \<lparr>rs_roles = NewRoleRepo E\<rparr>) r)"
    by (auto simp: repo_unfold intro: preserves_conv)
qed (rule preserves_const)

lemma CreateGroup_inv: "preserves P (CreateGroup E (NewGroupService E cfg) cmd)"
  unfolding CreateGroup_def
proof (rule preserves_check_err_result [OF NewGroup_inv], rule preserves_check_err)
  fix g w w'
  assume new: "NewGroup E (cg_OrgID cmd) (cg_AppID cmd) (cg_CreatedBy cmd) (cg_Name cmd)
      (cg_Description cmd) (cg_Ephemeral cmd) (cg_ExpiresAt cmd) w = (Inr g, w')"
  have "preserves P (CreateGroupRow E (g_ID g) (g_OrgID g) (g_AppID g) (g_Name g)
      (g_Description g) (g_Ephemeral g) (g_ExpiresAt g) (g_CreatedBy g) (g_CreatedAt g))"
    using NewGroup_Inr [OF new] by (intro q_CreateGroup)
      (simp add: group_row_ok_def)
  then show "preserves P (gr_Create (gs_groups (NewGroupService E cfg)) g)"
    by (auto simp: org_wiring repo_unfold intro: preserves_conv)
next
  fix g :: Group and x
  show "preserves P (\<lambda>w.
     let w1 = (if \<not> g_Ephemeral g
               then ignore_err (az_WriteRelation (gs_authz (NewGroupService E cfg))
                 (e_uuid_str E (cg_CreatedBy cmd)) ''admin'' (group_object E (g_ID g))) w
               else w);
         (now, w2) = time_Now E w1
     in (Inr g, ignore_err (ep_Publish (gs_publisher (NewGroupService E cfg))
          [GroupCreatedEvent (g_ID g) (g_OrgID g) (g_AppID g) (g_CreatedBy g)
             (g_Ephemeral g) (g_ExpiresAt g) now]) w2))"
    by (rule preservesI) (simp add: org_wiring time_Now_def Let_def)
qed

lemma AddGroupMember_inv: "preserves P (AddGroupMember E (NewGroupService E cfg) cmd)"
  unfolding AddGroupMember_def
  by (rule preserves_check_err, (auto simp: org_wiring repo_unfold intro!: preserves_conv)[1],
      rule preserves_check_err, (auto simp: org_wiring repo_unfold intro!: preserves_conv)[1],
      rule preservesI) (simp add: org_wiring time_Now_def Let_def)

lemma RemoveGroupMember_inv: "preserves P (RemoveGroupMember E (NewGroupService E cfg) cmd)"
  unfolding RemoveGroupMember_def
  by (rule preserves_check_err, (auto simp: org_wiring repo_unfold intro!: preserves_conv)[1],
      rule preserves_check_err, (auto simp: org_wiring repo_unfold intro!: preserves_conv)[1],
      rule preservesI) (simp add: org_wiring time_Now_def Let_def)

lemma IssueSubscriptionToken_inv:
  "preserves P (IssueSubscriptionToken E (NewGroupService E cfg) cmd)"
  by (rule tables_P) (rule IssueSubscriptionToken_keeps_tables)

lemmas use_cases_inv = CreateOrg_inv GetOrg_inv InviteMember_inv AcceptInvitation_inv
  simple_use_cases_inv CreateRole_inv CreateGroup_inv AddGroupMember_inv RemoveGroupMember_inv
  IssueSubscriptionToken_inv

subsection \<open>Handlers\<close>

lemma connection_token_inv: "preserves P (IssueConnectionToken E secret u)"
  by (rule tables_P, rule keepsI) (auto simp: IssueConnectionToken_def time_Now_def split: sum.splits)

lemma org_main_sel [simp]:
  "h_orgs (org_main E cfg) = NewOrgService E" "h_members (org_main E cfg) = NewMemberService E"
  "h_groups (org_main E cfg) = NewGroupService E cfg"
  "h_roles (org_main E cfg) = \<lparr>rs_roles = NewRoleRepo E\<rparr>"
  "h_proxyHandler (org_main E cfg) = Some (org_proxy E cfg)"
  by (simp_all add: org_main_def)

lemma org_Mount_inv:
  assumes "rt \<in> set (org_Mount E (org_main E cfg))"
  shows "handler_preserves P (route_handler rt)"
proof -
  have conn: "handler_preserves P (\<lambda>r w.
     case h_tokenIssuer (org_main E cfg) of
       None \<Rightarrow> (org_writeProblem 503 (''Centrifugo not configured '' @ em_dash @ '' set CENTRIFUGO_TOKEN_SECRET''), w)
     | Some secret \<Rightarrow>
         respond (\<lambda>_. org_writeProblem 500 ''token signing failed'')
           (\<lambda>token. writeJSON 200 (token_json token))
           (IssueConnectionToken E secret (mustParseUUID E (c_Subject claims))) r w)" for claims
    using connection_token_inv by (auto simp: handler_preserves_def preserves_def split: option.splits)
  show ?thesis
    using assms unfolding org_Mount_def org_handler_defs
    by (auto intro: conn use_cases_inv split: prod.splits)
qed

lemma checkSubscription_inv: "preserves P (checkSubscription (org_proxy E cfg) req)"
  by (auto simp: checkSubscription_def org_proxy_def Let_def intro: inv_check preserves_const)

lemma org_MountInternal_inv:
  assumes "rt \<in> set (org_MountInternal E (org_main E cfg))"
  shows "handler_preserves P (route_handler rt)"
proof -
  have "handler_preserves P (proxy_ServeHTTP (org_proxy E cfg))"
    unfolding handler_preserves_def proxy_ServeHTTP_def
    using preserves_eq [OF checkSubscription_inv] by (auto split: option.splits prod.splits sum.splits)
  moreover have "handler_preserves P (internalListGroupMembers E (org_main E cfg))"
    unfolding internalListGroupMembers_def by (auto intro: use_cases_inv)
  ultimately show ?thesis using assms by (auto simp: org_MountInternal_def)
qed

subsection \<open>The background workers\<close>

lemma sweep_relations_inv: "P (sweep_relations E (org_authz E cfg) i ms w) = P w"
  by (induction ms arbitrary: w) auto

lemma sweep_deleteGroup_inv:
  assumes "P w"
  shows "P (sweep_deleteGroup E (NewGroupExpirySweeper E cfg) g w)"
proof -
  obtain res w1 where lm: "gr_ListMembers (NewGroupRepo E) (g_ID g) w = (res, w1)"
    by (cases "gr_ListMembers (NewGroupRepo E) (g_ID g) w")
  have inv1: "P w1"
    using assms P_tables [OF keeps_eq [OF ListMembers_keeps lm]] by simp
  define w3 where "w3 = ignore_err (az_DeleteRelation (org_authz E cfg) (e_uuid_str E (g_CreatedBy g)) ''admin''
      (group_object E (g_ID g)))
    (sweep_relations E (org_authz E cfg) (g_ID g) (case res of Inl _ \<Rightarrow> [] | Inr ms \<Rightarrow> ms) w1)"
  have "P w3" using inv1 by (simp add: w3_def sweep_relations_inv)
  moreover have "preserves P (gr_Delete (NewGroupRepo E) (g_ID g))"
    by (auto simp: repo_unfold intro: preserves_conv)
  ultimately have "P (snd (gr_Delete (NewGroupRepo E) (g_ID g) w3))" by (simp add: preserves_def)
  then show ?thesis
    unfolding sweep_deleteGroup_def NewGroupExpirySweeper_def GroupExpirySweeper.select_convs lm Let_def split
      w3_def [symmetric]
    by (auto simp: time_Now_def split: prod.splits sum.splits)
qed

lemma sweep_inv:
  assumes "P w"
  shows "P (sweep E (NewGroupExpirySweeper E cfg) w)"
proof -
  have loop: "P w \<Longrightarrow> P (sweep_loop E (NewGroupExpirySweeper E cfg) gs w)" for gs w
    by (induction gs arbitrary: w) (auto intro: sweep_deleteGroup_inv)
  have "preserves P (gr_ListExpired (NewGroupRepo E) now)" for now
    by (rule tables_P) (rule pg_groups.expired_keeps)
  then have "P w2" if "gr_ListExpired (NewGroupRepo E) (e_now E (n_now w))
      (w\<lparr>n_now := Suc (n_now w)\<rparr>) = (res, w2)" for res w2
    using preserves_eq that assms by (metis P_counters(1))
  then show ?thesis
    using loop [unfolded NewGroupExpirySweeper_def]
    by (auto simp: sweep_def time_Now_def NewGroupExpirySweeper_def split: prod.splits sum.splits)
qed

lemma outbox_poll_inv:
  assumes "P w"
  shows "P (outbox_poll E w)"
proof -
  have row: "P w2" if "publishRow E r w = (res, w2)" "P w" for r res w w2
  proof -
    have "keeps tables_of (publishRow E r)"
      unfolding publishRow_def by (rule keeps_check_err) (auto intro: keepsI)
    from P_tables [OF keeps_eq [OF this that(1)]] that(2) show ?thesis by simp
  qed
  have loop: "P w \<Longrightarrow> P (poll_loop E rows w)" for rows w
    by (induction rows arbitrary: w)
       (auto split: prod.splits sum.splits intro: row preserves_ignore_err [OF q_MarkOutbox])
  show ?thesis
    using preserves_eq [OF P_read(8)] assms
    by (auto simp: outbox_poll_def loop split: prod.splits sum.splits)
qed

subsection \<open>Every reachable state\<close>

lemma org_step_P: "org_step E cfg w w' \<Longrightarrow> P w \<Longrightarrow> P w'"
  by (induction rule: org_step.induct)
     (auto dest: org_Mount_inv org_MountInternal_inv simp: handler_preservesD sweep_inv outbox_poll_inv)

lemma org_steps_P: "(org_step E cfg)\<^sup>*\<^sup>* w w' \<Longrightarrow> P w \<Longrightarrow> P w'"
  by (induction rule: rtranclp_induct) (auto dest: org_step_P)

end

subsection \<open>The invariant of the database\<close>

lemma list_all_map_if: "list_all P xs \<Longrightarrow> (\<And>x. P x \<Longrightarrow> P (f x)) \<Longrightarrow>
    list_all P (map (\<lambda>x. if Q x then f x else x) xs)"
  by (auto simp: list_all_iff)

lemma invitation_row_ok_mark [simp]:
  "invitation_row_ok E (r\<lparr>ri_accepted_at := x\<rparr>) = invitation_row_ok E r"
  by (simp add: invitation_row_ok_def)

definition rows_ok :: "env \<Rightarrow> org_db \<Rightarrow> bool" where
  "rows_ok E w \<longleftrightarrow> list_all org_row_ok (organizations w) \<and>
     list_all (\<lambda>r. rm_invited_by r = None) (org_members w) \<and>
     list_all (invitation_row_ok E) (org_invitations w) \<and> list_all group_row_ok (groups w) \<and>
     list_all role_row_ok (roles w)"

lemma org_inv_split: "preserves org_db_wf m \<Longrightarrow> preserves (rows_ok E) m \<Longrightarrow> preserves (org_inv E) m"
  by (auto simp: preserves_def org_inv_def rows_ok_def)

lemma rows_ok_counters [simp]: "rows_ok E (w\<lparr>n_net := n\<rparr>) = rows_ok E w"
  by (simp add: rows_ok_def)

lemma rows_preserved [intro]:
  "org_row_ok \<lparr>ro_id = i, ro_name = n, ro_slug = s, ro_owner_user_id = u, ro_plan = p,
     ro_created_at = e_tsz E c, ro_updated_at = e_tsz E d, ro_suspended_at = None\<rparr> \<Longrightarrow>
   preserves (rows_ok E) (CreateOrganization E i n s u p c d)"
  "preserves (rows_ok E) (AddOrgMember E i u rl None d)"
  "preserves (rows_ok E) (RemoveOrgMember E i u)"
  "invitation_row_ok E \<lparr>ri_id = i, ri_org_id = j, ri_email = m, ri_role = rl, ri_token = tok,
     ri_expires_at = e_tsz E c, ri_accepted_at = None, ri_created_at = e_tsz E d\<rparr> \<Longrightarrow>
   preserves (rows_ok E) (CreateInvitation E i j m rl tok c d)"
  "preserves (rows_ok E) (MarkInvitationAccepted E i)"
  "group_row_ok \<lparr>rg_id = i, rg_org_id = j, rg_app_id = a, rg_name = n, rg_description = ds,
     rg_ephemeral = b, rg_expires_at = map_option (e_tsz E) x, rg_created_by = u,
     rg_created_at = e_tsz E d\<rparr> \<Longrightarrow>
   preserves (rows_ok E) (CreateGroupRow E i j a n ds b x u d)"
  "preserves (rows_ok E) (DeleteGroup E i)"
  "preserves (rows_ok E) (AddGroupMemberRow E i u a)"
  "preserves (rows_ok E) (RemoveGroupMemberRow E i u)"
  "j \<noteq> uuid_Nil \<Longrightarrow> n \<noteq> [] \<Longrightarrow> preserves (rows_ok E) (CreateRoleRow E i j n perms d)"
  "preserves (rows_ok E) (DeleteRoleRow E i)"
  "preserves (rows_ok E) (MarkOutboxEventPublished E i)"
  unfolding org_query_defs
  by (rule preserves_net_call,
      (rule preservesI, auto simp: rows_ok_def db_now_def Let_def list_all_filter_mono role_row_ok_def
         intro!: list_all_map_if split: option.splits)[1], simp)+

lemma org_inv_tables: "tables_of w = tables_of w' \<Longrightarrow> org_inv E w = org_inv E w'"
  unfolding org_inv_def by (metis org_db_wf_tables table_simps)

interpretation org_invariant: org_predicate E "org_inv E" for E
proof (unfold_locales, goal_cases)
  case (1 w w')
  then show ?case by (rule org_inv_tables)
next
  case (3 w i u rl d)
  have "preserves (org_inv E) (AddOrgMember E i u rl None d)"
    by (rule org_inv_split) (blast intro!: wf_preserved rows_preserved)+
  then show ?case using 3(1) by (rule preservesD)
qed (rule org_inv_split; blast intro!: wf_preserved wf_preserved_groups rows_preserved)+

lemma org_reachable_inv: "org_reachable E cfg w \<Longrightarrow> org_inv E w"
proof (induction rule: org_reachable.induct)
  case (initial w)
  then show ?case by (simp add: org_inv_def org_db_wf_def)
next
  case (step w w')
  then show ?case by (auto intro: org_invariant.org_step_P)
qed

lemma org_reachable_steps: "org_reachable E cfg w \<Longrightarrow> (org_step E cfg)\<^sup>*\<^sup>* w w' \<Longrightarrow> org_reachable E cfg w'"
  by (rotate_tac 1, induction rule: rtranclp_induct) (auto intro: org_reachable.step)

subsection \<open>What stays\<close>

text \<open>An invitation that has been accepted stays accepted.\<close>

definition token_accepted :: "string \<Rightarrow> org_db \<Rightarrow> bool" where
  "token_accepted tok w \<longleftrightarrow> (\<exists>i. invitation_view w tok = Some i \<and> i_AcceptedAt i \<noteq> None)"

lemma token_accepted_iff:
  "token_accepted tok w \<longleftrightarrow>
   (case find (\<lambda>r. ri_token r = tok) (org_invitations w) of
      None \<Rightarrow> False | Some r \<Rightarrow> ri_accepted_at r \<noteq> None)"
  by (auto simp: token_accepted_def invitation_view_def table_map_def rowToInvitation_def
      split: option.splits dest!: find_key_Some)

lemma token_accepted_write:
  assumes "org_invitations (snd (m w)) = org_invitations w"
  shows "token_accepted tok (snd (m w)) = token_accepted tok w"
  using assms by (simp add: token_accepted_iff)

lemma find_map_if:
  "(\<And>x. Q (f x) = Q x) \<Longrightarrow> find Q (map (\<lambda>x. if C x then f x else x) xs) =
     map_option (\<lambda>x. if C x then f x else x) (find Q xs)"
  by (induction xs) auto

interpretation accepted_token: org_predicate E "token_accepted tok" for E tok
proof (unfold_locales, goal_cases)
  case (1 w w')
  then show ?case unfolding token_accepted_iff by (metis table_simps(3))
next
  case (5 i j m rl tk c d)
  show ?case
    by (auto simp: preserves_def CreateInvitation_def net_call_def Let_def token_accepted_iff find_snoc
        split: net_outcome.splits option.splits dest!: find_key_Some)
next
  case (6 i)
  show ?case
    by (auto simp: preserves_def MarkInvitationAccepted_def net_call_def db_now_def Let_def
        token_accepted_iff find_map_if split: net_outcome.splits option.splits dest!: find_key_Some)
qed (auto simp: preserves_def org_query_defs net_call_def db_now_def Let_def token_accepted_iff
       split: net_outcome.splits option.splits)

text \<open>An invitation is kept under its token, for its organization, with its role and its expiry.\<close>

definition invitation_kept :: "string \<Rightarrow> uuid \<Rightarrow> string \<Rightarrow> time \<Rightarrow> org_db \<Rightarrow> bool" where
  "invitation_kept tok i rl x w \<longleftrightarrow>
     map_option (\<lambda>r. (ri_org_id r, ri_role r, ri_expires_at r)) (find (\<lambda>r. ri_token r = tok) (org_invitations w)) =
       Some (i, rl, x)"

lemma invitation_kept_view:
  "invitation_kept tok i rl x w \<longleftrightarrow>
   (\<exists>v. invitation_view w tok = Some v \<and> i_OrgID v = i \<and> i_Role v = rl \<and> i_ExpiresAt v = x)"
  by (auto simp: invitation_kept_def invitation_view_def table_map_def rowToInvitation_def)

lemma map_option_find_if:
  "(\<And>x. Q (f x) = Q x) \<Longrightarrow> (\<And>x. g (f x) = g x) \<Longrightarrow>
   map_option g (find Q (map (\<lambda>x. if C x then f x else x) xs)) = map_option g (find Q xs)"
  by (induction xs) auto

interpretation kept_invitation: org_predicate E "invitation_kept tok i rl x" for E tok i rl x
proof (unfold_locales, goal_cases)
  case (1 w w')
  then have "org_invitations w = org_invitations w'" by (metis table_simps(3))
  then show ?case by (simp add: invitation_kept_def)
next
  case (5 j k m rl' tk c d)
  show ?case
    by (auto simp: preserves_def CreateInvitation_def net_call_def Let_def invitation_kept_def find_snoc
        split: net_outcome.splits)
next
  case (6 k)
  show ?case
    by (auto simp: preserves_def MarkInvitationAccepted_def net_call_def db_now_def Let_def
        invitation_kept_def map_option_find_if simp del: map_option_eq_Some split: net_outcome.splits)
qed (auto simp: preserves_def org_query_defs net_call_def db_now_def Let_def invitation_kept_def
       split: net_outcome.splits)

text \<open>Every membership that was not there at the start has its source in the tables.\<close>

definition memberships_sourced :: "OrgMemberRow set \<Rightarrow> org_db \<Rightarrow> bool" where
  "memberships_sourced old w \<longleftrightarrow>
     (\<forall>r \<in> set (org_members w). r \<in> old \<or> member_source w (rm_org_id r) (rm_user_id r) (rm_role r))"

lemma member_source_grows:
  assumes "set (organizations w) \<subseteq> set (organizations w')"
    and "(\<lambda>r. (ri_org_id r, ri_role r)) ` set (org_invitations w) \<subseteq> (\<lambda>r. (ri_org_id r, ri_role r)) ` set (org_invitations w')"
    and "member_source w i u rl"
  shows "member_source w' i u rl"
proof -
  have "(\<exists>r \<in> set (org_invitations v). ri_org_id r = i \<and> ri_role r = rl) \<longleftrightarrow>
      (i, rl) \<in> (\<lambda>r. (ri_org_id r, ri_role r)) ` set (org_invitations v)" for v :: org_db
    by force
  with assms show ?thesis unfolding member_source_def by blast
qed

lemma marked_roles:
  "(\<lambda>r. (ri_org_id r, ri_role r)) ` set (map (\<lambda>r. if C r then r\<lparr>ri_accepted_at := x\<rparr> else r) xs) =
   (\<lambda>r. (ri_org_id r, ri_role r)) ` set xs"
  by (induction xs) auto

lemma sourced_write:
  assumes "memberships_sourced old w"
    and "set (organizations w) \<subseteq> set (organizations w')"
    and "(\<lambda>r. (ri_org_id r, ri_role r)) ` set (org_invitations w) \<subseteq> (\<lambda>r. (ri_org_id r, ri_role r)) ` set (org_invitations w')"
    and "\<And>r. r \<in> set (org_members w') \<Longrightarrow>
      r \<in> set (org_members w) \<or> member_source w' (rm_org_id r) (rm_user_id r) (rm_role r)"
  shows "memberships_sourced old w'"
  using assms(1,4) member_source_grows [OF assms(2,3)] unfolding memberships_sourced_def by blast

interpretation sourced: org_predicate E "memberships_sourced old" for E old
proof (unfold_locales, goal_cases)
  case (1 w w')
  then have "organizations w = organizations w'" "org_invitations w = org_invitations w'" "org_members w = org_members w'"
    by (metis table_simps)+
  then show ?case by (simp add: memberships_sourced_def member_source_def)
next
  case (3 w i u rl d)
  show ?case
    by (rule sourced_write [OF 3(1)])
       (use 3(2) in \<open>auto simp: AddOrgMember_def net_call_def Let_def member_source_def split: net_outcome.splits if_splits\<close>)
next
  case (6 k)
  show ?case
    by (rule preservesI, erule sourced_write)
       (auto simp: MarkInvitationAccepted_def net_call_def db_now_def Let_def marked_roles simp del: set_map
         split: net_outcome.splits)
qed (rule preservesI, erule sourced_write,
     auto simp: org_query_defs net_call_def db_now_def Let_def split: net_outcome.splits if_splits option.splits)+

text \<open>The row of an organization is never changed and never removed.\<close>

interpretation organization_row: org_predicate E "\<lambda>w. r \<in> set (organizations w)" for E r
proof (unfold_locales, goal_cases)
  case (1 w w')
  then show ?case by (metis table_simps(1))
qed (auto simp: preserves_def org_query_defs net_call_def db_now_def Let_def split: net_outcome.splits)

text \<open>Nothing is ever written to the outbox table.\<close>

interpretation empty_outbox: org_predicate E "\<lambda>w. outbox w = []" for E
proof (unfold_locales, goal_cases)
  case (1 w w')
  then show ?case by (metis table_simps(7))
qed (auto simp: preserves_def org_query_defs net_call_def db_now_def Let_def split: net_outcome.splits)

end
