(* ===== verification/Org_Authz.thy ===== *)
theory Org_Authz
  imports Org_System
begin

text \<open>
  Group membership and the authorization server: which requests the group use cases send to Keto, and
  what the Centrifugo proxy answers as a consequence. Keto is not part of the repository; the single
  fact about it used here, \<open>keto_documented\<close>, is its documented check: a subject has a relation exactly
  when the last acknowledged write or deletion of that tuple was a write.
\<close>

subsection \<open>Requests to Keto\<close>

definition keto_check_request :: "ketoChecker \<Rightarrow> relationTuple \<Rightarrow> http_request" where
  "keto_check_request k t =
     \<lparr>hr_method = ''POST'', hr_url = k_readURL k @ ''/relation-tuples/check'', hr_query = [],
      hr_header = [(''Content-Type'', ''application/json'')], hr_body = JsonBody (tuple_json t)\<rparr>"

definition keto_write_request :: "ketoChecker \<Rightarrow> relationTuple \<Rightarrow> http_request" where
  "keto_write_request k t =
     \<lparr>hr_method = ''PUT'', hr_url = k_writeURL k @ ''/admin/relation-tuples'', hr_query = [],
      hr_header = [(''Content-Type'', ''application/json'')], hr_body = JsonBody (tuple_json t)\<rparr>"

definition keto_delete_request :: "ketoChecker \<Rightarrow> relationTuple \<Rightarrow> http_request" where
  "keto_delete_request k t =
     \<lparr>hr_method = ''DELETE'', hr_url = k_writeURL k @ ''/admin/relation-tuples'',
      hr_query = [(''namespace'', rt_Namespace t), (''object'', rt_Object t),
                  (''relation'', rt_Relation t), (''subject_id'', rt_SubjectID t)],
      hr_header = [], hr_body = NoReqBody\<rparr>"

definition acknowledged :: "env \<Rightarrow> http_request list \<Rightarrow> http_request \<Rightarrow> int \<Rightarrow> bool" where
  "acknowledged E log req status =
     (case e_http E log req of Inl _ \<Rightarrow> False | Inr resp \<Rightarrow> hs_status resp = status)"

text \<open>Whether a tuple is there, from the requests sent, the latest first.\<close>

fun present_rev :: "env \<Rightarrow> ketoChecker \<Rightarrow> relationTuple \<Rightarrow> http_request list \<Rightarrow> bool" where
  "present_rev E k t [] = False"
| "present_rev E k t (req # older) =
     (if req = keto_write_request k t \<and> acknowledged E (rev older) req 201 then True
      else if req = keto_delete_request k t \<and> acknowledged E (rev older) req 204 then False
      else present_rev E k t older)"

definition tuple_present :: "env \<Rightarrow> ketoChecker \<Rightarrow> relationTuple \<Rightarrow> http_request list \<Rightarrow> bool" where
  "tuple_present E k t log = present_rev E k t (rev log)"

definition keto_documented :: "env \<Rightarrow> ketoChecker \<Rightarrow> bool" where
  "keto_documented E k \<longleftrightarrow>
     (\<forall>log t. e_http E log (keto_check_request k t) =
        Inr \<lparr>hs_status = (if tuple_present E k t log then 200 else 403),
             hs_body = Some (JObj [(''allowed'', JBool (tuple_present E k t log))])\<rparr>)"

definition member_tuple :: "env \<Rightarrow> uuid \<Rightarrow> uuid \<Rightarrow> relationTuple" where
  "member_tuple E g u = \<lparr>rt_Namespace = ''Group'', rt_Object = e_uuid_str E g,
                         rt_Relation = ''member'', rt_SubjectID = e_uuid_str E u\<rparr>"

lemma write_not_delete [simp]: "keto_write_request k t \<noteq> keto_delete_request k t'"
  "keto_delete_request k t \<noteq> keto_write_request k t'"
  by (simp_all add: keto_write_request_def keto_delete_request_def)

lemma tuple_present_write [simp]:
  "tuple_present E k t (log @ [keto_write_request k t]) \<longleftrightarrow>
     acknowledged E log (keto_write_request k t) 201 \<or> tuple_present E k t log"
  by (simp add: tuple_present_def)

lemma tuple_present_delete [simp]:
  "tuple_present E k t (log @ [keto_delete_request k t]) \<longleftrightarrow>
     \<not> acknowledged E log (keto_delete_request k t) 204 \<and> tuple_present E k t log"
  by (simp add: tuple_present_def)

subsection \<open>The client\<close>

lemma parseObject_group_object [simp]: "parseObject (group_object E g) = Inr (''Group'', e_uuid_str E g)"
  using parseObject_group [of "e_uuid_str E g"] by (simp add: group_object_def)

lemma keto_Check_documented:
  assumes "keto_documented E k"
  shows "fst (keto_Check E k s r (group_object E g) w) = Inr (tuple_present E k
    \<lparr>rt_Namespace = ''Group'', rt_Object = e_uuid_str E g, rt_Relation = r, rt_SubjectID = s\<rparr> (http_log w))"
proof -
  let ?t = "\<lparr>rt_Namespace = ''Group'', rt_Object = e_uuid_str E g, rt_Relation = r, rt_SubjectID = s\<rparr>"
  from assms have "e_http E (http_log w) (keto_check_request k ?t) =
      Inr \<lparr>hs_status = (if tuple_present E k ?t (http_log w) then 200 else 403),
           hs_body = Some (JObj [(''allowed'', JBool (tuple_present E k ?t (http_log w)))])\<rparr>"
    by (simp only: keto_documented_def)
  then show ?thesis
    by (simp add: keto_Check_def http_Do_def keto_check_request_def Let_def dec_bool_def json_field_def)
qed

lemma WriteRelation_logs:
  "http_log (snd (keto_WriteRelation E k (e_uuid_str E u) ''member'' (group_object E g) w)) =
     http_log w @ [keto_write_request k (member_tuple E g u)]"
  by (auto simp: keto_WriteRelation_def http_Do_def Let_def keto_write_request_def
      member_tuple_def split: sum.splits)

lemma DeleteRelation_logs:
  "http_log (snd (keto_DeleteRelation E k (e_uuid_str E u) ''member'' (group_object E g) w)) =
     http_log w @ [keto_delete_request k (member_tuple E g u)]"
  by (auto simp: keto_DeleteRelation_def http_Do_def Let_def keto_delete_request_def
      member_tuple_def split: sum.splits)

lemma pg_keeps_http [intro!, simp]:
  "keeps http_log (gr_FindByID (NewGroupRepo E) i)"
  "keeps http_log (gr_ListMembers (NewGroupRepo E) i)"
  "keeps http_log (gr_Create (NewGroupRepo E) g)"
  "keeps http_log (gr_AddMember (NewGroupRepo E) i u a)"
  "keeps http_log (gr_RemoveMember (NewGroupRepo E) i u)"
  "keeps http_log (gr_Delete (NewGroupRepo E) i)"
  "keeps http_log (gr_ListExpired (NewGroupRepo E) now)"
  by (auto simp: keeps_def group_repo_defs net_call_def Let_def split: net_outcome.splits option.splits)

lemma publish_http [simp]: "http_log (ignore_err (ep_Publish (NewEventPublisher E) evs) w) = http_log w"
  by (simp add: NewEventPublisher_def)

subsection \<open>What the group use cases send\<close>

lemma AddGroupMember_log:
  assumes "AddGroupMember E (NewGroupService E cfg) cmd w = (Inr (), w')"
  shows "\<exists>g. group_view w (ag_GroupID cmd) = Some g \<and>
     http_log w' = (if g_Ephemeral g then http_log w
       else http_log w @ [keto_write_request (org_keto cfg) (member_tuple E (ag_GroupID cmd) (ag_UserID cmd))])"
proof -
  from assms obtain g w1 w2 where find: "gr_FindByID (NewGroupRepo E) (ag_GroupID cmd) w = (Inr g, w1)"
    and add: "gr_AddMember (NewGroupRepo E) (ag_GroupID cmd) (ag_UserID cmd) (ag_AppID cmd) w1 = (Inr (), w2)"
    and w': "http_log w' = (if g_Ephemeral g then http_log w2
      else http_log w2 @ [keto_write_request (org_keto cfg) (member_tuple E (ag_GroupID cmd) (ag_UserID cmd))])"
    unfolding AddGroupMember_def
    by (elim check_err_InrE)
       (auto simp: time_Now_def Let_def org_wiring org_authz_def keto_authz_def ignore_err_def
          WriteRelation_logs keepsD [OF Publish_keeps_http] NewEventPublisher_def split: if_splits)
  have "http_log w2 = http_log w"
    using keeps_eq [OF pg_keeps_http(1) find] keeps_eq [OF pg_keeps_http(4) add] by simp
  with w' pg_groups.find_found [OF find] show ?thesis by auto
qed

lemma RemoveGroupMember_log:
  assumes "RemoveGroupMember E (NewGroupService E cfg) cmd w = (Inr (), w')"
  shows "\<exists>g. group_view w (rgc_GroupID cmd) = Some g \<and>
     http_log w' = (if g_Ephemeral g then http_log w
       else http_log w @ [keto_delete_request (org_keto cfg) (member_tuple E (rgc_GroupID cmd) (rgc_UserID cmd))])"
proof -
  from assms obtain g w1 w2 where find: "gr_FindByID (NewGroupRepo E) (rgc_GroupID cmd) w = (Inr g, w1)"
    and rem: "gr_RemoveMember (NewGroupRepo E) (rgc_GroupID cmd) (rgc_UserID cmd) w1 = (Inr (), w2)"
    and w': "http_log w' = (if g_Ephemeral g then http_log w2
      else http_log w2 @ [keto_delete_request (org_keto cfg) (member_tuple E (rgc_GroupID cmd) (rgc_UserID cmd))])"
    unfolding RemoveGroupMember_def
    by (elim check_err_InrE)
       (auto simp: time_Now_def Let_def org_wiring org_authz_def keto_authz_def ignore_err_def
          DeleteRelation_logs keepsD [OF Publish_keeps_http] NewEventPublisher_def split: if_splits)
  have "http_log w2 = http_log w"
    using keeps_eq [OF pg_keeps_http(1) find] keeps_eq [OF pg_keeps_http(5) rem] by simp
  with w' pg_groups.find_found [OF find] show ?thesis by auto
qed

subsection \<open>What the proxy answers\<close>

text \<open>A subscribe request for the channel of a group on behalf of a user, with the shared secret.\<close>

definition subscribe_request :: "env \<Rightarrow> org_config \<Rightarrow> uuid \<Rightarrow> uuid \<Rightarrow> request" where
  "subscribe_request E cfg g u =
     \<lparr>rq_claims = None,
      rq_header = (\<lambda>h. if h = ''X-Centrifugo-Proxy-Secret'' then CENTRIFUGO_PROXY_SECRET cfg else []),
      rq_param = (\<lambda>_. []), rq_query = (\<lambda>_. []),
      rq_body = Some (JObj [(''user'', JStr (e_uuid_str E u)),
                            (''channel'', JStr (''group:'' @ e_uuid_str E g))])\<rparr>"

lemma fold_name_simps: "fold_name ''user'' = ''user''" "fold_name ''channel'' = ''channel''"
  "fold_name ''transport'' = ''transport''"
  by code_simp+

lemma dec_proxy_subscribe:
  "Option.bind (rq_body (subscribe_request E cfg g u)) dec_proxy_request =
     Some \<lparr>cp_UserID = e_uuid_str E u, cp_Channel = ''group:'' @ e_uuid_str E g, cp_Transport = []\<rparr>"
  by (simp add: subscribe_request_def dec_proxy_request_def dec_string_def json_field_def fold_name_simps)

lemma proxy_group_verdict:
  assumes "keto_documented E (org_keto cfg)"
  shows "fst (proxy_ServeHTTP (org_proxy E cfg) (subscribe_request E cfg g u) w) = centrifugo_allow \<longleftrightarrow>
         tuple_present E (org_keto cfg) (member_tuple E g u) (http_log w)"
proof -
  have "fst (checkSubscription (org_proxy E cfg)
      \<lparr>cp_UserID = e_uuid_str E u, cp_Channel = ''group:'' @ e_uuid_str E g, cp_Transport = []\<rparr> w) =
      Inr (tuple_present E (org_keto cfg) (member_tuple E g u) (http_log w))"
    using keto_Check_documented [OF assms, of _ _ g] unfolding group_object_def
    by (simp add: checkSubscription_group [where g = "e_uuid_str E g"] org_proxy_def org_authz_def
        keto_authz_def member_tuple_def)
  then show ?thesis
    by (simp add: proxy_allows_iff dec_proxy_subscribe) (simp add: subscribe_request_def org_proxy_def)
qed

end
