(* ===== verification/Example_World.thy ===== *)
theory Example_World
  imports Org_Authz
begin

text \<open>
  A concrete environment, on which the hypotheses of the properties can be seen to hold: a clock that
  ticks by the second, counting identifiers, a network without faults, a Keto server that keeps the
  tuples it is sent and a Hydra server that knows one token.
\<close>

definition ex_keto :: ketoChecker where
  "ex_keto = NewKetoChecker ''http://keto:4466'' ''http://keto:4467''"

fun ex_present :: "relationTuple \<Rightarrow> http_request list \<Rightarrow> bool" where
  "ex_present t [] = False"
| "ex_present t (req # older) =
     (if req = keto_write_request ex_keto t then True
      else if req = keto_delete_request ex_keto t then False
      else ex_present t older)"

definition ex_claims :: json where
  "ex_claims = JObj [(''active'', JBool True), (''sub'', JStr ''7''), (''scope'', JStr ''openid profile''),
                     (''ext'', JObj [(''mobpilot_app_id'', JStr ''9'')])]"

definition ex_http :: "http_request list \<Rightarrow> http_request \<Rightarrow> string + http_response" where
  "ex_http log req =
     (if hr_method req = ''PUT'' then Inr \<lparr>hs_status = 201, hs_body = None\<rparr>
      else if hr_method req = ''DELETE'' then Inr \<lparr>hs_status = 204, hs_body = None\<rparr>
      else case hr_body req of
        JsonBody (JObj [(_, JStr ns), (_, JStr ob), (_, JStr rel), (_, JStr sub)]) \<Rightarrow>
          (let b = ex_present \<lparr>rt_Namespace = ns, rt_Object = ob, rt_Relation = rel,
                               rt_SubjectID = sub\<rparr> (rev log)
           in Inr \<lparr>hs_status = (if b then 200 else 403),
                   hs_body = Some (JObj [(''allowed'', JBool b)])\<rparr>)
      | FormBody form \<Rightarrow>
          Inr \<lparr>hs_status = 200,
               hs_body = Some (if form = ''token=t1'' then ex_claims else JObj [(''active'', JBool False)])\<rparr>
      | _ \<Rightarrow> Inl ''connection refused'')"

text \<open>Identifiers print as decimal numbers.\<close>

fun ex_parse :: "nat \<Rightarrow> string \<Rightarrow> uuid option" where
  "ex_parse acc [] = Some (of_nat acc)"
| "ex_parse acc (c # cs) =
     (let d = (of_char c :: nat) in if 48 \<le> d \<and> d \<le> 57 then ex_parse (10 * acc + (d - 48)) cs else None)"

definition ex_env :: env where
  "ex_env = \<lparr>e_now = (\<lambda>k. int k * Second), e_dbnow = (\<lambda>k. int k * Second),
     e_newid = (\<lambda>k. of_nat (Suc k)), e_rand = (\<lambda>k. Some (replicate 32 CHR ''k'')),
     e_net = (\<lambda>k. Reached), e_http = ex_http, e_tsz = (\<lambda>t. t), e_collate = length,
     e_uuid_str = (\<lambda>u. dec_digits (unat u)),
     e_uuid_parse = (\<lambda>s. if s = [] then None else ex_parse 0 s), e_uuid_partial = (\<lambda>s. uuid_Nil),
     e_time_str = (\<lambda>t. ''2026-01-01T00:00:00Z''), e_time_parse = (\<lambda>s. None),
     e_jwt_sign = (\<lambda>alg secret claims. Inr ''jwt'')\<rparr>"

definition ex_cfg :: org_config where
  "ex_cfg = \<lparr>KETO_READ_URL = ''http://keto:4466'', KETO_WRITE_URL = ''http://keto:4467'',
             CENTRIFUGO_TOKEN_SECRET = ''s3cret'', CENTRIFUGO_PROXY_SECRET = ''proxy''\<rparr>"

definition ex_empty :: org_db where
  "ex_empty = \<lparr>n_now = 0, n_ids = 0, n_rand = 0, n_net = 0, http_log = [], js_log = [],
     organizations = [], org_members = [], org_invitations = [], groups = [], group_members = [],
     roles = [], outbox = []\<rparr>"

lemma ex_env_sel [simp]:
  "e_net ex_env k = Reached" "e_http ex_env = ex_http" "e_now ex_env k = int k * Second"
  "e_tsz ex_env t = t" "e_rand ex_env k = Some (replicate 32 CHR ''k'')"
  "e_newid ex_env k = of_nat (Suc k)" "e_dbnow ex_env k = int k * Second"
  by (simp_all add: ex_env_def)

lemma ex_net_up: "net_up ex_env"
  by (simp add: net_up_def)

lemma ex_keto_cfg: "org_keto ex_cfg = ex_keto"
  by (simp add: ex_cfg_def ex_keto_def)

lemma ex_acknowledged:
  "acknowledged ex_env log (keto_write_request ex_keto t) 201"
  "acknowledged ex_env log (keto_delete_request ex_keto t) 204"
  by (simp_all add: acknowledged_def ex_http_def keto_write_request_def keto_delete_request_def)

lemma ex_present_rev: "present_rev ex_env ex_keto t log = ex_present t log"
  by (induction log) (auto simp: ex_acknowledged)

lemma relationTuple_eta:
  "\<lparr>rt_Namespace = rt_Namespace t, rt_Object = rt_Object t, rt_Relation = rt_Relation t,
    rt_SubjectID = rt_SubjectID t\<rparr> = t"
  by (cases t) simp

lemma ex_keto_documented: "keto_documented ex_env ex_keto"
  by (simp add: keto_documented_def tuple_present_def ex_present_rev ex_http_def keto_check_request_def
      tuple_json_def Let_def relationTuple_eta)

lemma ex_reachable_empty: "org_reachable E cfg ex_empty"
  by (rule org_reachable.initial) (simp_all add: ex_empty_def)

end
