(* ===== verification/Org_Correct.thy ===== *)
theory Org_Correct
  imports Org_Invariant Org_Authz Example_World
begin

text \<open>
  The properties of the org service: its database, the invitations, the groups and their expiry, the
  subscription tokens. Each is stated over the service as main.go wires it.
\<close>

subsection \<open>The database\<close>

text \<open>C1: in every state the org service can reach through its routes and workers, whatever network
  calls fail on the way, the database is well formed: identifiers, slugs, invitation tokens and
  membership keys are unique, roles are owner, admin or member; every organization has a name, a slug
  and an owner, is on the free plan and was never changed; every invitation has an email address, a
  token from the random source and seven days to live; every ephemeral group has an expiry; no
  membership records who invited the member.\<close>
theorem org_database_invariant:
  assumes "org_reachable E cfg w"
  shows "org_inv E w"
  using assms by (rule org_reachable_inv)

definition ex_request :: "json option \<Rightarrow> request" where
  "ex_request body =
     \<lparr>rq_claims = Some \<lparr>c_Subject = ''7'', c_AppID = ''9'', c_Scopes = []\<rparr>, rq_header = (\<lambda>_. []),
      rq_param = (\<lambda>_. ''1''), rq_query = (\<lambda>_. []), rq_body = body\<rparr>"

definition ex_create_org :: request where
  "ex_create_org = ex_request (Some (JObj [(''name'', JStr ''Acme''), (''slug'', JStr ''acme'')]))"

definition ex_w1 :: org_db where
  "ex_w1 = snd (createOrg ex_env (org_main ex_env ex_cfg) ex_create_org ex_empty)"

lemma ex_w1_step: "org_step ex_env ex_cfg ex_empty ex_w1"
  using org_step.public [of "(''POST'', ''/v1/org/organizations'', createOrg ex_env (org_main ex_env ex_cfg))"
      ex_env ex_cfg ex_empty ex_create_org]
  by (simp add: org_Mount_def ex_w1_def)

lemma ex_w1_reachable: "org_reachable ex_env ex_cfg ex_w1"
  using ex_reachable_empty ex_w1_step by (rule org_reachable.step)

theorem org_database_invariant_witness:
  "org_inv ex_env ex_w1 \<and> map ro_slug (organizations ex_w1) = [''acme'']"
proof
  show "org_inv ex_env ex_w1" by (rule org_database_invariant [OF ex_w1_reachable])
  show "map ro_slug (organizations ex_w1) = [''acme'']" by code_simp
qed

text \<open>An organization's row is permanent: once it is in the database, no route and no worker
  changes or removes it.\<close>
theorem organization_row_permanent:
  assumes "(org_step E cfg)\<^sup>*\<^sup>* w w'" and "r \<in> set (organizations w)"
  shows "r \<in> set (organizations w')"
  using assms by (rule organization_row.org_steps_P)

definition ex_invite :: request where
  "ex_invite = ex_request (Some (JObj [(''email'', JStr ''a@b.c''), (''role'', JStr ''admin'')]))"

definition ex_w2 :: org_db where
  "ex_w2 = snd (inviteMember ex_env (org_main ex_env ex_cfg) ex_invite ex_w1)"

lemma ex_w2_step: "org_step ex_env ex_cfg ex_w1 ex_w2"
  using org_step.public [of "(''POST'', ''/v1/org/organizations/{orgID}/members/invite'',
      inviteMember ex_env (org_main ex_env ex_cfg))" ex_env ex_cfg ex_w1 ex_invite]
  by (simp add: org_Mount_def ex_w2_def)

theorem organization_row_permanent_witness:
  "\<lparr>ro_id = 1, ro_name = ''Acme'', ro_slug = ''acme'', ro_owner_user_id = 7, ro_plan = ''free'',
    ro_created_at = 0, ro_updated_at = 0, ro_suspended_at = None\<rparr> \<in> set (organizations ex_w2)"
proof (rule organization_row_permanent)
  show "(org_step ex_env ex_cfg)\<^sup>*\<^sup>* ex_w1 ex_w2" using ex_w2_step by blast
  have "organizations ex_w1 = [\<lparr>ro_id = 1, ro_name = ''Acme'', ro_slug = ''acme'', ro_owner_user_id = 7,
    ro_plan = ''free'', ro_created_at = 0, ro_updated_at = 0, ro_suspended_at = None\<rparr>]"
    by code_simp
  then show "\<lparr>ro_id = 1, ro_name = ''Acme'', ro_slug = ''acme'', ro_owner_user_id = 7, ro_plan = ''free'',
    ro_created_at = 0, ro_updated_at = 0, ro_suspended_at = None\<rparr> \<in> set (organizations ex_w1)" by simp
qed

subsection \<open>CreateOrg\<close>

lemma net_call_up: "net_up E \<Longrightarrow> net_call E act w = act (w\<lparr>n_net := Suc (n_net w)\<rparr>)"
  by (simp add: net_call_def net_up_def Let_def)

lemma errors_Is_slug: "errors_Is (org_exec_error p (PgError pgErrUniqueViolation ''organizations_slug_key''))
    (Sentinel ErrSlugTaken)"
  by (simp add: org_exec_error_def org_mapPgError_def pg_codes)

text \<open>C12: creating an organization, with the network up and a fresh identifier: a missing name, slug or
  owner is an input error and a taken slug is the slug error, and the tables are as before; otherwise
  the organization, its owner's membership with the role owner, and the created event are stored, in
  that order, and nothing else is.\<close>
theorem create_org_outcome:
  assumes up: "net_up E"
    and fresh: "e_newid E (n_ids w) \<notin> ro_id ` set (organizations w)"
      "(e_newid E (n_ids w), co_OwnerUserID cmd) \<notin> member_key ` set (org_members w)"
    and run: "CreateOrg E (NewOrgService E) cmd w = (r, w')"
  shows "if co_Name cmd = [] \<or> co_Slug cmd = [] \<or> co_OwnerUserID cmd = uuid_Nil
         then (\<exists>e. r = Inl e \<and> IsInvalidInput e) \<and> w' = w
         else if co_Slug cmd \<in> ro_slug ` set (organizations w)
         then (\<exists>e. r = Inl e \<and> errors_Is e (Sentinel ErrSlugTaken)) \<and> tables_of w' = tables_of w
         else \<exists>org. r = Inr org \<and> o_Slug org = co_Slug cmd \<and> o_Name org = co_Name cmd \<and>
           organizations w' = organizations w @
             [\<lparr>ro_id = o_ID org, ro_name = co_Name cmd, ro_slug = co_Slug cmd,
               ro_owner_user_id = co_OwnerUserID cmd, ro_plan = ''free'',
               ro_created_at = e_tsz E (o_CreatedAt org), ro_updated_at = e_tsz E (o_CreatedAt org),
               ro_suspended_at = None\<rparr>] \<and>
           org_members w' = org_members w @
             [\<lparr>rm_org_id = o_ID org, rm_user_id = co_OwnerUserID cmd, rm_role = ''owner'',
               rm_invited_by = None, rm_joined_at = e_tsz E (o_CreatedAt org)\<rparr>] \<and>
           js_log w' = js_log w @
             [(''mobpilot.events.org.organization.created'',
               event_payload E (OrgCreatedEvent (o_ID org) (co_OwnerUserID cmd) (co_Slug cmd) (o_CreatedAt org)))]"
proof (cases "co_Name cmd = [] \<or> co_Slug cmd = [] \<or> co_OwnerUserID cmd = uuid_Nil")
  case True
  then obtain msg where "NewOrganization E (co_Name cmd) (co_Slug cmd) (co_OwnerUserID cmd) w =
      (Inl (InvalidInput msg), w)"
    using NewOrganization_invalid by blast
  with run True show ?thesis by (auto simp: CreateOrg_def check_err_def)
next
  case False
  note valid = this
  let ?org = "\<lparr>o_ID = e_newid E (n_ids w), o_Name = co_Name cmd, o_Slug = co_Slug cmd,
      o_OwnerUserID = co_OwnerUserID cmd, o_Plan = ''free'', o_CreatedAt = e_now E (n_now w),
      o_UpdatedAt = e_now E (n_now w), o_SuspendedAt = None,
      o_events = [OrgCreatedEvent (e_newid E (n_ids w)) (co_OwnerUserID cmd) (co_Slug cmd) (e_now E (n_now w))]\<rparr>"
  have new: "NewOrganization E (co_Name cmd) (co_Slug cmd) (co_OwnerUserID cmd) w =
      (Inr ?org, w\<lparr>n_now := Suc (n_now w), n_ids := Suc (n_ids w)\<rparr>)"
    using valid by (simp add: NewOrganization_def domain_effects org_raise_def)
  show ?thesis
  proof (cases "co_Slug cmd \<in> ro_slug ` set (organizations w)")
    case True
    with run valid fresh(1) errors_Is_slug show ?thesis
      by (auto simp: CreateOrg_def new org_wiring org_new_repo_defs org_repo_defs check_err_def conv_def
          CreateOrganization_def net_call_up [OF up])
  next
    case slug: False
    have pub: "Publish E [e] w = (Inr (), w\<lparr>n_net := Suc (n_net w),
        js_log := js_log w @ [(event_subject e, event_payload E e)]\<rparr>)" for e and w :: org_db
      by (simp add: Publish_Cons Publish_Nil js_Publish_def net_call_up [OF up] check_err_def)
    from run valid fresh slug show ?thesis
      by (auto simp: CreateOrg_def new org_wiring org_new_repo_defs org_repo_defs check_err_def conv_def
          CreateOrganization_def AddOrgMember_def net_call_up [OF up] role_check_def RoleOwner_def
          org_PopEvents_def ignore_err_def NewEventPublisher_def pub event_subject_def)
  qed
qed

theorem create_org_outcome_witness:
  "\<exists>org. fst (CreateOrg ex_env (NewOrgService ex_env)
      \<lparr>co_Name = ''Acme'', co_Slug = ''acme'', co_OwnerUserID = 7\<rparr> ex_empty) = Inr org \<and> o_Slug org = ''acme''"
proof -
  let ?c = "\<lparr>co_Name = ''Acme'', co_Slug = ''acme'', co_OwnerUserID = 7\<rparr>"
  have emp: "organizations ex_empty = []" "org_members ex_empty = []" by (simp_all add: ex_empty_def)
  have "7 \<noteq> uuid_Nil" by (simp add: uuid_Nil_def)
  with create_org_outcome [OF ex_net_up, of ex_empty ?c "fst (CreateOrg ex_env (NewOrgService ex_env) ?c ex_empty)"
      "snd (CreateOrg ex_env (NewOrgService ex_env) ?c ex_empty)"]
  show ?thesis by (auto simp: emp)
qed

subsection \<open>Invitations\<close>



definition ex_invited :: org_db where
  "ex_invited = ex_empty\<lparr>org_invitations :=
     [\<lparr>ri_id = 1, ri_org_id = 1, ri_email = ''a@b.c'', ri_role = ''admin'', ri_token = ''tok'',
       ri_expires_at = 7 * 24 * Hour, ri_accepted_at = None, ri_created_at = 0\<rparr>]\<rparr>"




text \<open>C3: accepting an invitation succeeds only for a token that is known, still open and not expired at
  the instant of the check; it makes exactly the calling user a member, with the role of the invitation,
  of the organization of the invitation, which had no such member before; and it marks the invitation.\<close>
theorem accept_invitation_sound:
  assumes "AcceptInvitation E (NewMemberService E) cmd w = (Inr m, w')"
  shows "\<exists>i now at. invitation_view w (ai_Token cmd) = Some i \<and> i_AcceptedAt i = None \<and>
      now \<le> i_ExpiresAt i \<and> now \<in> range (e_now E) \<and>
      m_OrgID m = i_OrgID i \<and> m_UserID m = ai_UserID cmd \<and> m_Role m = i_Role i \<and>
      member_view w (i_OrgID i, ai_UserID cmd) = None \<and>
      member_view w' = (member_view w)((i_OrgID i, ai_UserID cmd) \<mapsto> stored_member E m) \<and>
      invitation_view w' (ai_Token cmd) = Some (i\<lparr>i_AcceptedAt := Some at\<rparr>)"
proof -
  note s = NewMemberService_sel [of E]
  from org_mem.AcceptInvitation_ok [OF s assms] show ?thesis by fastforce
qed

definition ex_accept_cmd :: AcceptInvitationCommand where
  "ex_accept_cmd = \<lparr>ai_Token = ''tok'', ai_UserID = 8\<rparr>"

definition ex_accepted :: org_db where
  "ex_accepted = snd (AcceptInvitation ex_env (NewMemberService ex_env) ex_accept_cmd ex_invited)"

definition ex_member :: OrgMember where
  "ex_member = \<lparr>m_OrgID = 1, m_UserID = 8, m_Role = ''admin'', m_InvitedBy = None, m_JoinedAt = Second\<rparr>"


lemma ex_accept_run:
  "AcceptInvitation ex_env (NewMemberService ex_env) ex_accept_cmd ex_invited = (Inr ex_member, ex_accepted)"
  unfolding ex_accepted_def by (rule run_eqI) code_simp

theorem accept_invitation_sound_witness: "\<exists>m. member_view ex_accepted (1, 8) = Some m"
  using accept_invitation_sound [OF ex_accept_run] by (auto simp: ex_member_def ex_accept_cmd_def)

lemma accept_invitation_marks:
  assumes "AcceptInvitation E (NewMemberService E) cmd w = (Inr m, w')"
  shows "token_accepted (ai_Token cmd) w'"
proof -
  note s = NewMemberService_sel [of E]
  obtain i "at" where "invitation_view (tables_of w') (ai_Token cmd) = Some (i\<lparr>i_AcceptedAt := Some at\<rparr>)"
    using org_mem.AcceptInvitation_ok [OF s assms] by blast
  then show ?thesis by (simp add: token_accepted_def)
qed

text \<open>C2: an invitation is accepted at most once by requests that follow each other: after one
  acceptance, and however many routes and worker ticks later, another acceptance of the same token
  fails and leaves the tables as they are.\<close>
theorem invitation_accepted_once:
  assumes first: "AcceptInvitation E (NewMemberService E) cmd w = (Inr m, w1)"
    and later: "(org_step E cfg)\<^sup>*\<^sup>* w1 w2"
    and token: "ai_Token cmd' = ai_Token cmd"
    and second: "AcceptInvitation E (NewMemberService E) cmd' w2 = (r, w3)"
  shows "(\<exists>e. r = Inl e) \<and> tables_of w3 = tables_of w2"
proof -
  note s = NewMemberService_sel [of E]
  from accept_invitation_marks [OF first] have "token_accepted (ai_Token cmd') w1" using token by simp
  with later have "token_accepted (ai_Token cmd') w2" by (rule accepted_token.org_steps_P)
  then obtain i where i: "invitation_view (tables_of w2) (ai_Token cmd') = Some i"
    and acc: "i_AcceptedAt i \<noteq> None \<or> (\<forall>k. i_ExpiresAt i < e_now E k)"
    unfolding token_accepted_def by auto
  show ?thesis
    using org_mem.AcceptInvitation_refused [OF s i acc second] by simp
qed

theorem invitation_accepted_once_witness:
  "\<exists>e. fst (AcceptInvitation ex_env (NewMemberService ex_env) ex_accept_cmd ex_accepted) = Inl e"
  using invitation_accepted_once [OF ex_accept_run, of ex_cfg ex_accepted ex_accept_cmd
      "fst (AcceptInvitation ex_env (NewMemberService ex_env) ex_accept_cmd ex_accepted)"
      "snd (AcceptInvitation ex_env (NewMemberService ex_env) ex_accept_cmd ex_accepted)"]
  by simp

end
