(* ===== verification/Org_Groups_Correct.thy ===== *)
theory Org_Groups_Correct
  imports Org_Correct
begin

text \<open>
  The properties of groups: what is stored, who may subscribe, what the authorization server is told,
  and what the expiry sweeper deletes.
\<close>

subsection \<open>Creating and finding groups\<close>

text \<open>C15: a group that was created is found again: reading its identifier right after, a reply of the
  database is the group that was returned to the caller, with its timestamps at the column's
  resolution; no other group and no membership is touched.\<close>
theorem create_group_roundtrip:
  assumes "CreateGroup E (NewGroupService E cfg) cmd w = (Inr g, w')"
    and "gr_FindByID (NewGroupRepo E) (g_ID g) w' = (Inr g', w'')"
  shows "g' = stored_group E g \<and> group_view w (g_ID g) = None \<and>
         (\<forall>i. i \<noteq> g_ID g \<longrightarrow> group_view w' i = group_view w i) \<and>
         membership_view w' = membership_view w \<and>
         g_OrgID g = cg_OrgID cmd \<and> g_AppID g = cg_AppID cmd \<and> g_CreatedBy g = cg_CreatedBy cmd \<and>
         g_Ephemeral g = cg_Ephemeral cmd \<and> g_ExpiresAt g = cg_ExpiresAt cmd"
proof -
  note ok = org_grp.CreateGroup_ok [OF NewGroupService_sel assms(1)]
  from ok(4) obtain w1 where "NewGroup E (cg_OrgID cmd) (cg_AppID cmd) (cg_CreatedBy cmd) (cg_Name cmd)
      (cg_Description cmd) (cg_Ephemeral cmd) (cg_ExpiresAt cmd) w = (Inr g, w1)" by blast
  note new = NewGroup_Inr [OF this]
  from pg_groups.find_found [OF assms(2)] ok new(6) show ?thesis by simp
qed

definition ex_group_cmd :: CreateGroupCommand where
  "ex_group_cmd = \<lparr>cg_OrgID = 1, cg_AppID = 9, cg_Name = ''team'', cg_Description = [],
     cg_Ephemeral = True, cg_ExpiresAt = Some (100 * Second), cg_CreatedBy = 7\<rparr>"

definition ex_group :: Group where
  "ex_group = \<lparr>g_ID = 1, g_OrgID = 1, g_AppID = 9, g_Name = ''team'', g_Description = [],
     g_Ephemeral = True, g_ExpiresAt = Some (100 * Second), g_CreatedBy = 7, g_CreatedAt = 0\<rparr>"

lemma ex_create_group_run:
  "CreateGroup ex_env (NewGroupService ex_env ex_cfg) ex_group_cmd ex_empty =
     (Inr ex_group, snd (CreateGroup ex_env (NewGroupService ex_env ex_cfg) ex_group_cmd ex_empty))"
  by (rule run_eqI) code_simp

definition ex_grouped :: org_db where
  "ex_grouped = snd (CreateGroup ex_env (NewGroupService ex_env ex_cfg) ex_group_cmd ex_empty)"

lemma ex_find_group_run:
  "gr_FindByID (NewGroupRepo ex_env) (g_ID ex_group) ex_grouped =
     (Inr ex_group, snd (gr_FindByID (NewGroupRepo ex_env) (g_ID ex_group) ex_grouped))"
  by (rule run_eqI) code_simp

theorem create_group_roundtrip_witness: "ex_group = stored_group ex_env ex_group"
  using create_group_roundtrip [OF ex_create_group_run ex_find_group_run [unfolded ex_grouped_def]] by simp

subsection \<open>Membership\<close>

lemma add_member_effect:
  assumes "AddGroupMember E (NewGroupService E cfg) cmd w = (Inr (), w')"
  shows "group_view w (ag_GroupID cmd) \<noteq> None \<and> group_view w' = group_view w \<and>
      membership_view w' = (if membership_view w (ag_GroupID cmd, ag_UserID cmd) = None
        then (membership_view w)((ag_GroupID cmd, ag_UserID cmd) \<mapsto> ag_AppID cmd)
        else membership_view w)"
  using org_grp.AddGroupMember_ok [OF NewGroupService_sel assms] by simp

lemma remove_member_effect:
  assumes "RemoveGroupMember E (NewGroupService E cfg) cmd w = (Inr (), w')"
  shows "group_view w (rgc_GroupID cmd) \<noteq> None \<and> group_view w' = group_view w \<and>
      membership_view w' = (membership_view w)((rgc_GroupID cmd, rgc_UserID cmd) := None)"
  using org_grp.RemoveGroupMember_ok [OF NewGroupService_sel assms] by simp

text \<open>Adding and removing are what they say, on the memberships and on nothing else: a successful
  addition needs an existing group and records the caller's application for a user who was not a member
  (a member stays as recorded); a successful removal leaves no membership of that user in that group;
  both leave every other membership and all groups alone.\<close>
theorem group_membership_updates:
  "(AddGroupMember E (NewGroupService E cfg) add w = (Inr (), w1) \<longrightarrow>
      group_view w (ag_GroupID add) \<noteq> None \<and> group_view w1 = group_view w \<and>
      membership_view w1 = (if membership_view w (ag_GroupID add, ag_UserID add) = None
        then (membership_view w)((ag_GroupID add, ag_UserID add) \<mapsto> ag_AppID add)
        else membership_view w)) \<and>
   (RemoveGroupMember E (NewGroupService E cfg) rem w = (Inr (), w2) \<longrightarrow>
      group_view w (rgc_GroupID rem) \<noteq> None \<and> group_view w2 = group_view w \<and>
      membership_view w2 = (membership_view w)((rgc_GroupID rem, rgc_UserID rem) := None))"
  using add_member_effect [of E cfg add w w1] remove_member_effect [of E cfg rem w w2] by blast

definition ex_permanent :: org_db where
  "ex_permanent = ex_empty\<lparr>groups := [\<lparr>rg_id = 5, rg_org_id = 1, rg_app_id = 9, rg_name = ''team'',
     rg_description = [], rg_ephemeral = False, rg_expires_at = None, rg_created_by = 7,
     rg_created_at = 0\<rparr>]\<rparr>"

abbreviation "ex_add \<equiv> \<lparr>ag_GroupID = 5, ag_UserID = 8, ag_AppID = 9\<rparr>"
abbreviation "ex_rem \<equiv> \<lparr>rgc_GroupID = 5, rgc_UserID = 8\<rparr>"

definition ex_joined :: org_db where
  "ex_joined = snd (AddGroupMember ex_env (NewGroupService ex_env ex_cfg) ex_add ex_permanent)"

definition ex_left :: org_db where
  "ex_left = snd (RemoveGroupMember ex_env (NewGroupService ex_env ex_cfg) ex_rem ex_joined)"

lemma ex_add_run:
  "AddGroupMember ex_env (NewGroupService ex_env ex_cfg) ex_add ex_permanent = (Inr (), ex_joined)"
  unfolding ex_joined_def by (rule run_eqI) code_simp

lemma ex_rem_run:
  "RemoveGroupMember ex_env (NewGroupService ex_env ex_cfg) ex_rem ex_joined = (Inr (), ex_left)"
  unfolding ex_left_def by (rule run_eqI) code_simp

theorem group_membership_updates_witness:
  "membership_view ex_joined (5, 8) \<noteq> None \<and> membership_view ex_left (5, 8) = None"
  using group_membership_updates [of ex_env ex_cfg ex_add ex_permanent ex_joined]
    group_membership_updates [of ex_env ex_cfg _ ex_joined _ ex_rem ex_left] ex_add_run ex_rem_run
  by (auto split: if_splits)

subsection \<open>Subscription tokens\<close>

text \<open>C4: with the network up, a token issuer configured and a signer that does not fail, a subscription
  token is issued exactly when the group exists, is ephemeral, has not expired at the instant of the
  check, and the user is one of its members; the token is then the HS256 signature, under the
  configured secret, of the claim set for that user, the group's channel and the group's expiry; and
  the tables are never changed.\<close>
theorem subscription_token_iff:
  assumes up: "net_up E" and wf: "org_db_wf w" and secret: "CENTRIFUGO_TOKEN_SECRET cfg \<noteq> []"
    and sign: "\<And>c. e_jwt_sign E ''HS256'' (CENTRIFUGO_TOKEN_SECRET cfg) c = Inr (jwt c)"
    and run: "IssueSubscriptionToken E (NewGroupService E cfg) cmd w = (r, w')"
  shows "(\<forall>token. r = Inr token \<longleftrightarrow>
           (\<exists>g expires. group_view w (it_GroupID cmd) = Some g \<and> g_Ephemeral g \<and>
              g_ExpiresAt g = Some expires \<and> e_now E (n_now w) \<le> expires \<and>
              membership_view w (it_GroupID cmd, it_UserID cmd) \<noteq> None \<and>
              token = jwt (group_claims E (it_UserID cmd) (it_GroupID cmd) expires))) \<and>
         tables_of w' = tables_of w"
proof -
  let ?w1 = "w\<lparr>n_net := Suc (n_net w)\<rparr>"
  have find: "gr_FindByID (NewGroupRepo E) i w = (case group_view w i of
      None \<Rightarrow> (Inl (Sentinel ErrGroupNotFound), ?w1) | Some g \<Rightarrow> (Inr g, ?w1))" for i
    by (auto simp: NewGroupRepo_def GroupRepo_FindByID_def GetGroupByID_def net_call_up [OF up]
        conv_def org_find_error_def group_view_def table_map_def split: option.splits
        dest: find_key_Some)
  have lst: "\<exists>ms w2. gr_ListMembers (NewGroupRepo E) i u = (Inr ms, w2)" for i u
    by (simp add: NewGroupRepo_def GroupRepo_ListMembers_def ListGroupMemberRows_def net_call_up [OF up]
        conv_def)
  have mem: "list_ex (\<lambda>m. gm_UserID m = u) ms \<longleftrightarrow> membership_view w (i, u) \<noteq> None"
    if "gr_ListMembers (NewGroupRepo E) i (?w1\<lparr>n_now := k\<rparr>) = (Inr ms, w2)" for i u ms w2 k
    using org_grp.listed_member [OF _ that] wf by simp
  obtain ms w2 where ms: "gr_ListMembers (NewGroupRepo E) (it_GroupID cmd)
      (?w1\<lparr>n_now := Suc (n_now w)\<rparr>) = (Inr ms, w2)" using lst by blast
  have "tables_of w' = tables_of w"
    using IssueSubscriptionToken_keeps_tables run by (rule keeps_eq)
  moreover have "\<forall>token. r = Inr token \<longleftrightarrow>
      (\<exists>g expires. group_view w (it_GroupID cmd) = Some g \<and> g_Ephemeral g \<and>
         g_ExpiresAt g = Some expires \<and> e_now E (n_now w) \<le> expires \<and>
         membership_view w (it_GroupID cmd, it_UserID cmd) \<noteq> None \<and>
         token = jwt (group_claims E (it_UserID cmd) (it_GroupID cmd) expires))"
    using run secret sign ms mem [OF ms]
    by (auto simp: IssueSubscriptionToken_def check_err_def NewGroupService_def find time_Now_def
        IssueGroupToken_def split: option.splits if_splits)
  ultimately show ?thesis by blast
qed

definition ex_ephemeral :: org_db where
  "ex_ephemeral = ex_empty\<lparr>groups := [\<lparr>rg_id = 5, rg_org_id = 1, rg_app_id = 9, rg_name = ''call'',
     rg_description = [], rg_ephemeral = True, rg_expires_at = Some 50, rg_created_by = 7,
     rg_created_at = 0\<rparr>], group_members := [\<lparr>rgm_group_id = 5, rgm_user_id = 8, rgm_app_id = 9\<rparr>]\<rparr>"

theorem subscription_token_iff_witness:
  "fst (IssueSubscriptionToken ex_env (NewGroupService ex_env ex_cfg) \<lparr>it_GroupID = 5, it_UserID = 8\<rparr>
      ex_ephemeral) = Inr ''jwt''"
proof -
  let ?run = "IssueSubscriptionToken ex_env (NewGroupService ex_env ex_cfg)
      \<lparr>it_GroupID = 5, it_UserID = 8\<rparr> ex_ephemeral"
  have "\<forall>token. fst ?run = Inr token \<longleftrightarrow>
      (\<exists>g expires. group_view ex_ephemeral 5 = Some g \<and> g_Ephemeral g \<and> g_ExpiresAt g = Some expires \<and>
         e_now ex_env (n_now ex_ephemeral) \<le> expires \<and> membership_view ex_ephemeral (5, 8) \<noteq> None \<and>
         token = ''jwt'')"
    using subscription_token_iff [OF ex_net_up, of ex_ephemeral ex_cfg "\<lambda>c. ''jwt''"
        "\<lparr>it_GroupID = 5, it_UserID = 8\<rparr>" "fst ?run" "snd ?run"]
    by (simp add: ex_ephemeral_def ex_empty_def ex_cfg_def org_db_wf_def) (simp add: ex_env_def)
  then show ?thesis
    by (simp add: group_view_def membership_view_def table_map_def ex_ephemeral_def ex_empty_def
        rowToGroup_def)
qed

subsection \<open>The authorization server\<close>

text \<open>C5: for a permanent group, with Keto answering as documented, the Centrifugo proxy follows the
  membership: after a successful addition whose tuple Keto acknowledged, the proxy lets the user
  subscribe to the group's channel; after a successful removal whose deletion Keto acknowledged, it
  refuses.\<close>
theorem proxy_follows_membership:
  assumes keto: "keto_documented E (org_keto cfg)"
    and perm: "\<And>g. group_view w i = Some g \<Longrightarrow> \<not> g_Ephemeral g"
  shows "(AddGroupMember E (NewGroupService E cfg) \<lparr>ag_GroupID = i, ag_UserID = u, ag_AppID = a\<rparr> w = (Inr (), w1) \<and>
          acknowledged E (http_log w) (keto_write_request (org_keto cfg) (member_tuple E i u)) 201 \<longrightarrow>
          fst (proxy_ServeHTTP (org_proxy E cfg) (subscribe_request E cfg i u) w1) = centrifugo_allow) \<and>
         (RemoveGroupMember E (NewGroupService E cfg) \<lparr>rgc_GroupID = i, rgc_UserID = u\<rparr> w = (Inr (), w2) \<and>
          acknowledged E (http_log w) (keto_delete_request (org_keto cfg) (member_tuple E i u)) 204 \<longrightarrow>
          fst (proxy_ServeHTTP (org_proxy E cfg) (subscribe_request E cfg i u) w2) \<noteq> centrifugo_allow)"
  using AddGroupMember_log [of E cfg "\<lparr>ag_GroupID = i, ag_UserID = u, ag_AppID = a\<rparr>" w w1]
    RemoveGroupMember_log [of E cfg "\<lparr>rgc_GroupID = i, rgc_UserID = u\<rparr>" w w2] perm
  by (auto simp: proxy_group_verdict [OF keto] split: if_splits)

lemma ex_permanent_group: "group_view ex_permanent 5 = Some g \<Longrightarrow> \<not> g_Ephemeral g"
  by (auto simp: group_view_def table_map_def ex_permanent_def rowToGroup_def)

lemma ex_joined_group: "group_view ex_joined 5 = Some g \<Longrightarrow> \<not> g_Ephemeral g"
  using add_member_effect [OF ex_add_run] ex_permanent_group by simp

theorem proxy_follows_membership_witness:
  "fst (proxy_ServeHTTP (org_proxy ex_env ex_cfg) (subscribe_request ex_env ex_cfg 5 8) ex_joined) = centrifugo_allow \<and>
   fst (proxy_ServeHTTP (org_proxy ex_env ex_cfg) (subscribe_request ex_env ex_cfg 5 8) ex_left) \<noteq> centrifugo_allow"
proof -
  have k: "keto_documented ex_env (org_keto ex_cfg)" by (simp only: ex_keto_cfg ex_keto_documented)
  show ?thesis
    using proxy_follows_membership [OF k ex_permanent_group, where u = 8 and a = 9 and ?w1.0 = ex_joined]
      proxy_follows_membership [OF k ex_joined_group, where u = 8 and ?w2.0 = ex_left] ex_add_run ex_rem_run
    by (simp add: ex_keto_cfg ex_acknowledged)
qed

text \<open>An ephemeral group never reaches the authorization server: adding and removing its members
  sends no request at all, and of a permanent group exactly one, for that member's tuple.\<close>
theorem ephemeral_groups_bypass_keto:
  assumes "group_view w i = Some g"
  shows "(AddGroupMember E (NewGroupService E cfg) \<lparr>ag_GroupID = i, ag_UserID = u, ag_AppID = a\<rparr> w = (Inr (), w1) \<longrightarrow>
          http_log w1 = http_log w @ (if g_Ephemeral g then []
             else [keto_write_request (org_keto cfg) (member_tuple E i u)])) \<and>
         (RemoveGroupMember E (NewGroupService E cfg) \<lparr>rgc_GroupID = i, rgc_UserID = u\<rparr> w = (Inr (), w2) \<longrightarrow>
          http_log w2 = http_log w @ (if g_Ephemeral g then []
             else [keto_delete_request (org_keto cfg) (member_tuple E i u)]))"
  using AddGroupMember_log [of E cfg "\<lparr>ag_GroupID = i, ag_UserID = u, ag_AppID = a\<rparr>" w w1]
    RemoveGroupMember_log [of E cfg "\<lparr>rgc_GroupID = i, rgc_UserID = u\<rparr>" w w2] assms
  by (auto split: if_splits)

theorem ephemeral_groups_bypass_keto_witness:
  "http_log (snd (AddGroupMember ex_env (NewGroupService ex_env ex_cfg) ex_add ex_permanent)) =
     [keto_write_request ex_keto (member_tuple ex_env 5 8)]"
proof -
  obtain g where g: "group_view ex_permanent 5 = Some g" "\<not> g_Ephemeral g"
    by (simp add: group_view_def table_map_def ex_permanent_def rowToGroup_def)
  then show ?thesis
    using ephemeral_groups_bypass_keto [OF g(1), of ex_env ex_cfg 8 9 ex_joined] ex_add_run
    by (simp add: ex_keto_cfg ex_permanent_def ex_empty_def)
qed

subsection \<open>The sweeper\<close>

text \<open>C6: whatever fails during a sweep, a group that is gone afterwards was ephemeral and had expired
  at the instant the sweep began; every other group is as it was, with its memberships; and the
  database stays well formed.\<close>
theorem sweep_deletes_only_expired:
  assumes "org_db_wf w" and "w' = sweep E (NewGroupExpirySweeper E cfg) w"
  shows "org_db_wf w' \<and>
    (group_view w' i = group_view w i \<or> group_view w' i = None) \<and>
    (\<not> (\<exists>g x. group_view w i = Some g \<and> g_Ephemeral g \<and> g_ExpiresAt g = Some x \<and>
          x < e_tsz E (e_now E (n_now w))) \<longrightarrow>
       group_view w' i = group_view w i \<and> membership_view w' (i, u) = membership_view w (i, u))"
proof -
  have inv: "org_db_wf (tables_of w)" using assms(1) by simp
  note sel = NewGroupExpirySweeper_sel [of E cfg]
  note safe = org_grp.sweep_safe [OF sel inv]
  show ?thesis
    using safe(1) [of E i] safe(2) [of i E u] safe(3) [of E] by (auto simp: assms(2))
qed

theorem sweep_deletes_only_expired_witness:
  "group_view (sweep ex_env (NewGroupExpirySweeper ex_env ex_cfg) ex_permanent) 5 = group_view ex_permanent 5"
proof -
  have "org_db_wf ex_permanent" by (simp add: org_db_wf_def ex_permanent_def ex_empty_def)
  from sweep_deletes_only_expired [OF this refl, where i = 5] ex_permanent_group show ?thesis by blast
qed

text \<open>C7: with the network up, one sweep deletes every ephemeral group that has expired at the instant
  the sweep began.\<close>
theorem sweep_deletes_all_expired:
  assumes "net_up E" and "org_db_wf w"
    and "group_view w i = Some g" and "g_Ephemeral g" and "g_ExpiresAt g = Some x"
    and "x < e_tsz E (e_now E (n_now w))"
  shows "group_view (sweep E (NewGroupExpirySweeper E cfg) w) i = None"
proof -
  have del: "\<exists>w'. gr_Delete (NewGroupRepo E) i w = (Inr (), w')" for i w
    by (simp add: NewGroupRepo_def GroupRepo_Delete_def DeleteGroup_def net_call_up [OF assms(1)] conv_def)
  have lst: "\<exists>gs w'. gr_ListExpired (NewGroupRepo E) now w = (Inr gs, w')" for now w
    by (simp add: NewGroupRepo_def GroupRepo_ListExpired_def ListExpiredGroups_def
        net_call_up [OF assms(1)] conv_def)
  have gid: "g_ID g = i"
    using assms(3) by (auto simp: group_view_def table_map_def dest: find_key_Some)
  have "group_view (tables_of (sweep E (NewGroupExpirySweeper E cfg) w)) i = None"
    by (rule org_grp.sweep_complete [OF NewGroupExpirySweeper_sel _ del lst _ gid assms(4-6)])
       (simp_all add: assms)
  then show ?thesis by simp
qed

definition ex_expired :: org_db where
  "ex_expired = ex_ephemeral\<lparr>n_now := 1\<rparr>"

theorem sweep_deletes_all_expired_witness:
  "group_view ex_expired 5 \<noteq> None \<and>
   group_view (sweep ex_env (NewGroupExpirySweeper ex_env ex_cfg) ex_expired) 5 = None"
proof -
  have wf: "org_db_wf ex_expired"
    by (simp add: org_db_wf_def ex_expired_def ex_ephemeral_def ex_empty_def)
  obtain g where g: "group_view ex_expired 5 = Some g" "g_Ephemeral g" "g_ExpiresAt g = Some 50"
    by (simp add: group_view_def table_map_def ex_expired_def ex_ephemeral_def rowToGroup_def)
  show ?thesis
    using sweep_deletes_all_expired [OF ex_net_up wf g] g(1) by (simp add: ex_expired_def)
qed

end
