(* ===== verification/Org_Edge_Correct.thy ===== *)
theory Org_Edge_Correct
  imports Org_Groups_Correct
begin

text \<open>
  The properties of the org service's edges: authentication and its cache, the mapping of errors to
  replies, the Centrifugo proxy, the outbox, and what happens when two acceptances of one invitation
  interleave.
\<close>

subsection \<open>Authentication\<close>

text \<open>C8: whatever has gone through the middleware of a process before, and whatever else happened: a request
  is let through to the handler only with claims that Hydra gave for its very token, either during
  the request itself or for an earlier request at most thirty seconds ago by the process's clock; any
  other request is answered 401 and changes nothing but the clock, the cache and the log of requests.\<close>
theorem bearer_auth_gate:
  assumes hist: "mw_run E url es (Map.empty, w0) = (c, w)"
    and run: "BearerAuth E url nxt r (c, w) = (rep, c', w')"
  shows "rp_status rep = 401 \<and> tables_of w' = tables_of w \<and> js_log w' = js_log w \<or>
     (\<exists>claims w1. extractBearer r \<noteq> [] \<and> nxt (WithClaims claims r) w1 = (rep, w') \<and> tables_of w1 = tables_of w \<and>
        ((\<exists>t. introspected E url es (Map.empty, w0) (extractBearer r) claims t \<and>
              e_now E (n_now w) \<le> t + 30 * Second \<and> http_log w1 = http_log w) \<or>
         introspect_answer (e_http E (http_log w) (introspect_request (introspect_url url) (extractBearer r))) = Inr claims \<and>
           http_log w1 = http_log w @ [introspect_request (introspect_url url) (extractBearer r)]))"
  using hist run by (rule BearerAuth_gate)

lemma connection_token_logs: "centrifugoConnectionToken E h r w = (rep, w') \<Longrightarrow> http_log w' = http_log w"
  by (auto simp: centrifugoConnectionToken_def handler_defs IssueConnectionToken_def time_Now_def
      split: option.splits sum.splits)

text \<open>The second of two requests with the same token is answered from the cache.\<close>

definition ex_served :: "org_db mw_event list" where
  "ex_served = [Serve (centrifugoConnectionToken ex_env (org_main ex_env ex_cfg)) (ex_bearer ''t1'')]"

lemma ex_t1: "extractBearer (ex_bearer ''t1'') = ''t1''"
  by code_simp

theorem bearer_auth_gate_witness:
  "\<exists>claims t. introspected ex_env ''http://hydra'' ex_served (Map.empty, ex_empty) ''t1'' claims t \<and>
     e_now ex_env (n_now (snd (mw_run ex_env ''http://hydra'' ex_served (Map.empty, ex_empty)))) \<le> t + 30 * Second"
proof -
  let ?cw = "mw_run ex_env ''http://hydra'' ex_served (Map.empty, ex_empty)"
  let ?run = "BearerAuth ex_env ''http://hydra''
      (centrifugoConnectionToken ex_env (org_main ex_env ex_cfg)) (ex_bearer ''t1'') ?cw"
  have s: "rp_status (fst ?run) = 200" by code_simp
  have l: "length (http_log (snd (snd ?run))) = length (http_log (snd ?cw))" by code_simp
  have "?cw = (fst ?cw, snd ?cw)" "BearerAuth ex_env ''http://hydra''
      (centrifugoConnectionToken ex_env (org_main ex_env ex_cfg)) (ex_bearer ''t1'') (fst ?cw, snd ?cw) =
      (fst ?run, fst (snd ?run), snd (snd ?run))" by simp_all
  from bearer_auth_gate [OF this] s l show ?thesis
    unfolding ex_t1 by (elim disjE exE conjE) (auto dest!: connection_token_logs)
qed

text \<open>Over any sequence of requests to any handlers, whatever else happens in between, every entry of the
  cache holds what Hydra answered for that very token when an earlier request presented it, and expires
  thirty seconds after the clock reading that followed the answer.\<close>
theorem bearer_cache_invariant:
  assumes "fst (mw_run E url es (Map.empty, w)) token = Some e"
  shows "\<exists>t. introspected E url es (Map.empty, w) token (ce_claims e) t \<and> ce_expiresAt e = t + 30 * Second"
  using cache_entries_introspected [OF assms] by (simp add: cache_ttl_def)

theorem bearer_cache_invariant_witness:
  "\<exists>e t. fst (mw_run ex_env ''http://hydra'' ex_served (Map.empty, ex_empty)) ''t1'' = Some e \<and>
     introspected ex_env ''http://hydra'' ex_served (Map.empty, ex_empty) ''t1'' (ce_claims e) t"
proof -
  have "fst (mw_run ex_env ''http://hydra'' ex_served (Map.empty, ex_empty)) ''t1'' \<noteq> None" by code_simp
  then obtain e where e: "fst (mw_run ex_env ''http://hydra'' ex_served (Map.empty, ex_empty)) ''t1'' = Some e" by blast
  from bearer_cache_invariant [OF this] e show ?thesis by blast
qed

subsection \<open>The Centrifugo proxy\<close>

text \<open>C19: the proxy lets a subscription through only when the shared secret matches and the body
  decodes, and then: for a personal channel exactly when it is the user's own, without asking the
  authorization server; for a group's channel exactly when the authorization server was asked about that
  user's membership of that group and said yes; for any other channel never.\<close>
theorem proxy_decisions:
  "fst (proxy_ServeHTTP h r w) = centrifugo_allow \<longleftrightarrow>
     rq_header r ''X-Centrifugo-Proxy-Secret'' = ph_proxySecret h \<and>
     (\<exists>req. Option.bind (rq_body r) dec_proxy_request = Some req \<and>
        ((\<exists>g. cp_Channel req = ''group:'' @ g \<and>
              fst (az_Check (ph_authz h) (cp_UserID req) ''member'' (''Group:'' @ g) w) = Inr True) \<or>
         cp_Channel req = ''user:'' @ cp_UserID req))"
proof -
  have "fst (checkSubscription h req w) = Inr True \<longleftrightarrow>
      (\<exists>g. cp_Channel req = ''group:'' @ g \<and>
           fst (az_Check (ph_authz h) (cp_UserID req) ''member'' (''Group:'' @ g) w) = Inr True) \<or>
      cp_Channel req = ''user:'' @ cp_UserID req" for req
  proof (cases "HasPrefix (cp_Channel req) ''group:''")
    case True
    then obtain g where "cp_Channel req = ''group:'' @ g" by (auto simp: HasPrefix_iff)
    then show ?thesis by (simp add: checkSubscription_group)
  next
    case False
    then have no: "\<not> (\<exists>g. cp_Channel req = ''group:'' @ g)" by (auto simp: HasPrefix_iff)
    show ?thesis
    proof (cases "HasPrefix (cp_Channel req) ''user:''")
      case True
      then obtain u where u: "cp_Channel req = ''user:'' @ u" by (auto simp: HasPrefix_iff)
      with no show ?thesis by (auto simp: checkSubscription_user [OF u])
    next
      case False
      with no show ?thesis by (auto simp: checkSubscription_def HasPrefix_iff)
    qed
  qed
  then show ?thesis by (simp add: proxy_allows_iff)
qed

subsection \<open>The outbox\<close>

text \<open>C10: the outbox worker loses nothing: over any number of ticks, with any network faults, no row is
  added, removed or changed but for its mark, and a row is newly marked as published only when the
  stream holds its envelope under its subject.\<close>
theorem outbox_marks_only_delivered:
  assumes "org_db_wf w" and "w' = outbox_Run E ticks w"
  shows "set (js_log w) \<subseteq> set (js_log w') \<and>
     list_all2 (\<lambda>r r'. r'\<lparr>rx_published_at := None\<rparr> = r\<lparr>rx_published_at := None\<rparr> \<and>
        (rx_published_at r' = rx_published_at r \<or>
         (''mobpilot.events.'' @ rx_event_type r, outbox_envelope E r) \<in> set (js_log w')))
       (outbox w) (outbox w')"
proof -
  have "poll_safe E w w'"
    using assms outbox_Run_safe [of w E ticks] by (simp add: org_db_wf_def)
  then show ?thesis
    by (auto simp: poll_safe_def same_event_def delivered_def outbox_subject_def elim!: list.rel_mono_strong)
qed

definition ex_outbox :: org_db where
  "ex_outbox = ex_empty\<lparr>outbox :=
     [\<lparr>rx_id = 1, rx_aggregate_id = 2, rx_event_type = ''org.group.created'', rx_payload = JNull,
       rx_created_at = 0, rx_published_at = None\<rparr>]\<rparr>"

lemma ex_outbox_wf: "org_db_wf ex_outbox"
  by (simp add: org_db_wf_def ex_outbox_def ex_empty_def)

theorem outbox_marks_only_delivered_witness:
  "length (outbox (outbox_Run ex_env 2 ex_outbox)) = 1 \<and>
   map rx_published_at (outbox (outbox_Run ex_env 2 ex_outbox)) \<noteq> [None] \<and>
   ''mobpilot.events.org.group.created'' \<in> fst ` set (js_log (outbox_Run ex_env 2 ex_outbox))"
proof -
  have l: "list_all2 (\<lambda>r r'. r'\<lparr>rx_published_at := None\<rparr> = r\<lparr>rx_published_at := None\<rparr> \<and>
        (rx_published_at r' = rx_published_at r \<or>
         (''mobpilot.events.'' @ rx_event_type r, outbox_envelope ex_env r) \<in>
           set (js_log (outbox_Run ex_env 2 ex_outbox))))
       (outbox ex_outbox) (outbox (outbox_Run ex_env 2 ex_outbox))"
    using outbox_marks_only_delivered [OF ex_outbox_wf refl, of ex_env 2] by blast
  have m: "map rx_published_at (outbox (outbox_Run ex_env 2 ex_outbox)) \<noteq> [None]" by code_simp
  from l m show ?thesis
    by (auto simp: ex_outbox_def list_all2_Cons1 image_iff) (metis fst_conv)
qed

text \<open>With the network up the outbox drains: a tick publishes up to one hundred rows, so after as
  many ticks as there are hundreds of unpublished rows, every row is marked.\<close>
theorem outbox_drains:
  assumes "net_up E" and "org_db_wf w"
    and "length (filter (\<lambda>r. rx_published_at r = None) (outbox w)) \<le> 100 * ticks"
  shows "filter (\<lambda>r. rx_published_at r = None) (outbox (outbox_Run E ticks w)) = []"
  using outbox_Run_drains [OF assms(1), of w ticks] assms(2,3) by (simp add: unpublished_def org_db_wf_def)

theorem outbox_drains_witness:
  "filter (\<lambda>r. rx_published_at r = None) (outbox (outbox_Run ex_env 1 ex_outbox)) = []"
  by (rule outbox_drains [OF ex_net_up ex_outbox_wf]) (simp add: ex_outbox_def)

text \<open>No route and no worker ever writes to the outbox table: the events of the use cases are
  published directly, and a fault of the broker loses them.\<close>
lemma outbox_never_filled:
  assumes "outbox w = []" and "(org_step E cfg)\<^sup>*\<^sup>* w w'"
  shows "outbox w' = []"
  using assms(2,1) by (rule empty_outbox.org_steps_P)

subsection \<open>Two acceptances at the same time\<close>

text \<open>AcceptInvitation in its phases: look up and check, add the member, mark. Between the phases
  another request may run.\<close>

definition accept_check ::
    "env \<Rightarrow> 'x go_state_scheme MemberService \<Rightarrow> AcceptInvitationCommand \<Rightarrow>
     (Invitation \<times> OrgMember \<times> time, 'x go_state_scheme) org_op" where
  "accept_check E s cmd =
     check_err ''MemberService.AcceptInvitation find'' (ir_FindByToken (ms_invitations s) (ai_Token cmd)) (\<lambda>i w.
       if IsAccepted i then (Inl (Sentinel ErrAlreadyExists), w)
       else let (expired, w1) = IsExpired E i w in
       if expired then (Inl (Sentinel ErrInviteExpired), w1)
       else let (now, w2) = time_Now E w1
            in (Inr (i, \<lparr>m_OrgID = i_OrgID i, m_UserID = ai_UserID cmd, m_Role = i_Role i,
                         m_InvitedBy = None, m_JoinedAt = now\<rparr>, now), w2))"

definition accept_join :: "'w MemberService \<Rightarrow> OrgMember \<Rightarrow> (unit, 'w) org_op" where
  "accept_join s m =
     check_err ''MemberService.AcceptInvitation add member'' (mr_Add (ms_members s) m) (\<lambda>_ w. (Inr (), w))"

definition accept_mark ::
    "'w MemberService \<Rightarrow> Invitation \<Rightarrow> OrgMember \<Rightarrow> time \<Rightarrow> (OrgMember, 'w) org_op" where
  "accept_mark s i m now =
     check_err ''MemberService.AcceptInvitation mark accepted'' (ir_MarkAccepted (ms_invitations s) (i_ID i)) (\<lambda>_ w.
       (Inr m, ignore_err (ep_Publish (ms_publisher s)
          [MemberJoinedEvent (i_OrgID i) (m_UserID m) (i_Role i) now]) w))"

lemma AcceptInvitation_phases:
  "AcceptInvitation E s cmd =
     pass_err (accept_check E s cmd) (\<lambda>(i, m, now).
     pass_err (accept_join s m) (\<lambda>_. accept_mark s i m now))"
  by (rule ext)
     (auto simp: AcceptInvitation_def accept_check_def accept_join_def accept_mark_def pass_err_def
        check_err_def IsExpired_def time_Now_def Let_def split: prod.splits sum.splits)

text \<open>Two users, one invitation: when both checks come before the first mark, both acceptances succeed.\<close>

definition ex_two_accept :: "env \<Rightarrow> org_db \<Rightarrow> (org_error + OrgMember) \<times> (org_error + OrgMember) \<times> org_db" where
  "ex_two_accept E w =
     (let s = NewMemberService E in
      case accept_check E s \<lparr>ai_Token = ''tok'', ai_UserID = 8\<rparr> w of
        (Inl e, w1) \<Rightarrow> (Inl e, Inl e, w1)
      | (Inr (i1, m1, t1), w1) \<Rightarrow>
          (case accept_check E s \<lparr>ai_Token = ''tok'', ai_UserID = 9\<rparr> w1 of
             (Inl e, w2) \<Rightarrow> (Inl e, Inl e, w2)
           | (Inr (i2, m2, t2), w2) \<Rightarrow>
               let (r1, w3) = pass_err (accept_join s m1) (\<lambda>_. accept_mark s i1 m1 t1) w2;
                   (r2, w4) = pass_err (accept_join s m2) (\<lambda>_. accept_mark s i2 m2 t2) w3
               in (r1, r2, w4)))"

lemma invitation_accepted_twice_interleaved:
  "(case ex_two_accept ex_env ex_invited of
      (Inr m1, Inr m2, w) \<Rightarrow> m_UserID m1 = 8 \<and> m_UserID m2 = 9 \<and> length (org_members w) = 2
    | _ \<Rightarrow> False)"
  by code_simp

end
