(* ===== verification/Identity_Domain.thy ===== *)
theory Identity_Domain
  imports Go_Json
begin

text \<open>
  The identity service's domain layer and ports (\<^verbatim>\<open>services/identity/domain\<close>, \<^verbatim>\<open>domain/ports\<close>) and the
  commands of its use cases (\<^verbatim>\<open>application/ports/inbound.go\<close>): errors, users with their profile, device
  tokens, artifacts, the one event, and the repositories as records of functions with the contract of
  the user repository as a locale.
\<close>

subsection \<open>Errors\<close>

datatype id_sentinel =
  ErrUserNotFound | ErrArtifactNotFound | ErrDeviceNotFound | IdErrAlreadyExists | IdErrNotAuthorized

type_synonym id_error = "id_sentinel go_error"
type_synonym ('a, 'w) id_op = "(id_sentinel, 'a, 'w) go_op"

fun id_sentinel_text :: "id_sentinel \<Rightarrow> string" where
  "id_sentinel_text ErrUserNotFound = ''user not found''"
| "id_sentinel_text ErrArtifactNotFound = ''artifact not found''"
| "id_sentinel_text ErrDeviceNotFound = ''device token not found''"
| "id_sentinel_text IdErrAlreadyExists = ''resource already exists''"
| "id_sentinel_text IdErrNotAuthorized = ''not authorized''"

subsection \<open>Users\<close>

text \<open>A Go map from strings is \<open>None\<close> when nil and otherwise its entries.\<close>

type_synonym go_map = "(string \<times> json) list option"

record UserCreatedEvent =
  uc_UserID :: uuid
  uc_AppID :: uuid
  uc_EventTimeAt :: time

definition uc_EventType :: "UserCreatedEvent \<Rightarrow> string" where
  "uc_EventType e = ''identity.user.created''"

record User =
  u_ID :: uuid
  u_AppID :: uuid
  u_DisplayName :: string
  u_AvatarURL :: string
  u_Bio :: string
  u_Location :: string
  u_WebsiteURL :: string
  u_Settings :: go_map
  u_CreatedAt :: time
  u_UpdatedAt :: time
  u_events :: "UserCreatedEvent list"

definition user_raise :: "UserCreatedEvent \<Rightarrow> User \<Rightarrow> User" where
  "user_raise e u = u\<lparr>u_events := u_events u @ [e]\<rparr>"

definition user_PopEvents :: "User \<Rightarrow> UserCreatedEvent list \<times> User" where
  "user_PopEvents u = (u_events u, u\<lparr>u_events := []\<rparr>)"

definition NewUser :: "env \<Rightarrow> uuid \<Rightarrow> uuid \<Rightarrow> string \<Rightarrow> (User, 'x go_state_scheme) id_op" where
  "NewUser E kratosID appID displayName w =
     (if kratosID = uuid_Nil then (Inl (InvalidInput ''kratosID must not be nil''), w)
      else if appID = uuid_Nil then (Inl (InvalidInput ''appID must not be nil''), w)
      else let (now, w1) = time_Now E w;
               u = \<lparr>u_ID = kratosID, u_AppID = appID, u_DisplayName = displayName, u_AvatarURL = [],
                    u_Bio = [], u_Location = [], u_WebsiteURL = [], u_Settings = Some [],
                    u_CreatedAt = now, u_UpdatedAt = now, u_events = []\<rparr>
           in (Inr (user_raise \<lparr>uc_UserID = u_ID u, uc_AppID = u_AppID u, uc_EventTimeAt = now\<rparr> u), w1))"

record ProfilePatch =
  pp_DisplayName :: "string option"
  pp_AvatarURL :: "string option"
  pp_Bio :: "string option"
  pp_Location :: "string option"
  pp_WebsiteURL :: "string option"

text \<open>\<open>if patch.X != nil { u.X = *patch.X }\<close>\<close>

definition or_old :: "'a option \<Rightarrow> 'a \<Rightarrow> 'a" where
  "or_old new old = (case new of None \<Rightarrow> old | Some x \<Rightarrow> x)"

definition UpdateProfile ::
    "env \<Rightarrow> ProfilePatch \<Rightarrow> User \<Rightarrow> 'x go_state_scheme \<Rightarrow> User \<times> 'x go_state_scheme" where
  "UpdateProfile E patch u w =
     (let u1 = u\<lparr>u_DisplayName := or_old (pp_DisplayName patch) (u_DisplayName u),
                 u_AvatarURL := or_old (pp_AvatarURL patch) (u_AvatarURL u),
                 u_Bio := or_old (pp_Bio patch) (u_Bio u),
                 u_Location := or_old (pp_Location patch) (u_Location u),
                 u_WebsiteURL := or_old (pp_WebsiteURL patch) (u_WebsiteURL u)\<rparr>;
          (now, w1) = time_Now E w
      in (u1\<lparr>u_UpdatedAt := now\<rparr>, w1))"

text \<open>The profile with the given fields replaced.\<close>

definition patched :: "ProfilePatch \<Rightarrow> User \<Rightarrow> User" where
  "patched p u = u\<lparr>u_DisplayName := or_old (pp_DisplayName p) (u_DisplayName u),
     u_AvatarURL := or_old (pp_AvatarURL p) (u_AvatarURL u), u_Bio := or_old (pp_Bio p) (u_Bio u),
     u_Location := or_old (pp_Location p) (u_Location u),
     u_WebsiteURL := or_old (pp_WebsiteURL p) (u_WebsiteURL u)\<rparr>"

lemma UpdateProfile_patched:
  "UpdateProfile E p u w =
     ((patched p u)\<lparr>u_UpdatedAt := e_now E (n_now w)\<rparr>, w\<lparr>n_now := Suc (n_now w)\<rparr>)"
  by (simp add: UpdateProfile_def patched_def time_Now_def Let_def)

lemma patched_sel [simp]:
  "u_ID (patched p u) = u_ID u" "u_AppID (patched p u) = u_AppID u"
  "u_Settings (patched p u) = u_Settings u" "u_CreatedAt (patched p u) = u_CreatedAt u"
  "u_events (patched p u) = u_events u"
  by (simp_all add: patched_def)

subsection \<open>Device tokens and artifacts\<close>

record DeviceToken =
  d_ID :: uuid
  d_UserID :: uuid
  d_AppID :: uuid
  d_Platform :: string
  d_TokenType :: string
  d_Token :: string
  d_DeviceID :: string
  d_CreatedAt :: time
  d_UpdatedAt :: time

definition NewDeviceToken ::
    "env \<Rightarrow> uuid \<Rightarrow> uuid \<Rightarrow> string \<Rightarrow> string \<Rightarrow> string \<Rightarrow> string \<Rightarrow> (DeviceToken, 'x go_state_scheme) id_op" where
  "NewDeviceToken E userID appID platform tokenType token deviceID w =
     (if token = [] then (Inl (InvalidInput ''token must not be empty''), w)
      else if deviceID = [] then (Inl (InvalidInput ''deviceID must not be empty''), w)
      else let (now, w1) = time_Now E w; (newid, w2) = uuid_New E w1
           in (Inr \<lparr>d_ID = newid, d_UserID = userID, d_AppID = appID, d_Platform = platform,
                    d_TokenType = tokenType, d_Token = token, d_DeviceID = deviceID,
                    d_CreatedAt = now, d_UpdatedAt = now\<rparr>, w2))"

record Artifact =
  a_ID :: uuid
  a_UserID :: uuid
  a_AppID :: uuid
  a_Key :: string
  a_Value :: json
  a_CreatedAt :: time
  a_UpdatedAt :: time

definition NewArtifact :: "env \<Rightarrow> uuid \<Rightarrow> uuid \<Rightarrow> string \<Rightarrow> json \<Rightarrow> (Artifact, 'x go_state_scheme) id_op" where
  "NewArtifact E userID appID key val w =
     (if key = [] then (Inl (InvalidInput ''key must not be empty''), w)
      else let (now, w1) = time_Now E w; (newid, w2) = uuid_New E w1
           in (Inr \<lparr>a_ID = newid, a_UserID = userID, a_AppID = appID, a_Key = key, a_Value = val,
                    a_CreatedAt = now, a_UpdatedAt = now\<rparr>, w2))"

subsection \<open>Ports\<close>

record 'w UserRepository =
  ur_Upsert :: "User \<Rightarrow> (unit, 'w) id_op"
  ur_FindByID :: "uuid \<Rightarrow> uuid \<Rightarrow> (User, 'w) id_op"
  ur_Update :: "User \<Rightarrow> (unit, 'w) id_op"

record 'w DeviceTokenRepository =
  dtr_Upsert :: "DeviceToken \<Rightarrow> (unit, 'w) id_op"
  dtr_Delete :: "uuid \<Rightarrow> string \<Rightarrow> (unit, 'w) id_op"
  dtr_FindByUser :: "uuid \<Rightarrow> uuid \<Rightarrow> (DeviceToken list, 'w) id_op"

record 'w ArtifactRepository =
  afr_Upsert :: "Artifact \<Rightarrow> (unit, 'w) id_op"
  afr_FindByKey :: "uuid \<Rightarrow> uuid \<Rightarrow> string \<Rightarrow> (Artifact, 'w) id_op"
  afr_List :: "uuid \<Rightarrow> uuid \<Rightarrow> (Artifact list, 'w) id_op"
  afr_Delete :: "uuid \<Rightarrow> uuid \<Rightarrow> string \<Rightarrow> (unit, 'w) id_op"

record 'w IdEventPublisher =
  iep_Publish :: "UserCreatedEvent list \<Rightarrow> (unit, 'w) id_op"

text \<open>
  The contract of the user repository over an abstract view of the profiles. A write that fails has
  happened or not; nothing is ever said of another user's profile, or of the same user's profile in
  another application.
\<close>

locale user_repository =
  fixes repo :: "'w UserRepository"
    and tab :: "'w \<Rightarrow> 't"
    and view :: "'t \<Rightarrow> uuid \<times> uuid \<Rightarrow> User option"
    and stored :: "User \<Rightarrow> User"
  assumes stored_events: "stored (u\<lparr>u_events := es\<rparr>) = stored u"
    and find_keeps: "keeps tab (ur_FindByID repo i a)"
    and find_found: "ur_FindByID repo i a w = (Inr u, w') \<Longrightarrow> view (tab w) (i, a) = Some u"
    and find_missing:
      "ur_FindByID repo i a w = (Inl e, w') \<Longrightarrow> err_cause e = Sentinel ErrUserNotFound \<Longrightarrow>
       view (tab w) (i, a) = None"
    and upsert_new:
      "ur_Upsert repo u w = (Inr (), w') \<Longrightarrow> view (tab w) (u_ID u, u_AppID u) = None \<Longrightarrow>
       view (tab w') = (view (tab w))((u_ID u, u_AppID u) \<mapsto> stored u)"
    and upsert_others: "k \<noteq> (u_ID u, u_AppID u) \<Longrightarrow> view (tab (snd (ur_Upsert repo u w))) k = view (tab w) k"
    and update_ok:
      "ur_Update repo u w = (Inr (), w') \<Longrightarrow> view (tab w) (u_ID u, u_AppID u) = Some u0 \<Longrightarrow>
       \<exists>at. view (tab w') = (view (tab w))((u_ID u, u_AppID u) \<mapsto>
          u\<lparr>u_CreatedAt := u_CreatedAt u0, u_UpdatedAt := at, u_events := []\<rparr>)"
    and update_others: "k \<noteq> (u_ID u, u_AppID u) \<Longrightarrow> view (tab (snd (ur_Update repo u w))) k = view (tab w) k"

subsection \<open>Commands\<close>

record GetMeCommand =
  gme_UserID :: uuid
  gme_AppID :: uuid

record UpdateMeCommand =
  um_UserID :: uuid
  um_AppID :: uuid
  um_Patch :: ProfilePatch

record RegisterDeviceCommand =
  rd_UserID :: uuid
  rd_AppID :: uuid
  rd_Platform :: string
  rd_TokenType :: string
  rd_Token :: string
  rd_DeviceID :: string

record UnregisterDeviceCommand =
  ud_AppID :: uuid
  ud_DeviceID :: string

record PutArtifactCommand =
  pa_UserID :: uuid
  pa_AppID :: uuid
  pa_Key :: string
  pa_Value :: json

record GetArtifactCommand =
  ga_UserID :: uuid
  ga_AppID :: uuid
  ga_Key :: string

record DeleteArtifactCommand =
  da_UserID :: uuid
  da_AppID :: uuid
  da_Key :: string

lemma NewUser_Inr:
  assumes "NewUser E i a n w = (Inr u, w')"
  shows "i \<noteq> uuid_Nil" "a \<noteq> uuid_Nil"
    and "u = \<lparr>u_ID = i, u_AppID = a, u_DisplayName = n, u_AvatarURL = [], u_Bio = [], u_Location = [],
              u_WebsiteURL = [], u_Settings = Some [], u_CreatedAt = e_now E (n_now w),
              u_UpdatedAt = e_now E (n_now w),
              u_events = [\<lparr>uc_UserID = i, uc_AppID = a, uc_EventTimeAt = e_now E (n_now w)\<rparr>]\<rparr>"
    and "w' = w\<lparr>n_now := Suc (n_now w)\<rparr>"
  using assms by (auto simp: NewUser_def time_Now_def user_raise_def Let_def split: if_splits)

lemma NewUser_Inl:
  assumes "NewUser E i a n w = (Inl e, w')"
  shows "w' = w" and "\<exists>msg. e = InvalidInput msg"
  using assms by (auto simp: NewUser_def time_Now_def Let_def split: if_splits)

lemma NewDeviceToken_Inr:
  assumes "NewDeviceToken E u a p tt tok dev w = (Inr d, w')"
  shows "tok \<noteq> []" "dev \<noteq> []"
    and "d = \<lparr>d_ID = e_newid E (n_ids w), d_UserID = u, d_AppID = a, d_Platform = p, d_TokenType = tt,
              d_Token = tok, d_DeviceID = dev, d_CreatedAt = e_now E (n_now w), d_UpdatedAt = e_now E (n_now w)\<rparr>"
    and "w' = w\<lparr>n_now := Suc (n_now w), n_ids := Suc (n_ids w)\<rparr>"
  using assms by (auto simp: NewDeviceToken_def time_Now_def uuid_New_def Let_def split: if_splits)

lemma NewArtifact_Inr:
  assumes "NewArtifact E u a k v w = (Inr x, w')"
  shows "k \<noteq> []"
    and "x = \<lparr>a_ID = e_newid E (n_ids w), a_UserID = u, a_AppID = a, a_Key = k, a_Value = v,
              a_CreatedAt = e_now E (n_now w), a_UpdatedAt = e_now E (n_now w)\<rparr>"
    and "w' = w\<lparr>n_now := Suc (n_now w), n_ids := Suc (n_ids w)\<rparr>"
  using assms by (auto simp: NewArtifact_def time_Now_def uuid_New_def Let_def split: if_splits)

end
