(* ===== verification/Identity_Store.thy ===== *)
theory Identity_Store
  imports Identity_Domain
begin

text \<open>
  The identity service's database and PostgreSQL adapters
  (\<^verbatim>\<open>services/identity/infrastructure/postgres\<close>): rows and queries as in \<open>Org_Store\<close>, the repositories with
  their error mapping, and the interpretation of the user repository's contract on the adapter. A
  \<open>JSONB\<close> column holds a JSON value; writing cannot fail to encode it, since every value the service
  writes came from decoded JSON.
\<close>

subsection \<open>Rows and tables\<close>

record UserProfileRow =
  up_id :: uuid
  up_app_id :: uuid
  up_display_name :: string
  up_avatar_url :: string
  up_bio :: string
  up_location :: string
  up_website_url :: string
  up_settings :: json
  up_created_at :: time
  up_updated_at :: time

record DeviceTokenRow =
  dt_id :: uuid
  dt_user_id :: uuid
  dt_app_id :: uuid
  dt_platform :: string
  dt_token_type :: string
  dt_token :: string
  dt_device_id :: string
  dt_created_at :: time
  dt_updated_at :: time

record ArtifactRow =
  ar_id :: uuid
  ar_user_id :: uuid
  ar_app_id :: uuid
  ar_key :: string
  ar_value :: "json option"
  ar_created_at :: time
  ar_updated_at :: time

record id_db = go_state +
  user_profiles :: "UserProfileRow list"
  device_tokens :: "DeviceTokenRow list"
  artifact_storage :: "ArtifactRow list"

abbreviation profile_key :: "UserProfileRow \<Rightarrow> uuid \<times> uuid" where
  "profile_key r \<equiv> (up_id r, up_app_id r)"

abbreviation device_key :: "DeviceTokenRow \<Rightarrow> uuid \<times> string" where
  "device_key r \<equiv> (dt_app_id r, dt_device_id r)"

abbreviation artifact_key :: "ArtifactRow \<Rightarrow> uuid \<times> uuid \<times> string" where
  "artifact_key r \<equiv> (ar_user_id r, ar_app_id r, ar_key r)"

definition platform_check :: "string \<Rightarrow> bool" where
  "platform_check p = (p = ''ios'' \<or> p = ''android'' \<or> p = ''web'')"

definition token_type_check :: "string \<Rightarrow> bool" where
  "token_type_check t = (t = ''fcm'' \<or> t = ''apns'')"

subsection \<open>Queries\<close>

definition UpsertUserProfile :: "env \<Rightarrow> UserProfileRow \<Rightarrow> (unit, id_db) id_op" where
  "UpsertUserProfile E arg =
     net_call E (\<lambda>w.
       let r = arg\<lparr>up_created_at := e_tsz E (up_created_at arg), up_updated_at := e_tsz E (up_updated_at arg)\<rparr>
       in (Inr (), w\<lparr>user_profiles := upsert_row profile_key r
            (\<lambda>x. x\<lparr>up_display_name := up_display_name r, up_avatar_url := up_avatar_url r,
                   up_bio := up_bio r, up_location := up_location r, up_website_url := up_website_url r,
                   up_settings := up_settings r, up_updated_at := up_updated_at r\<rparr>)
            (user_profiles w)\<rparr>))"

definition GetUserProfile :: "env \<Rightarrow> uuid \<Rightarrow> uuid \<Rightarrow> (UserProfileRow, id_db) id_op" where
  "GetUserProfile E ident app_id =
     net_call E (\<lambda>w. case find (\<lambda>r. profile_key r = (ident, app_id)) (user_profiles w) of
       None \<Rightarrow> (Inl NoRows, w) | Some r \<Rightarrow> (Inr r, w))"

definition UpdateUserProfile ::
    "env \<Rightarrow> uuid \<Rightarrow> uuid \<Rightarrow> string \<Rightarrow> string \<Rightarrow> string \<Rightarrow> string \<Rightarrow> string \<Rightarrow> json \<Rightarrow> time \<Rightarrow> (unit, id_db) id_op" where
  "UpdateUserProfile E ident app_id display_name avatar_url bio loc website_url settings updated_at =
     net_call E (\<lambda>w. (Inr (), w\<lparr>user_profiles :=
       map (\<lambda>r. if profile_key r = (ident, app_id)
                then r\<lparr>up_display_name := display_name, up_avatar_url := avatar_url, up_bio := bio,
                       up_location := loc, up_website_url := website_url, up_settings := settings,
                       up_updated_at := e_tsz E updated_at\<rparr>
                else r) (user_profiles w)\<rparr>))"

definition UpsertDeviceToken :: "env \<Rightarrow> DeviceTokenRow \<Rightarrow> (unit, id_db) id_op" where
  "UpsertDeviceToken E arg =
     net_call E (\<lambda>w.
       let r = arg\<lparr>dt_created_at := e_tsz E (dt_created_at arg), dt_updated_at := e_tsz E (dt_updated_at arg)\<rparr>
       in if \<not> platform_check (dt_platform r)
            then (Inl (PgError ''23514'' ''device_tokens_platform_check''), w)
          else if \<not> token_type_check (dt_token_type r)
            then (Inl (PgError ''23514'' ''device_tokens_token_type_check''), w)
          else if device_key r \<notin> device_key ` set (device_tokens w) \<and> dt_id r \<in> dt_id ` set (device_tokens w)
            then (Inl (PgError ''23505'' ''device_tokens_pkey''), w)
          else (Inr (), w\<lparr>device_tokens := upsert_row device_key r
            (\<lambda>x. x\<lparr>dt_user_id := dt_user_id r, dt_platform := dt_platform r,
                   dt_token_type := dt_token_type r, dt_token := dt_token r,
                   dt_updated_at := dt_updated_at r\<rparr>)
            (device_tokens w)\<rparr>))"

definition DeleteDeviceToken :: "env \<Rightarrow> uuid \<Rightarrow> string \<Rightarrow> (unit, id_db) id_op" where
  "DeleteDeviceToken E app_id device_id =
     net_call E (\<lambda>w. (Inr (), w\<lparr>device_tokens :=
       filter (\<lambda>r. device_key r \<noteq> (app_id, device_id)) (device_tokens w)\<rparr>))"

definition GetDeviceTokensByUser :: "env \<Rightarrow> uuid \<Rightarrow> uuid \<Rightarrow> (DeviceTokenRow list, id_db) id_op" where
  "GetDeviceTokensByUser E user_id app_id =
     net_call E (\<lambda>w.
       (Inr (filter (\<lambda>r. dt_user_id r = user_id \<and> dt_app_id r = app_id) (device_tokens w)), w))"

definition UpsertArtifact :: "env \<Rightarrow> ArtifactRow \<Rightarrow> (unit, id_db) id_op" where
  "UpsertArtifact E arg =
     net_call E (\<lambda>w.
       let r = arg\<lparr>ar_created_at := e_tsz E (ar_created_at arg), ar_updated_at := e_tsz E (ar_updated_at arg)\<rparr>
       in if artifact_key r \<notin> artifact_key ` set (artifact_storage w) \<and> ar_id r \<in> ar_id ` set (artifact_storage w)
            then (Inl (PgError ''23505'' ''artifact_storage_pkey''), w)
          else (Inr (), w\<lparr>artifact_storage := upsert_row artifact_key r
            (\<lambda>x. x\<lparr>ar_value := ar_value r, ar_updated_at := ar_updated_at r\<rparr>)
            (artifact_storage w)\<rparr>))"

definition GetArtifact :: "env \<Rightarrow> uuid \<Rightarrow> uuid \<Rightarrow> string \<Rightarrow> (ArtifactRow, id_db) id_op" where
  "GetArtifact E user_id app_id key =
     net_call E (\<lambda>w. case find (\<lambda>r. artifact_key r = (user_id, app_id, key)) (artifact_storage w) of
       None \<Rightarrow> (Inl NoRows, w) | Some r \<Rightarrow> (Inr r, w))"

definition ListArtifacts :: "env \<Rightarrow> uuid \<Rightarrow> uuid \<Rightarrow> (ArtifactRow list, id_db) id_op" where
  "ListArtifacts E user_id app_id =
     net_call E (\<lambda>w. (Inr (sort_key (\<lambda>r. e_collate E (ar_key r))
       (filter (\<lambda>r. ar_user_id r = user_id \<and> ar_app_id r = app_id) (artifact_storage w))), w))"

definition DeleteArtifact :: "env \<Rightarrow> uuid \<Rightarrow> uuid \<Rightarrow> string \<Rightarrow> (unit, id_db) id_op" where
  "DeleteArtifact E user_id app_id key =
     net_call E (\<lambda>w. (Inr (), w\<lparr>artifact_storage :=
       filter (\<lambda>r. artifact_key r \<noteq> (user_id, app_id, key)) (artifact_storage w)\<rparr>))"

lemmas id_query_defs =
  UpsertUserProfile_def GetUserProfile_def UpdateUserProfile_def UpsertDeviceToken_def
  DeleteDeviceToken_def GetDeviceTokensByUser_def UpsertArtifact_def GetArtifact_def
  ListArtifacts_def DeleteArtifact_def

subsection \<open>Repositories\<close>

definition id_mapPgError :: "id_error \<Rightarrow> id_error" where
  "id_mapPgError err =
     (case errors_As_PgError err of
        None \<Rightarrow> err
      | Some (code, con) \<Rightarrow>
          if code = ''23505'' then Sentinel IdErrAlreadyExists
          else if code = ''23503'' then InvalidInput ''referenced resource does not exist''
          else err)"

definition id_find_error :: "string \<Rightarrow> id_sentinel \<Rightarrow> id_error \<Rightarrow> id_error" where
  "id_find_error prefix nf err = (if errors_Is err NoRows then Sentinel nf else Wrapped prefix err)"

definition id_exec_error :: "string \<Rightarrow> id_error \<Rightarrow> id_error" where
  "id_exec_error prefix err = Wrapped prefix (id_mapPgError err)"

text \<open>\<open>json.Marshal\<close> and \<open>json.Unmarshal\<close> of the settings: a nil map is \<open>null\<close>; what is not an object
  reads as the empty map.\<close>

definition marshal_map :: "go_map \<Rightarrow> json" where
  "marshal_map m = (case m of None \<Rightarrow> JNull | Some kvs \<Rightarrow> JObj kvs)"

fun unmarshal_map :: "json \<Rightarrow> go_map" where
  "unmarshal_map (JObj kvs) = Some kvs"
| "unmarshal_map JNull = None"
| "unmarshal_map _ = Some []"

definition UserRepo_Upsert :: "env \<Rightarrow> User \<Rightarrow> (unit, id_db) id_op" where
  "UserRepo_Upsert E u =
     conv (id_exec_error ''UserRepo.Upsert'') id
       (UpsertUserProfile E \<lparr>up_id = u_ID u, up_app_id = u_AppID u, up_display_name = u_DisplayName u,
          up_avatar_url = u_AvatarURL u, up_bio = u_Bio u, up_location = u_Location u,
          up_website_url = u_WebsiteURL u, up_settings = marshal_map (u_Settings u),
          up_created_at = u_CreatedAt u, up_updated_at = u_UpdatedAt u\<rparr>)"

text \<open>The time of the update is read again here.\<close>

definition UserRepo_Update :: "env \<Rightarrow> User \<Rightarrow> (unit, id_db) id_op" where
  "UserRepo_Update E u w =
     (let (now, w1) = time_Now E w
      in conv (id_exec_error ''UserRepo.Update'') id
           (UpdateUserProfile E (u_ID u) (u_AppID u) (u_DisplayName u) (u_AvatarURL u) (u_Bio u)
              (u_Location u) (u_WebsiteURL u) (marshal_map (u_Settings u)) now) w1)"

definition rowToUser :: "UserProfileRow \<Rightarrow> User" where
  "rowToUser r = \<lparr>u_ID = up_id r, u_AppID = up_app_id r, u_DisplayName = up_display_name r,
     u_AvatarURL = up_avatar_url r, u_Bio = up_bio r, u_Location = up_location r,
     u_WebsiteURL = up_website_url r, u_Settings = unmarshal_map (up_settings r),
     u_CreatedAt = up_created_at r, u_UpdatedAt = up_updated_at r, u_events = []\<rparr>"

definition UserRepo_FindByID :: "env \<Rightarrow> uuid \<Rightarrow> uuid \<Rightarrow> (User, id_db) id_op" where
  "UserRepo_FindByID E ident appID =
     conv (id_find_error ''UserRepo.FindByID'' ErrUserNotFound) rowToUser (GetUserProfile E ident appID)"

definition NewUserRepo :: "env \<Rightarrow> id_db UserRepository" where
  "NewUserRepo E = \<lparr>ur_Upsert = UserRepo_Upsert E, ur_FindByID = UserRepo_FindByID E,
                    ur_Update = UserRepo_Update E\<rparr>"

definition DeviceRepo_Upsert :: "env \<Rightarrow> DeviceToken \<Rightarrow> (unit, id_db) id_op" where
  "DeviceRepo_Upsert E d =
     conv (id_exec_error ''DeviceRepo.Upsert'') id
       (UpsertDeviceToken E \<lparr>dt_id = d_ID d, dt_user_id = d_UserID d, dt_app_id = d_AppID d,
          dt_platform = d_Platform d, dt_token_type = d_TokenType d, dt_token = d_Token d,
          dt_device_id = d_DeviceID d, dt_created_at = d_CreatedAt d, dt_updated_at = d_UpdatedAt d\<rparr>)"

definition DeviceRepo_Delete :: "env \<Rightarrow> uuid \<Rightarrow> string \<Rightarrow> (unit, id_db) id_op" where
  "DeviceRepo_Delete E appID deviceID =
     conv (Wrapped ''DeviceRepo.Delete'') id (DeleteDeviceToken E appID deviceID)"

definition rowToDevice :: "DeviceTokenRow \<Rightarrow> DeviceToken" where
  "rowToDevice r = \<lparr>d_ID = dt_id r, d_UserID = dt_user_id r, d_AppID = dt_app_id r,
     d_Platform = dt_platform r, d_TokenType = dt_token_type r, d_Token = dt_token r,
     d_DeviceID = dt_device_id r, d_CreatedAt = dt_created_at r, d_UpdatedAt = dt_updated_at r\<rparr>"

text \<open>No rows count as no tokens.\<close>

definition DeviceRepo_FindByUser :: "env \<Rightarrow> uuid \<Rightarrow> uuid \<Rightarrow> (DeviceToken list, id_db) id_op" where
  "DeviceRepo_FindByUser E userID appID w =
     (case GetDeviceTokensByUser E userID appID w of
        (Inl e, w1) \<Rightarrow>
          if errors_Is e NoRows then (Inr [], w1) else (Inl (Wrapped ''DeviceRepo.FindByUser'' e), w1)
      | (Inr rows, w1) \<Rightarrow> (Inr (map rowToDevice rows), w1))"

definition NewDeviceRepo :: "env \<Rightarrow> id_db DeviceTokenRepository" where
  "NewDeviceRepo E = \<lparr>dtr_Upsert = DeviceRepo_Upsert E, dtr_Delete = DeviceRepo_Delete E,
                      dtr_FindByUser = DeviceRepo_FindByUser E\<rparr>"

definition ArtifactRepo_Upsert :: "env \<Rightarrow> Artifact \<Rightarrow> (unit, id_db) id_op" where
  "ArtifactRepo_Upsert E a w =
     (let (now, w1) = time_Now E w
      in conv (id_exec_error ''ArtifactRepo.Upsert'') id
           (UpsertArtifact E \<lparr>ar_id = a_ID a, ar_user_id = a_UserID a, ar_app_id = a_AppID a,
              ar_key = a_Key a, ar_value = Some (a_Value a), ar_created_at = a_CreatedAt a,
              ar_updated_at = now\<rparr>) w1)"

definition rowToArtifact :: "ArtifactRow \<Rightarrow> Artifact" where
  "rowToArtifact r = \<lparr>a_ID = ar_id r, a_UserID = ar_user_id r, a_AppID = ar_app_id r, a_Key = ar_key r,
     a_Value = (case ar_value r of None \<Rightarrow> JNull | Some v \<Rightarrow> v), a_CreatedAt = ar_created_at r,
     a_UpdatedAt = ar_updated_at r\<rparr>"

definition ArtifactRepo_FindByKey :: "env \<Rightarrow> uuid \<Rightarrow> uuid \<Rightarrow> string \<Rightarrow> (Artifact, id_db) id_op" where
  "ArtifactRepo_FindByKey E userID appID key =
     conv (id_find_error ''ArtifactRepo.FindByKey'' ErrArtifactNotFound) rowToArtifact
       (GetArtifact E userID appID key)"

definition ArtifactRepo_List :: "env \<Rightarrow> uuid \<Rightarrow> uuid \<Rightarrow> (Artifact list, id_db) id_op" where
  "ArtifactRepo_List E userID appID =
     conv (Wrapped ''ArtifactRepo.List'') (map rowToArtifact) (ListArtifacts E userID appID)"

definition ArtifactRepo_Delete :: "env \<Rightarrow> uuid \<Rightarrow> uuid \<Rightarrow> string \<Rightarrow> (unit, id_db) id_op" where
  "ArtifactRepo_Delete E userID appID key =
     conv (Wrapped ''ArtifactRepo.Delete'') id (DeleteArtifact E userID appID key)"

definition NewArtifactRepo :: "env \<Rightarrow> id_db ArtifactRepository" where
  "NewArtifactRepo E = \<lparr>afr_Upsert = ArtifactRepo_Upsert E, afr_FindByKey = ArtifactRepo_FindByKey E,
     afr_List = ArtifactRepo_List E, afr_Delete = ArtifactRepo_Delete E\<rparr>"

lemmas id_repo_defs =
  NewUserRepo_def UserRepo_Upsert_def UserRepo_Update_def UserRepo_FindByID_def
  NewDeviceRepo_def DeviceRepo_Upsert_def DeviceRepo_Delete_def DeviceRepo_FindByUser_def
  NewArtifactRepo_def ArtifactRepo_Upsert_def ArtifactRepo_FindByKey_def ArtifactRepo_List_def
  ArtifactRepo_Delete_def

subsection \<open>The user repository keeps its contract\<close>

definition profile_view :: "id_db \<Rightarrow> uuid \<times> uuid \<Rightarrow> User option" where
  "profile_view t = table_map profile_key rowToUser (user_profiles t)"

definition stored_user :: "env \<Rightarrow> User \<Rightarrow> User" where
  "stored_user E u = u\<lparr>u_CreatedAt := e_tsz E (u_CreatedAt u), u_UpdatedAt := e_tsz E (u_UpdatedAt u),
                       u_events := []\<rparr>"

lemma unmarshal_marshal [simp]: "unmarshal_map (marshal_map m) = m"
  by (cases m) (simp_all add: marshal_map_def)

lemma id_table_simps [simp]:
  "user_profiles (tables_of w) = user_profiles w" "device_tokens (tables_of w) = device_tokens w"
  "artifact_storage (tables_of w) = artifact_storage w"
  by (simp_all add: tables_of_def)

lemma profile_view_simps [simp]:
  "profile_view (tables_of w) = profile_view w" "profile_view (w\<lparr>n_net := n\<rparr>) = profile_view w"
  "profile_view (w\<lparr>n_now := n\<rparr>) = profile_view w"
  by (simp_all add: profile_view_def fun_eq_iff)

lemma stored_user_row [simp]:
  "rowToUser \<lparr>up_id = u_ID u, up_app_id = u_AppID u, up_display_name = u_DisplayName u,
     up_avatar_url = u_AvatarURL u, up_bio = u_Bio u, up_location = u_Location u,
     up_website_url = u_WebsiteURL u, up_settings = marshal_map (u_Settings u),
     up_created_at = e_tsz E (u_CreatedAt u), up_updated_at = e_tsz E (u_UpdatedAt u)\<rparr> = stored_user E u"
  by (cases u) (simp add: rowToUser_def stored_user_def)

definition updated_row :: "env \<Rightarrow> User \<Rightarrow> time \<Rightarrow> UserProfileRow \<Rightarrow> UserProfileRow" where
  "updated_row E u t r = r\<lparr>up_display_name := u_DisplayName u, up_avatar_url := u_AvatarURL u,
     up_bio := u_Bio u, up_location := u_Location u, up_website_url := u_WebsiteURL u,
     up_settings := marshal_map (u_Settings u), up_updated_at := t\<rparr>"

lemma updated_row_key [simp]:
  "up_id (updated_row E u t r) = up_id r" "up_app_id (updated_row E u t r) = up_app_id r"
  by (simp_all add: updated_row_def)

interpretation pg_users: user_repository "NewUserRepo E" tables_of profile_view "stored_user E" for E
proof (unfold_locales, goal_cases)
  case (1 u es)
  then show ?case by (simp add: stored_user_def)
next
  case (5 u w w')
  then have none: "(u_ID u, u_AppID u) \<notin> profile_key ` set (user_profiles w)"
    by (simp add: profile_view_def table_map_None)
  with 5(1) have "user_profiles w' = user_profiles w @
      [\<lparr>up_id = u_ID u, up_app_id = u_AppID u, up_display_name = u_DisplayName u,
        up_avatar_url = u_AvatarURL u, up_bio = u_Bio u, up_location = u_Location u,
        up_website_url = u_WebsiteURL u, up_settings = marshal_map (u_Settings u),
        up_created_at = e_tsz E (u_CreatedAt u), up_updated_at = e_tsz E (u_UpdatedAt u)\<rparr>]"
    by (auto simp: id_repo_defs id_query_defs conv_def net_call_def Let_def upsert_row_def
        split: net_outcome.splits prod.splits sum.splits)
  with none show ?case by (simp add: profile_view_def table_map_snoc)
next
  case (6 k u w)
  then show ?case
    by (auto simp: id_repo_defs id_query_defs net_call_def Let_def profile_view_def
        table_map_upsert split: net_outcome.splits option.splits)
next
  case (7 u w w' u0)
  let ?at = "e_tsz E (e_now E (n_now w))"
  obtain r where r: "find (\<lambda>r. profile_key r = (u_ID u, u_AppID u)) (user_profiles w) = Some r"
    "rowToUser r = u0"
    using 7(2) by (auto simp: profile_view_def table_map_def)
  have "user_profiles w' = map (\<lambda>r. if profile_key r = (u_ID u, u_AppID u) then updated_row E u ?at r else r)
      (user_profiles w)"
    using 7(1) by (auto simp: id_repo_defs id_query_defs conv_def net_call_def Let_def time_Now_def
        updated_row_def split: net_outcome.splits prod.splits sum.splits)
  then have "profile_view w' = (profile_view w)((u_ID u, u_AppID u) \<mapsto> rowToUser (updated_row E u ?at r))"
    using table_map_update_key [where key = profile_key and g = "updated_row E u ?at" and val = rowToUser
        and i = "(u_ID u, u_AppID u)" and rs = "user_profiles w"] r(1)
    by (simp add: profile_view_def)
  moreover have "rowToUser (updated_row E u ?at r) =
      u\<lparr>u_CreatedAt := u_CreatedAt u0, u_UpdatedAt := ?at, u_events := []\<rparr>"
    using find_key_Some [OF r(1)] r(2) by (cases u) (auto simp: updated_row_def rowToUser_def)
  ultimately show ?case by auto
next
  case (8 k u w)
  have "user_profiles (snd (ur_Update (NewUserRepo E) u w)) \<in> {user_profiles w,
      map (\<lambda>r. if profile_key r = (u_ID u, u_AppID u) then updated_row E u (e_tsz E (e_now E (n_now w))) r else r)
        (user_profiles w)}"
    by (auto simp: id_repo_defs id_query_defs net_call_def Let_def time_Now_def updated_row_def
        split: net_outcome.splits)
  then show ?case
    using 8 table_map_update_key [where key = profile_key and g = "updated_row E u (e_tsz E (e_now E (n_now w)))"
        and val = rowToUser and i = "(u_ID u, u_AppID u)" and rs = "user_profiles w"]
    by (auto simp: profile_view_def split: option.splits)
qed (auto simp: keeps_def id_repo_defs id_query_defs conv_def net_call_def Let_def profile_view_def
       table_map_def id_find_error_def split: net_outcome.splits option.splits sum.splits prod.splits if_splits)

end
