(* ===== verification/Identity_Services.thy ===== *)
theory Identity_Services
  imports Identity_Store Org_Events
begin

text \<open>
  The identity service's use cases (\<^verbatim>\<open>services/identity/application\<close>) and its event publisher
  (\<^verbatim>\<open>infrastructure/nats/publisher.go\<close>). The locale \<open>user_service\<close> proves what the profile use cases do
  from the user repository's contract alone; its interpretation on the PostgreSQL adapter follows.
\<close>

subsection \<open>UserService\<close>

record 'w UserService =
  us_users :: "'w UserRepository"
  us_publisher :: "'w IdEventPublisher"

text \<open>The profile is created on the first request; publishing is best effort.\<close>

definition GetMe ::
    "env \<Rightarrow> 'x go_state_scheme UserService \<Rightarrow> GetMeCommand \<Rightarrow> (User, 'x go_state_scheme) id_op" where
  "GetMe E s cmd w =
     (case ur_FindByID (us_users s) (gme_UserID cmd) (gme_AppID cmd) w of
        (Inr user, w1) \<Rightarrow> (Inr user, w1)
      | (Inl err, w1) \<Rightarrow>
          if \<not> errors_Is err (Sentinel ErrUserNotFound) then (Inl (Wrapped ''UserService.GetMe'' err), w1)
          else check_err ''UserService.GetMe new user'' (NewUser E (gme_UserID cmd) (gme_AppID cmd) []) (\<lambda>user.
               check_err ''UserService.GetMe upsert'' (ur_Upsert (us_users s) user) (\<lambda>_ w2.
               let (evts, user') = user_PopEvents user
               in (Inr user', ignore_err (iep_Publish (us_publisher s) evts) w2))) w1)"

definition UpdateMe ::
    "env \<Rightarrow> 'x go_state_scheme UserService \<Rightarrow> UpdateMeCommand \<Rightarrow> (User, 'x go_state_scheme) id_op" where
  "UpdateMe E s cmd =
     check_err ''UserService.UpdateMe find'' (ur_FindByID (us_users s) (um_UserID cmd) (um_AppID cmd)) (\<lambda>user w.
     let (user', w1) = UpdateProfile E (um_Patch cmd) user w
     in check_err ''UserService.UpdateMe update'' (ur_Update (us_users s) user') (\<lambda>_ w2. (Inr user', w2)) w1)"

definition GetUser :: "'w UserService \<Rightarrow> uuid \<Rightarrow> uuid \<Rightarrow> (User, 'w) id_op" where
  "GetUser s userID appID =
     check_err ''UserService.GetUser'' (ur_FindByID (us_users s) userID appID) (\<lambda>u w. (Inr u, w))"

subsection \<open>DeviceService\<close>

record 'w DeviceService =
  ds_devices :: "'w DeviceTokenRepository"

definition RegisterDevice ::
    "env \<Rightarrow> 'x go_state_scheme DeviceService \<Rightarrow> RegisterDeviceCommand \<Rightarrow> (DeviceToken, 'x go_state_scheme) id_op" where
  "RegisterDevice E s cmd =
     pass_err (NewDeviceToken E (rd_UserID cmd) (rd_AppID cmd) (rd_Platform cmd) (rd_TokenType cmd)
                 (rd_Token cmd) (rd_DeviceID cmd)) (\<lambda>dt.
     check_err ''DeviceService.RegisterDevice upsert'' (dtr_Upsert (ds_devices s) dt) (\<lambda>_ w. (Inr dt, w)))"

definition UnregisterDevice :: "'w DeviceService \<Rightarrow> UnregisterDeviceCommand \<Rightarrow> (unit, 'w) id_op" where
  "UnregisterDevice s cmd =
     check_err ''DeviceService.UnregisterDevice'' (dtr_Delete (ds_devices s) (ud_AppID cmd) (ud_DeviceID cmd))
       (\<lambda>_ w. (Inr (), w))"

definition FindDevicesByUser :: "'w DeviceService \<Rightarrow> uuid \<Rightarrow> uuid \<Rightarrow> (DeviceToken list, 'w) id_op" where
  "FindDevicesByUser s userID appID =
     check_err ''DeviceService.FindDevicesByUser'' (dtr_FindByUser (ds_devices s) userID appID) (\<lambda>ts w. (Inr ts, w))"

subsection \<open>ArtifactService\<close>

record 'w ArtifactService =
  as_artifacts :: "'w ArtifactRepository"

definition ArtifactService_Put ::
    "env \<Rightarrow> 'x go_state_scheme ArtifactService \<Rightarrow> PutArtifactCommand \<Rightarrow> (Artifact, 'x go_state_scheme) id_op" where
  "ArtifactService_Put E s cmd =
     pass_err (NewArtifact E (pa_UserID cmd) (pa_AppID cmd) (pa_Key cmd) (pa_Value cmd)) (\<lambda>a.
     check_err ''ArtifactService.Put'' (afr_Upsert (as_artifacts s) a) (\<lambda>_ w. (Inr a, w)))"

definition ArtifactService_Get :: "'w ArtifactService \<Rightarrow> GetArtifactCommand \<Rightarrow> (Artifact, 'w) id_op" where
  "ArtifactService_Get s cmd =
     check_err ''ArtifactService.Get''
       (afr_FindByKey (as_artifacts s) (ga_UserID cmd) (ga_AppID cmd) (ga_Key cmd)) (\<lambda>a w. (Inr a, w))"

definition ArtifactService_List :: "'w ArtifactService \<Rightarrow> uuid \<Rightarrow> uuid \<Rightarrow> (Artifact list, 'w) id_op" where
  "ArtifactService_List s userID appID = afr_List (as_artifacts s) userID appID"

definition ArtifactService_Delete :: "'w ArtifactService \<Rightarrow> DeleteArtifactCommand \<Rightarrow> (unit, 'w) id_op" where
  "ArtifactService_Delete s cmd =
     check_err ''ArtifactService.Delete''
       (afr_Delete (as_artifacts s) (da_UserID cmd) (da_AppID cmd) (da_Key cmd)) (\<lambda>_ w. (Inr (), w))"

subsection \<open>The event publisher\<close>

definition id_event_payload :: "env \<Rightarrow> UserCreatedEvent \<Rightarrow> json" where
  "id_event_payload E e =
     JObj [(''data'', JObj [(''UserID'', json_uuid E (uc_UserID e)), (''AppID'', json_uuid E (uc_AppID e)),
                            (''EventTimeAt'', json_time E (uc_EventTimeAt e))]),
           (''event_type'', JStr (uc_EventType e)), (''occurred_at'', json_time E (uc_EventTimeAt e))]"

fun id_Publish :: "env \<Rightarrow> UserCreatedEvent list \<Rightarrow> (unit, 'x go_state_scheme) id_op" where
  "id_Publish E [] w = (Inr (), w)"
| "id_Publish E (e # es) w =
     check_err (''nats.EventPublisher publish mobpilot.events.'' @ uc_EventType e)
       (js_Publish E (''mobpilot.events.'' @ uc_EventType e) (id_event_payload E e)) (\<lambda>_. id_Publish E es) w"

definition NewIdEventPublisher :: "env \<Rightarrow> 'x go_state_scheme IdEventPublisher" where
  "NewIdEventPublisher E = \<lparr>iep_Publish = id_Publish E\<rparr>"

lemma id_Publish_Nil: "id_Publish E [] = (\<lambda>w. (Inr (), w))"
  and id_Publish_Cons: "id_Publish E (e # es) =
     check_err (''nats.EventPublisher publish mobpilot.events.'' @ uc_EventType e)
       (js_Publish E (''mobpilot.events.'' @ uc_EventType e) (id_event_payload E e)) (\<lambda>_. id_Publish E es)"
  by (rule ext, simp)+

declare id_Publish.simps [simp del]

lemma id_Publish_keeps_tables [intro!, simp]: "keeps tables_of (id_Publish E es)"
  by (induction es) (auto simp: id_Publish_Nil id_Publish_Cons keepsI)

subsection \<open>What the profile use cases do\<close>

locale user_service = user_repository repo tab view stored
  for repo :: "'x go_state_scheme UserRepository" and tab :: "'x go_state_scheme \<Rightarrow> 't"
    and view :: "'t \<Rightarrow> uuid \<times> uuid \<Rightarrow> User option" and stored :: "User \<Rightarrow> User" +
  fixes pub :: "'x go_state_scheme IdEventPublisher"
  assumes publish_keeps: "keeps tab (iep_Publish pub evs)"
    and clock_tab: "tab (w\<lparr>n_now := n\<rparr>) = tab w"
begin

lemmas user_simps [simp] = clock_tab keeps_ignore_err [OF publish_keeps]

lemma find_tab: "ur_FindByID repo i a w = (r, w') \<Longrightarrow> tab w' = tab w"
  using find_keeps by (rule keeps_eq)

text \<open>A profile that is there is returned as it is.\<close>

lemma GetMe_existing:
  assumes s: "us_users s = repo"
    and there: "view (tab w) (gme_UserID cmd, gme_AppID cmd) = Some u"
    and run: "GetMe E s cmd w = (r, w')"
  shows "tab w' = tab w" and "r = Inr u' \<Longrightarrow> u' = u"
proof -
  obtain r1 w1 where find: "ur_FindByID repo (gme_UserID cmd) (gme_AppID cmd) w = (r1, w1)"
    by (cases "ur_FindByID repo (gme_UserID cmd) (gme_AppID cmd) w")
  have t: "tab w1 = tab w" using find by (rule find_tab)
  have "err_cause e \<noteq> Sentinel ErrUserNotFound" if "r1 = Inl e" for e
    using find_missing find that there by auto
  then show "tab w' = tab w" "r = Inr u' \<Longrightarrow> u' = u"
    using run find t there find_found unfolding GetMe_def s by (auto split: sum.splits)
qed

text \<open>A profile that is not there is created with empty fields.\<close>

lemma GetMe_provisions:
  assumes s: "us_users s = repo" "us_publisher s = pub"
    and absent: "view (tab w) (gme_UserID cmd, gme_AppID cmd) = None"
    and run: "GetMe E s cmd w = (Inr u, w')"
  shows "view (tab w') = (view (tab w))((gme_UserID cmd, gme_AppID cmd) \<mapsto> stored u)"
    and "u_ID u = gme_UserID cmd" and "u_AppID u = gme_AppID cmd" and "u_DisplayName u = []"
    and "u_Settings u = Some []" and "gme_UserID cmd \<noteq> uuid_Nil" and "gme_AppID cmd \<noteq> uuid_Nil"
proof -
  obtain r1 w1 where find: "ur_FindByID repo (gme_UserID cmd) (gme_AppID cmd) w = (r1, w1)"
    by (cases "ur_FindByID repo (gme_UserID cmd) (gme_AppID cmd) w")
  have t: "tab w1 = tab w" using find by (rule find_tab)
  obtain e where r1: "r1 = Inl e" using find_found find absent by (cases r1) auto
  with run find obtain u0 w2 w3 where new: "NewUser E (gme_UserID cmd) (gme_AppID cmd) [] w1 = (Inr u0, w2)"
    and ups: "ur_Upsert repo u0 w2 = (Inr (), w3)" and u: "u = u0\<lparr>u_events := []\<rparr>" and w': "tab w' = tab w3"
    unfolding GetMe_def s
    by (auto simp: user_PopEvents_def split: if_splits elim!: check_err_InrE)
  note n = NewUser_Inr [OF new]
  have "tab w2 = tab w" using n(4) t by simp
  then have "view (tab w3) = (view (tab w))((u_ID u0, u_AppID u0) \<mapsto> stored u0)"
    using upsert_new [OF ups] absent n(3) by simp
  moreover have "stored u = stored u0" unfolding u by (rule stored_events)
  ultimately show "view (tab w') = (view (tab w))((gme_UserID cmd, gme_AppID cmd) \<mapsto> stored u)"
    using w' n(3) by simp
  show "u_ID u = gme_UserID cmd" "u_AppID u = gme_AppID cmd" "u_DisplayName u = []"
    "u_Settings u = Some []" "gme_UserID cmd \<noteq> uuid_Nil" "gme_AppID cmd \<noteq> uuid_Nil"
    using n u by simp_all
qed

text \<open>No other profile is touched, whatever fails.\<close>

lemma GetMe_others:
  assumes s: "us_users s = repo" "us_publisher s = pub" and k: "k \<noteq> (gme_UserID cmd, gme_AppID cmd)"
  shows "view (tab (snd (GetMe E s cmd w))) k = view (tab w) k"
proof -
  obtain r1 w1 where find: "ur_FindByID repo (gme_UserID cmd) (gme_AppID cmd) w = (r1, w1)"
    by (cases "ur_FindByID repo (gme_UserID cmd) (gme_AppID cmd) w")
  have t: "tab w1 = tab w" using find by (rule find_tab)
  show ?thesis
  proof (cases "NewUser E (gme_UserID cmd) (gme_AppID cmd) [] w1")
    case (Pair r2 w2)
    show ?thesis
    proof (cases r2)
      case (Inl e)
      with Pair NewUser_Inl have "w2 = w1" by blast
      with Inl Pair find t show ?thesis
        by (auto simp: GetMe_def s check_err_def split: sum.splits)
    next
      case (Inr u0)
      note n = NewUser_Inr [OF Pair [unfolded Inr]]
      have "view (tab (snd (ur_Upsert repo u0 w2))) k = view (tab w) k"
        using upsert_others [of k u0 w2] k n(3,4) t by simp
      with Inr Pair find t show ?thesis
        by (auto simp: GetMe_def s check_err_def user_PopEvents_def split: sum.splits prod.splits)
    qed
  qed
qed

text \<open>An update needs the profile, changes the given fields and the time of the update, and nothing
  else.\<close>

lemma UpdateMe_ok:
  assumes s: "us_users s = repo" and run: "UpdateMe E s cmd w = (Inr u, w')"
  shows "\<exists>u0 t at. view (tab w) (um_UserID cmd, um_AppID cmd) = Some u0 \<and>
    u = (patched (um_Patch cmd) u0)\<lparr>u_UpdatedAt := t\<rparr> \<and>
    (u_ID u0 = um_UserID cmd \<longrightarrow> u_AppID u0 = um_AppID cmd \<longrightarrow>
     view (tab w') = (view (tab w))((um_UserID cmd, um_AppID cmd) \<mapsto>
       (patched (um_Patch cmd) u0)\<lparr>u_UpdatedAt := at, u_events := []\<rparr>))"
proof -
  from run obtain u0 w1 where find: "ur_FindByID repo (um_UserID cmd) (um_AppID cmd) w = (Inr u0, w1)"
    and rest: "(let (user', w1) = UpdateProfile E (um_Patch cmd) u0 w1
      in check_err ''UserService.UpdateMe update'' (ur_Update repo user') (\<lambda>_ w2. (Inr user', w2)) w1) = (Inr u, w')"
    unfolding UpdateMe_def s by (rule check_err_InrE)
  have t: "tab w1 = tab w" using find by (rule find_tab)
  have v: "view (tab w) (um_UserID cmd, um_AppID cmd) = Some u0" using find by (rule find_found)
  let ?u = "(patched (um_Patch cmd) u0)\<lparr>u_UpdatedAt := e_now E (n_now w1)\<rparr>"
  from rest have upd: "ur_Update repo ?u (w1\<lparr>n_now := Suc (n_now w1)\<rparr>) = (Inr (), w')" and u: "u = ?u"
    by (auto simp: UpdateProfile_patched elim!: check_err_InrE)
  have "\<exists>at. u_ID u0 = um_UserID cmd \<longrightarrow> u_AppID u0 = um_AppID cmd \<longrightarrow>
     view (tab w') = (view (tab w))((um_UserID cmd, um_AppID cmd) \<mapsto>
       (patched (um_Patch cmd) u0)\<lparr>u_UpdatedAt := at, u_events := []\<rparr>)"
  proof (cases "u_ID u0 = um_UserID cmd \<and> u_AppID u0 = um_AppID cmd")
    case True
    with v t have "view (tab (w1\<lparr>n_now := Suc (n_now w1)\<rparr>)) (u_ID ?u, u_AppID ?u) = Some u0" by simp
    from update_ok [OF upd this] True t show ?thesis
      by (auto simp: patched_def)
  qed auto
  with v u show ?thesis by blast
qed

lemma UpdateMe_others:
  assumes s: "us_users s = repo"
    and self: "\<And>u0. view (tab w) (um_UserID cmd, um_AppID cmd) = Some u0 \<Longrightarrow>
      (u_ID u0, u_AppID u0) = (um_UserID cmd, um_AppID cmd)"
    and k: "k \<noteq> (um_UserID cmd, um_AppID cmd)"
  shows "view (tab (snd (UpdateMe E s cmd w))) k = view (tab w) k"
proof -
  obtain r1 w1 where find: "ur_FindByID repo (um_UserID cmd) (um_AppID cmd) w = (r1, w1)"
    by (cases "ur_FindByID repo (um_UserID cmd) (um_AppID cmd) w")
  have t: "tab w1 = tab w" using find by (rule find_tab)
  show ?thesis
  proof (cases r1)
    case (Inr u0)
    with find have key: "(u_ID u0, u_AppID u0) = (um_UserID cmd, um_AppID cmd)" using find_found self by blast
    obtain u1 w2 where up: "UpdateProfile E (um_Patch cmd) u0 w1 = (u1, w2)"
      by (cases "UpdateProfile E (um_Patch cmd) u0 w1")
    have "u_ID u1 = u_ID u0" "u_AppID u1 = u_AppID u0" "tab w2 = tab w"
      using up t by (auto simp: UpdateProfile_def time_Now_def Let_def)
    then have "view (tab (snd (ur_Update repo u1 w2))) k = view (tab w) k"
      using update_others [of k u1 w2] k key by simp
    with Inr find up show ?thesis
      by (auto simp: UpdateMe_def s check_err_def split: prod.splits sum.splits)
  qed (use find t in \<open>simp add: UpdateMe_def s check_err_def\<close>)
qed

end

end
