(* ===== verification/Identity_Http.thy ===== *)
theory Identity_Http
  imports Identity_Services Org_Http
begin

text \<open>
  The identity service's HTTP API (\<^verbatim>\<open>services/identity/infrastructure/http/handler.go\<close>) and its wiring
  (\<^verbatim>\<open>cmd/identity/main.go\<close>). The timestamp layout of the responses prints what \<open>Format_RFC3339\<close> prints
  in the UTC zone the containers run in.
\<close>

subsection \<open>Errors and problems\<close>

definition id_problemType :: "int \<Rightarrow> string" where
  "id_problemType status =
     (if status = 404 then ''urn:mobpilot:identity:not-found''
      else if status = 401 then ''urn:mobpilot:auth:unauthorized''
      else if status = 403 then ''urn:mobpilot:auth:forbidden''
      else if status = 409 then ''urn:mobpilot:identity:conflict''
      else if status = 422 then ''urn:mobpilot:identity:invalid-input''
      else ''urn:mobpilot:internal-error'')"

definition id_writeProblem :: "int \<Rightarrow> string \<Rightarrow> reply" where
  "id_writeProblem status detail =
     \<lparr>rp_status = status,
      rp_body = ProblemReply (id_problemType status) (StatusText status) status detail\<rparr>"

definition id_writeError :: "id_error \<Rightarrow> reply" where
  "id_writeError err =
     (let text = error_text id_sentinel_text err in
      if errors_Is err (Sentinel ErrUserNotFound) \<or> errors_Is err (Sentinel ErrArtifactNotFound) \<or>
         errors_Is err (Sentinel ErrDeviceNotFound) then id_writeProblem 404 text
      else if errors_Is err (Sentinel IdErrNotAuthorized) then id_writeProblem 403 text
      else if errors_Is err (Sentinel IdErrAlreadyExists) then id_writeProblem 409 text
      else if IsInvalidInput err then id_writeProblem 422 text
      else id_writeProblem 500 ''internal server error'')"

subsection \<open>Requests\<close>

definition dec_updateProfileRequest :: "json \<Rightarrow> ProfilePatch option" where
  "dec_updateProfileRequest = dec_struct (\<lambda>obj.
     Option.bind (dec_opt_string ''display_name'' obj) (\<lambda>display_name.
     Option.bind (dec_opt_string ''avatar_url'' obj) (\<lambda>avatar_url.
     Option.bind (dec_opt_string ''bio'' obj) (\<lambda>bio.
     Option.bind (dec_opt_string ''location'' obj) (\<lambda>loc.
     Option.bind (dec_opt_string ''website_url'' obj) (\<lambda>website_url.
     Some \<lparr>pp_DisplayName = display_name, pp_AvatarURL = avatar_url, pp_Bio = bio,
           pp_Location = loc, pp_WebsiteURL = website_url\<rparr>))))))"

record registerDeviceRequest =
  rdr_Platform :: string
  rdr_TokenType :: string
  rdr_Token :: string
  rdr_DeviceID :: string

definition dec_registerDeviceRequest :: "json \<Rightarrow> registerDeviceRequest option" where
  "dec_registerDeviceRequest = dec_struct (\<lambda>obj.
     Option.bind (dec_string ''platform'' obj) (\<lambda>platform.
     Option.bind (dec_string ''token_type'' obj) (\<lambda>token_type.
     Option.bind (dec_string ''token'' obj) (\<lambda>token.
     Option.bind (dec_string ''device_id'' obj) (\<lambda>device_id.
     Some \<lparr>rdr_Platform = platform, rdr_TokenType = token_type, rdr_Token = token,
           rdr_DeviceID = device_id\<rparr>)))))"

text \<open>Decoding into \<open>any\<close> keeps every value; of the members of an object with the same key, the last
  one.\<close>

fun last_wins :: "(string \<times> json) list \<Rightarrow> (string \<times> json) list" where
  "last_wins [] = []"
| "last_wins (kv # kvs) = (if fst kv \<in> fst ` set kvs then last_wins kvs else kv # last_wins kvs)"

fun dec_any :: "json \<Rightarrow> json" where
  "dec_any (JArr vs) = JArr (map dec_any vs)"
| "dec_any (JObj kvs) = JObj (last_wins (map (\<lambda>(k, v). (k, dec_any v)) kvs))"
| "dec_any v = v"

subsection \<open>Responses\<close>

definition userToResponse :: "env \<Rightarrow> User \<Rightarrow> json" where
  "userToResponse E u =
     (let settings = (case u_Settings u of None \<Rightarrow> [] | Some kvs \<Rightarrow> kvs)
      in JObj [(''id'', json_uuid E (u_ID u)), (''app_id'', json_uuid E (u_AppID u)),
               (''display_name'', JStr (u_DisplayName u)), (''avatar_url'', JStr (u_AvatarURL u)),
               (''bio'', JStr (u_Bio u)), (''location'', JStr (u_Location u)),
               (''website_url'', JStr (u_WebsiteURL u)), (''settings'', JObj settings),
               (''created_at'', Format_RFC3339 E (u_CreatedAt u)),
               (''updated_at'', Format_RFC3339 E (u_UpdatedAt u))])"

definition artifactToResponse :: "env \<Rightarrow> Artifact \<Rightarrow> json" where
  "artifactToResponse E a =
     JObj [(''id'', json_uuid E (a_ID a)), (''key'', JStr (a_Key a)), (''value'', a_Value a),
           (''updated_at'', Format_RFC3339 E (a_UpdatedAt a))]"

definition deviceTokenItem :: "DeviceToken \<Rightarrow> json" where
  "deviceTokenItem dt =
     JObj [(''platform'', JStr (d_Platform dt)), (''token'', JStr (d_Token dt)),
           (''token_type'', JStr (d_TokenType dt))]"

subsection \<open>Handlers\<close>

record 'w IdHandler =
  ih_users :: "'w UserService"
  ih_devices :: "'w DeviceService"
  ih_artifacts :: "'w ArtifactService"

definition getMe :: "env \<Rightarrow> 'x go_state_scheme IdHandler \<Rightarrow> 'x go_state_scheme handler" where
  "getMe E h =
     require_claims id_writeProblem (\<lambda>claims.
     respond id_writeError (\<lambda>user. writeJSON 200 (userToResponse E user))
       (GetMe E (ih_users h) \<lparr>gme_UserID = mustParseUUID E (c_Subject claims),
          gme_AppID = mustParseUUID E (c_AppID claims)\<rparr>))"

definition updateMe :: "env \<Rightarrow> 'x go_state_scheme IdHandler \<Rightarrow> 'x go_state_scheme handler" where
  "updateMe E h =
     require_claims id_writeProblem (\<lambda>claims.
     decode_body id_writeProblem dec_updateProfileRequest (\<lambda>patch.
     respond id_writeError (\<lambda>user. writeJSON 200 (userToResponse E user))
       (UpdateMe E (ih_users h) \<lparr>um_UserID = mustParseUUID E (c_Subject claims),
          um_AppID = mustParseUUID E (c_AppID claims), um_Patch = patch\<rparr>)))"

definition getUser :: "env \<Rightarrow> 'w IdHandler \<Rightarrow> 'w handler" where
  "getUser E h =
     require_claims id_writeProblem (\<lambda>claims.
     uuid_param E id_writeProblem ''userID'' (\<lambda>userID.
     respond id_writeError (\<lambda>user. writeJSON 200 (userToResponse E user))
       (GetUser (ih_users h) userID (mustParseUUID E (c_AppID claims)))))"

definition registerDevice :: "env \<Rightarrow> 'x go_state_scheme IdHandler \<Rightarrow> 'x go_state_scheme handler" where
  "registerDevice E h =
     require_claims id_writeProblem (\<lambda>claims.
     decode_body id_writeProblem dec_registerDeviceRequest (\<lambda>req.
     respond id_writeError (\<lambda>dt. writeJSON 201 (JObj [(''id'', json_uuid E (d_ID dt))]))
       (RegisterDevice E (ih_devices h)
          \<lparr>rd_UserID = mustParseUUID E (c_Subject claims), rd_AppID = mustParseUUID E (c_AppID claims),
           rd_Platform = rdr_Platform req, rd_TokenType = rdr_TokenType req,
           rd_Token = rdr_Token req, rd_DeviceID = rdr_DeviceID req\<rparr>)))"

definition unregisterDevice :: "env \<Rightarrow> 'w IdHandler \<Rightarrow> 'w handler" where
  "unregisterDevice E h =
     require_claims id_writeProblem (\<lambda>claims r.
     respond id_writeError (\<lambda>_. write_status 204)
       (UnregisterDevice (ih_devices h) \<lparr>ud_AppID = mustParseUUID E (c_AppID claims),
          ud_DeviceID = rq_param r ''deviceID''\<rparr>) r)"

definition listArtifacts :: "env \<Rightarrow> 'w IdHandler \<Rightarrow> 'w handler" where
  "listArtifacts E h =
     require_claims id_writeProblem (\<lambda>claims.
     respond id_writeError (\<lambda>as. writeJSON 200 (items_json (artifactToResponse E) as))
       (ArtifactService_List (ih_artifacts h) (mustParseUUID E (c_Subject claims))
          (mustParseUUID E (c_AppID claims))))"

definition putArtifact :: "env \<Rightarrow> 'x go_state_scheme IdHandler \<Rightarrow> 'x go_state_scheme handler" where
  "putArtifact E h =
     require_claims id_writeProblem (\<lambda>claims.
     decode_body id_writeProblem (\<lambda>v. Some (dec_any v)) (\<lambda>val r.
     respond id_writeError (\<lambda>a. writeJSON 200 (artifactToResponse E a))
       (ArtifactService_Put E (ih_artifacts h)
          \<lparr>pa_UserID = mustParseUUID E (c_Subject claims), pa_AppID = mustParseUUID E (c_AppID claims),
           pa_Key = rq_param r ''key'', pa_Value = val\<rparr>) r))"

definition getArtifact :: "env \<Rightarrow> 'w IdHandler \<Rightarrow> 'w handler" where
  "getArtifact E h =
     require_claims id_writeProblem (\<lambda>claims r.
     respond id_writeError (\<lambda>a. writeJSON 200 (artifactToResponse E a))
       (ArtifactService_Get (ih_artifacts h)
          \<lparr>ga_UserID = mustParseUUID E (c_Subject claims), ga_AppID = mustParseUUID E (c_AppID claims),
           ga_Key = rq_param r ''key''\<rparr>) r)"

definition deleteArtifact :: "env \<Rightarrow> 'w IdHandler \<Rightarrow> 'w handler" where
  "deleteArtifact E h =
     require_claims id_writeProblem (\<lambda>claims r.
     respond id_writeError (\<lambda>_. write_status 204)
       (ArtifactService_Delete (ih_artifacts h)
          \<lparr>da_UserID = mustParseUUID E (c_Subject claims), da_AppID = mustParseUUID E (c_AppID claims),
           da_Key = rq_param r ''key''\<rparr>) r)"

text \<open>The server-to-server route: the key is checked when one is configured.\<close>

definition internalDeviceTokens :: "env \<Rightarrow> string \<Rightarrow> 'w IdHandler \<Rightarrow> 'w handler" where
  "internalDeviceTokens E internalAPIKey h r w =
     (if internalAPIKey \<noteq> [] \<and> rq_header r ''X-Internal-Api-Key'' \<noteq> internalAPIKey
        then (write_status 401, w)
      else uuid_param E id_writeProblem ''userID'' (\<lambda>userID r.
           parse_uuid E id_writeProblem ''app_id'' (rq_query r ''app_id'') (\<lambda>appID.
           respond (\<lambda>_. id_writeProblem 500 ''internal server error'')
             (\<lambda>tokens. writeJSON 200 (items_json deviceTokenItem tokens))
             (FindDevicesByUser (ih_devices h) userID appID)) r) r w)"

subsection \<open>Routes and wiring\<close>

definition id_Mount :: "env \<Rightarrow> 'x go_state_scheme IdHandler \<Rightarrow> 'x go_state_scheme route list" where
  "id_Mount E h =
     [(''GET'', ''/v1/identity/me'', getMe E h),
      (''PATCH'', ''/v1/identity/me'', updateMe E h),
      (''GET'', ''/v1/identity/users/{userID}'', getUser E h),
      (''POST'', ''/v1/identity/devices'', registerDevice E h),
      (''DELETE'', ''/v1/identity/devices/{deviceID}'', unregisterDevice E h),
      (''GET'', ''/v1/identity/me/artifacts'', listArtifacts E h),
      (''PUT'', ''/v1/identity/me/artifacts/{key}'', putArtifact E h),
      (''GET'', ''/v1/identity/me/artifacts/{key}'', getArtifact E h),
      (''DELETE'', ''/v1/identity/me/artifacts/{key}'', deleteArtifact E h)]"

definition id_MountInternal :: "env \<Rightarrow> string \<Rightarrow> 'w IdHandler \<Rightarrow> 'w route list" where
  "id_MountInternal E internalAPIKey h =
     [(''GET'', ''/internal/users/{userID}/device-tokens'', internalDeviceTokens E internalAPIKey h)]"

definition id_main :: "env \<Rightarrow> id_db IdHandler" where
  "id_main E =
     \<lparr>ih_users = \<lparr>us_users = NewUserRepo E, us_publisher = NewIdEventPublisher E\<rparr>,
      ih_devices = \<lparr>ds_devices = NewDeviceRepo E\<rparr>,
      ih_artifacts = \<lparr>as_artifacts = NewArtifactRepo E\<rparr>\<rparr>"

lemmas id_handler_defs =
  getMe_def updateMe_def getUser_def registerDevice_def unregisterDevice_def listArtifacts_def
  putArtifact_def getArtifact_def deleteArtifact_def

lemma id_Mount_guarded:
  assumes "rt \<in> set (id_Mount E h)"
  shows "\<exists>k. route_handler rt = require_claims id_writeProblem k"
  using assms unfolding id_Mount_def by (auto simp: id_handler_defs)

lemma id_main_sel [simp]:
  "us_users (ih_users (id_main E)) = NewUserRepo E"
  "us_publisher (ih_users (id_main E)) = NewIdEventPublisher E"
  "ds_devices (ih_devices (id_main E)) = NewDeviceRepo E"
  "as_artifacts (ih_artifacts (id_main E)) = NewArtifactRepo E"
  by (simp_all add: id_main_def)

subsection \<open>The use cases on the adapters\<close>

interpretation id_users: user_service "NewUserRepo E" tables_of profile_view "stored_user E"
    "NewIdEventPublisher E" for E
  by unfold_locales (simp_all add: NewIdEventPublisher_def)

subsection \<open>The status of an error\<close>

definition id_error_status :: "id_error \<Rightarrow> int" where
  "id_error_status err =
     (case err_cause err of
        Sentinel s \<Rightarrow> (case s of IdErrNotAuthorized \<Rightarrow> 403 | IdErrAlreadyExists \<Rightarrow> 409 | _ \<Rightarrow> 404)
      | InvalidInput msg \<Rightarrow> 422
      | _ \<Rightarrow> 500)"

lemma id_writeError_status: "rp_status (id_writeError err) = id_error_status err"
  by (auto simp: id_writeError_def id_error_status_def id_writeProblem_def Let_def
      split: go_error.splits id_sentinel.splits)

end
