(* ===== verification/Identity_Invariant.thy ===== *)
theory Identity_Invariant
  imports Identity_Http
begin

text \<open>
  Predicates on the identity database that a request of one caller preserves. The locale
  \<open>account_predicate\<close> fixes the user and the application of the caller and asks that every statement the
  use cases issue on profiles and devices for this caller preserves the predicate; \<open>caller_predicate\<close>
  extends it by the statements on artifacts, and inside it every handler preserves the predicate. It is
  interpreted on the invariant of the database, for every caller, and on the statement that the rows
  of everybody else are the ones they were.
\<close>

subsection \<open>Predicates kept by a caller's requests\<close>

definition profile_row_ok :: "UserProfileRow \<Rightarrow> bool" where
  "profile_row_ok r \<longleftrightarrow> up_id r \<noteq> uuid_Nil \<and> up_app_id r \<noteq> uuid_Nil"

definition device_row_ok :: "DeviceTokenRow \<Rightarrow> bool" where
  "device_row_ok r \<longleftrightarrow> platform_check (dt_platform r) \<and> token_type_check (dt_token_type r) \<and>
     dt_token r \<noteq> [] \<and> dt_device_id r \<noteq> []"

definition artifact_row_ok :: "ArtifactRow \<Rightarrow> bool" where
  "artifact_row_ok r \<longleftrightarrow> ar_key r \<noteq> [] \<and> ar_value r \<noteq> None"

lemma id_read_only [intro!, simp]:
  "keeps tables_of (GetUserProfile E i a)"
  "keeps tables_of (GetDeviceTokensByUser E i a)"
  "keeps tables_of (GetArtifact E i a k)"
  "keeps tables_of (ListArtifacts E i a)"
  unfolding id_query_defs by (auto simp: keeps_def net_call_def Let_def split: net_outcome.splits option.splits)

locale account_predicate =
  fixes E :: env and P :: "id_db \<Rightarrow> bool" and sub app :: uuid
  assumes P_tables: "tables_of w = tables_of w' \<Longrightarrow> P w = P w'"
    and q_UpsertUserProfile:
      "up_id r = sub \<Longrightarrow> up_app_id r = app \<Longrightarrow> profile_row_ok r \<Longrightarrow> preserves P (UpsertUserProfile E r)"
    and q_UpdateUserProfile: "preserves P (UpdateUserProfile E sub app n a b l s st t)"
    and q_UpsertDeviceToken:
      "dt_user_id d = sub \<Longrightarrow> dt_app_id d = app \<Longrightarrow> dt_token d \<noteq> [] \<Longrightarrow> dt_device_id d \<noteq> [] \<Longrightarrow>
       preserves P (UpsertDeviceToken E d)"
    and q_DeleteDeviceToken: "preserves P (DeleteDeviceToken E app dev)"
begin

lemma tables_P: "keeps tables_of m \<Longrightarrow> preserves P m"
  by (rule keeps_preserves) (auto dest: P_tables)

lemma P_clock [simp]: "P (w\<lparr>n_now := n\<rparr>) = P w"
  by (rule P_tables) simp

lemmas P_read [intro!] = id_read_only [THEN tables_P]

lemma find_user_P: "preserves P (UserRepo_FindByID E i a)"
  unfolding UserRepo_FindByID_def by (auto intro!: preserves_conv)

lemma GetMe_P: "preserves P (GetMe E (ih_users (id_main E)) \<lparr>gme_UserID = sub, gme_AppID = app\<rparr>)"
proof -
  have create: "preserves P (check_err p (NewUser E sub app n) (\<lambda>user.
      check_err q (ur_Upsert (NewUserRepo E) user) (\<lambda>_ w2.
        let (evts, user') = user_PopEvents user
        in (Inr user', ignore_err (iep_Publish (NewIdEventPublisher E) evts) w2))))" for p q n
  proof (rule preserves_check_err_result)
    show "preserves P (NewUser E sub app n)"
      by (rule tables_P, rule keepsI) (simp add: NewUser_def Let_def time_Now_def)
    fix u w w' assume new: "NewUser E sub app n w = (Inr u, w')"
    have "preserves P (ur_Upsert (NewUserRepo E) u)"
      unfolding NewUserRepo_def UserRepo_Upsert_def UserRepository.select_convs
      by (intro preserves_conv q_UpsertUserProfile)
         (use NewUser_Inr [OF new] in \<open>simp_all add: profile_row_ok_def\<close>)
    then show "preserves P (check_err q (ur_Upsert (NewUserRepo E) u) (\<lambda>_ w2.
        let (evts, user') = user_PopEvents u
        in (Inr user', ignore_err (iep_Publish (NewIdEventPublisher E) evts) w2)))"
      by (rule preserves_check_err)
         (auto simp: preserves_def user_PopEvents_def NewIdEventPublisher_def intro: P_tables [THEN iffD1, rotated])
  qed
  show ?thesis
  proof (rule preservesI)
    fix w assume w: "P w"
    obtain r1 w1 where find: "UserRepo_FindByID E sub app w = (r1, w1)" by (cases "UserRepo_FindByID E sub app w")
    have "P w1" using find_user_P find w by (rule preserves_eq)
    with find show "P (snd (GetMe E (ih_users (id_main E)) \<lparr>gme_UserID = sub, gme_AppID = app\<rparr> w))"
      by (auto simp: GetMe_def NewUserRepo_def [of E, THEN arg_cong [of _ _ ur_FindByID]]
          intro: preservesD [OF create [unfolded Let_def]] split: sum.splits)
  qed
qed

lemma UpdateMe_P:
  "preserves P (UpdateMe E (ih_users (id_main E)) \<lparr>um_UserID = sub, um_AppID = app, um_Patch = patch\<rparr>)"
  unfolding UpdateMe_def
proof (rule preserves_check_err_result)
  show "preserves P (ur_FindByID (us_users (ih_users (id_main E)))
      (um_UserID \<lparr>um_UserID = sub, um_AppID = app, um_Patch = patch\<rparr>)
      (um_AppID \<lparr>um_UserID = sub, um_AppID = app, um_Patch = patch\<rparr>))"
    by (simp add: NewUserRepo_def find_user_P)
  fix u w w'
  assume "ur_FindByID (us_users (ih_users (id_main E)))
      (um_UserID \<lparr>um_UserID = sub, um_AppID = app, um_Patch = patch\<rparr>)
      (um_AppID \<lparr>um_UserID = sub, um_AppID = app, um_Patch = patch\<rparr>) w = (Inr u, w')"
  then have u: "u_ID u = sub" "u_AppID u = app"
    by (auto dest!: pg_users.find_found table_map_Some simp: profile_view_def rowToUser_def)
  have upd: "preserves P (UserRepo_Update E u')" if "u_ID u' = sub" "u_AppID u' = app" for u'
    by (rule preservesI) (auto simp: UserRepo_Update_def that time_Now_def
        intro!: preservesD [OF q_UpdateUserProfile])
  show "preserves P (\<lambda>w. let (user', w1) =
       UpdateProfile E (um_Patch \<lparr>um_UserID = sub, um_AppID = app, um_Patch = patch\<rparr>) u w
     in check_err ''UserService.UpdateMe update'' (ur_Update (us_users (ih_users (id_main E))) user')
          (\<lambda>_ w2. (Inr user', w2)) w1)"
    by (rule preservesI) (auto simp: UpdateProfile_def time_Now_def Let_def NewUserRepo_def u
        intro!: preservesD [OF preserves_check_err [OF upd]] preserves_const)
qed

lemma RegisterDevice_P:
  "preserves P (RegisterDevice E (ih_devices (id_main E))
     \<lparr>rd_UserID = sub, rd_AppID = app, rd_Platform = p, rd_TokenType = tt, rd_Token = tok, rd_DeviceID = dev\<rparr>)"
proof (rule preservesI)
  let ?cmd = "\<lparr>rd_UserID = sub, rd_AppID = app, rd_Platform = p, rd_TokenType = tt, rd_Token = tok,
               rd_DeviceID = dev\<rparr>"
  fix w assume w: "P w"
  obtain r w1 where new: "NewDeviceToken E sub app p tt tok dev w = (r, w1)"
    by (cases "NewDeviceToken E sub app p tt tok dev w")
  have t: "tables_of w1 = tables_of w"
    using new by (auto simp: NewDeviceToken_def time_Now_def uuid_New_def Let_def split: if_splits)
  with w have w1: "P w1" using P_tables by blast
  show "P (snd (RegisterDevice E (ih_devices (id_main E)) ?cmd w))"
  proof (cases r)
    case (Inr d)
    note d = NewDeviceToken_Inr [OF new [unfolded Inr]]
    have "preserves P (DeviceRepo_Upsert E d)"
      unfolding DeviceRepo_Upsert_def by (intro preserves_conv q_UpsertDeviceToken) (simp_all add: d)
    then have "preserves P (check_err ''DeviceService.RegisterDevice upsert'' (DeviceRepo_Upsert E d) (\<lambda>_ w. (Inr d, w)))"
      by (rule preserves_check_err) (rule preserves_const)
    with w1 new Inr show ?thesis
      by (auto simp: RegisterDevice_def pass_err_def NewDeviceRepo_def dest: preservesD)
  qed (use new w1 in \<open>simp add: RegisterDevice_def pass_err_def\<close>)
qed

lemma DeviceRepo_FindByUser_P: "preserves P (DeviceRepo_FindByUser E u a)"
  by (rule preservesI) (auto simp: DeviceRepo_FindByUser_def split: prod.splits sum.splits
      dest: preserves_eq [OF tables_P [OF id_read_only(2)]])

lemma account_simple_P:
  "preserves P (GetUser (ih_users (id_main E)) u a)"
  "preserves P (UnregisterDevice (ih_devices (id_main E)) \<lparr>ud_AppID = app, ud_DeviceID = dev\<rparr>)"
  "preserves P (FindDevicesByUser (ih_devices (id_main E)) u a)"
  "preserves P (ArtifactService_Get (ih_artifacts (id_main E)) ga)"
  "preserves P (ArtifactService_List (ih_artifacts (id_main E)) u a)"
  unfolding GetUser_def UnregisterDevice_def FindDevicesByUser_def ArtifactService_Get_def ArtifactService_List_def
  by (auto simp: NewUserRepo_def NewDeviceRepo_def NewArtifactRepo_def DeviceRepo_Delete_def
      ArtifactRepo_FindByKey_def ArtifactRepo_List_def
      intro!: preserves_check_err preserves_conv preserves_const find_user_P DeviceRepo_FindByUser_P
        q_DeleteDeviceToken)

lemmas account_P = GetMe_P UpdateMe_P RegisterDevice_P account_simple_P

end

text \<open>Predicates that the writes to the artifacts keep, too.\<close>

locale caller_predicate = account_predicate +
  assumes q_UpsertArtifact:
      "ar_user_id x = sub \<Longrightarrow> ar_app_id x = app \<Longrightarrow> artifact_row_ok x \<Longrightarrow> preserves P (UpsertArtifact E x)"
    and q_DeleteArtifact: "preserves P (DeleteArtifact E sub app k)"
begin

lemma Put_P:
  "preserves P (ArtifactService_Put E (ih_artifacts (id_main E))
     \<lparr>pa_UserID = sub, pa_AppID = app, pa_Key = k, pa_Value = v\<rparr>)"
proof (rule preservesI)
  let ?cmd = "\<lparr>pa_UserID = sub, pa_AppID = app, pa_Key = k, pa_Value = v\<rparr>"
  fix w assume w: "P w"
  obtain r w1 where new: "NewArtifact E sub app k v w = (r, w1)" by (cases "NewArtifact E sub app k v w")
  have t: "tables_of w1 = tables_of w"
    using new by (auto simp: NewArtifact_def time_Now_def uuid_New_def Let_def split: if_splits)
  with w have w1: "P w1" using P_tables by blast
  show "P (snd (ArtifactService_Put E (ih_artifacts (id_main E)) ?cmd w))"
  proof (cases r)
    case (Inr a)
    note a = NewArtifact_Inr [OF new [unfolded Inr]]
    have "preserves P (ArtifactRepo_Upsert E a)"
      by (rule preservesI) (auto simp: ArtifactRepo_Upsert_def time_Now_def a artifact_row_ok_def
          intro!: preservesD [OF q_UpsertArtifact])
    then have "preserves P (check_err ''ArtifactService.Put'' (ArtifactRepo_Upsert E a) (\<lambda>_ w. (Inr a, w)))"
      by (rule preserves_check_err) (rule preserves_const)
    with w1 new Inr show ?thesis
      by (auto simp: ArtifactService_Put_def pass_err_def NewArtifactRepo_def dest: preservesD)
  qed (use new w1 in \<open>simp add: ArtifactService_Put_def pass_err_def\<close>)
qed

lemma Delete_P:
  "preserves P (ArtifactService_Delete (ih_artifacts (id_main E)) \<lparr>da_UserID = sub, da_AppID = app, da_Key = k\<rparr>)"
  unfolding ArtifactService_Delete_def
  by (auto simp: NewArtifactRepo_def ArtifactRepo_Delete_def
      intro!: preserves_check_err preserves_conv preserves_const q_DeleteArtifact)

lemmas use_cases_P = account_P Put_P Delete_P

text \<open>A request whose claims name the caller.\<close>

lemma id_Mount_P:
  assumes rt: "rt \<in> set (id_Mount E (id_main E))" and c: "rq_claims r = Some c"
    and caller: "mustParseUUID E (c_Subject c) = sub" "mustParseUUID E (c_AppID c) = app" and w: "P w"
  shows "P (snd (route_handler rt r w))"
  using rt w c unfolding id_Mount_def
  by (auto simp: id_handler_defs require_claims_def ClaimsFromContext_def caller uuid_param_def parse_uuid_def
      decode_body_def intro: use_cases_P [THEN preservesD] split: option.splits)

lemma id_MountInternal_P:
  assumes "rt \<in> set (id_MountInternal E key (id_main E))" and "P w"
  shows "P (snd (route_handler rt r w))"
  using assms unfolding id_MountInternal_def
  by (auto simp: internalDeviceTokens_def uuid_param_def parse_uuid_def write_status_def
      intro: use_cases_P [THEN preservesD] split: option.splits)

end

end
