(* ===== verification/Identity_Correct.thy ===== *)
theory Identity_Correct
  imports Identity_Invariant Example_World
begin

text \<open>
  The properties of the identity service: the invariant of its database over all requests, the
  separation of users and applications, what each use case does, and the edge of the service.
\<close>

subsection \<open>The transitions and the invariant\<close>



definition id_inv :: "id_db \<Rightarrow> bool" where
  "id_inv w \<longleftrightarrow> distinct (map profile_key (user_profiles w)) \<and> list_all profile_row_ok (user_profiles w) \<and>
     distinct (map device_key (device_tokens w)) \<and> distinct (map dt_id (device_tokens w)) \<and>
     list_all device_row_ok (device_tokens w) \<and>
     distinct (map artifact_key (artifact_storage w)) \<and> distinct (map ar_id (artifact_storage w)) \<and>
     list_all artifact_row_ok (artifact_storage w)"

text \<open>The rows of everybody but one user of one application.\<close>

definition rows_of_others :: "uuid \<Rightarrow> uuid \<Rightarrow> id_db \<Rightarrow>
    UserProfileRow list \<times> DeviceTokenRow list \<times> ArtifactRow list" where
  "rows_of_others sub app w =
     (filter (\<lambda>r. profile_key r \<noteq> (sub, app)) (user_profiles w),
      filter (\<lambda>r. dt_app_id r \<noteq> app) (device_tokens w),
      filter (\<lambda>r. (ar_user_id r, ar_app_id r) \<noteq> (sub, app)) (artifact_storage w))"

lemma id_tables_eq:
  assumes "tables_of w = tables_of (w' :: id_db)"
  shows "user_profiles w = user_profiles w'" "device_tokens w = device_tokens w'"
    "artifact_storage w = artifact_storage w'"
  by (metis assms id_table_simps)+


interpretation others: caller_predicate E "\<lambda>w. rows_of_others sub app w = v" sub app for E v sub app
proof (unfold_locales, goal_cases)
  case (1 w w')
  then show ?case using id_tables_eq [OF 1] by (simp add: rows_of_others_def)
next
  case (2 r)
  then show ?case
    unfolding UpsertUserProfile_def
    by (intro net_call_writes) (auto simp: rows_of_others_def Let_def intro!: filter_upsert_row)
next
  case (3 n a b l s st t)
  have "filter (\<lambda>r. profile_key r \<noteq> k) (map (\<lambda>r. if profile_key r = k then g r else r) rs) =
      filter (\<lambda>r. profile_key r \<noteq> k) rs" if "\<And>r. profile_key (g r) = profile_key r" for g k and rs :: "UserProfileRow list"
    using that by (induction rs) auto
  note upd = this [where g = "\<lambda>r. r\<lparr>up_display_name := n, up_avatar_url := a, up_bio := b,
      up_location := l, up_website_url := s, up_settings := st, up_updated_at := e_tsz E t\<rparr>" and k = "(sub, app)",
      simplified]
  show ?case
    unfolding UpdateUserProfile_def
    by (intro net_call_writes) (auto simp: rows_of_others_def upd)
next
  case (4 d)
  then show ?case
    unfolding UpsertDeviceToken_def
    by (intro net_call_writes) (auto simp: rows_of_others_def Let_def intro!: filter_upsert_row)
next
  case (5 dev)
  show ?case
    unfolding DeleteDeviceToken_def
    by (intro net_call_writes) (auto simp: rows_of_others_def intro!: filter_cong)
next
  case (6 x)
  then show ?case
    unfolding UpsertArtifact_def
    by (intro net_call_writes) (auto simp: rows_of_others_def Let_def intro!: filter_upsert_row)
next
  case (7 k)
  show ?case
    unfolding DeleteArtifact_def
    by (intro net_call_writes) (auto simp: rows_of_others_def intro!: filter_cong)
qed


subsection \<open>A concrete run\<close>

definition id_empty :: id_db where
  "id_empty = \<lparr>n_now = 0, n_ids = 0, n_rand = 0, n_net = 0, http_log = [], js_log = [],
     user_profiles = [], device_tokens = [], artifact_storage = []\<rparr>"

definition ex_caller :: Claims where
  "ex_caller = \<lparr>c_Subject = ''7'', c_AppID = ''9'', c_Scopes = []\<rparr>"

definition id_request :: "string \<Rightarrow> json \<Rightarrow> request" where
  "id_request param body = \<lparr>rq_claims = Some ex_caller, rq_header = (\<lambda>_. []), rq_param = (\<lambda>_. param),
     rq_query = (\<lambda>_. ''9''), rq_body = Some body\<rparr>"

definition ex_me :: GetMeCommand where
  "ex_me = \<lparr>gme_UserID = 7, gme_AppID = 9\<rparr>"

definition ex_register :: RegisterDeviceCommand where
  "ex_register = \<lparr>rd_UserID = 7, rd_AppID = 9, rd_Platform = ''ios'', rd_TokenType = ''fcm'',
     rd_Token = ''tok'', rd_DeviceID = ''dev''\<rparr>"


text \<open>A world in which the caller has asked for the profile and registered a device.\<close>

definition id_world :: id_db where
  "id_world = snd (RegisterDevice ex_env (ih_devices (id_main ex_env)) ex_register
     (snd (GetMe ex_env (ih_users (id_main ex_env)) ex_me id_empty)))"

lemma id_world_tables:
  "user_profiles id_world = [\<lparr>up_id = 7, up_app_id = 9, up_display_name = [], up_avatar_url = [],
     up_bio = [], up_location = [], up_website_url = [], up_settings = JObj [], up_created_at = 0,
     up_updated_at = 0\<rparr>]"
  "map device_key (device_tokens id_world) = [(9, ''dev'')]"
  "artifact_storage id_world = []"
  by code_simp+


lemma id_empty_inv: "id_inv id_empty"
  by (simp add: id_inv_def id_empty_def)

subsection \<open>Whose data a request touches\<close>



text \<open>A request changes nothing of other callers: whatever fails, the profiles and artifacts of every
  other user, and of the same user in every other application, and the device tokens of every other
  application are the rows they were.\<close>
theorem tenant_isolation:
  assumes "rt \<in> set (id_Mount E (id_main E))" and "rq_claims r = Some c"
  shows "rows_of_others (mustParseUUID E (c_Subject c)) (mustParseUUID E (c_AppID c))
           (snd (route_handler rt r w)) =
         rows_of_others (mustParseUUID E (c_Subject c)) (mustParseUUID E (c_AppID c)) w"
  by (rule others.id_Mount_P [OF assms refl refl refl])

theorem tenant_isolation_witness:
  "rows_of_others (mustParseUUID ex_env ''7'') (mustParseUUID ex_env ''9'')
     (snd (putArtifact ex_env (id_main ex_env) (id_request ''theme'' (JStr ''dark'')) id_world)) =
   rows_of_others (mustParseUUID ex_env ''7'') (mustParseUUID ex_env ''9'') id_world"
  using tenant_isolation [of "(''PUT'', ''/v1/identity/me/artifacts/{key}'', putArtifact ex_env (id_main ex_env))"
      ex_env "id_request ''theme'' (JStr ''dark'')" ex_caller id_world]
  by (simp add: id_Mount_def id_request_def ex_caller_def)

subsection \<open>Profiles\<close>

abbreviation "id_user_svc E \<equiv> ih_users (id_main E)"
abbreviation "id_device_svc E \<equiv> ih_devices (id_main E)"
abbreviation "id_artifact_svc E \<equiv> ih_artifacts (id_main E)"

lemma FindByID_reached:
  assumes "e_net E (n_net w) = Reached" and "profile_view w (i, a) = Some u"
  shows "\<exists>w'. UserRepo_FindByID E i a w = (Inr u, w') \<and> tables_of w' = tables_of w"
  using assms by (auto simp: UserRepo_FindByID_def GetUserProfile_def conv_def net_call_def
      profile_view_def table_map_def Let_def)

text \<open>C22: a successful GetMe returns the profile that is there without changing the tables, or creates it
  with empty fields; either way the profile is there afterwards, no other profile changes, and asking
  again returns it and changes nothing.\<close>
theorem get_me_provisions:
  assumes run: "GetMe E (id_user_svc E) cmd w = (Inr u, w1)" and up: "e_net E (n_net w1) = Reached"
  shows "(case profile_view w (gme_UserID cmd, gme_AppID cmd) of
            Some u0 \<Rightarrow> u = u0 \<and> tables_of w1 = tables_of w
          | None \<Rightarrow> u_DisplayName u = [] \<and> u_Settings u = Some [] \<and>
              profile_view w1 = (profile_view w)((gme_UserID cmd, gme_AppID cmd) \<mapsto> stored_user E u)) \<and>
         (\<exists>u2 w2. GetMe E (id_user_svc E) cmd w1 = (Inr u2, w2) \<and>
            profile_view w1 (gme_UserID cmd, gme_AppID cmd) = Some u2 \<and> tables_of w2 = tables_of w1)"
proof
  show first: "case profile_view w (gme_UserID cmd, gme_AppID cmd) of
            Some u0 \<Rightarrow> u = u0 \<and> tables_of w1 = tables_of w
          | None \<Rightarrow> u_DisplayName u = [] \<and> u_Settings u = Some [] \<and>
              profile_view w1 = (profile_view w)((gme_UserID cmd, gme_AppID cmd) \<mapsto> stored_user E u)"
    using id_users.GetMe_existing [OF _ _ run] id_users.GetMe_provisions [OF _ _ _ run]
    by (auto split: option.splits)
  have "profile_view w1 = profile_view w" if "tables_of w1 = tables_of w"
    using that by (metis profile_view_simps(1))
  with first obtain u2 where u2: "profile_view w1 (gme_UserID cmd, gme_AppID cmd) = Some u2"
    by (auto split: option.splits)
  from FindByID_reached [OF up this] obtain w2 where
    "UserRepo_FindByID E (gme_UserID cmd) (gme_AppID cmd) w1 = (Inr u2, w2)" "tables_of w2 = tables_of w1"
    by auto
  with u2 show "\<exists>u2 w2. GetMe E (id_user_svc E) cmd w1 = (Inr u2, w2) \<and>
      profile_view w1 (gme_UserID cmd, gme_AppID cmd) = Some u2 \<and> tables_of w2 = tables_of w1"
    by (simp add: GetMe_def NewUserRepo_def)
qed

theorem get_me_provisions_witness:
  "\<exists>u w1. GetMe ex_env (id_user_svc ex_env) ex_me id_empty = (Inr u, w1) \<and>
     profile_view w1 = (profile_view id_empty)((7, 9) \<mapsto> stored_user ex_env u)"
proof -
  let ?m = "GetMe ex_env (id_user_svc ex_env) ex_me"
  have "\<not> isl (fst (?m id_empty))" by code_simp
  then obtain u w1 where run: "?m id_empty = (Inr u, w1)" by (cases "?m id_empty"; cases "fst (?m id_empty)") auto
  have "profile_view id_empty (7, 9) = None" by (simp add: profile_view_def table_map_def id_empty_def)
  with get_me_provisions [OF run] run show ?thesis by (simp add: ex_me_def)
qed



subsection \<open>Devices\<close>

definition reg_row :: "env \<Rightarrow> DeviceToken \<Rightarrow> DeviceTokenRow" where
  "reg_row E d = \<lparr>dt_id = d_ID d, dt_user_id = d_UserID d, dt_app_id = d_AppID d,
     dt_platform = d_Platform d, dt_token_type = d_TokenType d, dt_token = d_Token d,
     dt_device_id = d_DeviceID d, dt_created_at = e_tsz E (d_CreatedAt d),
     dt_updated_at = e_tsz E (d_UpdatedAt d)\<rparr>"

definition reg_update :: "DeviceTokenRow \<Rightarrow> DeviceTokenRow \<Rightarrow> DeviceTokenRow" where
  "reg_update r x = x\<lparr>dt_user_id := dt_user_id r, dt_platform := dt_platform r,
     dt_token_type := dt_token_type r, dt_token := dt_token r, dt_updated_at := dt_updated_at r\<rparr>"

lemma RegisterDevice_rows:
  assumes run: "RegisterDevice E (id_device_svc E) cmd w = (Inr d, w')"
  shows "device_tokens w' = upsert_row device_key (reg_row E d) (reg_update (reg_row E d)) (device_tokens w)"
    and "user_profiles w' = user_profiles w" and "artifact_storage w' = artifact_storage w"
    and "platform_check (d_Platform d)" and "token_type_check (d_TokenType d)"
    and "d_UserID d = rd_UserID cmd" and "d_AppID d = rd_AppID cmd" and "d_Platform d = rd_Platform cmd"
    and "d_TokenType d = rd_TokenType cmd" and "d_Token d = rd_Token cmd" and "d_DeviceID d = rd_DeviceID cmd"
    and "rd_Token cmd \<noteq> []" and "rd_DeviceID cmd \<noteq> []"
proof -
  from run obtain w1 where new: "NewDeviceToken E (rd_UserID cmd) (rd_AppID cmd) (rd_Platform cmd)
      (rd_TokenType cmd) (rd_Token cmd) (rd_DeviceID cmd) w = (Inr d, w1)"
    and ups: "DeviceRepo_Upsert E d w1 = (Inr (), w')"
    unfolding RegisterDevice_def id_main_sel by (auto simp: NewDeviceRepo_def elim!: pass_err_cases check_err_cases)
  note d = NewDeviceToken_Inr [OF new]
  from ups show "device_tokens w' = upsert_row device_key (reg_row E d) (reg_update (reg_row E d)) (device_tokens w)"
    "user_profiles w' = user_profiles w" "artifact_storage w' = artifact_storage w"
    "platform_check (d_Platform d)" "token_type_check (d_TokenType d)"
    unfolding DeviceRepo_Upsert_def UpsertDeviceToken_def
    by (auto elim!: conv_InrE dest!: net_call_Inr(2) simp: d(4) reg_row_def reg_update_def [abs_def] Let_def
        split: if_splits)
  show "d_UserID d = rd_UserID cmd" "d_AppID d = rd_AppID cmd" "d_Platform d = rd_Platform cmd"
    "d_TokenType d = rd_TokenType cmd" "d_Token d = rd_Token cmd" "d_DeviceID d = rd_DeviceID cmd"
    "rd_Token cmd \<noteq> []" "rd_DeviceID cmd \<noteq> []"
    using d by simp_all
qed

lemma FindDevicesByUser_rows:
  "FindDevicesByUser (id_device_svc E) u a w = (Inr ds, w2) \<Longrightarrow>
   ds = map rowToDevice (filter (\<lambda>r. dt_user_id r = u \<and> dt_app_id r = a) (device_tokens w)) \<and>
   tables_of w2 = tables_of w"
  by (auto simp: FindDevicesByUser_def NewDeviceRepo_def DeviceRepo_FindByUser_def GetDeviceTokensByUser_def
      check_err_def net_call_def Let_def split: prod.splits sum.splits net_outcome.splits if_splits)

text \<open>C24: a successful registration leaves exactly one row for the device in the application, owned by
  the caller and carrying the caller's token of a known type; every other row stays as it is, and no
  other user is found with the device.\<close>
theorem device_registration:
  assumes run: "RegisterDevice E (id_device_svc E) cmd w = (Inr d, w')" and wf: "id_inv w"
  shows "(\<exists>r. filter (\<lambda>r. device_key r = (rd_AppID cmd, rd_DeviceID cmd)) (device_tokens w') = [r] \<and>
      dt_user_id r = rd_UserID cmd \<and> dt_token r = rd_Token cmd \<and> dt_platform r = rd_Platform cmd \<and>
      dt_token_type r = rd_TokenType cmd \<and> device_row_ok r) \<and>
    filter (\<lambda>r. device_key r \<noteq> (rd_AppID cmd, rd_DeviceID cmd)) (device_tokens w') =
      filter (\<lambda>r. device_key r \<noteq> (rd_AppID cmd, rd_DeviceID cmd)) (device_tokens w) \<and>
    user_profiles w' = user_profiles w \<and> artifact_storage w' = artifact_storage w \<and>
    (\<forall>u ds w2. FindDevicesByUser (id_device_svc E) u (rd_AppID cmd) w' = (Inr ds, w2) \<longrightarrow>
       (\<exists>d \<in> set ds. d_DeviceID d = rd_DeviceID cmd) = (u = rd_UserID cmd))"
proof -
  let ?k = "(rd_AppID cmd, rd_DeviceID cmd)" and ?R = "reg_row E d"
  note rows = RegisterDevice_rows [OF run]
  have key: "device_key ?R = ?k" using rows by (simp add: reg_row_def)
  have upd: "device_key (reg_update ?R x) = device_key x" for x by (simp add: reg_update_def)
  have dist: "distinct (map device_key (device_tokens w))" using wf by (simp add: id_inv_def)
  obtain r where one: "filter (\<lambda>x. device_key x = device_key ?R) (device_tokens w') = [r]"
    and r: "r = ?R \<or> (\<exists>y \<in> set (device_tokens w). device_key y = device_key ?R \<and> r = reg_update ?R y)"
    using upsert_row_key [where r = ?R and upd = "reg_update ?R", OF dist upd] rows(1) by auto
  have owner: "dt_user_id r = rd_UserID cmd" "dt_token r = rd_Token cmd" "dt_platform r = rd_Platform cmd"
    "dt_token_type r = rd_TokenType cmd" "device_key r = ?k" "device_row_ok r"
    using r rows key by (auto simp: reg_row_def reg_update_def device_row_ok_def)
  have others: "filter (\<lambda>r. device_key r \<noteq> ?k) (device_tokens w') = filter (\<lambda>r. device_key r \<noteq> ?k) (device_tokens w)"
    unfolding rows(1) by (rule filter_upsert_row) (use key upd in auto)
  have "(\<exists>d \<in> set ds. d_DeviceID d = rd_DeviceID cmd) = (u = rd_UserID cmd)"
    if "FindDevicesByUser (id_device_svc E) u (rd_AppID cmd) w' = (Inr ds, w2)" for u ds w2
  proof -
    have "(\<exists>d \<in> set ds. d_DeviceID d = rd_DeviceID cmd) =
        (\<exists>x \<in> set (filter (\<lambda>x. device_key x = ?k) (device_tokens w')). dt_user_id x = u)"
      using FindDevicesByUser_rows [OF that] by (auto simp: rowToDevice_def)
    also have "\<dots> = (u = rd_UserID cmd)" using one owner key by auto
    finally show ?thesis .
  qed
  with one owner others rows(2,3) key show ?thesis by auto
qed

theorem device_registration_witness:
  "\<exists>d w'. RegisterDevice ex_env (id_device_svc ex_env) ex_register id_empty = (Inr d, w') \<and>
     (\<exists>r. filter (\<lambda>r. device_key r = (9, ''dev'')) (device_tokens w') = [r] \<and> dt_user_id r = 7)"
proof -
  let ?m = "RegisterDevice ex_env (id_device_svc ex_env) ex_register"
  have "\<not> isl (fst (?m id_empty))" by code_simp
  then obtain d w1 where run: "?m id_empty = (Inr d, w1)" by (cases "?m id_empty"; cases "fst (?m id_empty)") auto
  from device_registration [OF run id_empty_inv] run show ?thesis
    by (auto simp: ex_register_def)
qed

subsection \<open>Artifacts\<close>

definition artifact_view :: "id_db \<Rightarrow> uuid \<times> uuid \<times> string \<Rightarrow> Artifact option" where
  "artifact_view w = table_map artifact_key rowToArtifact (artifact_storage w)"

lemma Put_view:
  assumes run: "ArtifactService_Put E (id_artifact_svc E)
      \<lparr>pa_UserID = u, pa_AppID = a, pa_Key = k, pa_Value = v\<rparr> w = (Inr x, w1)"
  shows "\<exists>b. artifact_view w1 = (artifact_view w)((u, a, k) \<mapsto> b) \<and> a_Value b = v \<and> a_Key b = k \<and>
    (case artifact_view w (u, a, k) of
       None \<Rightarrow> a_ID b = a_ID x \<and> a_CreatedAt b = e_tsz E (a_CreatedAt x)
     | Some old \<Rightarrow> a_ID b = a_ID old \<and> a_CreatedAt b = a_CreatedAt old)"
proof -
  from run obtain w0 where new: "NewArtifact E u a k v w = (Inr x, w0)"
    and ups: "ArtifactRepo_Upsert E x w0 = (Inr (), w1)"
    unfolding ArtifactService_Put_def id_main_sel
    by (auto simp: NewArtifactRepo_def elim!: pass_err_cases check_err_cases)
  note x = NewArtifact_Inr [OF new]
  define R where "R t = \<lparr>ar_id = a_ID x, ar_user_id = u, ar_app_id = a, ar_key = k, ar_value = Some v,
      ar_created_at = e_tsz E (a_CreatedAt x), ar_updated_at = e_tsz E t\<rparr>" for t
  from ups obtain t where w1: "artifact_storage w1 = upsert_row artifact_key (R t)
      (\<lambda>y. y\<lparr>ar_value := Some v, ar_updated_at := e_tsz E t\<rparr>) (artifact_storage w)"
    unfolding ArtifactRepo_Upsert_def UpsertArtifact_def
    by (auto elim!: conv_InrE dest!: net_call_Inr(2) simp: x time_Now_def R_def Let_def split: if_splits)
  have key: "artifact_key (R t) = (u, a, k)" by (simp add: R_def)
  show ?thesis
  proof (cases "find (\<lambda>r. artifact_key r = (u, a, k)) (artifact_storage w)")
    case None
    then have "artifact_view w1 = (artifact_view w)((u, a, k) \<mapsto> rowToArtifact (R t))"
      unfolding artifact_view_def w1 by (subst table_map_upsert) (simp_all only: key, simp_all)
    with None show ?thesis
      by (auto simp: R_def rowToArtifact_def artifact_view_def table_map_def simp del: find_key_None)
  next
    case (Some r)
    then have "artifact_view w1 = (artifact_view w)((u, a, k) \<mapsto>
        rowToArtifact (r\<lparr>ar_value := Some v, ar_updated_at := e_tsz E t\<rparr>))"
      unfolding artifact_view_def w1 by (subst table_map_upsert) (simp_all only: key, simp_all)
    with Some find_key_Some [OF Some] show ?thesis
      by (auto simp: rowToArtifact_def artifact_view_def table_map_def)
  qed
qed

text \<open>C25: an artifact that was put is read back with its value; the row keeps the identifier and the
  creation time it had, no other artifact changes, and after a deletion it is gone.\<close>
theorem artifact_roundtrip:
  assumes put: "ArtifactService_Put E (id_artifact_svc E)
      \<lparr>pa_UserID = u, pa_AppID = a, pa_Key = k, pa_Value = v\<rparr> w = (Inr x, w1)"
    and up: "e_net E (n_net w1) = Reached"
  shows "\<exists>b w2. ArtifactService_Get (id_artifact_svc E) \<lparr>ga_UserID = u, ga_AppID = a, ga_Key = k\<rparr> w1 = (Inr b, w2) \<and>
    a_Value b = v \<and> a_Key b = k \<and> artifact_view w1 = (artifact_view w)((u, a, k) \<mapsto> b) \<and>
    (case artifact_view w (u, a, k) of
       None \<Rightarrow> a_ID b = a_ID x \<and> a_CreatedAt b = e_tsz E (a_CreatedAt x)
     | Some old \<Rightarrow> a_ID b = a_ID old \<and> a_CreatedAt b = a_CreatedAt old) \<and>
    (\<forall>w3. ArtifactService_Delete (id_artifact_svc E) \<lparr>da_UserID = u, da_AppID = a, da_Key = k\<rparr> w1 = (Inr (), w3) \<longrightarrow>
       artifact_view w3 = (artifact_view w)((u, a, k) := None))"
proof -
  obtain b where b: "artifact_view w1 = (artifact_view w)((u, a, k) \<mapsto> b)" "a_Value b = v" "a_Key b = k"
    "case artifact_view w (u, a, k) of
       None \<Rightarrow> a_ID b = a_ID x \<and> a_CreatedAt b = e_tsz E (a_CreatedAt x)
     | Some old \<Rightarrow> a_ID b = a_ID old \<and> a_CreatedAt b = a_CreatedAt old"
    using Put_view [OF put] by blast
  have "artifact_view w1 (u, a, k) = Some b" using b(1) by simp
  then have get: "\<exists>w2. ArtifactService_Get (id_artifact_svc E)
      \<lparr>ga_UserID = u, ga_AppID = a, ga_Key = k\<rparr> w1 = (Inr b, w2)"
    using up by (auto simp: ArtifactService_Get_def NewArtifactRepo_def ArtifactRepo_FindByKey_def
        GetArtifact_def artifact_view_def table_map_def check_err_def conv_def net_call_def Let_def)
  have "artifact_view w3 = (artifact_view w1)((u, a, k) := None)"
    if "ArtifactService_Delete (id_artifact_svc E) \<lparr>da_UserID = u, da_AppID = a, da_Key = k\<rparr> w1 = (Inr (), w3)" for w3
    using that up table_map_filter [of artifact_key rowToArtifact "(u, a, k)" "artifact_storage w1"]
    by (auto simp: ArtifactService_Delete_def NewArtifactRepo_def ArtifactRepo_Delete_def
        DeleteArtifact_def artifact_view_def check_err_def conv_def net_call_def Let_def)
  with get b show ?thesis by auto
qed

theorem artifact_roundtrip_witness:
  "\<exists>x w1 b w2. ArtifactService_Put ex_env (id_artifact_svc ex_env)
      \<lparr>pa_UserID = 7, pa_AppID = 9, pa_Key = ''theme'', pa_Value = JStr ''dark''\<rparr> id_world = (Inr x, w1) \<and>
    ArtifactService_Get (id_artifact_svc ex_env) \<lparr>ga_UserID = 7, ga_AppID = 9, ga_Key = ''theme''\<rparr> w1 = (Inr b, w2) \<and>
    a_Value b = JStr ''dark''"
proof -
  let ?m = "ArtifactService_Put ex_env (id_artifact_svc ex_env)
      \<lparr>pa_UserID = 7, pa_AppID = 9, pa_Key = ''theme'', pa_Value = JStr ''dark''\<rparr>"
  have "\<not> isl (fst (?m id_world))" by code_simp
  then obtain x w1 where run: "?m id_world = (Inr x, w1)" by (cases "?m id_world"; cases "fst (?m id_world)") auto
  from artifact_roundtrip [OF run] run show ?thesis by fastforce
qed

subsection \<open>The edge of the service\<close>

text \<open>C27: the internal route answers 401 without touching anything when a key is configured and the
  request does not carry it; otherwise it lists exactly the tokens of the user in the application.\<close>
theorem internal_device_tokens:
  assumes "e_uuid_parse E (rq_param r ''userID'') = Some u" and "e_uuid_parse E (rq_query r ''app_id'') = Some a"
    and "e_net E (n_net w) = Reached"
  shows "internalDeviceTokens E key (id_main E) r w =
    (if key = [] \<or> rq_header r ''X-Internal-Api-Key'' = key
     then (writeJSON 200 (items_json deviceTokenItem
             (map rowToDevice (filter (\<lambda>d. dt_user_id d = u \<and> dt_app_id d = a) (device_tokens w)))),
           w\<lparr>n_net := Suc (n_net w)\<rparr>)
     else (write_status 401, w))"
  using assms by (auto simp: internalDeviceTokens_def uuid_param_def parse_uuid_def respond_def
      FindDevicesByUser_def NewDeviceRepo_def DeviceRepo_FindByUser_def GetDeviceTokensByUser_def
      check_err_def net_call_def Let_def)

theorem internal_device_tokens_witness:
  "fst (internalDeviceTokens ex_env ''k'' (id_main ex_env) (id_request ''7'' JNull) id_world) = write_status 401 \<and>
   fst (internalDeviceTokens ex_env [] (id_main ex_env) (id_request ''7'' JNull) id_world) =
     writeJSON 200 (JObj [(''items'', JArr [JObj [(''platform'', JStr ''ios''), (''token'', JStr ''tok''),
       (''token_type'', JStr ''fcm'')]])])"
proof -
  let ?r = "id_request ''7'' JNull"
  have parse: "e_uuid_parse ex_env (rq_param ?r ''userID'') = Some 7" "e_uuid_parse ex_env (rq_query ?r ''app_id'') = Some 9"
    by code_simp+
  have "items_json deviceTokenItem (map rowToDevice
      (filter (\<lambda>d. dt_user_id d = 7 \<and> dt_app_id d = 9) (device_tokens id_world))) =
    JObj [(''items'', JArr [JObj [(''platform'', JStr ''ios''), (''token'', JStr ''tok''), (''token_type'', JStr ''fcm'')]])]"
    by code_simp
  then show ?thesis
    using internal_device_tokens [OF parse ex_env_sel(1)] by (simp add: id_request_def)
qed

end
