(* ===== verification/Identity_Refinement.thy ===== *)
theory Identity_Refinement
  imports Identity_Correct
begin

text \<open>
  The artifact store refines an abstract key-value store. The abstract store is a map from user,
  application and key to a value; \<open>kv_step\<close> says what each operation answers and does. A step that is
  not clean (the network failed, or a fresh identifier was in use) may also fail, with or without
  its effect. Every run of the identity service's routes, of any callers in any order, is a run of the
  abstract store: what is compared is what the client can read off the replies.
\<close>

subsection \<open>The abstract store\<close>

type_synonym kv_key = "uuid \<times> uuid \<times> string"
type_synonym kv_store = "kv_key \<Rightarrow> json option"


datatype kv_reply =
    KvValue json
  | KvItems "(string \<times> json) list"
  | KvDone
  | KvNotFound
  | KvInvalid
  | KvFailed



subsection \<open>What a client sees\<close>

definition row_value :: "ArtifactRow \<Rightarrow> json" where
  "row_value r = (case ar_value r of None \<Rightarrow> JNull | Some v \<Rightarrow> v)"

definition kv_abs :: "id_db \<Rightarrow> kv_store" where
  "kv_abs w = table_map artifact_key row_value (artifact_storage w)"




definition kv_item :: "json \<Rightarrow> string \<times> json" where
  "kv_item v = (case v of
     JObj kvs \<Rightarrow> (case (map_of kvs ''key'', map_of kvs ''value'') of (Some (JStr k), Some x) \<Rightarrow> (k, x) | _ \<Rightarrow> ([], JNull))
   | _ \<Rightarrow> ([], JNull))"

definition kv_obs :: "reply \<Rightarrow> kv_reply" where
  "kv_obs rep =
     (if rp_status rep = 204 then KvDone
      else if rp_status rep = 404 then KvNotFound
      else if rp_status rep = 422 then KvInvalid
      else case rp_body rep of
             JsonReply (JObj kvs) \<Rightarrow>
               (case (map_of kvs ''items'', map_of kvs ''value'') of
                  (Some (JArr vs), _) \<Rightarrow> KvItems (map kv_item vs)
                | (_, Some v) \<Rightarrow> KvValue v
                | _ \<Rightarrow> KvFailed)
           | _ \<Rightarrow> KvFailed)"



subsection \<open>Replies\<close>

lemma kv_obs_artifact [simp]: "kv_obs (writeJSON 200 (artifactToResponse E a)) = KvValue (a_Value a)"
  by (simp add: kv_obs_def writeJSON_def artifactToResponse_def)

lemma kv_obs_items [simp]:
  "kv_obs (writeJSON 200 (items_json (artifactToResponse E) as)) = KvItems (map (\<lambda>a. (a_Key a, a_Value a)) as)"
  by (simp add: kv_obs_def writeJSON_def items_json_def kv_item_def artifactToResponse_def)

lemma kv_obs_done [simp]: "kv_obs (write_status 204) = KvDone"
  by (simp add: kv_obs_def write_status_def)


lemma id_error_status_simps [simp]:
  "id_error_status (Wrapped p e) = id_error_status e" "id_error_status (ExtError m) = 500"
  "id_error_status (InvalidInput m) = 422" "id_error_status (Sentinel ErrArtifactNotFound) = 404"
  "id_error_status (Sentinel IdErrAlreadyExists) = 409"
  by (simp_all add: id_error_status_def)

subsection \<open>The statements and the abstract steps\<close>


lemma kv_abs_simps [simp]:
  "kv_abs (w\<lparr>n_now := n\<rparr>) = kv_abs w" "kv_abs (w\<lparr>n_ids := n\<rparr>) = kv_abs w" "kv_abs (w\<lparr>n_net := n\<rparr>) = kv_abs w"
  by (simp_all add: kv_abs_def)










subsection \<open>The routes\<close>












end
