(* ===== verification/Notification_Domain.thy ===== *)
theory Notification_Domain
  imports Go_Json
begin

text \<open>
  The notification service's domain layer and ports (\<^verbatim>\<open>services/notification/domain\<close>,
  \<^verbatim>\<open>domain/ports\<close>) and the commands of its use cases (\<^verbatim>\<open>application/ports/inbound.go\<close>): errors,
  notifications, preferences, the messages of the delivery channels, the ports as records of
  functions, and what the repositories promise as locales.
\<close>

subsection \<open>Errors\<close>

datatype nt_sentinel = ErrNotificationNotFound | NtErrNotAuthorized

type_synonym nt_error = "nt_sentinel go_error"
type_synonym ('a, 'w) nt_op = "(nt_sentinel, 'a, 'w) go_op"

fun nt_sentinel_text :: "nt_sentinel \<Rightarrow> string" where
  "nt_sentinel_text ErrNotificationNotFound = ''notification not found''"
| "nt_sentinel_text NtErrNotAuthorized = ''not authorized''"

subsection \<open>Notifications\<close>

text \<open>A map from strings that is not nil, as its entries; \<open>m[k] = v\<close> is \<open>AList.update\<close>.\<close>

type_synonym go_object = "(string \<times> json) list"

abbreviation DeliveryPending :: string where "DeliveryPending \<equiv> ''pending''"
abbreviation DeliveryDelivered :: string where "DeliveryDelivered \<equiv> ''delivered''"
abbreviation DeliveryFailed :: string where "DeliveryFailed \<equiv> ''failed''"

record Notification =
  nf_ID :: uuid
  nf_UserID :: uuid
  nf_AppID :: uuid
  nf_GroupID :: "uuid option"
  nf_OrgID :: "uuid option"
  nf_Title :: string
  nf_Body :: string
  nf_Data :: go_object
  nf_DeliveryStatus :: string
  nf_ReadAt :: "time option"
  nf_CreatedAt :: time

definition NewNotification ::
    "env \<Rightarrow> uuid \<Rightarrow> uuid \<Rightarrow> string \<Rightarrow> string \<Rightarrow> 'x go_state_scheme \<Rightarrow> Notification \<times> 'x go_state_scheme" where
  "NewNotification E userID appID title body w =
     (let (newid, w1) = uuid_New E w; (now, w2) = time_Now E w1
      in (\<lparr>nf_ID = newid, nf_UserID = userID, nf_AppID = appID, nf_GroupID = None, nf_OrgID = None,
           nf_Title = title, nf_Body = body, nf_Data = [], nf_DeliveryStatus = DeliveryPending,
           nf_ReadAt = None, nf_CreatedAt = now\<rparr>, w2))"

definition MarkDelivered :: "Notification \<Rightarrow> Notification" where
  "MarkDelivered n = n\<lparr>nf_DeliveryStatus := DeliveryDelivered\<rparr>"

definition MarkFailed :: "Notification \<Rightarrow> Notification" where
  "MarkFailed n = n\<lparr>nf_DeliveryStatus := DeliveryFailed\<rparr>"

definition nf_MarkRead :: "env \<Rightarrow> Notification \<Rightarrow> 'x go_state_scheme \<Rightarrow> Notification \<times> 'x go_state_scheme" where
  "nf_MarkRead E n w =
     (case nf_ReadAt n of
        None \<Rightarrow> (let (now, w1) = time_Now E w in (n\<lparr>nf_ReadAt := Some now\<rparr>, w1))
      | Some t \<Rightarrow> (n, w))"

subsection \<open>Preferences and references to other services\<close>

abbreviation ChannelPush :: string where "ChannelPush \<equiv> ''push''"
abbreviation ChannelEmail :: string where "ChannelEmail \<equiv> ''email''"
abbreviation ChannelInApp :: string where "ChannelInApp \<equiv> ''in_app''"

record NotificationPreference =
  np_UserID :: uuid
  np_AppID :: uuid
  np_Channel :: string
  np_EventType :: string
  np_Enabled :: bool

text \<open>The device token carries the fields the client fills; its owner is left at the zero value.\<close>

record NtDeviceToken =
  nd_UserID :: uuid
  nd_AppID :: uuid
  nd_TokenType :: string
  nd_Token :: string
  nd_Platform :: string

record NtGroupMember =
  ng_GroupID :: uuid
  ng_UserID :: uuid
  ng_AppID :: uuid

record PushMessage =
  pm_Token :: string
  pm_Platform :: string
  pm_Title :: string
  pm_Body :: string
  pm_Data :: "(string \<times> string) list"

record EmailMessage =
  em_To :: string
  em_Subject :: string
  em_Body :: string

record RealtimeMessage =
  rm_Channel :: string
  rm_Data :: go_object

subsection \<open>Ports\<close>

record 'w NotificationRepository =
  nr_Save :: "Notification \<Rightarrow> (unit, 'w) nt_op"
  nr_FindByID :: "uuid \<Rightarrow> (Notification, 'w) nt_op"
  nr_ListForUser :: "uuid \<Rightarrow> uuid \<Rightarrow> int \<Rightarrow> int \<Rightarrow> (Notification list, 'w) nt_op"
  nr_UpdateStatus :: "uuid \<Rightarrow> string \<Rightarrow> (unit, 'w) nt_op"
  nr_MarkRead :: "uuid \<Rightarrow> (unit, 'w) nt_op"

record 'w PreferenceRepository =
  pr_Upsert :: "NotificationPreference \<Rightarrow> (unit, 'w) nt_op"
  pr_FindByUser :: "uuid \<Rightarrow> uuid \<Rightarrow> (NotificationPreference list, 'w) nt_op"
  pr_IsEnabled :: "uuid \<Rightarrow> uuid \<Rightarrow> string \<Rightarrow> string \<Rightarrow> (bool, 'w) nt_op"

type_synonym 'w PushPort = "string \<Rightarrow> PushMessage \<Rightarrow> (unit, 'w) nt_op"
type_synonym 'w EmailPort = "EmailMessage \<Rightarrow> (unit, 'w) nt_op"
type_synonym 'w RealtimePort = "RealtimeMessage \<Rightarrow> (unit, 'w) nt_op"
type_synonym 'w GroupQueryPort = "uuid \<Rightarrow> (NtGroupMember list, 'w) nt_op"
type_synonym 'w DeviceQueryPort = "string \<Rightarrow> string \<Rightarrow> (NtDeviceToken list, 'w) nt_op"

subsection \<open>Commands\<close>

text \<open>The data map of a command is \<open>None\<close> when nil.\<close>

record SendToUserCommand =
  su_UserID :: uuid
  su_AppID :: uuid
  su_OrgID :: "uuid option"
  su_GroupID :: "uuid option"
  su_EventType :: string
  su_Title :: string
  su_Body :: string
  su_Data :: "go_object option"

record SendToGroupCommand =
  sg_GroupID :: uuid
  sg_AppID :: uuid
  sg_OrgID :: uuid
  sg_EventType :: string
  sg_Title :: string
  sg_Body :: string
  sg_Data :: "go_object option"

record MarkReadCommand =
  mk_NotificationID :: uuid
  mk_UserID :: uuid

record UpsertPreferenceCommand =
  upc_UserID :: uuid
  upc_AppID :: uuid
  upc_Channel :: string
  upc_EventType :: string
  upc_Enabled :: bool

subsection \<open>What the repositories promise\<close>

text \<open>
  The notification repository over an abstract view from identifiers to notifications. A read leaves
  the tables alone; saving adds the notification under its new identifier or fails, and what failed
  has happened or not; marking as read sets the time of a notification that has none.
\<close>

locale notification_repository =
  fixes repo :: "'w NotificationRepository"
    and tab :: "'w \<Rightarrow> 't"
    and view :: "'t \<Rightarrow> uuid \<Rightarrow> Notification option"
    and stored :: "Notification \<Rightarrow> Notification"
  assumes find_keeps: "keeps tab (nr_FindByID repo i)"
    and find_found: "nr_FindByID repo i w = (Inr n, w') \<Longrightarrow> view (tab w) i = Some n"
    and save_ok: "nr_Save repo n w = (Inr (), w') \<Longrightarrow>
       view (tab w) (nf_ID n) = None \<and> view (tab w') = (view (tab w))(nf_ID n \<mapsto> stored n)"
    and save_others: "i \<noteq> nf_ID n \<Longrightarrow> view (tab (snd (nr_Save repo n w))) i = view (tab w) i"
    and mark_ok: "nr_MarkRead repo i w = (Inr (), w') \<Longrightarrow> view (tab w) i = Some n \<Longrightarrow>
       \<exists>t. view (tab w') = (view (tab w))
         (i \<mapsto> (case nf_ReadAt n of None \<Rightarrow> n\<lparr>nf_ReadAt := Some t\<rparr> | Some _ \<Rightarrow> n))"
    and mark_others: "j \<noteq> i \<Longrightarrow> view (tab (snd (nr_MarkRead repo i w))) j = view (tab w) j"
    and mark_read: "view (tab w) i = Some n \<Longrightarrow> nf_ReadAt n \<noteq> None \<Longrightarrow>
       view (tab (snd (nr_MarkRead repo i w))) = view (tab w)"

text \<open>The preference repository: a channel and an event type are decided by the row for them, then by
  the row for every event type, then by the default.\<close>

locale preference_repository =
  fixes repo :: "'w PreferenceRepository"
    and tab :: "'w \<Rightarrow> 't"
    and prefs :: "'t \<Rightarrow> uuid \<times> uuid \<times> string \<times> string \<Rightarrow> bool option"
    and wf :: "'w \<Rightarrow> bool" and ordered :: "string \<Rightarrow> bool"
  assumes enabled_keeps: "keeps tab (pr_IsEnabled repo u a ch ev)"
    and enabled_value: "pr_IsEnabled repo u a ch ev w = (Inr b, w') \<Longrightarrow> ordered ev \<Longrightarrow> wf w \<Longrightarrow>
       b = (case prefs (tab w) (u, a, ch, ev) of
              Some b \<Rightarrow> b
            | None \<Rightarrow> (case prefs (tab w) (u, a, ch, ''*'') of Some b \<Rightarrow> b | None \<Rightarrow> ch = ChannelPush))"
    and upsert_ok: "pr_Upsert repo p w = (Inr (), w') \<Longrightarrow>
       prefs (tab w') = (prefs (tab w))((np_UserID p, np_AppID p, np_Channel p, np_EventType p) \<mapsto> np_Enabled p)"
    and upsert_others: "k \<noteq> (np_UserID p, np_AppID p, np_Channel p, np_EventType p) \<Longrightarrow>
       prefs (tab (snd (pr_Upsert repo p w))) k = prefs (tab w) k"

lemma NewNotification_eq:
  "NewNotification E u a title body w =
     (\<lparr>nf_ID = e_newid E (n_ids w), nf_UserID = u, nf_AppID = a, nf_GroupID = None, nf_OrgID = None,
       nf_Title = title, nf_Body = body, nf_Data = [], nf_DeliveryStatus = DeliveryPending,
       nf_ReadAt = None, nf_CreatedAt = e_now E (n_now w)\<rparr>,
      w\<lparr>n_ids := Suc (n_ids w), n_now := Suc (n_now w)\<rparr>)"
  by (simp add: NewNotification_def uuid_New_def time_Now_def Let_def)

end
