(* ===== verification/Notification_Services.thy ===== *)
theory Notification_Services
  imports Notification_Domain
begin

text \<open>
  The notification service's use cases (\<^verbatim>\<open>services/notification/application\<close>). \<open>SendToGroup\<close> runs one
  goroutine per member, at most ten at a time, so its members' deliveries interleave: a delivery is a
  \<open>task\<close> whose steps make one port call each, the pool of running tasks is a list, and a schedule
  picks the next step. \<open>run_task\<close>, one task run on its own, is \<open>SendToUser\<close>.
\<close>

subsection \<open>NotificationService\<close>

record 'w NotificationService =
  nt_notifications :: "'w NotificationRepository"
  nt_preferences :: "'w PreferenceRepository"
  nt_push :: "'w PushPort"
  nt_email :: "'w EmailPort"
  nt_realtime :: "'w RealtimePort"
  nt_groups :: "'w GroupQueryPort"
  nt_devices :: "'w DeviceQueryPort"

definition fanOutConcurrency :: nat where
  "fanOutConcurrency = 10"

text \<open>The string values of the data, and the notification's identifier.\<close>

definition push_data :: "env \<Rightarrow> Notification \<Rightarrow> (string \<times> string) list" where
  "push_data E n =
     AList.update ''notification_id'' (e_uuid_str E (nf_ID n))
       (List.map_filter (\<lambda>(k, v). case v of JStr s \<Rightarrow> Some (k, s) | _ \<Rightarrow> None) (nf_Data n))"

definition push_message :: "env \<Rightarrow> Notification \<Rightarrow> NtDeviceToken \<Rightarrow> PushMessage" where
  "push_message E n dt =
     \<lparr>pm_Token = nd_Token dt, pm_Platform = nd_Platform dt, pm_Title = nf_Title n,
      pm_Body = nf_Body n, pm_Data = push_data E n\<rparr>"

text \<open>The loop over the tokens: a failed send is logged.\<close>

fun push_loop :: "env \<Rightarrow> 'w NotificationService \<Rightarrow> Notification \<Rightarrow> NtDeviceToken list \<Rightarrow> 'w \<Rightarrow> 'w" where
  "push_loop E s n [] w = w"
| "push_loop E s n (dt # dts) w =
     push_loop E s n dts (ignore_err (nt_push s (nd_TokenType dt) (push_message E n dt)) w)"

definition tryPush :: "env \<Rightarrow> 'w NotificationService \<Rightarrow> Notification \<Rightarrow> string \<Rightarrow> 'w \<Rightarrow> 'w" where
  "tryPush E s n eventType w =
     (case pr_IsEnabled (nt_preferences s) (nf_UserID n) (nf_AppID n) ChannelPush eventType w of
        (Inl err, w1) \<Rightarrow> w1
      | (Inr enabled, w1) \<Rightarrow>
          if \<not> enabled then w1
          else case nt_devices s (e_uuid_str E (nf_UserID n)) (e_uuid_str E (nf_AppID n)) w1 of
                 (Inl err, w2) \<Rightarrow> w2
               | (Inr tokens, w2) \<Rightarrow> push_loop E s n tokens w2)"

text \<open>\<open>emailAddr, _ := n.Data["email"].(string)\<close>\<close>

definition email_addr :: "Notification \<Rightarrow> string" where
  "email_addr n = (case map_of (nf_Data n) ''email'' of Some (JStr a) \<Rightarrow> a | _ \<Rightarrow> [])"

definition send_email :: "'w NotificationService \<Rightarrow> Notification \<Rightarrow> 'w \<Rightarrow> 'w" where
  "send_email s n w =
     (if email_addr n = [] then w
      else ignore_err (nt_email s \<lparr>em_To = email_addr n, em_Subject = nf_Title n, em_Body = nf_Body n\<rparr>) w)"

definition tryEmail :: "'w NotificationService \<Rightarrow> Notification \<Rightarrow> string \<Rightarrow> 'w \<Rightarrow> 'w" where
  "tryEmail s n eventType w =
     (case pr_IsEnabled (nt_preferences s) (nf_UserID n) (nf_AppID n) ChannelEmail eventType w of
        (Inl err, w1) \<Rightarrow> w1
      | (Inr enabled, w1) \<Rightarrow> if \<not> enabled then w1 else send_email s n w1)"

definition deliverToUser :: "env \<Rightarrow> 'w NotificationService \<Rightarrow> Notification \<Rightarrow> string \<Rightarrow> 'w \<Rightarrow> 'w" where
  "deliverToUser E s n eventType w = tryEmail s n eventType (tryPush E s n eventType w)"

text \<open>The notification a command asks for.\<close>

definition command_notification ::
    "env \<Rightarrow> SendToUserCommand \<Rightarrow> 'x go_state_scheme \<Rightarrow> Notification \<times> 'x go_state_scheme" where
  "command_notification E cmd w =
     (let (n, w1) = NewNotification E (su_UserID cmd) (su_AppID cmd) (su_Title cmd) (su_Body cmd) w
      in (n\<lparr>nf_GroupID := su_GroupID cmd, nf_OrgID := su_OrgID cmd,
            nf_Data := (case su_Data cmd of None \<Rightarrow> nf_Data n | Some d \<Rightarrow> d)\<rparr>, w1))"

definition SendToUser ::
    "env \<Rightarrow> 'x go_state_scheme NotificationService \<Rightarrow> SendToUserCommand \<Rightarrow> (Notification, 'x go_state_scheme) nt_op" where
  "SendToUser E s cmd w =
     (let (n, w1) = command_notification E cmd w
      in check_err ''NotificationService.SendToUser save'' (nr_Save (nt_notifications s) n) (\<lambda>_ w2.
           (Inr n, deliverToUser E s n (su_EventType cmd) w2)) w1)"

definition MarkRead :: "'w NotificationService \<Rightarrow> MarkReadCommand \<Rightarrow> (unit, 'w) nt_op" where
  "MarkRead s cmd =
     check_err ''NotificationService.MarkRead find'' (nr_FindByID (nt_notifications s) (mk_NotificationID cmd)) (\<lambda>n w.
     if nf_UserID n \<noteq> mk_UserID cmd then (Inl (Sentinel NtErrNotAuthorized), w)
     else nr_MarkRead (nt_notifications s) (mk_NotificationID cmd) w)"

definition ListForUser ::
    "'w NotificationService \<Rightarrow> uuid \<Rightarrow> uuid \<Rightarrow> int \<Rightarrow> int \<Rightarrow> (Notification list, 'w) nt_op" where
  "ListForUser s userID appID limit offset = nr_ListForUser (nt_notifications s) userID appID limit offset"

subsection \<open>One delivery, step by step\<close>

datatype task =
    TStart SendToUserCommand
  | TPush Notification string
  | TDevices Notification string
  | TSend Notification string "NtDeviceToken list"
  | TEmail Notification string
  | TMail Notification

text \<open>A step makes at most one port call; \<open>None\<close> is the end of the task.\<close>

fun task_step ::
    "env \<Rightarrow> 'x go_state_scheme NotificationService \<Rightarrow> task \<Rightarrow> 'x go_state_scheme \<Rightarrow>
     task option \<times> 'x go_state_scheme" where
  "task_step E s (TStart cmd) w =
     (let (n, w1) = command_notification E cmd w
      in case nr_Save (nt_notifications s) n w1 of
           (Inl err, w2) \<Rightarrow> (None, w2)
         | (Inr _, w2) \<Rightarrow> (Some (TPush n (su_EventType cmd)), w2))"
| "task_step E s (TPush n ev) w =
     (case pr_IsEnabled (nt_preferences s) (nf_UserID n) (nf_AppID n) ChannelPush ev w of
        (Inl err, w1) \<Rightarrow> (Some (TEmail n ev), w1)
      | (Inr enabled, w1) \<Rightarrow> (Some (if enabled then TDevices n ev else TEmail n ev), w1))"
| "task_step E s (TDevices n ev) w =
     (case nt_devices s (e_uuid_str E (nf_UserID n)) (e_uuid_str E (nf_AppID n)) w of
        (Inl err, w1) \<Rightarrow> (Some (TEmail n ev), w1)
      | (Inr tokens, w1) \<Rightarrow> (Some (TSend n ev tokens), w1))"
| "task_step E s (TSend n ev []) w = (Some (TEmail n ev), w)"
| "task_step E s (TSend n ev (dt # dts)) w =
     (Some (TSend n ev dts), ignore_err (nt_push s (nd_TokenType dt) (push_message E n dt)) w)"
| "task_step E s (TEmail n ev) w =
     (case pr_IsEnabled (nt_preferences s) (nf_UserID n) (nf_AppID n) ChannelEmail ev w of
        (Inl err, w1) \<Rightarrow> (None, w1)
      | (Inr enabled, w1) \<Rightarrow> (if enabled then Some (TMail n) else None, w1))"
| "task_step E s (TMail n) w = (None, send_email s n w)"

fun task_rank :: "task \<Rightarrow> nat" where
  "task_rank (TStart cmd) = 6" | "task_rank (TPush n ev) = 5" | "task_rank (TDevices n ev) = 4"
| "task_rank (TSend n ev ts) = 3" | "task_rank (TEmail n ev) = 2" | "task_rank (TMail n) = 1"

fun task_tokens :: "task \<Rightarrow> nat" where
  "task_tokens (TSend n ev ts) = length ts"
| "task_tokens _ = 0"

text \<open>A step goes down in rank, or stays and has one token less to send to.\<close>

lemma task_step_decreases:
  "task_step E s t w = (Some t', w') \<Longrightarrow>
   task_rank t' < task_rank t \<or> task_rank t' = task_rank t \<and> task_tokens t' < task_tokens t"
  by (cases t; cases "case t of TSend n ev ts \<Rightarrow> ts | _ \<Rightarrow> []")
     (auto split: prod.splits sum.splits if_splits)

function run_task ::
    "env \<Rightarrow> 'x go_state_scheme NotificationService \<Rightarrow> task \<Rightarrow> 'x go_state_scheme \<Rightarrow> 'x go_state_scheme" where
  "run_task E s t w =
     (case task_step E s t w of
        (None, w') \<Rightarrow> w'
      | (Some t', w') \<Rightarrow> run_task E s t' w')"
  by pat_completeness auto
termination
  by (relation "measures [\<lambda>(E, s, t, w). task_rank t, \<lambda>(E, s, t, w). task_tokens t]")
     (auto dest!: task_step_decreases [OF sym])

declare run_task.simps [simp del]

lemma run_TMail: "run_task E s (TMail n) w = send_email s n w"
  by (simp add: run_task.simps)

lemma run_TEmail: "run_task E s (TEmail n ev) w = tryEmail s n ev w"
  by (subst run_task.simps) (auto simp: tryEmail_def run_TMail split: prod.splits sum.splits)

lemma run_TSend: "run_task E s (TSend n ev ts) w = tryEmail s n ev (push_loop E s n ts w)"
  by (induction ts arbitrary: w; subst run_task.simps) (simp_all add: run_TEmail)

lemma run_TPush: "run_task E s (TPush n ev) w = deliverToUser E s n ev w"
proof -
  have "run_task E s (TDevices n ev) w1 =
      (case nt_devices s (e_uuid_str E (nf_UserID n)) (e_uuid_str E (nf_AppID n)) w1 of
         (Inl err, w2) \<Rightarrow> tryEmail s n ev w2
       | (Inr tokens, w2) \<Rightarrow> tryEmail s n ev (push_loop E s n tokens w2))" for w1
    by (subst run_task.simps) (auto simp: run_TEmail run_TSend split: prod.splits sum.splits)
  then show ?thesis
    by (subst run_task.simps)
       (auto simp: deliverToUser_def tryPush_def run_TEmail split: prod.splits sum.splits)
qed

subsection \<open>The fan-out\<close>

text \<open>
  The state of the fan-out: the members whose goroutine has not been started, the running tasks and
  the world. A choice selects one of the running tasks, or, when the semaphore has room, the start of
  the next goroutine. A goroutine that ends gives its place back.
\<close>

type_synonym 'w fan = "NtGroupMember list \<times> task list \<times> 'w"

definition fan_next ::
    "env \<Rightarrow> 'x go_state_scheme NotificationService \<Rightarrow> (NtGroupMember \<Rightarrow> SendToUserCommand) \<Rightarrow> nat \<Rightarrow>
     'x go_state_scheme fan \<Rightarrow> 'x go_state_scheme fan" where
  "fan_next E s memberCmd choice st =
     (case st of (ms, ts, w) \<Rightarrow>
        let room = ms \<noteq> [] \<and> length ts < fanOutConcurrency;
            a = choice mod (length ts + (if room then 1 else 0))
        in if a < length ts then
             (case task_step E s (ts ! a) w of
                (None, w') \<Rightarrow> (ms, take a ts @ drop (Suc a) ts, w')
              | (Some t, w') \<Rightarrow> (ms, ts[a := t], w'))
           else (case ms of
                   [] \<Rightarrow> (ms, ts, w)
                 | m # ms' \<Rightarrow> (ms', ts @ [TStart (memberCmd m)], w)))"

lemma sum_list_delete:
  "a < length xs \<Longrightarrow> sum_list (map f (take a xs @ drop (Suc a) xs)) + f (xs ! a) = (sum_list (map f xs) :: 'b::comm_monoid_add)"
  by (subst (3) id_take_nth_drop [of a xs]) (auto simp: ac_simps)

lemma sum_list_put:
  "a < length xs \<Longrightarrow> sum_list (map f (xs[a := x])) + f (xs ! a) = sum_list (map f xs) + (f x :: 'b::comm_monoid_add)"
  by (subst (2) id_take_nth_drop [of a xs]) (auto simp: upd_conv_take_nth_drop ac_simps)

definition fan_rank :: "'w fan \<Rightarrow> nat" where
  "fan_rank st = (case st of (ms, ts, w) \<Rightarrow> 7 * length ms + sum_list (map task_rank ts))"

definition fan_tokens :: "'w fan \<Rightarrow> nat" where
  "fan_tokens st = (case st of (ms, ts, w) \<Rightarrow> sum_list (map task_tokens ts))"

lemma fan_next_cases:
  assumes "fst st \<noteq> [] \<or> fst (snd st) \<noteq> []"
  obtains (finish) ms ts w a w' where "st = (ms, ts, w)" "a < length ts" "task_step E s (ts ! a) w = (None, w')"
            "fan_next E s mk c st = (ms, take a ts @ drop (Suc a) ts, w')"
        | (progress) ms ts w a t w' where "st = (ms, ts, w)" "a < length ts" "task_step E s (ts ! a) w = (Some t, w')"
            "fan_next E s mk c st = (ms, ts[a := t], w')"
        | (spawn) m ms ts w where "st = (m # ms, ts, w)" "length ts < fanOutConcurrency"
            "fan_next E s mk c st = (ms, ts @ [TStart (mk m)], w)"
proof -
  obtain ms ts w where st: "st = (ms, ts, w)" by (cases st) auto
  define room where "room \<longleftrightarrow> ms \<noteq> [] \<and> length ts < fanOutConcurrency"
  define a where "a = c mod (length ts + (if room then 1 else 0))"
  have eq: "fan_next E s mk c st =
      (if a < length ts then
         (case task_step E s (ts ! a) w of
            (None, w') \<Rightarrow> (ms, take a ts @ drop (Suc a) ts, w')
          | (Some t, w') \<Rightarrow> (ms, ts[a := t], w'))
       else (case ms of [] \<Rightarrow> (ms, ts, w) | m # ms' \<Rightarrow> (ms', ts @ [TStart (mk m)], w)))"
    unfolding fan_next_def st room_def a_def Let_def by simp
  show thesis
  proof (cases "a < length ts")
    case True
    obtain r w' where step: "task_step E s (ts ! a) w = (r, w')" by (cases "task_step E s (ts ! a) w")
    show thesis
    proof (cases r)
      case None
      with step True eq st finish show thesis by simp
    next
      case (Some t)
      with step True eq st progress show thesis by simp
    qed
  next
    case False
    have "ts \<noteq> []" if "\<not> room"
      using assms that st by (auto simp: room_def fanOutConcurrency_def)
    with False have "room" unfolding a_def by (cases room) auto
    then obtain m ms' where "ms = m # ms'" "length ts < fanOutConcurrency" by (auto simp: room_def neq_Nil_conv)
    with False eq st spawn show thesis by simp
  qed
qed

lemma fan_next_decreases:
  assumes "fst st \<noteq> [] \<or> fst (snd st) \<noteq> []"
  shows "fan_rank (fan_next E s mk c st) < fan_rank st \<or>
    fan_rank (fan_next E s mk c st) = fan_rank st \<and> fan_tokens (fan_next E s mk c st) < fan_tokens st"
  using assms
proof (cases rule: fan_next_cases [where E = E and s = s and mk = mk and c = c])
  case (finish ms ts w a w')
  have "0 < task_rank (ts ! a)" by (cases "ts ! a") auto
  with finish sum_list_delete [of a ts task_rank] show ?thesis by (simp add: fan_rank_def)
next
  case (progress ms ts w a t w')
  with task_step_decreases [OF progress(3)] sum_list_put [of a ts task_rank t]
    sum_list_put [of a ts task_tokens t] show ?thesis
    by (auto simp: fan_rank_def fan_tokens_def)
next
  case (spawn m ms ts w)
  then show ?thesis by (simp add: fan_rank_def)
qed

text \<open>The loop runs until every member's goroutine has ended (\<open>g.Wait()\<close>).\<close>

function fan_run ::
    "env \<Rightarrow> 'x go_state_scheme NotificationService \<Rightarrow> (NtGroupMember \<Rightarrow> SendToUserCommand) \<Rightarrow> (nat \<Rightarrow> nat) \<Rightarrow>
     'x go_state_scheme fan \<Rightarrow> 'x go_state_scheme fan" where
  "fan_run E s memberCmd sched st =
     (if fst st = [] \<and> fst (snd st) = [] then st
      else fan_run E s memberCmd (\<lambda>k. sched (Suc k)) (fan_next E s memberCmd (sched 0) st))"
  by pat_completeness auto
termination
proof (relation "measures [\<lambda>(E, s, mk, sched, st). fan_rank st, \<lambda>(E, s, mk, sched, st). fan_tokens st]", goal_cases)
  case (2 E s mk sched st)
  then show ?case using fan_next_decreases [of st E s mk "sched 0"] by simp
qed simp

declare fan_run.simps [simp del]

lemma fan_run_invariant:
  assumes "P st" and "\<And>c st. P st \<Longrightarrow> fst st \<noteq> [] \<or> fst (snd st) \<noteq> [] \<Longrightarrow> P (fan_next E s mk c st)"
  shows "P (fan_run E s mk sched st)"
  using assms
proof (induction E s mk sched st rule: fan_run.induct)
  case (1 E s mk sched st)
  then show ?case by (subst fan_run.simps) (simp del: split_paired_All)
qed

lemma fan_run_done: "fst (fan_run E s mk sched st) = [] \<and> fst (snd (fan_run E s mk sched st)) = []"
proof (induction E s mk sched st rule: fan_run.induct)
  case (1 E s mk sched st)
  then show ?case by (subst (1 2) fan_run.simps) auto
qed

subsection \<open>SendToGroup\<close>

text \<open>
  \<open>data := cmd.Data\<close> shares the map of the command: the title and the body that are put into it for the
  group channel are in the data of every member's notification too, unless the command had no map.
  The first component is what is published, the second the command's data afterwards.
\<close>

definition group_data :: "SendToGroupCommand \<Rightarrow> go_object \<times> go_object option" where
  "group_data cmd =
     (let put = (\<lambda>d. AList.update ''body'' (JStr (sg_Body cmd)) (AList.update ''title'' (JStr (sg_Title cmd)) d))
      in case sg_Data cmd of
           None \<Rightarrow> (put [], None)
         | Some d \<Rightarrow> (put d, Some (put d)))"

definition member_command :: "SendToGroupCommand \<Rightarrow> go_object option \<Rightarrow> NtGroupMember \<Rightarrow> SendToUserCommand" where
  "member_command cmd data m =
     \<lparr>su_UserID = ng_UserID m, su_AppID = ng_AppID m, su_OrgID = Some (sg_OrgID cmd),
      su_GroupID = Some (sg_GroupID cmd), su_EventType = sg_EventType cmd, su_Title = sg_Title cmd,
      su_Body = sg_Body cmd, su_Data = data\<rparr>"

text \<open>The group channel first, best effort; then one task per member, none of which can fail the whole.\<close>

definition SendToGroup ::
    "env \<Rightarrow> 'x go_state_scheme NotificationService \<Rightarrow> (nat \<Rightarrow> nat) \<Rightarrow> SendToGroupCommand \<Rightarrow> (unit, 'x go_state_scheme) nt_op" where
  "SendToGroup E s sched cmd w =
     (let (data, cmdData) = group_data cmd;
          w1 = ignore_err (nt_realtime s \<lparr>rm_Channel = ''group:'' @ e_uuid_str E (sg_GroupID cmd), rm_Data = data\<rparr>) w
      in check_err ''NotificationService.SendToGroup list members'' (nt_groups s (sg_GroupID cmd)) (\<lambda>members w2.
           (Inr (), snd (snd (fan_run E s (member_command cmd cmdData) sched (members, [], w2))))) w1)"

subsection \<open>PreferenceService\<close>

record 'w PreferenceService =
  ps_preferences :: "'w PreferenceRepository"

definition GetPreferences :: "'w PreferenceService \<Rightarrow> uuid \<Rightarrow> uuid \<Rightarrow> (NotificationPreference list, 'w) nt_op" where
  "GetPreferences s userID appID =
     check_err ''PreferenceService.GetPreferences'' (pr_FindByUser (ps_preferences s) userID appID) (\<lambda>ps w. (Inr ps, w))"

definition UpsertPreference :: "'w PreferenceService \<Rightarrow> UpsertPreferenceCommand \<Rightarrow> (unit, 'w) nt_op" where
  "UpsertPreference s cmd =
     check_err ''PreferenceService.UpsertPreference'' (pr_Upsert (ps_preferences s)
       \<lparr>np_UserID = upc_UserID cmd, np_AppID = upc_AppID cmd, np_Channel = upc_Channel cmd,
        np_EventType = upc_EventType cmd, np_Enabled = upc_Enabled cmd\<rparr>) (\<lambda>_ w. (Inr (), w))"

subsection \<open>Deliveries and the part of the world they leave alone\<close>

text \<open>The ports a delivery calls, other than saving, keep \<open>tab\<close>.\<close>

locale notification_channels =
  fixes s :: "'x go_state_scheme NotificationService" and tab :: "'x go_state_scheme \<Rightarrow> 't"
  assumes pref_keeps: "keeps tab (pr_IsEnabled (nt_preferences s) u a ch ev)"
    and push_keeps: "keeps tab (nt_push s tt pm)"
    and email_keeps: "keeps tab (nt_email s em)"
    and realtime_keeps: "keeps tab (nt_realtime s rm)"
    and groups_keeps: "keeps tab (nt_groups s g)"
    and devices_keeps: "keeps tab (nt_devices s us as)"
begin

lemmas port_tab = pref_keeps [THEN keeps_eq] devices_keeps [THEN keeps_eq] groups_keeps [THEN keeps_eq]

lemma send_email_tab [simp]: "tab (send_email s n w) = tab w"
  by (simp add: send_email_def keeps_ignore_err [OF email_keeps])

lemma push_loop_tab [simp]: "tab (push_loop E s n ts w) = tab w"
  by (induction ts arbitrary: w) (simp_all add: keeps_ignore_err [OF push_keeps])

lemma tryPush_tab [simp]: "tab (tryPush E s n ev w) = tab w"
  by (auto simp: tryPush_def dest!: port_tab split: prod.splits sum.splits)

lemma tryEmail_tab [simp]: "tab (tryEmail s n ev w) = tab w"
  by (auto simp: tryEmail_def dest!: port_tab split: prod.splits sum.splits)

lemma deliverToUser_tab [simp]: "tab (deliverToUser E s n ev w) = tab w"
  by (simp add: deliverToUser_def)

lemma task_step_tab:
  "task_step E s t w = (r, w') \<Longrightarrow> (\<And>cmd. t \<noteq> TStart cmd) \<Longrightarrow> tab w' = tab w"
  by (cases "(E, s, t, w)" rule: task_step.cases)
     (auto dest!: port_tab simp: keeps_ignore_err [OF push_keeps] split: prod.splits sum.splits)

end

subsection \<open>What the use cases do, from the repository's contract\<close>

locale notification_service = notification_repository repo tab view stored + notification_channels s tab
  for repo :: "'x go_state_scheme NotificationRepository" and tab :: "'x go_state_scheme \<Rightarrow> 't"
    and view :: "'t \<Rightarrow> uuid \<Rightarrow> Notification option" and stored :: "Notification \<Rightarrow> Notification"
    and s :: "'x go_state_scheme NotificationService" +
  assumes svc_repo: "nt_notifications s = repo"
    and view_counters: "view (tab (w\<lparr>n_now := i\<rparr>)) = view (tab w)" "view (tab (w\<lparr>n_ids := i\<rparr>)) = view (tab w)"
begin

lemma command_notification_view:
  "command_notification E cmd w = (n, w1) \<Longrightarrow> view (tab w1) = view (tab w) \<and> nf_ID n = e_newid E (n_ids w)"
  by (auto simp: command_notification_def NewNotification_eq view_counters)

text \<open>Whether the notification is saved decides the result; the deliveries do not.\<close>

lemma SendToUser_ok:
  assumes run: "SendToUser E s cmd w = (Inr n, w')"
  shows "n = fst (command_notification E cmd w)" and "view (tab w) (nf_ID n) = None"
    and "view (tab w') = (view (tab w))(nf_ID n \<mapsto> stored n)"
proof -
  obtain n1 w1 where c: "command_notification E cmd w = (n1, w1)" by (cases "command_notification E cmd w")
  with run obtain w2 where save: "nr_Save repo n1 w1 = (Inr (), w2)" and n: "n = n1"
    and w': "w' = deliverToUser E s n1 (su_EventType cmd) w2"
    by (auto simp: SendToUser_def svc_repo elim!: check_err_InrE)
  show "n = fst (command_notification E cmd w)" "view (tab w) (nf_ID n) = None"
    "view (tab w') = (view (tab w))(nf_ID n \<mapsto> stored n)"
    using save_ok [OF save] command_notification_view [OF c] n w' c by simp_all
qed

lemma SendToUser_others:
  assumes "i \<noteq> e_newid E (n_ids w)"
  shows "view (tab (snd (SendToUser E s cmd w))) i = view (tab w) i"
proof -
  obtain n1 w1 where c: "command_notification E cmd w = (n1, w1)" by (cases "command_notification E cmd w")
  with assms save_others [of i n1 w1] command_notification_view [OF c]
  have "view (tab (snd (nr_Save repo n1 w1))) i = view (tab w) i" by simp
  with c show ?thesis by (auto simp: SendToUser_def check_err_def svc_repo split: prod.splits sum.splits)
qed

lemma SendToUser_fails_iff:
  "isl (fst (SendToUser E s cmd w)) =
   (let (n, w1) = command_notification E cmd w in isl (fst (nr_Save repo n w1)))"
  by (auto simp: SendToUser_def check_err_def svc_repo split: prod.splits sum.splits)

lemma MarkRead_ok:
  assumes run: "MarkRead s cmd w = (Inr (), w')"
  shows "\<exists>n t. view (tab w) (mk_NotificationID cmd) = Some n \<and> nf_UserID n = mk_UserID cmd \<and>
    view (tab w') = (view (tab w))(mk_NotificationID cmd \<mapsto>
      (case nf_ReadAt n of None \<Rightarrow> n\<lparr>nf_ReadAt := Some t\<rparr> | Some _ \<Rightarrow> n))"
proof -
  from run obtain n w1 where find: "nr_FindByID repo (mk_NotificationID cmd) w = (Inr n, w1)"
    and owner: "nf_UserID n = mk_UserID cmd" and mark: "nr_MarkRead repo (mk_NotificationID cmd) w1 = (Inr (), w')"
    by (auto simp: MarkRead_def svc_repo split: if_splits elim!: check_err_InrE)
  have "tab w1 = tab w" using find_keeps find by (rule keeps_eq)
  with mark_ok [OF mark, of n] find_found [OF find] owner show ?thesis by auto
qed

text \<open>Whatever happens, nothing but an unread notification of the caller can change.\<close>

lemma MarkRead_unchanged:
  assumes "j \<noteq> mk_NotificationID cmd \<or>
    (\<exists>n. view (tab w) j = Some n \<and> (nf_UserID n \<noteq> mk_UserID cmd \<or> nf_ReadAt n \<noteq> None))"
  shows "view (tab (snd (MarkRead s cmd w))) j = view (tab w) j"
proof -
  obtain r w1 where find: "nr_FindByID repo (mk_NotificationID cmd) w = (r, w1)"
    by (cases "nr_FindByID repo (mk_NotificationID cmd) w")
  have t: "tab w1 = tab w" using find_keeps find by (rule keeps_eq)
  have "view (tab (snd (nr_MarkRead repo (mk_NotificationID cmd) w1))) j = view (tab w) j"
    if "r = Inr n" "nf_UserID n = mk_UserID cmd" for n
    using assms t mark_others [of j "mk_NotificationID cmd" w1] mark_read [of w1 "mk_NotificationID cmd" n]
      find_found [OF find [unfolded that(1)]] that(2) by auto
  with find t show ?thesis
    by (auto simp: MarkRead_def check_err_def svc_repo split: sum.splits)
qed

lemma MarkRead_not_owner:
  assumes "view (tab w) (mk_NotificationID cmd) = Some n" and "nf_UserID n \<noteq> mk_UserID cmd"
  shows "\<exists>e. fst (MarkRead s cmd w) = Inl e"
proof (cases "nr_FindByID repo (mk_NotificationID cmd) w")
  case (Pair r w1)
  show ?thesis
  proof (cases r)
    case (Inr n')
    with Pair find_found assms(1) have "n' = n" by fastforce
    with Pair Inr assms(2) show ?thesis by (simp add: MarkRead_def check_err_def svc_repo)
  qed (use Pair in \<open>simp add: MarkRead_def check_err_def svc_repo\<close>)
qed

end

end
