(* ===== verification/Notification_Store.thy ===== *)
theory Notification_Store
  imports Notification_Domain
begin

text \<open>
  The notification service's database and PostgreSQL adapters
  (\<^verbatim>\<open>services/notification/infrastructure/postgres\<close>): rows and queries over tables as lists of rows, the
  repositories, and the interpretation of their contracts. The world of the service also holds what
  it hands to its SMTP server and the process-wide access token of its push adapter.
\<close>

subsection \<open>Rows and tables\<close>

record NotificationRow =
  rn_id :: uuid
  rn_user_id :: uuid
  rn_app_id :: uuid
  rn_group_id :: "uuid option"
  rn_org_id :: "uuid option"
  rn_title :: string
  rn_body :: string
  rn_data :: json
  rn_delivery_status :: string
  rn_read_at :: "time option"
  rn_created_at :: time

record PreferenceRow =
  rp_user_id :: uuid
  rp_app_id :: uuid
  rp_channel :: string
  rp_event_type :: string
  rp_enabled :: bool
  rp_updated_at :: time

text \<open>A message on its way to the SMTP server: envelope sender, recipients, text.\<close>

type_synonym mail = "string \<times> string list \<times> string"

record cachedToken =
  ct_value :: string
  ct_expiresAt :: time

record nt_db = go_state +
  notifications :: "NotificationRow list"
  notification_preferences :: "PreferenceRow list"
  smtp_log :: "mail list"
  fcm_cache :: "cachedToken option"

abbreviation pref_key :: "PreferenceRow \<Rightarrow> uuid \<times> uuid \<times> string \<times> string" where
  "pref_key r \<equiv> (rp_user_id r, rp_app_id r, rp_channel r, rp_event_type r)"

text \<open>The part of the world that is the database.\<close>

definition nt_tables :: "nt_db \<Rightarrow> NotificationRow list \<times> PreferenceRow list" where
  "nt_tables w = (notifications w, notification_preferences w)"

subsection \<open>Queries\<close>

definition InsertNotification :: "env \<Rightarrow> NotificationRow \<Rightarrow> (unit, nt_db) nt_op" where
  "InsertNotification E r =
     net_call E (\<lambda>w.
       if rn_id r \<in> rn_id ` set (notifications w)
         then (Inl (PgError ''23505'' ''notifications_pkey''), w)
       else (Inr (), w\<lparr>notifications := notifications w @ [r\<lparr>rn_created_at := e_tsz E (rn_created_at r)\<rparr>]\<rparr>))"

definition GetNotificationByID :: "env \<Rightarrow> uuid \<Rightarrow> (NotificationRow, nt_db) nt_op" where
  "GetNotificationByID E i =
     net_call E (\<lambda>w. case find (\<lambda>r. rn_id r = i) (notifications w) of
       None \<Rightarrow> (Inl NoRows, w) | Some r \<Rightarrow> (Inr r, w))"

text \<open>\<open>ORDER BY created_at DESC LIMIT l OFFSET o\<close>: the server rejects negative bounds.\<close>

definition ListNotificationsForUser ::
    "env \<Rightarrow> uuid \<Rightarrow> uuid \<Rightarrow> int \<Rightarrow> int \<Rightarrow> (NotificationRow list, nt_db) nt_op" where
  "ListNotificationsForUser E user_id app_id lim off =
     net_call E (\<lambda>w.
       if off < 0 then (Inl (PgError ''2201X'' []), w)
       else if lim < 0 then (Inl (PgError ''2201W'' []), w)
       else (Inr (take (nat lim) (drop (nat off) (sort_key (\<lambda>r. - rn_created_at r)
              (filter (\<lambda>r. rn_user_id r = user_id \<and> rn_app_id r = app_id) (notifications w))))), w))"

definition UpdateNotificationStatus :: "env \<Rightarrow> uuid \<Rightarrow> string \<Rightarrow> (unit, nt_db) nt_op" where
  "UpdateNotificationStatus E i status =
     net_call E (\<lambda>w. (Inr (), w\<lparr>notifications :=
       map (\<lambda>r. if rn_id r = i then r\<lparr>rn_delivery_status := status\<rparr> else r) (notifications w)\<rparr>))"

definition MarkNotificationRead :: "env \<Rightarrow> uuid \<Rightarrow> (unit, nt_db) nt_op" where
  "MarkNotificationRead E i =
     net_call E (\<lambda>w.
       let (now, w1) = db_now E w
       in (Inr (), w1\<lparr>notifications :=
            map (\<lambda>r. if rn_id r = i \<and> rn_read_at r = None then r\<lparr>rn_read_at := Some (e_tsz E now)\<rparr> else r)
              (notifications w1)\<rparr>))"

definition UpsertNotificationPreference ::
    "env \<Rightarrow> uuid \<Rightarrow> uuid \<Rightarrow> string \<Rightarrow> string \<Rightarrow> bool \<Rightarrow> (unit, nt_db) nt_op" where
  "UpsertNotificationPreference E user_id app_id channel event_type enabled =
     net_call E (\<lambda>w.
       let (now, w1) = db_now E w;
           r = \<lparr>rp_user_id = user_id, rp_app_id = app_id, rp_channel = channel,
                rp_event_type = event_type, rp_enabled = enabled, rp_updated_at = e_tsz E now\<rparr>
       in (Inr (), w1\<lparr>notification_preferences :=
            upsert_row pref_key r (\<lambda>x. x\<lparr>rp_enabled := rp_enabled r, rp_updated_at := rp_updated_at r\<rparr>)
              (notification_preferences w1)\<rparr>))"

definition GetNotificationPreferences :: "env \<Rightarrow> uuid \<Rightarrow> uuid \<Rightarrow> (PreferenceRow list, nt_db) nt_op" where
  "GetNotificationPreferences E user_id app_id =
     net_call E (\<lambda>w. (Inr (filter (\<lambda>r. rp_user_id r = user_id \<and> rp_app_id r = app_id)
       (notification_preferences w)), w))"

text \<open>\<open>ORDER BY event_type DESC LIMIT 1\<close>, in the order of the database's collation.\<close>

definition GetPreferenceEnabled ::
    "env \<Rightarrow> uuid \<Rightarrow> uuid \<Rightarrow> string \<Rightarrow> string \<Rightarrow> (bool, nt_db) nt_op" where
  "GetPreferenceEnabled E user_id app_id channel event_type =
     net_call E (\<lambda>w.
       case sort_key (\<lambda>r. - int (e_collate E (rp_event_type r)))
              (filter (\<lambda>r. rp_user_id r = user_id \<and> rp_app_id r = app_id \<and> rp_channel r = channel \<and>
                 (rp_event_type r = event_type \<or> rp_event_type r = ''*'')) (notification_preferences w)) of
         [] \<Rightarrow> (Inl NoRows, w)
       | r # _ \<Rightarrow> (Inr (rp_enabled r), w))"

lemmas nt_query_defs =
  InsertNotification_def GetNotificationByID_def ListNotificationsForUser_def
  UpdateNotificationStatus_def MarkNotificationRead_def UpsertNotificationPreference_def
  GetNotificationPreferences_def GetPreferenceEnabled_def

subsection \<open>NotificationRepo\<close>

definition NotificationRepo_Save :: "env \<Rightarrow> Notification \<Rightarrow> (unit, nt_db) nt_op" where
  "NotificationRepo_Save E n =
     conv (Wrapped ''NotificationRepo.Save'') id
       (InsertNotification E \<lparr>rn_id = nf_ID n, rn_user_id = nf_UserID n, rn_app_id = nf_AppID n,
          rn_group_id = nf_GroupID n, rn_org_id = nf_OrgID n, rn_title = nf_Title n,
          rn_body = nf_Body n, rn_data = JObj (nf_Data n), rn_delivery_status = nf_DeliveryStatus n,
          rn_read_at = None, rn_created_at = nf_CreatedAt n\<rparr>)"

text \<open>\<open>json.Unmarshal\<close> into the data map; what is not an object leaves it nil, and then it is made.\<close>

fun unmarshal_data :: "json \<Rightarrow> go_object" where
  "unmarshal_data (JObj kvs) = kvs"
| "unmarshal_data _ = []"

definition rowToNotification :: "NotificationRow \<Rightarrow> Notification" where
  "rowToNotification r = \<lparr>nf_ID = rn_id r, nf_UserID = rn_user_id r, nf_AppID = rn_app_id r,
     nf_GroupID = rn_group_id r, nf_OrgID = rn_org_id r, nf_Title = rn_title r, nf_Body = rn_body r,
     nf_Data = unmarshal_data (rn_data r), nf_DeliveryStatus = rn_delivery_status r,
     nf_ReadAt = rn_read_at r, nf_CreatedAt = rn_created_at r\<rparr>"

definition find_notification_error :: "nt_error \<Rightarrow> nt_error" where
  "find_notification_error err =
     (if errors_Is err NoRows then Sentinel ErrNotificationNotFound
      else Wrapped ''NotificationRepo.FindByID'' err)"

definition NotificationRepo_FindByID :: "env \<Rightarrow> uuid \<Rightarrow> (Notification, nt_db) nt_op" where
  "NotificationRepo_FindByID E i = conv find_notification_error rowToNotification (GetNotificationByID E i)"

text \<open>The conversion \<open>int32(x)\<close> keeps the low 32 bits, read as a signed number.\<close>

definition int32 :: "int \<Rightarrow> int" where
  "int32 x = sint (word_of_int x :: 32 word)"

definition NotificationRepo_ListForUser ::
    "env \<Rightarrow> uuid \<Rightarrow> uuid \<Rightarrow> int \<Rightarrow> int \<Rightarrow> (Notification list, nt_db) nt_op" where
  "NotificationRepo_ListForUser E userID appID limit offset =
     conv (Wrapped ''NotificationRepo.ListForUser'') (map rowToNotification)
       (ListNotificationsForUser E userID appID (int32 limit) (int32 offset))"

definition NotificationRepo_UpdateStatus :: "env \<Rightarrow> uuid \<Rightarrow> string \<Rightarrow> (unit, nt_db) nt_op" where
  "NotificationRepo_UpdateStatus E i status =
     conv (Wrapped ''NotificationRepo.UpdateStatus'') id (UpdateNotificationStatus E i status)"

definition NotificationRepo_MarkRead :: "env \<Rightarrow> uuid \<Rightarrow> (unit, nt_db) nt_op" where
  "NotificationRepo_MarkRead E i = conv (Wrapped ''NotificationRepo.MarkRead'') id (MarkNotificationRead E i)"

definition NewNotificationRepo :: "env \<Rightarrow> nt_db NotificationRepository" where
  "NewNotificationRepo E = \<lparr>nr_Save = NotificationRepo_Save E, nr_FindByID = NotificationRepo_FindByID E,
     nr_ListForUser = NotificationRepo_ListForUser E, nr_UpdateStatus = NotificationRepo_UpdateStatus E,
     nr_MarkRead = NotificationRepo_MarkRead E\<rparr>"

subsection \<open>PreferenceRepo\<close>

definition PreferenceRepo_Upsert :: "env \<Rightarrow> NotificationPreference \<Rightarrow> (unit, nt_db) nt_op" where
  "PreferenceRepo_Upsert E p =
     conv (Wrapped ''PreferenceRepo.Upsert'') id
       (UpsertNotificationPreference E (np_UserID p) (np_AppID p) (np_Channel p) (np_EventType p) (np_Enabled p))"

definition rowToPreference :: "PreferenceRow \<Rightarrow> NotificationPreference" where
  "rowToPreference r = \<lparr>np_UserID = rp_user_id r, np_AppID = rp_app_id r, np_Channel = rp_channel r,
     np_EventType = rp_event_type r, np_Enabled = rp_enabled r\<rparr>"

definition PreferenceRepo_FindByUser :: "env \<Rightarrow> uuid \<Rightarrow> uuid \<Rightarrow> (NotificationPreference list, nt_db) nt_op" where
  "PreferenceRepo_FindByUser E userID appID =
     conv (Wrapped ''PreferenceRepo.FindByUser'') (map rowToPreference) (GetNotificationPreferences E userID appID)"

definition PreferenceRepo_IsEnabled ::
    "env \<Rightarrow> uuid \<Rightarrow> uuid \<Rightarrow> string \<Rightarrow> string \<Rightarrow> (bool, nt_db) nt_op" where
  "PreferenceRepo_IsEnabled E userID appID channel eventType w =
     (case GetPreferenceEnabled E userID appID channel eventType w of
        (Inl err, w1) \<Rightarrow>
          if errors_Is err NoRows then (Inr (channel = ChannelPush), w1)
          else (Inl (Wrapped ''PreferenceRepo.IsEnabled'' err), w1)
      | (Inr enabled, w1) \<Rightarrow> (Inr enabled, w1))"

definition NewPreferenceRepo :: "env \<Rightarrow> nt_db PreferenceRepository" where
  "NewPreferenceRepo E = \<lparr>pr_Upsert = PreferenceRepo_Upsert E, pr_FindByUser = PreferenceRepo_FindByUser E,
                          pr_IsEnabled = PreferenceRepo_IsEnabled E\<rparr>"

lemmas nt_repo_defs =
  NewNotificationRepo_def NotificationRepo_Save_def NotificationRepo_FindByID_def
  NotificationRepo_ListForUser_def NotificationRepo_UpdateStatus_def NotificationRepo_MarkRead_def
  NewPreferenceRepo_def PreferenceRepo_Upsert_def PreferenceRepo_FindByUser_def PreferenceRepo_IsEnabled_def

subsection \<open>The repositories keep their contracts\<close>

definition notification_view :: "NotificationRow list \<times> PreferenceRow list \<Rightarrow> uuid \<Rightarrow> Notification option" where
  "notification_view t = table_map rn_id rowToNotification (fst t)"

definition preference_view ::
    "NotificationRow list \<times> PreferenceRow list \<Rightarrow> uuid \<times> uuid \<times> string \<times> string \<Rightarrow> bool option" where
  "preference_view t = table_map pref_key rp_enabled (snd t)"

definition stored_notification :: "env \<Rightarrow> Notification \<Rightarrow> Notification" where
  "stored_notification E n = n\<lparr>nf_ReadAt := None, nf_CreatedAt := e_tsz E (nf_CreatedAt n)\<rparr>"

text \<open>The primary keys of the schema.\<close>

definition nt_wf :: "nt_db \<Rightarrow> bool" where
  "nt_wf w \<longleftrightarrow> distinct (map rn_id (notifications w)) \<and> distinct (map pref_key (notification_preferences w))"

text \<open>What the ordering of \<open>GetPreferenceEnabled\<close> relies on: the star sorts before the event type.\<close>

definition after_star :: "env \<Rightarrow> string \<Rightarrow> bool" where
  "after_star E ev \<longleftrightarrow> ev = ''*'' \<or> e_collate E ''*'' < e_collate E ev"

lemma nt_tables_simps [simp]:
  "nt_tables (w\<lparr>n_now := a\<rparr>) = nt_tables w" "nt_tables (w\<lparr>n_ids := a\<rparr>) = nt_tables w"
  "nt_tables (w\<lparr>n_net := a\<rparr>) = nt_tables w" "nt_tables (w\<lparr>http_log := hl\<rparr>) = nt_tables w"
  "nt_tables (w\<lparr>js_log := jl\<rparr>) = nt_tables w" "nt_tables (w\<lparr>smtp_log := sl\<rparr>) = nt_tables w"
  "nt_tables (w\<lparr>fcm_cache := fc\<rparr>) = nt_tables w"
  by (simp_all add: nt_tables_def)

lemma nt_wf_simps [simp]:
  "nt_wf (w\<lparr>n_now := a\<rparr>) = nt_wf w" "nt_wf (w\<lparr>n_net := a\<rparr>) = nt_wf w" "nt_wf (w\<lparr>n_ids := a\<rparr>) = nt_wf w"
  by (simp_all add: nt_wf_def)

lemma sort_key_hd:
  assumes "sort_key f xs = h # t"
  shows "h \<in> set xs" and "x \<in> set xs \<Longrightarrow> f h \<le> f x"
proof -
  have "set (h # t) = set xs" using assms by (metis set_sort)
  moreover have "sorted (map f (h # t))" using assms by (metis sorted_sort_key)
  ultimately show "h \<in> set xs" and "x \<in> set xs \<Longrightarrow> f h \<le> f x" by auto
qed

lemma sort_key_Nil: "sort_key f xs = [] \<longleftrightarrow> xs = []"
  by (metis length_0_conv length_sort)

text \<open>The query decides as its comment says: the row of the event type, else the row of the star.\<close>

lemma preference_lookup:
  assumes dist: "distinct (map pref_key rs)" and star: "after_star E ev"
  shows "(case sort_key (\<lambda>r. - int (e_collate E (rp_event_type r)))
            (filter (\<lambda>r. rp_user_id r = u \<and> rp_app_id r = a \<and> rp_channel r = ch \<and>
               (rp_event_type r = ev \<or> rp_event_type r = ''*'')) rs) of
          [] \<Rightarrow> None | r # _ \<Rightarrow> Some (rp_enabled r)) =
    (case table_map pref_key rp_enabled rs (u, a, ch, ev) of
       Some b \<Rightarrow> Some b | None \<Rightarrow> table_map pref_key rp_enabled rs (u, a, ch, ''*''))"
    (is "(case sort_key ?f ?F of [] \<Rightarrow> None | r # _ \<Rightarrow> Some (rp_enabled r)) = ?rhs")
proof (cases "sort_key ?f ?F")
  case Nil
  then have "?F = []" by (simp add: sort_key_Nil)
  then have "(u, a, ch, e) \<notin> pref_key ` set rs" if "e = ev \<or> e = ''*''" for e
    using that by (auto simp: filter_empty_conv)
  then have "table_map pref_key rp_enabled rs (u, a, ch, ev) = None"
    "table_map pref_key rp_enabled rs (u, a, ch, ''*'') = None"
    by (simp_all add: table_map_None)
  with Nil show ?thesis by simp
next
  case (Cons h t)
  note h = sort_key_hd [OF Cons]
  have hF: "h \<in> set rs" "pref_key h = (u, a, ch, rp_event_type h)"
    "rp_event_type h = ev \<or> rp_event_type h = ''*''" using h(1) by auto
  have get: "table_map pref_key rp_enabled rs (pref_key x) = Some (rp_enabled x)" if "x \<in> set rs" for x
    using table_map_member [OF dist that] .
  show ?thesis
  proof (cases "rp_event_type h = ev")
    case True
    with get [OF hF(1)] hF(2) Cons show ?thesis by simp
  next
    case False
    have "(u, a, ch, ev) \<notin> pref_key ` set rs"
    proof
      assume "(u, a, ch, ev) \<in> pref_key ` set rs"
      then obtain x where x: "x \<in> set rs" "pref_key x = (u, a, ch, ev)" by auto
      with h(2) [of x] have "e_collate E ev \<le> e_collate E (rp_event_type h)" by auto
      with False hF(3) star show False by (auto simp: after_star_def)
    qed
    then have "table_map pref_key rp_enabled rs (u, a, ch, ev) = None" by (simp add: table_map_None)
    with get [OF hF(1)] hF(2,3) False Cons show ?thesis by simp
  qed
qed

lemma IsEnabled_value:
  assumes run: "PreferenceRepo_IsEnabled E u a ch ev w = (Inr b, w')" and star: "after_star E ev" and wf: "nt_wf w"
  shows "b = (case preference_view (nt_tables w) (u, a, ch, ev) of
              Some b \<Rightarrow> b
            | None \<Rightarrow> (case preference_view (nt_tables w) (u, a, ch, ''*'') of
                 Some b \<Rightarrow> b | None \<Rightarrow> ch = ChannelPush))"
proof -
  have dist: "distinct (map pref_key (notification_preferences w))" using wf by (simp add: nt_wf_def)
  note look = preference_lookup [OF dist star, of u a ch]
  show ?thesis
    using run look unfolding PreferenceRepo_IsEnabled_def GetPreferenceEnabled_def
    by (auto simp: net_call_def Let_def preference_view_def nt_tables_def
        split: net_outcome.splits list.splits option.splits if_splits)
qed

definition mark_row :: "time \<Rightarrow> NotificationRow \<Rightarrow> NotificationRow" where
  "mark_row t r = (if rn_read_at r = None then r\<lparr>rn_read_at := Some t\<rparr> else r)"

lemma mark_row_simps [simp]:
  "rn_id (mark_row t r) = rn_id r" "rn_read_at r \<noteq> None \<Longrightarrow> mark_row t r = r"
  by (simp_all add: mark_row_def)

lemma rowToNotification_mark_row:
  "rowToNotification (mark_row t r) =
     (case nf_ReadAt (rowToNotification r) of
        None \<Rightarrow> (rowToNotification r)\<lparr>nf_ReadAt := Some t\<rparr> | Some _ \<Rightarrow> rowToNotification r)"
  by (auto simp: mark_row_def rowToNotification_def split: option.split)

lemma MarkRead_rows:
  "notifications (snd (NotificationRepo_MarkRead E i w)) = notifications w \<or>
   notifications (snd (NotificationRepo_MarkRead E i w)) =
     map (\<lambda>r. if rn_id r = i then mark_row (e_tsz E (e_dbnow E (n_now w))) r else r) (notifications w)"
  "NotificationRepo_MarkRead E i w = (Inr (), w') \<Longrightarrow> notifications w' =
     map (\<lambda>r. if rn_id r = i then mark_row (e_tsz E (e_dbnow E (n_now w))) r else r) (notifications w)"
  by (auto simp: NotificationRepo_MarkRead_def MarkNotificationRead_def conv_def net_call_def db_now_def Let_def
      mark_row_def intro!: map_cong split: net_outcome.splits)

lemma mark_view:
  "table_map rn_id rowToNotification (map (\<lambda>r. if rn_id r = i then mark_row t r else r) rs) =
    (case find (\<lambda>r. rn_id r = i) rs of
       None \<Rightarrow> table_map rn_id rowToNotification rs
     | Some r \<Rightarrow> (table_map rn_id rowToNotification rs)(i \<mapsto> rowToNotification (mark_row t r)))"
  by (rule table_map_update_key) simp

interpretation pg_notifications: notification_repository "NewNotificationRepo E" nt_tables notification_view
    "stored_notification E" for E
proof (unfold_locales, goal_cases)
  case (3 n w w')
  then show ?case
    by (auto simp: nt_repo_defs nt_query_defs conv_def net_call_def Let_def notification_view_def nt_tables_def
        table_map_None table_map_snoc rowToNotification_def stored_notification_def image_iff
        split: net_outcome.splits prod.splits sum.splits if_splits)
next
  case (4 i n w)
  then show ?case
    by (auto simp: nt_repo_defs nt_query_defs net_call_def Let_def notification_view_def nt_tables_def
        table_map_snoc split: net_outcome.splits)
next
  case (5 i w w' n)
  then obtain r where r: "find (\<lambda>r. rn_id r = i) (notifications w) = Some r" "rowToNotification r = n"
    by (auto simp: notification_view_def nt_tables_def table_map_def)
  have "NotificationRepo_MarkRead E i w = (Inr (), w')" using 5(1) by (simp add: NewNotificationRepo_def)
  from MarkRead_rows(2) [OF this] r show ?case
    by (auto simp: notification_view_def nt_tables_def mark_view rowToNotification_mark_row)
next
  case (6 j i w)
  with MarkRead_rows(1) [of E i w] show ?case
    by (auto simp: NewNotificationRepo_def notification_view_def nt_tables_def mark_view split: option.splits)
next
  case (7 w i n)
  then obtain r where r: "find (\<lambda>r. rn_id r = i) (notifications w) = Some r" "rn_read_at r \<noteq> None"
    by (auto simp: notification_view_def nt_tables_def table_map_def rowToNotification_def)
  with MarkRead_rows(1) [of E i w] table_map_found [OF r(1), where val = rowToNotification] show ?case
    by (auto simp: NewNotificationRepo_def notification_view_def nt_tables_def mark_view)
qed (auto simp: keeps_def nt_repo_defs nt_query_defs conv_def net_call_def Let_def notification_view_def nt_tables_def
       table_map_def find_notification_error_def split: net_outcome.splits option.splits sum.splits prod.splits if_splits)

interpretation pg_preferences: preference_repository "NewPreferenceRepo E" nt_tables preference_view
    nt_wf "after_star E" for E
proof (unfold_locales, goal_cases)
  case (2 u a ch ev w b w')
  then show ?case using IsEnabled_value by (simp add: NewPreferenceRepo_def)
next
  case (3 p w w')
  show ?case
    using 3 by (auto simp: nt_repo_defs nt_query_defs conv_def net_call_def db_now_def Let_def preference_view_def
        nt_tables_def table_map_upsert split: net_outcome.splits prod.splits sum.splits option.splits)
next
  case (4 k p w)
  then show ?case
    by (auto simp: nt_repo_defs nt_query_defs net_call_def db_now_def Let_def preference_view_def
        nt_tables_def table_map_upsert split: net_outcome.splits option.splits)
qed (auto simp: keeps_def nt_repo_defs nt_query_defs net_call_def Let_def
       split: net_outcome.splits list.splits sum.splits prod.splits if_splits)

end
