(* ===== verification/Notification_Channels.thy ===== *)
theory Notification_Channels
  imports Notification_Store
begin

text \<open>
  The delivery channels of the notification service: the Centrifugo adapter
  (\<^verbatim>\<open>infrastructure/realtime\<close>), the SMTP adapter (\<^verbatim>\<open>infrastructure/email\<close>) and the push adapters
  (\<^verbatim>\<open>infrastructure/push\<close>) with the cached access token of Firebase. Servers answer through the
  environment; the APNs client and the RSA signature are third-party code and fields of the adapters'
  records. Where the code quotes a response body in an error text, the text is left out.
\<close>

subsection \<open>Centrifugo\<close>

record CentrifugoAdapter =
  ca_apiURL :: string
  ca_apiKey :: string

definition centrifugo_publish_json :: "RealtimeMessage \<Rightarrow> json" where
  "centrifugo_publish_json msg = JObj [(''channel'', JStr (rm_Channel msg)), (''data'', JObj (rm_Data msg))]"

definition centrifugo_request :: "CentrifugoAdapter \<Rightarrow> RealtimeMessage \<Rightarrow> http_request" where
  "centrifugo_request a msg =
     \<lparr>hr_method = ''POST'', hr_url = ca_apiURL a @ ''/publish'', hr_query = [],
      hr_header = [(''Content-Type'', ''application/json''), (''X-API-Key'', ca_apiKey a)],
      hr_body = JsonBody (centrifugo_publish_json msg)\<rparr>"

definition centrifugo_Publish :: "env \<Rightarrow> CentrifugoAdapter \<Rightarrow> 'x go_state_scheme RealtimePort" where
  "centrifugo_Publish E a msg =
     check_err ''CentrifugoAdapter.Publish: send'' (http_Do E (centrifugo_request a msg)) (\<lambda>resp w.
     if hs_status resp < 200 \<or> hs_status resp \<ge> 300
       then (Inl (ExtError (''CentrifugoAdapter.Publish: status '' @ int_str (hs_status resp))), w)
     else (Inr (), w))"

definition NoopRealtimePort :: "'w RealtimePort" where
  "NoopRealtimePort msg w = (Inr (), w)"

subsection \<open>SMTP\<close>

record SMTPAdapter =
  sm_addr :: string
  sm_from :: string
  sm_auth :: "(string \<times> string \<times> string) option"

definition NewSMTPAdapter :: "string \<Rightarrow> string \<Rightarrow> string \<Rightarrow> string \<Rightarrow> string \<Rightarrow> SMTPAdapter" where
  "NewSMTPAdapter host port from user password =
     \<lparr>sm_addr = host @ '':'' @ port, sm_from = from,
      sm_auth = (if user \<noteq> [] then Some (user, password, host) else None)\<rparr>"

fun strings_Join :: "string list \<Rightarrow> string \<Rightarrow> string" where
  "strings_Join [] sep = []"
| "strings_Join [s] sep = s"
| "strings_Join (s # ss) sep = s @ sep @ strings_Join ss sep"

definition crlf :: string where
  "crlf = [CHR 0x0D, CHR 0x0A]"

definition smtp_body :: "SMTPAdapter \<Rightarrow> EmailMessage \<Rightarrow> string" where
  "smtp_body a msg = strings_Join [''From: '' @ sm_from a, ''To: '' @ em_To msg, ''Subject: '' @ em_Subject msg,
     ''Content-Type: text/plain; charset=utf-8'', [], em_Body msg] crlf"

text \<open>\<open>smtp.SendMail\<close>: the envelope addresses must be single lines; then the server takes the mail or
  the call fails.\<close>

definition has_line_break :: "string \<Rightarrow> bool" where
  "has_line_break s = list_ex (\<lambda>c. c = CHR 0x0A \<or> c = CHR 0x0D) s"

definition smtp_SendMail :: "env \<Rightarrow> string \<Rightarrow> string list \<Rightarrow> string \<Rightarrow> (unit, nt_db) nt_op" where
  "smtp_SendMail E from to msg w =
     (if list_ex has_line_break (from # to)
        then (Inl (ExtError ''smtp: A line must not contain CR or LF''), w)
      else net_call E (\<lambda>w. (Inr (), w\<lparr>smtp_log := smtp_log w @ [(from, to, msg)]\<rparr>)) w)"

definition smtp_Send :: "env \<Rightarrow> SMTPAdapter \<Rightarrow> nt_db EmailPort" where
  "smtp_Send E a msg =
     check_err ''SMTPAdapter.Send'' (smtp_SendMail E (sm_from a) [em_To msg] (smtp_body a msg)) (\<lambda>_ w. (Inr (), w))"

definition NoopEmailPort :: "'w EmailPort" where
  "NoopEmailPort msg w = (Inr (), w)"

subsection \<open>The access token of Firebase\<close>

text \<open>\<open>url.QueryEscape\<close>: everything but letters, digits and four marks is escaped, a blank as a plus.\<close>

definition hex_upper :: "nat \<Rightarrow> char" where
  "hex_upper n = (if n < 10 then char_of (48 + n) else char_of (55 + n))"

definition unreserved :: "char \<Rightarrow> bool" where
  "unreserved c = (let n = (of_char c :: nat) in 48 \<le> n \<and> n \<le> 57 \<or> 65 \<le> n \<and> n \<le> 90 \<or> 97 \<le> n \<and> n \<le> 122 \<or>
     c \<in> {CHR ''-'', CHR ''_'', CHR ''.'', CHR ''~''})"

definition escape_char :: "char \<Rightarrow> string" where
  "escape_char c =
     (if unreserved c then [c] else if c = CHR '' '' then [CHR ''+'']
      else [CHR ''%'', hex_upper (of_char c div 16), hex_upper (of_char c mod 16)])"

definition QueryEscape :: "string \<Rightarrow> string" where
  "QueryEscape s = concat (map escape_char s)"

record ServiceAccountTokenSource =
  sa_sign :: "string \<Rightarrow> json \<Rightarrow> string + string"
  sa_privateKeyID :: string
  sa_clientEmail :: string
  sa_tokenURI :: string

definition fcmScope :: string where
  "fcmScope = ''https://www.googleapis.com/auth/firebase.messaging''"

definition googleTokenURL :: string where
  "googleTokenURL = ''https://oauth2.googleapis.com/token''"

definition tokenExpirySecs :: int where
  "tokenExpirySecs = 3600"

definition tokenRefreshLead :: time where
  "tokenRefreshLead = 5 * 60 * Second"

text \<open>Parsing the PEM block and the PKCS8 key is the standard library's: \<open>parse_key\<close> gives the text of
  its error or the signer made of the key.\<close>

definition NewServiceAccountTokenSource ::
    "(string \<Rightarrow> string + (string \<Rightarrow> json \<Rightarrow> string + string)) \<Rightarrow> json option \<Rightarrow>
     nt_error + ServiceAccountTokenSource" where
  "NewServiceAccountTokenSource parse_key saJSON =
     (case Option.bind saJSON (dec_struct (\<lambda>obj.
             Option.bind (dec_string ''type'' obj) (\<lambda>kind.
             Option.bind (dec_string ''project_id'' obj) (\<lambda>_.
             Option.bind (dec_string ''private_key_id'' obj) (\<lambda>key_id.
             Option.bind (dec_string ''private_key'' obj) (\<lambda>key.
             Option.bind (dec_string ''client_email'' obj) (\<lambda>email.
             Option.bind (dec_string ''token_uri'' obj) (\<lambda>uri.
             Some (kind, key_id, key, email, uri))))))))) of
        None \<Rightarrow> Inl (Wrapped ''parse service account JSON'' (ExtError ''json''))
      | Some (kind, key_id, key, email, uri) \<Rightarrow>
          if kind \<noteq> ''service_account''
            then Inl (ExtError (''expected service_account key type, got '' @ kind))
          else case parse_key key of
                 Inl msg \<Rightarrow> Inl (ExtError msg)
               | Inr sign \<Rightarrow>
                   Inr \<lparr>sa_sign = sign, sa_privateKeyID = key_id, sa_clientEmail = email,
                        sa_tokenURI = (if uri = [] then googleTokenURL else uri)\<rparr>)"

definition fcm_claims :: "ServiceAccountTokenSource \<Rightarrow> time \<Rightarrow> json" where
  "fcm_claims s now =
     JObj [(''aud'', JStr (sa_tokenURI s)), (''exp'', JNum ((now + tokenExpirySecs * Second) div Second)),
           (''iat'', JNum (now div Second)), (''iss'', JStr (sa_clientEmail s)),
           (''scope'', JStr fcmScope), (''sub'', JStr (sa_clientEmail s))]"

definition token_request :: "ServiceAccountTokenSource \<Rightarrow> string \<Rightarrow> http_request" where
  "token_request s assertion =
     \<lparr>hr_method = ''POST'', hr_url = sa_tokenURI s, hr_query = [],
      hr_header = [(''Content-Type'', ''application/x-www-form-urlencoded'')],
      hr_body = FormBody (''assertion='' @ QueryEscape assertion @ ''&grant_type='' @
        QueryEscape ''urn:ietf:params:oauth:grant-type:jwt-bearer'')\<rparr>"

text \<open>An \<open>int\<close> field: a number outside the 64-bit range is a type error. Multiplying a \<open>Duration\<close> wraps
  around at 64 bits.\<close>

fun json_int64 :: "json \<Rightarrow> int option" where
  "json_int64 (JNum n) = (if - (2 ^ 63) \<le> n \<and> n < 2 ^ 63 then Some n else None)"
| "json_int64 _ = None"

definition int64 :: "int \<Rightarrow> int" where
  "int64 x = sint (word_of_int x :: 64 word)"

text \<open>What the token endpoint's answer gives: the token and its lifetime.\<close>

definition token_answer :: "string + http_response \<Rightarrow> nt_error + (string \<times> time)" where
  "token_answer ans =
     (case ans of
        Inl msg \<Rightarrow> Inl (Wrapped ''token request'' (ExtError msg))
      | Inr resp \<Rightarrow>
          if hs_status resp \<noteq> 200
            then Inl (ExtError (''token endpoint returned '' @ int_str (hs_status resp)))
          else case Option.bind (hs_body resp) (dec_struct (\<lambda>obj.
                      Option.bind (dec_string ''access_token'' obj) (\<lambda>tok.
                      Option.bind (dec_values json_int64 0 (json_field ''expires_in'' obj)) (\<lambda>secs.
                      Some (tok, secs))))) of
                 None \<Rightarrow> Inl (Wrapped ''decode token response'' (ExtError ''json''))
               | Some (tok, secs) \<Rightarrow>
                   if tok = [] then Inl (ExtError ''empty access_token in response'')
                   else Inr (tok, int64 (secs * Second)))"

definition fetchToken ::
    "env \<Rightarrow> ServiceAccountTokenSource \<Rightarrow> (string \<times> time, 'x go_state_scheme) nt_op" where
  "fetchToken E s w =
     (let (now, w1) = time_Now E w in
      case sa_sign s (sa_privateKeyID s) (fcm_claims s now) of
        Inl msg \<Rightarrow> (Inl (Wrapped ''sign JWT'' (ExtError msg)), w1)
      | Inr assertion \<Rightarrow>
          (let req = token_request s assertion;
               w2 = w1\<lparr>http_log := http_log w1 @ [req]\<rparr>
           in case token_answer (e_http E (http_log w1) req) of
                Inl e \<Rightarrow> (Inl e, w2)
              | Inr (tok, life) \<Rightarrow> (Inr (tok, now + life), w2)))"

text \<open>The cache is read and written under a lock held over the whole call.\<close>

definition fcm_Token :: "env \<Rightarrow> ServiceAccountTokenSource \<Rightarrow> (string, nt_db) nt_op" where
  "fcm_Token E s w =
     (let fetch = pass_err (fetchToken E s) (\<lambda>(tok, expiry) w.
            (Inr tok, w\<lparr>fcm_cache := Some \<lparr>ct_value = tok, ct_expiresAt = expiry\<rparr>\<rparr>))
      in case fcm_cache w of
           None \<Rightarrow> fetch w
         | Some c \<Rightarrow>
             (let (now, w1) = time_Now E w
              in if ct_expiresAt c - now > tokenRefreshLead then (Inr (ct_value c), w1) else fetch w1))"

subsection \<open>Push adapters and their dispatcher\<close>

record 'w FCMAdapter =
  fa_projectID :: string
  fa_tokenSource :: "(string, 'w) nt_op"

definition fcm_payload :: "PushMessage \<Rightarrow> json" where
  "fcm_payload msg =
     JObj [(''message'', JObj
       [(''data'', JObj (map (\<lambda>(k, v). (k, JStr v)) (pm_Data msg))),
        (''notification'', JObj [(''body'', JStr (pm_Body msg)), (''title'', JStr (pm_Title msg))]),
        (''token'', JStr (pm_Token msg))])]"

definition fcm_request :: "string \<Rightarrow> string \<Rightarrow> PushMessage \<Rightarrow> http_request" where
  "fcm_request projectID token msg =
     \<lparr>hr_method = ''POST'',
      hr_url = ''https://fcm.googleapis.com/v1/projects/'' @ projectID @ ''/messages:send'', hr_query = [],
      hr_header = [(''Content-Type'', ''application/json''), (''Authorization'', ''Bearer '' @ token)],
      hr_body = JsonBody (fcm_payload msg)\<rparr>"

definition fcm_Send :: "env \<Rightarrow> 'x go_state_scheme FCMAdapter \<Rightarrow> PushMessage \<Rightarrow> (unit, 'x go_state_scheme) nt_op" where
  "fcm_Send E a msg =
     check_err ''FCMAdapter: get token'' (fa_tokenSource a) (\<lambda>token.
     check_err ''FCMAdapter: send'' (http_Do E (fcm_request (fa_projectID a) token msg)) (\<lambda>resp w.
     if hs_status resp < 200 \<or> hs_status resp \<ge> 300
       then (Inl (ExtError (''FCMAdapter: unexpected status '' @ int_str (hs_status resp))), w)
     else (Inr (), w)))"

record apns_notification =
  an_DeviceToken :: string
  an_Topic :: string
  an_Payload :: json

record apns_response =
  ae_Sent :: bool
  ae_Reason :: string
  ae_ApnsID :: string

record 'w APNsAdapter =
  ap_client :: "apns_notification \<Rightarrow> (apns_response, 'w) nt_op"
  ap_topic :: string

text \<open>Parsing the p8 key and making the client (for the production or the sandbox servers) are the
  library's.\<close>

definition NewAPNsAdapter ::
    "(string \<Rightarrow> string + 'k) \<Rightarrow>
     ('k \<Rightarrow> string \<Rightarrow> string \<Rightarrow> bool \<Rightarrow> apns_notification \<Rightarrow> (apns_response, 'w) nt_op) \<Rightarrow>
     string \<Rightarrow> string \<Rightarrow> string \<Rightarrow> string \<Rightarrow> bool \<Rightarrow> nt_error + 'w APNsAdapter" where
  "NewAPNsAdapter parse_key new_client keyID teamID topic keyPEM production =
     (case parse_key keyPEM of
        Inl msg \<Rightarrow> Inl (Wrapped ''APNsAdapter: parse auth key'' (ExtError msg))
      | Inr authKey \<Rightarrow> Inr \<lparr>ap_client = new_client authKey keyID teamID production, ap_topic = topic\<rparr>)"

definition apns_payload :: "PushMessage \<Rightarrow> json" where
  "apns_payload msg =
     JObj ([(''aps'', JObj [(''alert'', JObj [(''title'', JStr (pm_Title msg)), (''body'', JStr (pm_Body msg))]),
                            (''sound'', JStr ''default'')])] @
           (if pm_Data msg = [] then [] else [(''data'', JObj (map (\<lambda>(k, v). (k, JStr v)) (pm_Data msg)))]))"

definition apns_Send :: "'w APNsAdapter \<Rightarrow> PushMessage \<Rightarrow> (unit, 'w) nt_op" where
  "apns_Send a msg =
     check_err ''APNsAdapter: push''
       (ap_client a \<lparr>an_DeviceToken = pm_Token msg, an_Topic = ap_topic a, an_Payload = apns_payload msg\<rparr>)
       (\<lambda>resp w.
     if \<not> ae_Sent resp
       then (Inl (ExtError (''APNsAdapter: not sent: '' @ ae_Reason resp @ '' ('' @ ae_ApnsID resp @ '')'')), w)
     else (Inr (), w))"

record 'w Dispatcher =
  dp_fcm :: "'w FCMAdapter option"
  dp_apns :: "'w APNsAdapter option"

definition dispatcher_Send :: "env \<Rightarrow> 'x go_state_scheme Dispatcher \<Rightarrow> 'x go_state_scheme PushPort" where
  "dispatcher_Send E d tokenType msg w =
     (if tokenType = ''fcm'' then
        (case dp_fcm d of
           None \<Rightarrow> (Inl (ExtError ''dispatcher: FCM adapter not configured''), w)
         | Some a \<Rightarrow> fcm_Send E a msg w)
      else if tokenType = ''apns'' then
        (case dp_apns d of
           None \<Rightarrow> (Inl (ExtError ''dispatcher: APNs adapter not configured''), w)
         | Some a \<Rightarrow> apns_Send a msg w)
      else (Inl (ExtError (''dispatcher: unknown token type '' @ tokenType)), w))"

definition NoopPushPort :: "'w PushPort" where
  "NoopPushPort tokenType msg w = (Inr (), w)"

subsection \<open>The channels leave the database alone\<close>

text \<open>The tables and the counter of fresh identifiers.\<close>

definition delivery_tab :: "nt_db \<Rightarrow> (NotificationRow list \<times> PreferenceRow list) \<times> nat" where
  "delivery_tab w = (nt_tables w, n_ids w)"

lemma delivery_tab_simps [simp]:
  "delivery_tab (w\<lparr>n_now := a\<rparr>) = delivery_tab w" "delivery_tab (w\<lparr>n_net := a\<rparr>) = delivery_tab w"
  "delivery_tab (w\<lparr>http_log := hl\<rparr>) = delivery_tab w" "delivery_tab (w\<lparr>smtp_log := sl\<rparr>) = delivery_tab w"
  "delivery_tab (w\<lparr>fcm_cache := fc\<rparr>) = delivery_tab w"
  by (simp_all add: delivery_tab_def)

lemma delivery_keeps_nt: "keeps delivery_tab m \<Longrightarrow> keeps nt_tables m"
  by (simp add: keeps_def delivery_tab_def)

lemma IsEnabled_keeps: "keeps delivery_tab (PreferenceRepo_IsEnabled E u a ch ev)"
  by (auto simp: keeps_def PreferenceRepo_IsEnabled_def GetPreferenceEnabled_def net_call_def Let_def
      split: net_outcome.splits list.splits prod.splits sum.splits if_splits)

lemma http_Do_keeps_nt: "keeps delivery_tab (http_Do E req)"
  by (auto simp: keeps_def http_Do_def Let_def split: sum.splits)

lemma centrifugo_keeps_nt: "keeps delivery_tab (centrifugo_Publish E a msg)"
  unfolding centrifugo_Publish_def by (rule keeps_check_err [OF http_Do_keeps_nt]) (auto simp: keeps_def)

lemma smtp_keeps_nt: "keeps delivery_tab (smtp_Send E a msg)"
  unfolding smtp_Send_def
  by (rule keeps_check_err)
     (auto simp: keeps_def smtp_SendMail_def net_call_def Let_def split: net_outcome.splits)

lemma fetchToken_keeps_nt: "keeps delivery_tab (fetchToken E s)"
  by (auto simp: keeps_def fetchToken_def time_Now_def Let_def split: sum.splits)

lemma fcm_Token_keeps_nt: "keeps delivery_tab (fcm_Token E s)"
proof -
  have fetch: "keeps delivery_tab (pass_err (fetchToken E s) (\<lambda>(tok, expiry) w.
      (Inr tok, w\<lparr>fcm_cache := Some \<lparr>ct_value = tok, ct_expiresAt = expiry\<rparr>\<rparr>)))"
    by (rule keeps_pass_err [OF fetchToken_keeps_nt]) (auto simp: keeps_def)
  then show ?thesis
    unfolding keeps_def fcm_Token_def Let_def by (auto simp: time_Now_def split: option.split)
qed

lemma dispatcher_keeps_nt:
  assumes "\<And>a. dp_fcm d = Some a \<Longrightarrow> keeps delivery_tab (fa_tokenSource a)"
    and "\<And>a n. dp_apns d = Some a \<Longrightarrow> keeps delivery_tab (ap_client a n)"
  shows "keeps delivery_tab (dispatcher_Send E d tt msg)"
proof -
  have "keeps delivery_tab (fcm_Send E a msg)" if "dp_fcm d = Some a" for a
    unfolding fcm_Send_def by (intro keeps_check_err assms(1) [OF that] http_Do_keeps_nt) (auto simp: keeps_def)
  moreover have "keeps delivery_tab (apns_Send a msg)" if "dp_apns d = Some a" for a
    unfolding apns_Send_def by (intro keeps_check_err assms(2) [OF that]) (auto simp: keeps_def)
  ultimately show ?thesis
    by (auto simp: keeps_def dispatcher_Send_def split: option.splits)
qed

end
