(* ===== verification/Notification_Http.thy ===== *)
theory Notification_Http
  imports Notification_Services Notification_Channels Org_Http
begin

text \<open>
  The edges of the notification service: the clients of the org and identity services and the HTTP API
  (\<^verbatim>\<open>infrastructure/http\<close>), the consumer of the org service's events (\<^verbatim>\<open>infrastructure/nats\<close>), the wiring
  (\<^verbatim>\<open>cmd/notification/main.go\<close>), and the interpretations of the contracts on it.
\<close>

subsection \<open>Clients of the other services\<close>

record IdentityClient =
  ic_baseURL :: string
  ic_apiKey :: string

record OrgClient =
  oc_baseURL :: string
  oc_apiKey :: string

definition internal_get :: "string \<Rightarrow> (string \<times> string) list \<Rightarrow> string \<Rightarrow> http_request" where
  "internal_get url query key =
     \<lparr>hr_method = ''GET'', hr_url = url, hr_query = query, hr_header = [(''X-Internal-Api-Key'', key)],
      hr_body = NoReqBody\<rparr>"

text \<open>A field that is a slice of structs.\<close>

definition dec_items :: "((string \<times> json) list \<Rightarrow> 'a option) \<Rightarrow> (string \<times> json) list \<Rightarrow> 'a list option" where
  "dec_items d obj =
     map_option (\<lambda>items. case items of None \<Rightarrow> [] | Some xs \<Rightarrow> xs)
       (dec_pointer (\<lambda>v. case v of JArr vs \<Rightarrow> those (map (dec_struct d) vs) | _ \<Rightarrow> None) None
          (json_field ''items'' obj))"

definition dec_device_item :: "(string \<times> json) list \<Rightarrow> NtDeviceToken option" where
  "dec_device_item obj =
     Option.bind (dec_string ''token_type'' obj) (\<lambda>token_type.
     Option.bind (dec_string ''token'' obj) (\<lambda>token.
     Option.bind (dec_string ''platform'' obj) (\<lambda>platform.
     Some \<lparr>nd_UserID = uuid_Nil, nd_AppID = uuid_Nil, nd_TokenType = token_type, nd_Token = token,
           nd_Platform = platform\<rparr>)))"

definition device_tokens_request :: "IdentityClient \<Rightarrow> string \<Rightarrow> string \<Rightarrow> http_request" where
  "device_tokens_request c userID appID =
     internal_get (ic_baseURL c @ ''/internal/users/'' @ userID @ ''/device-tokens'') [(''app_id'', appID)] (ic_apiKey c)"

definition FindTokensByUser :: "env \<Rightarrow> IdentityClient \<Rightarrow> 'x go_state_scheme DeviceQueryPort" where
  "FindTokensByUser E c userID appID =
     check_err ''IdentityClient.FindTokensByUser: request'' (http_Do E (device_tokens_request c userID appID)) (\<lambda>resp w.
     if hs_status resp = 404 then (Inr [], w)
     else if hs_status resp \<noteq> 200
       then (Inl (ExtError (''IdentityClient.FindTokensByUser: status '' @ int_str (hs_status resp))), w)
     else case Option.bind (hs_body resp) (dec_struct (dec_items dec_device_item)) of
            None \<Rightarrow> (Inl (Wrapped ''IdentityClient.FindTokensByUser: decode'' (ExtError ''json'')), w)
          | Some tokens \<Rightarrow> (Inr tokens, w))"

definition dec_member_item :: "(string \<times> json) list \<Rightarrow> (string \<times> string \<times> string) option" where
  "dec_member_item obj =
     Option.bind (dec_string ''group_id'' obj) (\<lambda>group_id.
     Option.bind (dec_string ''user_id'' obj) (\<lambda>user_id.
     Option.bind (dec_string ''app_id'' obj) (\<lambda>app_id. Some (group_id, user_id, app_id))))"

text \<open>An item with an identifier that does not parse is skipped.\<close>

definition parse_member :: "env \<Rightarrow> string \<times> string \<times> string \<Rightarrow> NtGroupMember option" where
  "parse_member E item =
     (case item of (group_id, user_id, app_id) \<Rightarrow>
        Option.bind (e_uuid_parse E group_id) (\<lambda>gid.
        Option.bind (e_uuid_parse E user_id) (\<lambda>uid.
        Option.bind (e_uuid_parse E app_id) (\<lambda>aid.
        Some \<lparr>ng_GroupID = gid, ng_UserID = uid, ng_AppID = aid\<rparr>))))"

definition group_members_request :: "env \<Rightarrow> OrgClient \<Rightarrow> uuid \<Rightarrow> http_request" where
  "group_members_request E c groupID =
     internal_get (oc_baseURL c @ ''/internal/groups/'' @ e_uuid_str E groupID @ ''/members'') [] (oc_apiKey c)"

definition nt_ListGroupMembers :: "env \<Rightarrow> OrgClient \<Rightarrow> 'x go_state_scheme GroupQueryPort" where
  "nt_ListGroupMembers E c groupID =
     check_err ''OrgClient.ListGroupMembers: request'' (http_Do E (group_members_request E c groupID)) (\<lambda>resp w.
     if hs_status resp = 404 then (Inr [], w)
     else if hs_status resp \<noteq> 200
       then (Inl (ExtError (''OrgClient.ListGroupMembers: status '' @ int_str (hs_status resp))), w)
     else case Option.bind (hs_body resp) (dec_struct (dec_items dec_member_item)) of
            None \<Rightarrow> (Inl (Wrapped ''OrgClient.ListGroupMembers: decode'' (ExtError ''json'')), w)
          | Some items \<Rightarrow> (Inr (List.map_filter (parse_member E) items), w))"

subsection \<open>The HTTP API\<close>

definition nt_writeProblem :: "int \<Rightarrow> string \<Rightarrow> reply" where
  "nt_writeProblem status detail =
     \<lparr>rp_status = status,
      rp_body = ProblemReply ''urn:mobpilot:notification:error'' (StatusText status) status detail\<rparr>"

definition nt_writeError :: "nt_error \<Rightarrow> reply" where
  "nt_writeError err =
     (let text = error_text nt_sentinel_text err in
      if errors_Is err (Sentinel ErrNotificationNotFound) then nt_writeProblem 404 text
      else if errors_Is err (Sentinel NtErrNotAuthorized) then nt_writeProblem 403 text
      else nt_writeProblem 500 ''internal server error'')"

definition nt_internal_error :: "nt_error \<Rightarrow> reply" where
  "nt_internal_error err = nt_writeProblem 500 ''internal server error''"

text \<open>\<open>strconv.Atoi\<close>: an optional sign and decimal digits, within 64 bits.\<close>

definition is_digit :: "char \<Rightarrow> bool" where
  "is_digit c = (48 \<le> (of_char c :: nat) \<and> (of_char c :: nat) \<le> 57)"

definition digits_value :: "string \<Rightarrow> int" where
  "digits_value ds = foldl (\<lambda>acc c. 10 * acc + (of_char c - 48)) 0 ds"

definition Atoi_digits :: "bool \<Rightarrow> string \<Rightarrow> int option" where
  "Atoi_digits neg ds =
     (if ds = [] \<or> \<not> list_all is_digit ds then None
      else let v = (if neg then - digits_value ds else digits_value ds)
           in if - (2 ^ 63) \<le> v \<and> v < 2 ^ 63 then Some v else None)"

definition Atoi :: "string \<Rightarrow> int option" where
  "Atoi s =
     (case s of
        [] \<Rightarrow> None
      | c # cs \<Rightarrow> if c = CHR ''-'' then Atoi_digits True cs
                  else if c = CHR ''+'' then Atoi_digits False cs else Atoi_digits False s)"

definition page_limit :: "string \<Rightarrow> int" where
  "page_limit l = (case Atoi l of Some v \<Rightarrow> if l \<noteq> [] \<and> 0 < v \<and> v \<le> 200 then v else 50 | None \<Rightarrow> 50)"

definition page_offset :: "string \<Rightarrow> int" where
  "page_offset o' = (case Atoi o' of Some v \<Rightarrow> if o' \<noteq> [] \<and> 0 \<le> v then v else 0 | None \<Rightarrow> 0)"

text \<open>Here a parse error is ignored and what \<open>uuid.Parse\<close> returns with it is used.\<close>

definition uuid_Parse_lax :: "env \<Rightarrow> string \<Rightarrow> uuid" where
  "uuid_Parse_lax E s = (case e_uuid_parse E s of Some i \<Rightarrow> i | None \<Rightarrow> e_uuid_partial E s)"

definition notificationToResponse :: "env \<Rightarrow> Notification \<Rightarrow> json" where
  "notificationToResponse E n =
     JObj ([(''id'', json_uuid E (nf_ID n)), (''user_id'', json_uuid E (nf_UserID n)),
            (''app_id'', json_uuid E (nf_AppID n))] @
           (case nf_GroupID n of None \<Rightarrow> [] | Some g \<Rightarrow> [(''group_id'', json_uuid E g)]) @
           (case nf_OrgID n of None \<Rightarrow> [] | Some i \<Rightarrow> [(''org_id'', json_uuid E i)]) @
           [(''title'', JStr (nf_Title n)), (''body'', JStr (nf_Body n)), (''data'', JObj (nf_Data n)),
            (''delivery_status'', JStr (nf_DeliveryStatus n))] @
           omitempty_time E ''read_at'' (nf_ReadAt n) @
           [(''created_at'', Format_RFC3339 E (nf_CreatedAt n))])"

definition preferenceToResponse :: "NotificationPreference \<Rightarrow> json" where
  "preferenceToResponse p =
     JObj [(''channel'', JStr (np_Channel p)), (''event_type'', JStr (np_EventType p)),
           (''enabled'', JBool (np_Enabled p))]"

definition dec_upsertPreferenceRequest :: "json \<Rightarrow> (string \<times> string \<times> bool) option" where
  "dec_upsertPreferenceRequest = dec_struct (\<lambda>obj.
     Option.bind (dec_string ''channel'' obj) (\<lambda>channel.
     Option.bind (dec_string ''event_type'' obj) (\<lambda>event_type.
     Option.bind (dec_bool ''enabled'' obj) (\<lambda>enabled. Some (channel, event_type, enabled)))))"

record 'w NtHandler =
  nh_notifications :: "'w NotificationService"
  nh_preferences :: "'w PreferenceService"

definition listNotifications :: "env \<Rightarrow> 'w NtHandler \<Rightarrow> 'w handler" where
  "listNotifications E h =
     require_claims nt_writeProblem (\<lambda>claims r.
     respond nt_internal_error (\<lambda>ns. writeJSON 200 (items_json (notificationToResponse E) ns))
       (ListForUser (nh_notifications h) (uuid_Parse_lax E (c_Subject claims)) (uuid_Parse_lax E (c_AppID claims))
          (page_limit (rq_query r ''limit'')) (page_offset (rq_query r ''offset''))) r)"

definition markRead :: "env \<Rightarrow> 'w NtHandler \<Rightarrow> 'w handler" where
  "markRead E h =
     require_claims nt_writeProblem (\<lambda>claims.
     uuid_param E nt_writeProblem ''notificationID'' (\<lambda>nid.
     respond nt_writeError (\<lambda>_. write_status 204)
       (MarkRead (nh_notifications h)
          \<lparr>mk_NotificationID = nid, mk_UserID = uuid_Parse_lax E (c_Subject claims)\<rparr>)))"

definition getPreferences :: "env \<Rightarrow> 'w NtHandler \<Rightarrow> 'w handler" where
  "getPreferences E h =
     require_claims nt_writeProblem (\<lambda>claims.
     respond nt_internal_error (\<lambda>ps. writeJSON 200 (items_json preferenceToResponse ps))
       (GetPreferences (nh_preferences h) (uuid_Parse_lax E (c_Subject claims)) (uuid_Parse_lax E (c_AppID claims))))"

definition upsertPreference :: "env \<Rightarrow> 'w NtHandler \<Rightarrow> 'w handler" where
  "upsertPreference E h =
     require_claims nt_writeProblem (\<lambda>claims.
     decode_body nt_writeProblem dec_upsertPreferenceRequest (\<lambda>(channel, event_type, enabled).
     respond nt_internal_error (\<lambda>_. write_status 204)
       (UpsertPreference (nh_preferences h)
          \<lparr>upc_UserID = uuid_Parse_lax E (c_Subject claims), upc_AppID = uuid_Parse_lax E (c_AppID claims),
           upc_Channel = channel, upc_EventType = event_type, upc_Enabled = enabled\<rparr>)))"

definition nt_Mount :: "env \<Rightarrow> 'w NtHandler \<Rightarrow> 'w route list" where
  "nt_Mount E h =
     [(''GET'', ''/v1/notifications'', listNotifications E h),
      (''POST'', ''/v1/notifications/{notificationID}/read'', markRead E h),
      (''GET'', ''/v1/notifications/preferences'', getPreferences E h),
      (''PUT'', ''/v1/notifications/preferences'', upsertPreference E h)]"

lemmas nt_handler_defs = listNotifications_def markRead_def getPreferences_def upsertPreference_def

subsection \<open>The event consumer\<close>

record envelope =
  ev_EventType :: string
  ev_OccurredAt :: time
  ev_Data :: "json option"

text \<open>A \<open>time.Time\<close> field is a string in the environment's layout; its zero value is not used.\<close>

definition dec_envelope :: "env \<Rightarrow> json \<Rightarrow> envelope option" where
  "dec_envelope E = dec_struct (\<lambda>obj.
     Option.bind (dec_string ''event_type'' obj) (\<lambda>event_type.
     Option.bind (dec_values (\<lambda>v. case v of JStr s \<Rightarrow> e_time_parse E s | _ \<Rightarrow> None) 0
                    (json_field ''occurred_at'' obj)) (\<lambda>occurred_at.
     Some \<lparr>ev_EventType = event_type, ev_OccurredAt = occurred_at, ev_Data = dec_raw ''data'' obj\<rparr>)))"

record memberAddedData =
  ma_GroupID :: string
  ma_OrgID :: string
  ma_AppID :: string
  ma_UserID :: string

definition dec_memberAddedData :: "json \<Rightarrow> memberAddedData option" where
  "dec_memberAddedData = dec_struct (\<lambda>obj.
     Option.bind (dec_string ''group_id'' obj) (\<lambda>group_id.
     Option.bind (dec_string ''org_id'' obj) (\<lambda>org_id.
     Option.bind (dec_string ''app_id'' obj) (\<lambda>app_id.
     Option.bind (dec_string ''user_id'' obj) (\<lambda>user_id.
     Some \<lparr>ma_GroupID = group_id, ma_OrgID = org_id, ma_AppID = app_id, ma_UserID = user_id\<rparr>)))))"

record groupDeletedData =
  gd_GroupID :: string
  gd_OrgID :: string
  gd_AppID :: string

definition dec_groupDeletedData :: "json \<Rightarrow> groupDeletedData option" where
  "dec_groupDeletedData = dec_struct (\<lambda>obj.
     Option.bind (dec_string ''group_id'' obj) (\<lambda>group_id.
     Option.bind (dec_string ''org_id'' obj) (\<lambda>org_id.
     Option.bind (dec_string ''app_id'' obj) (\<lambda>app_id.
     Some \<lparr>gd_GroupID = group_id, gd_OrgID = org_id, gd_AppID = app_id\<rparr>))))"

definition apostrophe :: char where
  "apostrophe = CHR 0x27"

definition handleMemberAdded ::
    "env \<Rightarrow> 'x go_state_scheme NotificationService \<Rightarrow> envelope \<Rightarrow> (unit, 'x go_state_scheme) nt_op" where
  "handleMemberAdded E s ev w =
     (case Option.bind (ev_Data ev) dec_memberAddedData of
        None \<Rightarrow> (Inr (), w)
      | Some data \<Rightarrow>
          (case (e_uuid_parse E (ma_UserID data), e_uuid_parse E (ma_AppID data)) of
             (Some userID, Some appID) \<Rightarrow>
               pass_err (SendToUser E s
                 \<lparr>su_UserID = userID, su_AppID = appID, su_OrgID = Some (uuid_Parse_lax E (ma_OrgID data)),
                  su_GroupID = Some (uuid_Parse_lax E (ma_GroupID data)), su_EventType = ev_EventType ev,
                  su_Title = ''You joined a group'',
                  su_Body = ''Welcome! You'' @ [apostrophe] @ ''ve been added to a new group.'',
                  su_Data = Some [(''group_id'', JStr (ma_GroupID data))]\<rparr>) (\<lambda>_ w. (Inr (), w)) w
           | _ \<Rightarrow> (Inr (), w)))"

definition handleGroupDeleted ::
    "env \<Rightarrow> 'x go_state_scheme NotificationService \<Rightarrow> (nat \<Rightarrow> nat) \<Rightarrow> envelope \<Rightarrow> (unit, 'x go_state_scheme) nt_op" where
  "handleGroupDeleted E s sched ev w =
     (case Option.bind (ev_Data ev) dec_groupDeletedData of
        None \<Rightarrow> (Inr (), w)
      | Some data \<Rightarrow>
          (case (e_uuid_parse E (gd_GroupID data), e_uuid_parse E (gd_AppID data)) of
             (Some groupID, Some appID) \<Rightarrow>
               SendToGroup E s sched
                 \<lparr>sg_GroupID = groupID, sg_AppID = appID, sg_OrgID = uuid_Parse_lax E (gd_OrgID data),
                  sg_EventType = ev_EventType ev, sg_Title = ''Group ended'',
                  sg_Body = ''The group session has ended.'',
                  sg_Data = Some [(''group_id'', JStr (gd_GroupID data))]\<rparr> w
           | _ \<Rightarrow> (Inr (), w)))"

text \<open>A message is its payload; one that is not JSON is \<open>None\<close>.\<close>

definition subscriber_handle ::
    "env \<Rightarrow> 'x go_state_scheme NotificationService \<Rightarrow> (nat \<Rightarrow> nat) \<Rightarrow> json option \<Rightarrow> (unit, 'x go_state_scheme) nt_op" where
  "subscriber_handle E s sched msg w =
     (case Option.bind msg (dec_envelope E) of
        None \<Rightarrow> (Inr (), w)
      | Some ev \<Rightarrow>
          if ev_EventType ev = ''org.group.member_added'' then handleMemberAdded E s ev w
          else if ev_EventType ev = ''org.group.deleted'' then handleGroupDeleted E s sched ev w
          else (Inr (), w))"

text \<open>The consumer acknowledges what was handled and asks for redelivery of what was not.\<close>

datatype acknowledgement = Ack | Nak

definition subscriber_consume ::
    "env \<Rightarrow> 'x go_state_scheme NotificationService \<Rightarrow> (nat \<Rightarrow> nat) \<Rightarrow> json option \<Rightarrow> 'x go_state_scheme \<Rightarrow>
     acknowledgement \<times> 'x go_state_scheme" where
  "subscriber_consume E s sched msg w =
     (case subscriber_handle E s sched msg w of
        (Inl err, w1) \<Rightarrow> (Nak, w1)
      | (Inr _, w1) \<Rightarrow> (Ack, w1))"

subsection \<open>Wiring\<close>

record nt_config =
  SMTP_HOST :: string
  SMTP_PORT :: string
  SMTP_FROM :: string
  SMTP_USER :: string
  SMTP_PASSWORD :: string
  CENTRIFUGO_API_URL :: string
  CENTRIFUGO_API_KEY :: string
  NT_INTERNAL_API_KEY :: string
  ORG_SERVICE_URL :: string
  IDENTITY_SERVICE_URL :: string

definition envOr :: "string \<Rightarrow> string \<Rightarrow> string" where
  "envOr v fallback = (if v \<noteq> [] then v else fallback)"

definition nt_email_port :: "env \<Rightarrow> nt_config \<Rightarrow> nt_db EmailPort" where
  "nt_email_port E cfg =
     (if SMTP_HOST cfg \<noteq> []
      then smtp_Send E (NewSMTPAdapter (SMTP_HOST cfg) (envOr (SMTP_PORT cfg) ''1025'')
             (envOr (SMTP_FROM cfg) ''no-reply@mobpilot.dev'') (SMTP_USER cfg) (SMTP_PASSWORD cfg))
      else NoopEmailPort)"

definition nt_realtime_port :: "env \<Rightarrow> nt_config \<Rightarrow> 'x go_state_scheme RealtimePort" where
  "nt_realtime_port E cfg =
     (if CENTRIFUGO_API_URL cfg \<noteq> []
      then centrifugo_Publish E \<lparr>ca_apiURL = CENTRIFUGO_API_URL cfg, ca_apiKey = CENTRIFUGO_API_KEY cfg\<rparr>
      else NoopRealtimePort)"

text \<open>The service over a push port: main.go plugs in the one that discards, a deployment with
  credentials the dispatcher.\<close>

definition nt_service :: "env \<Rightarrow> nt_config \<Rightarrow> nt_db PushPort \<Rightarrow> nt_db NotificationService" where
  "nt_service E cfg push =
     \<lparr>nt_notifications = NewNotificationRepo E, nt_preferences = NewPreferenceRepo E, nt_push = push,
      nt_email = nt_email_port E cfg, nt_realtime = nt_realtime_port E cfg,
      nt_groups = nt_ListGroupMembers E \<lparr>oc_baseURL = ORG_SERVICE_URL cfg, oc_apiKey = NT_INTERNAL_API_KEY cfg\<rparr>,
      nt_devices = FindTokensByUser E \<lparr>ic_baseURL = IDENTITY_SERVICE_URL cfg, ic_apiKey = NT_INTERNAL_API_KEY cfg\<rparr>\<rparr>"

definition nt_main :: "env \<Rightarrow> nt_config \<Rightarrow> nt_db NtHandler" where
  "nt_main E cfg = \<lparr>nh_notifications = nt_service E cfg NoopPushPort,
                    nh_preferences = \<lparr>ps_preferences = NewPreferenceRepo E\<rparr>\<rparr>"

lemma nt_service_sel [simp]:
  "nt_notifications (nt_service E cfg p) = NewNotificationRepo E"
  "nt_preferences (nt_service E cfg p) = NewPreferenceRepo E"
  "nt_push (nt_service E cfg p) = p"
  by (simp_all add: nt_service_def)

subsection \<open>The contracts on the wiring\<close>

lemma FindTokensByUser_keeps_nt: "keeps delivery_tab (FindTokensByUser E c u a)"
  unfolding FindTokensByUser_def
  by (rule keeps_check_err [OF http_Do_keeps_nt]) (auto simp: keeps_def split: option.split)

lemma ListGroupMembers_keeps_nt: "keeps delivery_tab (nt_ListGroupMembers E c g)"
  unfolding nt_ListGroupMembers_def
  by (rule keeps_check_err [OF http_Do_keeps_nt]) (auto simp: keeps_def split: option.split)

lemma nt_service_channels:
  assumes "\<And>tt m. keeps delivery_tab (push tt m)"
  shows "notification_channels (nt_service E cfg push) delivery_tab"
  by unfold_locales
     (auto simp: assms nt_service_def NewPreferenceRepo_def nt_email_port_def nt_realtime_port_def
        intro: IsEnabled_keeps smtp_keeps_nt centrifugo_keeps_nt FindTokensByUser_keeps_nt
          ListGroupMembers_keeps_nt,
      auto simp: keeps_def NoopEmailPort_def NoopRealtimePort_def)

lemma Noop_keeps: "keeps delivery_tab (NoopPushPort tt m)"
  by (simp add: keeps_def NoopPushPort_def)

interpretation nt_channels: notification_channels "nt_service E cfg NoopPushPort" delivery_tab for E cfg
  by (rule nt_service_channels [OF Noop_keeps])

interpretation nt_svc: notification_service "NewNotificationRepo E" nt_tables notification_view
    "stored_notification E" "nt_service E cfg NoopPushPort" for E cfg
  by unfold_locales
     (rule nt_channels.pref_keeps [THEN delivery_keeps_nt] nt_channels.push_keeps [THEN delivery_keeps_nt]
        nt_channels.email_keeps [THEN delivery_keeps_nt] nt_channels.realtime_keeps [THEN delivery_keeps_nt]
        nt_channels.groups_keeps [THEN delivery_keeps_nt] nt_channels.devices_keeps [THEN delivery_keeps_nt]
      | simp)+

end
