(* ===== verification/Notification_Fanout.thy ===== *)
theory Notification_Fanout
  imports Notification_Http "HOL-Library.Multiset"
begin

text \<open>
  The fan-out of a group notification under every schedule: how many goroutines run, that it ends, and
  which rows it writes. The invariant of the interleaving says where each member of the group is:
  still waiting, about to be saved, saved, or lost because its save failed.
\<close>

subsection \<open>States of a schedule\<close>

fun fan_iter ::
    "env \<Rightarrow> 'x go_state_scheme NotificationService \<Rightarrow> (NtGroupMember \<Rightarrow> SendToUserCommand) \<Rightarrow> (nat \<Rightarrow> nat) \<Rightarrow>
     nat \<Rightarrow> 'x go_state_scheme fan \<Rightarrow> 'x go_state_scheme fan" where
  "fan_iter E s mk sched 0 st = st"
| "fan_iter E s mk sched (Suc k) st =
     (if fst st = [] \<and> fst (snd st) = [] then st
      else fan_iter E s mk (\<lambda>j. sched (Suc j)) k (fan_next E s mk (sched 0) st))"

lemma fan_run_iter: "\<exists>k. fan_run E s mk sched st = fan_iter E s mk sched k st"
proof (induction E s mk sched st rule: fan_run.induct)
  case (1 E s mk sched st)
  show ?case
  proof (cases "fst st = [] \<and> fst (snd st) = []")
    case True
    then show ?thesis by (intro exI [of _ 0]) (simp add: fan_run.simps)
  next
    case False
    with 1 obtain k where "fan_run E s mk (\<lambda>k. sched (Suc k)) (fan_next E s mk (sched 0) st) =
        fan_iter E s mk (\<lambda>k. sched (Suc k)) k (fan_next E s mk (sched 0) st)" by blast
    with False show ?thesis by (intro exI [of _ "Suc k"]) (subst fan_run.simps, auto)
  qed
qed

lemma fan_next_running:
  assumes "length (fst (snd st)) \<le> fanOutConcurrency" and "fst st \<noteq> [] \<or> fst (snd st) \<noteq> []"
  shows "length (fst (snd (fan_next E s mk c st))) \<le> fanOutConcurrency"
  using assms(2) by (cases rule: fan_next_cases [where E = E and s = s and mk = mk and c = c]) (use assms(1) in auto)

lemma fan_iter_running:
  "length (fst (snd st)) \<le> fanOutConcurrency \<Longrightarrow>
   length (fst (snd (fan_iter E s mk sched k st))) \<le> fanOutConcurrency"
proof (induction k arbitrary: st sched)
  case (Suc k)
  then show ?case by (simp add: fan_next_running)
qed simp

subsection \<open>What a save does to the rows\<close>

definition notification_row :: "env \<Rightarrow> Notification \<Rightarrow> NotificationRow" where
  "notification_row E n =
     \<lparr>rn_id = nf_ID n, rn_user_id = nf_UserID n, rn_app_id = nf_AppID n, rn_group_id = nf_GroupID n,
      rn_org_id = nf_OrgID n, rn_title = nf_Title n, rn_body = nf_Body n, rn_data = JObj (nf_Data n),
      rn_delivery_status = nf_DeliveryStatus n, rn_read_at = None, rn_created_at = e_tsz E (nf_CreatedAt n)\<rparr>"

lemma Save_rows:
  assumes "NotificationRepo_Save E n w = (r, w')"
  shows "notifications w' = notifications w \<and> isl r \<or> notifications w' = notifications w @ [notification_row E n]"
    and "notification_preferences w' = notification_preferences w" and "n_ids w' = n_ids w"
    and "nf_ID n \<in> rn_id ` set (notifications w) \<Longrightarrow> notifications w' = notifications w"
    and "net_up E \<Longrightarrow> nf_ID n \<notin> rn_id ` set (notifications w) \<Longrightarrow> r = Inr ()"
  using assms
  by (auto simp: NotificationRepo_Save_def InsertNotification_def conv_def net_call_def Let_def net_up_def
      notification_row_def split: net_outcome.splits if_splits)

lemma command_notification_eq:
  "command_notification E cmd w =
     (\<lparr>nf_ID = e_newid E (n_ids w), nf_UserID = su_UserID cmd, nf_AppID = su_AppID cmd,
       nf_GroupID = su_GroupID cmd, nf_OrgID = su_OrgID cmd, nf_Title = su_Title cmd, nf_Body = su_Body cmd,
       nf_Data = (case su_Data cmd of None \<Rightarrow> [] | Some d \<Rightarrow> d), nf_DeliveryStatus = DeliveryPending,
       nf_ReadAt = None, nf_CreatedAt = e_now E (n_now w)\<rparr>,
      w\<lparr>n_ids := Suc (n_ids w), n_now := Suc (n_now w)\<rparr>)"
  by (auto simp: command_notification_def NewNotification_eq split: option.split)

subsection \<open>The invariant of the interleaving\<close>

definition member_recipient :: "NtGroupMember \<Rightarrow> uuid \<times> uuid" where
  "member_recipient m = (ng_UserID m, ng_AppID m)"

definition row_recipient :: "NotificationRow \<Rightarrow> uuid \<times> uuid" where
  "row_recipient r = (rn_user_id r, rn_app_id r)"

definition start_recipient :: "task \<Rightarrow> (uuid \<times> uuid) multiset" where
  "start_recipient t = (case t of TStart cmd \<Rightarrow> {#(su_UserID cmd, su_AppID cmd)#} | _ \<Rightarrow> {#})"

text \<open>The next identifiers drawn are not in use, and none is drawn twice.\<close>

definition fresh_ids :: "env \<Rightarrow> nat \<Rightarrow> nt_db \<Rightarrow> bool" where
  "fresh_ids E k w \<longleftrightarrow>
     (let new = map (e_newid E) [n_ids w ..< n_ids w + k]
      in distinct new \<and> set new \<inter> rn_id ` set (notifications w) = {})"

text \<open>The row a member's notification is stored as.\<close>

definition row_of :: "SendToUserCommand \<Rightarrow> NotificationRow \<Rightarrow> bool" where
  "row_of cmd r \<longleftrightarrow> rn_user_id r = su_UserID cmd \<and> rn_app_id r = su_AppID cmd \<and>
     rn_group_id r = su_GroupID cmd \<and> rn_org_id r = su_OrgID cmd \<and> rn_title r = su_Title cmd \<and>
     rn_body r = su_Body cmd \<and> rn_data r = JObj (case su_Data cmd of None \<Rightarrow> [] | Some d \<Rightarrow> d) \<and>
     rn_delivery_status r = DeliveryPending \<and> rn_read_at r = None"

definition fan_inv ::
    "env \<Rightarrow> (NtGroupMember \<Rightarrow> SendToUserCommand) \<Rightarrow> NtGroupMember list \<Rightarrow> bool \<Rightarrow> NotificationRow list \<Rightarrow> nt_db fan \<Rightarrow> bool" where
  "fan_inv E mk all good base st \<longleftrightarrow>
     (case st of (ms, ts, w) \<Rightarrow>
        set ms \<subseteq> set all \<and> (\<forall>cmd. TStart cmd \<in> set ts \<longrightarrow> cmd \<in> mk ` set all) \<and>
        (\<exists>new lost. notifications w = base @ new \<and>
           mset (map row_recipient new) + sum_list (map start_recipient ts) + mset (map member_recipient ms) + lost =
             mset (map member_recipient all) \<and>
           (\<forall>r \<in> set new. \<exists>m \<in> set all. row_of (mk m) r) \<and>
           (good \<longrightarrow> lost = {#} \<and> net_up E \<and> fresh_ids E (length all - length new) w)))"

lemma fan_invE:
  assumes "fan_inv E mk all good base (ms, ts, w)"
  obtains new lost where "set ms \<subseteq> set all" "\<And>cmd. TStart cmd \<in> set ts \<Longrightarrow> cmd \<in> mk ` set all"
    "notifications w = base @ new"
    "mset (map row_recipient new) + sum_list (map start_recipient ts) + mset (map member_recipient ms) + lost =
       mset (map member_recipient all)"
    "\<forall>r \<in> set new. \<exists>m \<in> set all. row_of (mk m) r" "good \<longrightarrow> lost = {#} \<and> net_up E \<and> fresh_ids E (length all - length new) w"
  using assms unfolding fan_inv_def by auto

lemma fan_invI:
  assumes "set ms \<subseteq> set all" "\<And>cmd. TStart cmd \<in> set ts \<Longrightarrow> cmd \<in> mk ` set all"
    "notifications w = base @ new"
    "mset (map row_recipient new) + sum_list (map start_recipient ts) + mset (map member_recipient ms) + lost =
       mset (map member_recipient all)"
    "\<forall>r \<in> set new. \<exists>m \<in> set all. row_of (mk m) r" "good \<longrightarrow> lost = {#} \<and> net_up E \<and> fresh_ids E (length all - length new) w"
  shows "fan_inv E mk all good base (ms, ts, w)"
  using assms unfolding fan_inv_def by blast

lemma fresh_ids_tab: "delivery_tab w' = delivery_tab w \<Longrightarrow> fresh_ids E k w' = fresh_ids E k w"
  by (simp add: fresh_ids_def delivery_tab_def nt_tables_def)

text \<open>A task that is past its save leaves the rows alone.\<close>

lemma not_start_recipient: "(\<And>cmd. t \<noteq> TStart cmd) \<Longrightarrow> start_recipient t = {#}"
  by (cases t) (auto simp: start_recipient_def)

lemma task_step_not_start: "task_step E s t w = (Some t', w') \<Longrightarrow> t' \<noteq> TStart cmd"
  by (cases "(E, s, t, w)" rule: task_step.cases) (auto split: prod.splits sum.splits if_splits)

lemma SaveStart_rows:
  assumes repo: "nt_notifications s = NewNotificationRepo E"
    and step: "task_step E s (TStart cmd) w = (r, w')"
  shows "(\<exists>row. row_of cmd row \<and> notifications w' = notifications w @ [row]) \<or>
      (r = None \<and> notifications w' = notifications w)"
    and "net_up E \<Longrightarrow> fresh_ids E (Suc k) w \<Longrightarrow> fresh_ids E k w' \<and> notifications w' \<noteq> notifications w"
proof -
  obtain n w1 where c: "command_notification E cmd w = (n, w1)" by (cases "command_notification E cmd w")
  obtain q w2 where save: "NotificationRepo_Save E n w1 = (q, w2)" by (cases "NotificationRepo_Save E n w1")
  have n: "n = fst (command_notification E cmd w)" and w1: "w1 = w\<lparr>n_ids := Suc (n_ids w), n_now := Suc (n_now w)\<rparr>"
    using c by (simp_all add: command_notification_eq)
  from step c save repo have w': "w' = w2" and r: "r = (if isl q then None else Some (TPush n (su_EventType cmd)))"
    by (auto simp: NewNotificationRepo_def split: sum.splits)
  have row: "row_of cmd (notification_row E n)"
    by (simp add: n row_of_def notification_row_def command_notification_eq)
  note rows = Save_rows [OF save]
  show "(\<exists>row. row_of cmd row \<and> notifications w' = notifications w @ [row]) \<or>
      (r = None \<and> notifications w' = notifications w)"
    using rows(1) row w1 w' r by auto
  assume up: "net_up E" and fresh: "fresh_ids E (Suc k) w"
  have id: "nf_ID n = e_newid E (n_ids w)" by (simp add: n command_notification_eq)
  have ids: "[n_ids w ..< n_ids w + Suc k] = n_ids w # [Suc (n_ids w) ..< Suc (n_ids w) + k]"
    by (simp add: upt_conv_Cons)
  note fresh = fresh [unfolded fresh_ids_def Let_def ids]
  from fresh have new: "nf_ID n \<notin> rn_id ` set (notifications w1)" by (simp add: id w1 del: upt_Suc)
  with rows(1) rows(5) [OF up new] have w2: "notifications w2 = notifications w @ [notification_row E n]"
    by (auto simp: w1)
  have "n_ids w' = Suc (n_ids w)" using rows(3) by (simp add: w' w1)
  with fresh w2 show "fresh_ids E k w' \<and> notifications w' \<noteq> notifications w"
    by (auto simp: fresh_ids_def Let_def w' notification_row_def id simp del: upt_Suc)
qed

locale notification_fanout = notification_channels s delivery_tab
  for s :: "nt_db NotificationService" +
  fixes E :: env
  assumes svc_repo: "nt_notifications s = NewNotificationRepo E"
begin

lemma step_inv:
  assumes inv: "fan_inv E mk all good base (ms, ts, w)" and a: "a < length ts"
    and step: "task_step E s (ts ! a) w = (r, w')"
    and rest: "sum_list (map start_recipient ts') + start_recipient (ts ! a) = sum_list (map start_recipient ts)"
    and starts: "\<And>cmd. TStart cmd \<in> set ts' \<Longrightarrow> TStart cmd \<in> set ts"
    and mk: "\<And>m. su_UserID (mk m) = ng_UserID m \<and> su_AppID (mk m) = ng_AppID m"
  shows "fan_inv E mk all good base (ms, ts', w')"
  using inv
proof (rule fan_invE)
  fix new lost
  assume ms: "set ms \<subseteq> set all" and cmds: "\<And>cmd. TStart cmd \<in> set ts \<Longrightarrow> cmd \<in> mk ` set all"
    and w: "notifications w = base @ new"
    and sum: "mset (map row_recipient new) + sum_list (map start_recipient ts) + mset (map member_recipient ms) + lost =
       mset (map member_recipient all)"
    and rows: "\<forall>r \<in> set new. \<exists>m \<in> set all. row_of (mk m) r"
    and good: "good \<longrightarrow> lost = {#} \<and> net_up E \<and> fresh_ids E (length all - length new) w"
  show ?thesis
  proof (cases "\<exists>cmd. ts ! a = TStart cmd")
    case False
    then have tab: "delivery_tab w' = delivery_tab w" using task_step_tab [OF step] by blast
    then have "notifications w' = base @ new" using w by (simp add: delivery_tab_def nt_tables_def)
    moreover have "start_recipient (ts ! a) = {#}" using False by (intro not_start_recipient) auto
    ultimately show ?thesis
      using ms cmds starts sum rest rows good fresh_ids_tab [OF tab] by (intro fan_invI) auto
  next
    case True
    then obtain cmd where cmd: "ts ! a = TStart cmd" by blast
    then have "cmd \<in> mk ` set all" using cmds a by (metis nth_mem)
    then obtain m where m: "m \<in> set all" "cmd = mk m" by auto
    note start = SaveStart_rows [OF svc_repo step [unfolded cmd]]
    have one: "start_recipient (ts ! a) = {#(su_UserID cmd, su_AppID cmd)#}" by (simp add: cmd start_recipient_def)
    have "length new + size (sum_list (map start_recipient ts)) + length ms + size lost = length all"
      using arg_cong [OF sum, of size] by simp
    then have room: "length new < length all" by (simp flip: rest add: one)
    from start(1) show ?thesis
    proof (elim disjE exE conjE)
      fix row assume row: "row_of cmd row" and w': "notifications w' = notifications w @ [row]"
      have "row_recipient row = (su_UserID cmd, su_AppID cmd)" using row by (simp add: row_of_def row_recipient_def)
      then have "mset (map row_recipient (new @ [row])) + sum_list (map start_recipient ts') +
          mset (map member_recipient ms) + lost = mset (map member_recipient all)"
        using sum one by (simp flip: rest add: ac_simps)
      moreover have "good \<longrightarrow> lost = {#} \<and> net_up E \<and> fresh_ids E (length all - length (new @ [row])) w'"
        using good start(2) [of "length all - Suc (length new)"] room by (simp add: Suc_diff_Suc)
      ultimately show ?thesis
        using ms cmds starts w w' rows row m by (intro fan_invI [where new = "new @ [row]"]) auto
    next
      assume "r = None" and w': "notifications w' = notifications w"
      have "mset (map row_recipient new) + sum_list (map start_recipient ts') + mset (map member_recipient ms) +
          (lost + {#(su_UserID cmd, su_AppID cmd)#}) = mset (map member_recipient all)"
        using sum one by (simp flip: rest add: ac_simps)
      then show ?thesis
        using ms cmds starts w w' rows good start(2) [of "length all - Suc (length new)"] room
        by (intro fan_invI [where new = new and lost = "lost + {#(su_UserID cmd, su_AppID cmd)#}"])
             (auto simp: Suc_diff_Suc)
    qed
  qed
qed

lemma fan_next_inv:
  assumes inv: "fan_inv E mk all good base st" and "fst st \<noteq> [] \<or> fst (snd st) \<noteq> []"
    and mk: "\<And>m. su_UserID (mk m) = ng_UserID m \<and> su_AppID (mk m) = ng_AppID m"
  shows "fan_inv E mk all good base (fan_next E s mk c st)"
  using assms(2)
proof (cases rule: fan_next_cases [where E = E and s = s and mk = mk and c = c])
  case (finish ms ts w a w')
  have "fan_inv E mk all good base (ms, take a ts @ drop (Suc a) ts, w')"
    using inv finish(1) mk
    by (intro step_inv [OF _ finish(2,3) sum_list_delete [OF finish(2)]]) (auto dest: in_set_takeD in_set_dropD)
  with finish show ?thesis by simp
next
  case (progress ms ts w a t w')
  have t: "t \<noteq> TStart cmd" for cmd using task_step_not_start [OF progress(3)] .
  then have "start_recipient t = {#}" by (rule not_start_recipient)
  with sum_list_put [OF progress(2), of start_recipient t]
  have "fan_inv E mk all good base (ms, ts[a := t], w')"
    using inv progress(1) mk t
    by (intro step_inv [OF _ progress(2,3)]) (auto dest: set_update_subset_insert [THEN subsetD])
  with progress show ?thesis by simp
next
  case (spawn m ms ts w)
  from inv [unfolded spawn(1)] have "fan_inv E mk all good base (ms, ts @ [TStart (mk m)], w)"
  proof (rule fan_invE)
    fix new lost
    assume *: "set (m # ms) \<subseteq> set all" "\<And>cmd. TStart cmd \<in> set ts \<Longrightarrow> cmd \<in> mk ` set all"
      "notifications w = base @ new" "\<forall>r \<in> set new. \<exists>m \<in> set all. row_of (mk m) r"
      "good \<longrightarrow> lost = {#} \<and> net_up E \<and> fresh_ids E (length all - length new) w"
      and "mset (map row_recipient new) + sum_list (map start_recipient ts) + mset (map member_recipient (m # ms)) +
        lost = mset (map member_recipient all)"
    then have "mset (map row_recipient new) + sum_list (map start_recipient (ts @ [TStart (mk m)])) +
        mset (map member_recipient ms) + lost = mset (map member_recipient all)"
      by (simp add: start_recipient_def member_recipient_def mk)
    with * show ?thesis by (intro fan_invI [where new = new and lost = lost]) auto
  qed
  with spawn show ?thesis by simp
qed

lemma fan_run_inv:
  assumes "fan_inv E mk all good base st"
    and "\<And>m. su_UserID (mk m) = ng_UserID m \<and> su_AppID (mk m) = ng_AppID m"
  shows "fan_inv E mk all good base (fan_run E s mk sched st)"
  by (rule fan_run_invariant [where P = "fan_inv E mk all good base"]) (use assms fan_next_inv in blast)+

end

end
