(* ===== verification/Notification_Correct.thy ===== *)
theory Notification_Correct
  imports Notification_Fanout Identity_Correct
begin

text \<open>
  The deliveries of the notification service: one notification, alone and step by step, and the
  notification to a group under every schedule. Also the example world of the service's witnesses.
\<close>

subsection \<open>The wiring with a push dispatcher\<close>

text \<open>What main.go's comment asks for in production: a dispatcher with a Firebase adapter.\<close>

definition fcm_push :: "env \<Rightarrow> string \<Rightarrow> ServiceAccountTokenSource \<Rightarrow> nt_db PushPort" where
  "fcm_push E project src =
     dispatcher_Send E \<lparr>dp_fcm = Some \<lparr>fa_projectID = project, fa_tokenSource = fcm_Token E src\<rparr>, dp_apns = None\<rparr>"

lemma fcm_push_keeps: "keeps delivery_tab (fcm_push E project src tt m)"
  unfolding fcm_push_def by (rule dispatcher_keeps_nt) (auto intro: fcm_Token_keeps_nt)

interpretation noop_fan: notification_fanout "nt_service E cfg NoopPushPort" E for E cfg
  by unfold_locales simp

interpretation fcm_fan: notification_fanout "nt_service E cfg (fcm_push E project src)" E for E cfg project src
  by (intro notification_fanout.intro nt_service_channels fcm_push_keeps notification_fanout_axioms.intro) simp

abbreviation "nt_svc_main E cfg \<equiv> nt_service E cfg NoopPushPort"

subsection \<open>A concrete world\<close>

definition nt_empty :: nt_db where
  "nt_empty = \<lparr>n_now = 0, n_ids = 0, n_rand = 0, n_net = 0, http_log = [], js_log = [],
     notifications = [], notification_preferences = [], smtp_log = [], fcm_cache = None\<rparr>"

definition nt_cfg :: nt_config where
  "nt_cfg = \<lparr>SMTP_HOST = [], SMTP_PORT = [], SMTP_FROM = [], SMTP_USER = [], SMTP_PASSWORD = [],
     CENTRIFUGO_API_URL = [], CENTRIFUGO_API_KEY = [], NT_INTERNAL_API_KEY = ''k'',
     ORG_SERVICE_URL = ''http://org'', IDENTITY_SERVICE_URL = ''http://id''\<rparr>"

definition nt_member_json :: "string \<Rightarrow> json" where
  "nt_member_json u = JObj [(''group_id'', JStr ''5''), (''user_id'', JStr u), (''app_id'', JStr ''9'')]"

text \<open>The org service knows two members, the identity service one token, the token endpoint one token.\<close>

definition nt_http :: "http_request list \<Rightarrow> http_request \<Rightarrow> string + http_response" where
  "nt_http log req =
     Inr \<lparr>hs_status = 200, hs_body = Some (
       if hr_method req = ''POST'' then JObj [(''access_token'', JStr ''at''), (''expires_in'', JNum 3599)]
       else if hr_query req = [] then JObj [(''items'', JArr [nt_member_json ''7'', nt_member_json ''8''])]
       else JObj [(''items'', JArr [JObj [(''token_type'', JStr ''fcm''), (''token'', JStr ''tok''),
                                        (''platform'', JStr ''ios'')]])])\<rparr>"

definition nt_env :: env where
  "nt_env = ex_env\<lparr>e_http := nt_http\<rparr>"

definition nt_send :: SendToUserCommand where
  "nt_send = \<lparr>su_UserID = 7, su_AppID = 9, su_OrgID = None, su_GroupID = None, su_EventType = ''e'',
     su_Title = ''t'', su_Body = ''b'', su_Data = None\<rparr>"

definition nt_group_send :: SendToGroupCommand where
  "nt_group_send = \<lparr>sg_GroupID = 5, sg_AppID = 9, sg_OrgID = 3, sg_EventType = ''e'', sg_Title = ''t'',
     sg_Body = ''b'', sg_Data = Some []\<rparr>"

lemma nt_env_net_up: "net_up nt_env"
  by (simp add: nt_env_def ex_env_def net_up_def)

subsection \<open>One notification\<close>

text \<open>C29: a successful SendToUser stores exactly one notification, under a new identifier, with the
  command's fields, pending and unread; it fails exactly when the save fails, whatever the deliveries
  over the channels do; and no other notification changes in either case.\<close>
theorem send_to_user_saves:
  "(SendToUser E (nt_svc_main E cfg) cmd w = (Inr n, w') \<longrightarrow>
      notification_view (nt_tables w) (nf_ID n) = None \<and>
      notification_view (nt_tables w') = (notification_view (nt_tables w))(nf_ID n \<mapsto> stored_notification E n) \<and>
      nf_UserID n = su_UserID cmd \<and> nf_AppID n = su_AppID cmd \<and> nf_GroupID n = su_GroupID cmd \<and>
      nf_OrgID n = su_OrgID cmd \<and> nf_Title n = su_Title cmd \<and> nf_Body n = su_Body cmd \<and>
      nf_Data n = (case su_Data cmd of None \<Rightarrow> [] | Some d \<Rightarrow> d) \<and>
      nf_DeliveryStatus n = DeliveryPending \<and> nf_ReadAt n = None) \<and>
   (isl (fst (SendToUser E (nt_svc_main E cfg) cmd w)) \<longleftrightarrow>
      (let (n, w1) = command_notification E cmd w in isl (fst (NotificationRepo_Save E n w1)))) \<and>
   (i \<noteq> e_newid E (n_ids w) \<longrightarrow>
      notification_view (nt_tables (snd (SendToUser E (nt_svc_main E cfg) cmd w))) i =
      notification_view (nt_tables w) i)"
  using nt_svc.SendToUser_ok [of E E cfg cmd w n w'] nt_svc.SendToUser_fails_iff [of E E cfg cmd w]
    nt_svc.SendToUser_others [of i E w E cfg cmd]
  by (auto simp: command_notification_eq NewNotificationRepo_def)

theorem send_to_user_saves_witness:
  "\<exists>n w'. SendToUser nt_env (nt_svc_main nt_env nt_cfg) nt_send nt_empty = (Inr n, w') \<and>
     nf_UserID n = 7 \<and> nf_DeliveryStatus n = DeliveryPending"
proof -
  let ?m = "SendToUser nt_env (nt_svc_main nt_env nt_cfg) nt_send"
  have "\<not> isl (fst (?m nt_empty))" by code_simp
  then obtain n w' where run: "?m nt_empty = (Inr n, w')" by (cases "?m nt_empty"; cases "fst (?m nt_empty)") auto
  from send_to_user_saves [of nt_env nt_cfg nt_send nt_empty n w' 0] run show ?thesis
    by (auto simp: nt_send_def)
qed


subsection \<open>A notification to a group\<close>

text \<open>C31: under every schedule the fan-out ends with no goroutine left, and at no time are more than ten
  running.\<close>
theorem fanout_bounded:
  "(\<exists>k. fan_run E s mk sched (ms, [], w) = fan_iter E s mk sched k (ms, [], w)) \<and>
   fst (fan_run E s mk sched (ms, [], w)) = [] \<and> fst (snd (fan_run E s mk sched (ms, [], w))) = [] \<and>
   length (fst (snd (fan_iter E s mk sched j (ms, [], w)))) \<le> fanOutConcurrency"
  using fan_run_iter [of E s mk sched "(ms, [], w)"] fan_run_done [of E s mk sched "(ms, [], w)"]
    fan_iter_running [of "(ms, [], w)" E s mk sched j] by simp

text \<open>The world after the message to the group's channel.\<close>

definition after_broadcast ::
    "env \<Rightarrow> 'x go_state_scheme NotificationService \<Rightarrow> SendToGroupCommand \<Rightarrow> 'x go_state_scheme \<Rightarrow> 'x go_state_scheme" where
  "after_broadcast E s cmd w =
     ignore_err (nt_realtime s \<lparr>rm_Channel = ''group:'' @ e_uuid_str E (sg_GroupID cmd),
       rm_Data = fst (group_data cmd)\<rparr>) w"

text \<open>C32: once the members are known, SendToGroup succeeds under every schedule and with any faults: it
  adds at most one notification per member, each with that member's fields and the data that went to
  the group channel, and changes no other row; with the network up and fresh identifiers it adds
  exactly one per member.\<close>
theorem group_fanout_rows:
  assumes push: "push = NoopPushPort \<or> push = fcm_push E project src"
    and members: "nt_groups (nt_service E cfg push) (sg_GroupID cmd) (after_broadcast E (nt_service E cfg push) cmd w) =
      (Inr ms, w2)"
  shows "\<exists>w' new. SendToGroup E (nt_service E cfg push) sched cmd w = (Inr (), w') \<and>
    notifications w' = notifications w @ new \<and>
    mset (map row_recipient new) \<subseteq># mset (map member_recipient ms) \<and>
    (\<forall>r \<in> set new. \<exists>m \<in> set ms. row_of (member_command cmd (snd (group_data cmd)) m) r) \<and>
    (net_up E \<and> fresh_ids E (length ms) w \<longrightarrow> mset (map row_recipient new) = mset (map member_recipient ms))"
proof -
  let ?s = "nt_service E cfg push" and ?mk = "member_command cmd (snd (group_data cmd))"
  have fan: "notification_fanout ?s E"
    using push noop_fan.notification_fanout_axioms fcm_fan.notification_fanout_axioms by auto
  note ch = notification_fanout.axioms(1) [OF fan]
  have "delivery_tab w2 = delivery_tab (after_broadcast E ?s cmd w)"
    using notification_channels.groups_keeps [OF ch] members by (rule keeps_eq)
  then have tab: "delivery_tab w2 = delivery_tab w"
    by (simp add: after_broadcast_def keeps_ignore_err [OF notification_channels.realtime_keeps [OF ch]])
  let ?fin = "fan_run E ?s ?mk sched (ms, [], w2)"
  have "fan_inv E ?mk ms (net_up E \<and> fresh_ids E (length ms) w) (notifications w) (ms, [], w2)"
    using tab fresh_ids_tab [OF tab]
    by (intro fan_invI [where new = "[]" and lost = "{#}"]) (auto simp: delivery_tab_def nt_tables_def)
  from notification_fanout.fan_run_inv [OF fan this]
  have "fan_inv E ?mk ms (net_up E \<and> fresh_ids E (length ms) w) (notifications w) ?fin" by (simp add: member_command_def)
  moreover have "?fin = ([], [], snd (snd ?fin))" using fan_run_done [of E ?s ?mk sched "(ms, [], w2)"]
    by (metis prod.collapse)
  ultimately have "fan_inv E ?mk ms (net_up E \<and> fresh_ids E (length ms) w) (notifications w) ([], [], snd (snd ?fin))" by simp
  then obtain new lost where new: "notifications (snd (snd ?fin)) = notifications w @ new"
    "mset (map row_recipient new) + lost = mset (map member_recipient ms)"
    "\<forall>r \<in> set new. \<exists>m \<in> set ms. row_of (?mk m) r" "net_up E \<and> fresh_ids E (length ms) w \<longrightarrow> lost = {#}"
    by (rule fan_invE) auto
  moreover have "mset (map row_recipient new) \<subseteq># mset (map member_recipient ms)"
    by (metis mset_subset_eq_add_left new(2))
  moreover have "SendToGroup E ?s sched cmd w = (Inr (), snd (snd ?fin))"
    using members by (cases "group_data cmd") (simp add: SendToGroup_def after_broadcast_def check_err_def)
  ultimately show ?thesis by fastforce
qed

theorem group_fanout_rows_witness:
  "\<exists>w' new. SendToGroup nt_env (nt_service nt_env nt_cfg NoopPushPort) (\<lambda>k. k) nt_group_send nt_empty = (Inr (), w') \<and>
     notifications w' = new \<and> mset (map row_recipient new) = {#(7, 9), (8, 9)#}"
proof -
  let ?s = "nt_service nt_env nt_cfg NoopPushPort" and ?w = "after_broadcast nt_env (nt_service nt_env nt_cfg NoopPushPort) nt_group_send nt_empty"
  let ?ms = "[\<lparr>ng_GroupID = 5, ng_UserID = 7, ng_AppID = 9\<rparr>, \<lparr>ng_GroupID = 5, ng_UserID = 8, ng_AppID = 9\<rparr>]"
  have members: "nt_groups ?s (sg_GroupID nt_group_send) ?w =
      (Inr ?ms, snd (nt_groups ?s (sg_GroupID nt_group_send) ?w))" by (rule run_eqI) code_simp
  have "fresh_ids nt_env (length ?ms) nt_empty" by code_simp
  then show ?thesis
    using group_fanout_rows [OF disjI1 [OF refl] members, of "\<lambda>k. k"] nt_env_net_up
    by (auto simp: member_recipient_def nt_empty_def)
qed

end
