(* ===== verification/Notification_Invariant.thy ===== *)
theory Notification_Invariant
  imports Notification_Fanout
begin

text \<open>
  Predicates on the notification database that the whole service keeps. The locale \<open>nt_predicate\<close>
  names what the three queries that write owe such a predicate; inside it every use case, every
  schedule of the fan-out, every route and the event consumer keep it. It is interpreted on the
  invariant of the database and on the permanence of a row.
\<close>

subsection \<open>Predicates that the use cases keep\<close>

locale nt_predicate =
  fixes E :: env and P :: "nt_db \<Rightarrow> bool"
  assumes P_tables: "nt_tables w' = nt_tables w \<Longrightarrow> P w \<Longrightarrow> P w'"
    and q_InsertNotification:
      "rn_delivery_status r = DeliveryPending \<Longrightarrow> rn_read_at r = None \<Longrightarrow> rn_data r = JObj d \<Longrightarrow>
       preserves P (InsertNotification E r)"
    and q_MarkNotificationRead: "preserves P (MarkNotificationRead E i)"
    and q_UpsertNotificationPreference: "preserves P (UpsertNotificationPreference E u a ch ev b)"
begin

lemma tables_P: "keeps nt_tables m \<Longrightarrow> preserves P m"
  by (rule keeps_preserves) (auto dest: P_tables)

lemma save_P:
  assumes "command_notification E cmd w = (n, w1)" and "P w"
  shows "P (snd (NotificationRepo_Save E n w1))"
proof -
  have n: "nf_DeliveryStatus n = DeliveryPending" and "nt_tables w1 = nt_tables w"
    using assms(1) by (auto simp: command_notification_eq nt_tables_def)
  then have "P w1" using assms(2) P_tables by blast
  moreover have "preserves P (NotificationRepo_Save E n)"
    unfolding NotificationRepo_Save_def by (intro preserves_conv q_InsertNotification) (simp_all add: n)
  ultimately show ?thesis by (rule preservesD [rotated])
qed

lemma SendToUser_P: "preserves P (SendToUser E (nt_service E cfg NoopPushPort) cmd)"
proof (rule preservesI)
  fix w assume w: "P w"
  obtain n w1 where n: "command_notification E cmd w = (n, w1)" by (cases "command_notification E cmd w")
  obtain r w2 where save: "NotificationRepo_Save E n w1 = (r, w2)" by (cases "NotificationRepo_Save E n w1")
  have "P w2" using save_P [OF n w] save by simp
  moreover have "nt_tables (deliverToUser E (nt_service E cfg NoopPushPort) n (su_EventType cmd) w2) = nt_tables w2"
    using nt_svc.deliverToUser_tab by simp
  ultimately show "P (snd (SendToUser E (nt_service E cfg NoopPushPort) cmd w))"
    by (cases r) (auto simp: SendToUser_def n save check_err_def NewNotificationRepo_def intro: P_tables)
qed

lemma task_step_P:
  assumes "task_step E (nt_service E cfg NoopPushPort) t w = (r, w')" and "P w"
  shows "P w'"
proof (cases "\<exists>cmd. t = TStart cmd")
  case True
  then obtain cmd where t: "t = TStart cmd" by blast
  obtain n w1 where n: "command_notification E cmd w = (n, w1)" by (cases "command_notification E cmd w")
  show ?thesis
    using save_P [OF n assms(2)] assms(1)
    by (auto simp: t n NewNotificationRepo_def split: prod.splits sum.splits)
next
  case False
  then have "nt_tables w' = nt_tables w" using nt_svc.task_step_tab [OF assms(1)] by blast
  with assms(2) show ?thesis using P_tables by blast
qed

lemma fan_run_P:
  assumes "P w"
  shows "P (snd (snd (fan_run E (nt_service E cfg NoopPushPort) mk sched (ms, [], w))))"
proof (rule fan_run_invariant [where P = "\<lambda>st. P (snd (snd st))"])
  show "P (snd (snd (ms, [] :: task list, w)))" using assms by simp
  fix c and st :: "nt_db fan"
  assume "P (snd (snd st))" and "fst st \<noteq> [] \<or> fst (snd st) \<noteq> []"
  then show "P (snd (snd (fan_next E (nt_service E cfg NoopPushPort) mk c st)))"
    by (cases rule: fan_next_cases [where E = E and s = "nt_service E cfg NoopPushPort" and mk = mk and c = c,
          consumes 1, case_names start finish progress spawn, rotated]) (auto dest: task_step_P)
qed

lemma SendToGroup_P: "preserves P (SendToGroup E (nt_service E cfg NoopPushPort) sched cmd)"
proof -
  let ?s = "nt_service E cfg NoopPushPort"
  have "preserves P (nt_groups ?s i)" for i using nt_svc.groups_keeps by (rule tables_P)
  then have "preserves P (\<lambda>w. check_err pre (nt_groups ?s i)
      (\<lambda>ms w2. (Inr (), snd (snd (fan_run E ?s mk sched (ms, [], w2))))) w)" for pre i mk
    by (rule preserves_check_err) (simp_all add: preserves_def fan_run_P)
  moreover have "P (ignore_err (nt_realtime ?s m) w)" if "P w" for m w
    using tables_P [OF nt_svc.realtime_keeps] that by (rule preserves_ignore_err)
  ultimately show ?thesis
    by (intro preservesI, cases "group_data cmd") (auto simp: SendToGroup_def preserves_def)
qed

lemma nt_reads:
  "keeps nt_tables (NotificationRepo_FindByID E i)" "keeps nt_tables (NotificationRepo_ListForUser E u a l off)"
  "keeps nt_tables (PreferenceRepo_FindByUser E u a)"
  by (auto simp: keeps_def nt_repo_defs nt_query_defs conv_def net_call_def Let_def nt_tables_def
      split: net_outcome.splits option.splits)

lemma MarkRead_P: "preserves P (MarkRead (nt_service E cfg NoopPushPort) cmd)"
proof -
  have "preserves P (NotificationRepo_MarkRead E i)" for i
    unfolding NotificationRepo_MarkRead_def by (intro preserves_conv q_MarkNotificationRead)
  then show ?thesis
    unfolding MarkRead_def nt_service_sel NewNotificationRepo_def NotificationRepository.select_convs
    by (intro preserves_check_err tables_P [OF nt_reads(1)] preservesI) (auto simp: preserves_def)
qed

lemma nt_simple_P:
  "preserves P (ListForUser (nt_service E cfg NoopPushPort) u a l off)"
  "preserves P (GetPreferences \<lparr>ps_preferences = NewPreferenceRepo E\<rparr> u a)"
  "preserves P (UpsertPreference \<lparr>ps_preferences = NewPreferenceRepo E\<rparr> pc)"
  unfolding ListForUser_def GetPreferences_def UpsertPreference_def
  by (auto simp: NewNotificationRepo_def NewPreferenceRepo_def PreferenceRepo_Upsert_def
      intro!: preserves_check_err preserves_const preserves_conv tables_P [OF nt_reads(2)] tables_P [OF nt_reads(3)]
        q_UpsertNotificationPreference)

lemmas nt_use_cases_P = SendToUser_P SendToGroup_P MarkRead_P nt_simple_P

lemma nt_Mount_P:
  assumes "rt \<in> set (nt_Mount E (nt_main E cfg))"
  shows "handler_preserves P (route_handler rt)"
proof -
  have page: "handler_preserves P (\<lambda>r. respond we f (m r) r)" if "\<And>r. preserves P (m r)" for we f m
    using that handler_preserves_intros(5) [of P _ we f] by (simp add: handler_preserves_def)
  show ?thesis
    using assms unfolding nt_Mount_def nt_handler_defs nt_main_def
    by (auto intro!: nt_use_cases_P page split: prod.splits)
qed

lemma subscriber_P:
  assumes w: "P w"
  shows "P (snd (subscriber_consume E (nt_service E cfg NoopPushPort) sched msg w))"
proof -
  let ?s = "nt_service E cfg NoopPushPort"
  have "preserves P (handleMemberAdded E ?s ev)" for ev
    by (rule preservesI) (auto simp: handleMemberAdded_def split: option.splits
        intro!: preserves_pass_err [OF SendToUser_P preserves_const, THEN preservesD])
  moreover have "preserves P (handleGroupDeleted E ?s sched ev)" for ev
    by (rule preservesI) (auto simp: handleGroupDeleted_def split: option.splits intro!: SendToGroup_P [THEN preservesD])
  ultimately have "P (snd (subscriber_handle E ?s sched msg w))"
    using w by (auto simp: subscriber_handle_def preserves_def split: option.splits)
  then show ?thesis
    by (auto simp: subscriber_consume_def split: prod.splits sum.splits)
qed

end

subsection \<open>Steps of the service\<close>

inductive nt_step :: "env \<Rightarrow> nt_config \<Rightarrow> nt_db \<Rightarrow> nt_db \<Rightarrow> bool" for E cfg where
  route: "rt \<in> set (nt_Mount E (nt_main E cfg)) \<Longrightarrow> nt_step E cfg w (snd (route_handler rt r w))"
| event: "nt_step E cfg w (snd (subscriber_consume E (nt_service E cfg NoopPushPort) sched msg w))"

inductive_cases nt_step_cases: "nt_step E cfg w w'"

context nt_predicate
begin

lemma nt_step_P: "nt_step E cfg w w' \<Longrightarrow> P w \<Longrightarrow> P w'"
  by (erule nt_step_cases)
     (auto dest: nt_Mount_P simp: handler_preservesD subscriber_P)

lemma nt_steps_P: "(nt_step E cfg)\<^sup>*\<^sup>* w w' \<Longrightarrow> P w \<Longrightarrow> P w'"
  by (induction rule: rtranclp_induct) (auto intro: nt_step_P)

end

subsection \<open>The rows of the database\<close>

text \<open>The primary keys, and what every row of the service looks like: its data are an object and its
  delivery is pending, since no use case calls UpdateStatus.\<close>

definition nt_inv :: "nt_db \<Rightarrow> bool" where
  "nt_inv w \<longleftrightarrow> nt_wf w \<and>
     list_all (\<lambda>r. rn_delivery_status r = DeliveryPending \<and> rn_data r = JObj (unmarshal_data (rn_data r)))
       (notifications w)"

text \<open>A row is kept, but for the read mark, which is set once.\<close>

definition row_kept :: "NotificationRow \<Rightarrow> nt_db \<Rightarrow> bool" where
  "row_kept r w \<longleftrightarrow> (\<exists>r' \<in> set (notifications w). r' = r \<or> rn_read_at r = None \<and> (\<exists>t. r' = r\<lparr>rn_read_at := Some t\<rparr>))"

lemma mark_keeps_ids [simp]: "map (\<lambda>x. if rn_id x = i \<and> p x then i else rn_id x) xs = map rn_id xs"
  by (induction xs) auto

lemma row_kept_map:
  assumes "row_kept r w" and rows: "notifications w' = map f (notifications w)"
    and f: "\<And>x. f x = x \<or> rn_read_at x = None \<and> (\<exists>t. f x = x\<lparr>rn_read_at := Some t\<rparr>)"
  shows "row_kept r w'"
proof -
  obtain r' where r': "r' \<in> set (notifications w)"
      "r' = r \<or> rn_read_at r = None \<and> (\<exists>t. r' = r\<lparr>rn_read_at := Some t\<rparr>)"
    using assms(1) by (auto simp: row_kept_def)
  from r'(2) have "f r' = r \<or> rn_read_at r = None \<and> (\<exists>t. f r' = r\<lparr>rn_read_at := Some t\<rparr>)"
  proof
    assume "r' = r"
    then show ?thesis using f [of r] by blast
  next
    assume "rn_read_at r = None \<and> (\<exists>t. r' = r\<lparr>rn_read_at := Some t\<rparr>)"
    then show ?thesis using f [of r'] by auto
  qed
  with r'(1) show ?thesis by (auto simp: row_kept_def rows)
qed

interpretation nt_invariant: nt_predicate E nt_inv for E
proof (unfold_locales, goal_cases)
  case (1 w' w)
  then show ?case by (simp add: nt_inv_def nt_wf_def nt_tables_def)
next
  case (2 r d)
  then show ?case
    unfolding InsertNotification_def by (intro net_call_writes) (auto simp: nt_inv_def nt_wf_def)
next
  case (3 i)
  show ?case
    unfolding MarkNotificationRead_def
    by (intro net_call_writes)
       (auto simp: nt_inv_def nt_wf_def Let_def db_now_def comp_def if_distrib [of rn_id] list_all_iff cong: if_cong)
next
  case (4 u a ch ev b)
  show ?case
    unfolding UpsertNotificationPreference_def
    by (intro net_call_writes)
       (auto simp: nt_inv_def nt_wf_def db_now_def Let_def intro!: distinct_upsert_row)
qed

interpretation nt_row: nt_predicate E "row_kept r" for E r
proof (unfold_locales, goal_cases)
  case (1 w' w)
  then show ?case by (simp add: row_kept_def nt_tables_def)
next
  case (2 r d)
  then show ?case
    unfolding InsertNotification_def by (intro net_call_writes) (auto simp: row_kept_def)
next
  case (3 i)
  let ?mark = "\<lambda>t x. if rn_id x = i \<and> rn_read_at x = None then x\<lparr>rn_read_at := Some t\<rparr> else x"
  have "row_kept r (w\<lparr>n_now := k, notifications := map (?mark t) (notifications w)\<rparr>)" if "row_kept r w" for w k t
    by (rule row_kept_map [OF that, where f = "?mark t"]) auto
  then show ?case
    unfolding MarkNotificationRead_def
    by (intro net_call_writes) (simp_all add: row_kept_def Let_def db_now_def)
next
  case (4 u a ch ev b)
  show ?case
    unfolding UpsertNotificationPreference_def
    by (intro net_call_writes) (auto simp: row_kept_def db_now_def Let_def)
qed

end
