(* ===== verification/Notification_Consumer.thy ===== *)
theory Notification_Consumer
  imports Notification_Correct Notification_Invariant
begin

text \<open>
  The consumer as a process (\<^verbatim>\<open>services/notification/infrastructure/nats/subscriber.go\<close>, \<open>Run\<close>): the durable
  consumer it asks JetStream for and the loop over the messages JetStream delivers, redeliveries among
  them.
\<close>

subsection \<open>Run\<close>

datatype ack_policy = AckExplicitPolicy | AckNonePolicy | AckAllPolicy

datatype deliver_policy = DeliverAllPolicy | DeliverLastPolicy | DeliverNewPolicy

record consumer_config =
  cc_Name :: string
  cc_Durable :: string
  cc_FilterSubject :: string
  cc_AckPolicy :: ack_policy
  cc_MaxDeliver :: int
  cc_AckWait :: time
  cc_DeliverPolicy :: deliver_policy

definition consumerCfg :: consumer_config where
  "consumerCfg =
     \<lparr>cc_Name = ''notification-processor'', cc_Durable = ''notification-processor'',
      cc_FilterSubject = ''mobpilot.events.org.group.>'', cc_AckPolicy = AckExplicitPolicy, cc_MaxDeliver = 5,
      cc_AckWait = 30 * Second, cc_DeliverPolicy = DeliverNewPolicy\<rparr>"

text \<open>A delivery is a message with the schedule of the fan-out it may start.\<close>

fun consume_loop ::
    "env \<Rightarrow> 'x go_state_scheme NotificationService \<Rightarrow> ((nat \<Rightarrow> nat) \<times> json option) list \<Rightarrow> 'x go_state_scheme \<Rightarrow>
     acknowledgement list \<times> 'x go_state_scheme" where
  "consume_loop E s [] w = ([], w)"
| "consume_loop E s ((sched, msg) # ms) w =
     (let (a, w1) = subscriber_consume E s sched msg w; (as, w2) = consume_loop E s ms w1 in (a # as, w2))"

text \<open>Creating the consumer and starting to consume are calls of the client library. Each may fail; then
  the consumer is given up, and the service goes on without it.\<close>

definition subscriber_Run ::
    "env \<Rightarrow> 'x go_state_scheme NotificationService \<Rightarrow>
     (string \<Rightarrow> consumer_config \<Rightarrow> (unit, 'x go_state_scheme) nt_op) \<Rightarrow> (unit, 'x go_state_scheme) nt_op \<Rightarrow>
     ((nat \<Rightarrow> nat) \<times> json option) list \<Rightarrow> 'x go_state_scheme \<Rightarrow> acknowledgement list \<times> 'x go_state_scheme" where
  "subscriber_Run E s createConsumer consume ms w =
     (case createConsumer ''MOBPILOT_EVENTS'' consumerCfg w of
        (Inl e, w1) \<Rightarrow> ([], w1)
      | (Inr _, w1) \<Rightarrow>
          (case consume w1 of
             (Inl e, w2) \<Rightarrow> ([], w2)
           | (Inr _, w2) \<Rightarrow> consume_loop E s ms w2))"

subsection \<open>What the consumer sees\<close>

text \<open>The filter is a prefix with the wildcard for the rest of a subject. Of the org service's events it lets
  exactly those of groups through.\<close>

definition group_event :: "DomainEvent \<Rightarrow> bool" where
  "group_event e =
     (case e of GroupCreatedEvent _ _ _ _ _ _ _ \<Rightarrow> True | MemberAddedToGroupEvent _ _ _ _ _ \<Rightarrow> True
      | MemberRemovedFromGroupEvent _ _ _ _ _ \<Rightarrow> True | GroupDeletedEvent _ _ _ _ \<Rightarrow> True | _ \<Rightarrow> False)"

lemma filter_selects_group_events:
  "HasPrefix (event_subject e) (butlast (cc_FilterSubject consumerCfg)) \<longleftrightarrow> group_event e"
  by (cases e) (simp_all add: consumerCfg_def event_subject_def group_event_def HasPrefix_def)

text \<open>Everything it does to the database is a sequence of the service's steps, one per delivery.\<close>

lemma consume_loop_steps:
  "(nt_step E cfg)\<^sup>*\<^sup>* w (snd (consume_loop E (nt_service E cfg NoopPushPort) ms w))"
proof (induction ms arbitrary: w)
  case (Cons m ms)
  obtain sched msg where m: "m = (sched, msg)" by (cases m)
  let ?w1 = "snd (subscriber_consume E (nt_service E cfg NoopPushPort) sched msg w)"
  have "nt_step E cfg w ?w1" by (rule nt_step.event)
  also have "(nt_step E cfg)\<^sup>*\<^sup>* ?w1 (snd (consume_loop E (nt_service E cfg NoopPushPort) ms ?w1))" by (rule Cons.IH)
  finally show ?case by (simp add: m case_prod_beta Let_def)
qed simp

lemma length_consume_loop [simp]: "length (fst (consume_loop E s ms w)) = length ms"
  by (induction ms arbitrary: w) (auto simp: case_prod_beta Let_def)

text \<open>Whatever JetStream delivers, again or not, the rows of the service are kept as \<open>nt_inv\<close> says.\<close>

lemma subscriber_Run_inv:
  assumes create: "\<And>n c. keeps nt_tables (createConsumer n c)" and consume: "keeps nt_tables consume"
    and w: "nt_inv w"
  shows "nt_inv (snd (subscriber_Run E (nt_service E cfg NoopPushPort) createConsumer consume ms w))"
proof -
  have loop: "nt_inv (snd (consume_loop E (nt_service E cfg NoopPushPort) ms w1))" if "nt_inv w1" for w1
    using consume_loop_steps that by (rule nt_invariant.nt_steps_P)
  have "nt_inv w1" if "createConsumer n c w = (r, w1)" for n c r w1
    using nt_invariant.tables_P [OF create, of n c] w that by (metis preservesD snd_conv)
  moreover have "nt_inv w2" if "nt_inv w1" "consume w1 = (r, w2)" for r w1 w2
    using nt_invariant.tables_P [OF consume] that by (metis preservesD snd_conv)
  ultimately show ?thesis
    using w unfolding subscriber_Run_def by (simp split: prod.split sum.split) (blast intro: loop)
qed

lemma folded_names:
  "fold_name ''event_type'' = ''event_type''" "fold_name ''occurred_at'' = ''occurred_at''"
  "fold_name ''data'' = ''data''" "fold_name ''GroupID'' = ''groupid''" "fold_name ''OrgID'' = ''orgid''"
  "fold_name ''AppID'' = ''appid''" "fold_name ''UserID'' = ''userid''"
  "fold_name ''OccurredAt_'' = ''occurredat_''" "fold_name ''group_id'' = ''group_id''"
  "fold_name ''org_id'' = ''org_id''" "fold_name ''app_id'' = ''app_id''" "fold_name ''user_id'' = ''user_id''"
  "fold_name ''items'' = ''items''" "fold_name ''token'' = ''token''" "fold_name ''platform'' = ''platform''"
  "fold_name ''token_type'' = ''token_type''"
  by code_simp+

text \<open>The org service writes the fields of an event under the names of the Go struct, the consumer reads snake
  case names, finds the identifiers empty and skips the message.\<close>

lemma org_event_skipped:
  assumes empty: "e_uuid_parse E [] = None"
  shows "subscriber_consume E s sched (Some (event_payload E e)) w = (Ack, w)"
proof -
  have payload: "dec_envelope E (event_payload E e) = map_option
      (\<lambda>t. \<lparr>ev_EventType = EventType e, ev_OccurredAt = t, ev_Data = Some (event_json E e)\<rparr>)
      (e_time_parse E (e_time_str E (OccurredAt e)))"
    by (cases "e_time_parse E (e_time_str E (OccurredAt e))")
       (simp_all add: dec_envelope_def event_payload_def json_time_def json_field_def folded_names dec_string_def
          dec_raw_def)
  have added: "handleMemberAdded E s ev w = (Inr (), w)"
    if "ev_Data ev = Some (event_json E (MemberAddedToGroupEvent g i a u t))" for ev g i a u t
    using that empty by (simp add: handleMemberAdded_def dec_memberAddedData_def dec_string_def json_field_def folded_names)
  have deleted: "handleGroupDeleted E s sched ev w = (Inr (), w)"
    if "ev_Data ev = Some (event_json E (GroupDeletedEvent g i a t))" for ev g i a t
    using that empty by (simp add: handleGroupDeleted_def dec_groupDeletedData_def dec_string_def json_field_def folded_names)
  have "subscriber_handle E s sched (Some (event_payload E e)) w = (Inr (), w)"
  proof (cases "dec_envelope E (event_payload E e)")
    case None
    then show ?thesis by (simp add: subscriber_handle_def)
  next
    case (Some ev)
    from Some [unfolded payload] have ev: "ev_EventType ev = EventType e" "ev_Data ev = Some (event_json E e)" by auto
    show ?thesis
    proof (cases e)
      case (MemberAddedToGroupEvent g i a u t)
      with ev added Some show ?thesis by (simp add: subscriber_handle_def)
    next
      case (GroupDeletedEvent g i a t)
      with ev deleted Some show ?thesis by (simp add: subscriber_handle_def)
    qed (use ev Some in \<open>simp_all add: subscriber_handle_def\<close>)
  qed
  then show ?thesis by (simp add: subscriber_consume_def)
qed

text \<open>A message as the consumer expects it.\<close>

definition nt_member_added :: json where
  "nt_member_added = JObj [(''event_type'', JStr ''org.group.member_added''),
     (''data'', JObj [(''group_id'', JStr ''5''), (''app_id'', JStr ''9''), (''user_id'', JStr ''7'')])]"

text \<open>Delivery is at least once and nothing recognises a repetition: when the reply to the insertion is
  lost, the message is given back, and its second delivery notifies the user a second time.\<close>

definition lossy_env :: env where
  "lossy_env = nt_env\<lparr>e_net := (\<lambda>k. if k = 0 then ReplyLost ''timeout'' else Reached)\<rparr>"

lemma redelivery_duplicates:
  "(let (acks, w) = consume_loop lossy_env (nt_service lossy_env nt_cfg NoopPushPort)
      [(\<lambda>k. k, Some nt_member_added), (\<lambda>k. k, Some nt_member_added)] nt_empty
    in (acks, map rn_user_id (notifications w))) = ([Nak, Ack], [7, 7])"
  by code_simp

end
