(* ===== verification/Notification_Edge_Correct.thy ===== *)
theory Notification_Edge_Correct
  imports Notification_Consumer Identity_Correct
begin

text \<open>
  The properties of the notification service at its edges: preferences and read marks, pages, the event
  consumer, the clients against the services they ask, the cached access token of the push adapter,
  and the invariant of the database over all routes and events.
\<close>

subsection \<open>Preferences and read marks\<close>




text \<open>Marking as read succeeds only for the owner of the notification and sets the time of reading once;
  whatever fails, no other notification and no notification already read or owned by somebody else
  changes; and somebody else's attempt is refused.\<close>
theorem mark_read_owner:
  "(MarkRead (nt_svc_main E cfg) cmd w = (Inr (), w') \<longrightarrow>
      (\<exists>n t. notification_view (nt_tables w) (mk_NotificationID cmd) = Some n \<and> nf_UserID n = mk_UserID cmd \<and>
         notification_view (nt_tables w') = (notification_view (nt_tables w))(mk_NotificationID cmd \<mapsto>
           (case nf_ReadAt n of None \<Rightarrow> n\<lparr>nf_ReadAt := Some t\<rparr> | Some _ \<Rightarrow> n)))) \<and>
   (j \<noteq> mk_NotificationID cmd \<or>
      (\<exists>n. notification_view (nt_tables w) j = Some n \<and> (nf_UserID n \<noteq> mk_UserID cmd \<or> nf_ReadAt n \<noteq> None)) \<longrightarrow>
      notification_view (nt_tables (snd (MarkRead (nt_svc_main E cfg) cmd w))) j =
      notification_view (nt_tables w) j) \<and>
   (notification_view (nt_tables w) (mk_NotificationID cmd) = Some m \<longrightarrow> nf_UserID m \<noteq> mk_UserID cmd \<longrightarrow>
      isl (fst (MarkRead (nt_svc_main E cfg) cmd w)))"
  using nt_svc.MarkRead_ok [of E cfg cmd w w'] nt_svc.MarkRead_unchanged [of j cmd w E cfg]
    nt_svc.MarkRead_not_owner [of w cmd m E cfg] by auto

text \<open>A world in which user 7 was sent a notification: it has the identifier 1.\<close>

definition nt_world :: nt_db where
  "nt_world = snd (SendToUser nt_env (nt_service nt_env nt_cfg NoopPushPort) nt_send nt_empty)"

theorem mark_read_owner_witness:
  "isl (fst (MarkRead (nt_svc_main nt_env nt_cfg) \<lparr>mk_NotificationID = 1, mk_UserID = 8\<rparr> nt_world)) \<and>
   notification_view (nt_tables (snd (MarkRead (nt_svc_main nt_env nt_cfg)
      \<lparr>mk_NotificationID = 1, mk_UserID = 8\<rparr> nt_world))) 1 = notification_view (nt_tables nt_world) 1"
proof -
  have "map_option nf_UserID (notification_view (nt_tables nt_world) 1) = Some 7" by code_simp
  then obtain m where m: "notification_view (nt_tables nt_world) 1 = Some m" "nf_UserID m = 7" by auto
  with mark_read_owner [of nt_env nt_cfg "\<lparr>mk_NotificationID = 1, mk_UserID = 8\<rparr>" nt_world _ 1 m]
  show ?thesis by simp
qed

subsection \<open>Pages\<close>

lemma page_limit_bounds: "1 \<le> page_limit q \<and> page_limit q \<le> 200"
  by (auto simp: page_limit_def split: option.split)

lemma page_offset_nonneg: "0 \<le> page_offset q"
  by (auto simp: page_offset_def split: option.split)

lemma int32_small: "- (2 ^ 31) \<le> x \<Longrightarrow> x < 2 ^ 31 \<Longrightarrow> int32 x = x"
  by (simp add: int32_def sint_sbintrunc' signed_take_bit_int_eq_self)

text \<open>C35: a page holds at most as many notifications as asked for, between one and two hundred; below
  two to the 31 the offset is the one asked for, beyond it is cut to 32 bits, and an offset that turns
  negative by that is a 500.\<close>
theorem list_page:
  assumes "rq_claims r = Some c" and "e_net E (n_net w) = Reached"
  shows "let l = page_limit (rq_query r ''limit''); q = page_offset (rq_query r ''offset''); off = int32 q;
             mine = filter (\<lambda>x. rn_user_id x = uuid_Parse_lax E (c_Subject c) \<and> rn_app_id x = uuid_Parse_lax E (c_AppID c))
                      (notifications w)
         in 1 \<le> l \<and> l \<le> 200 \<and> (q < 2 ^ 31 \<longrightarrow> off = q) \<and> - (2 ^ 31) \<le> off \<and> off < 2 ^ 31 \<and>
            fst (listNotifications E (nt_main E cfg) r w) =
              (if off < 0 then nt_writeProblem 500 ''internal server error''
               else writeJSON 200 (items_json (notificationToResponse E \<circ> rowToNotification)
                 (take (nat l) (drop (nat off) (sort_key (\<lambda>x. - rn_created_at x) mine)))))"
proof -
  let ?l = "page_limit (rq_query r ''limit'')" and ?q = "page_offset (rq_query r ''offset'')"
  have l: "int32 ?l = ?l" using page_limit_bounds [of "rq_query r ''limit''"] by (intro int32_small) auto
  have off: "?q < 2 ^ 31 \<Longrightarrow> int32 ?q = ?q" using page_offset_nonneg [of "rq_query r ''offset''"] by (intro int32_small) auto
  have "- (2 ^ 31) \<le> int32 ?q" "int32 ?q < 2 ^ 31"
    using sint_greater_eq [of "word_of_int ?q :: 32 word"] sint_less [of "word_of_int ?q :: 32 word"]
    by (simp_all add: int32_def)
  moreover have "fst (listNotifications E (nt_main E cfg) r w) =
      (if int32 ?q < 0 then nt_writeProblem 500 ''internal server error''
       else writeJSON 200 (items_json (notificationToResponse E \<circ> rowToNotification)
         (take (nat ?l) (drop (nat (int32 ?q)) (sort_key (\<lambda>x. - rn_created_at x)
            (filter (\<lambda>x. rn_user_id x = uuid_Parse_lax E (c_Subject c) \<and> rn_app_id x = uuid_Parse_lax E (c_AppID c))
                      (notifications w)))))))"
    using assms page_limit_bounds [of "rq_query r ''limit''"]
    by (simp add: listNotifications_def require_claims_def ClaimsFromContext_def respond_def nt_main_def
        ListForUser_def NewNotificationRepo_def NotificationRepo_ListForUser_def ListNotificationsForUser_def
        conv_def net_call_def Let_def l nt_internal_error_def items_json_def)
  ultimately show ?thesis
    using off page_limit_bounds [of "rq_query r ''limit''"] by (simp add: Let_def)
qed

definition page_request :: "string \<Rightarrow> request" where
  "page_request off = \<lparr>rq_claims = Some \<lparr>c_Subject = ''7'', c_AppID = ''9'', c_Scopes = []\<rparr>, rq_header = (\<lambda>_. []), rq_param = (\<lambda>_. []),
     rq_query = (\<lambda>n. if n = ''offset'' then off else []), rq_body = None\<rparr>"

lemma page_examples:
  "int32 (page_offset ''2147483648'') < 0" "page_limit [] = 50" "page_limit ''201'' = 50" "page_limit ''200'' = 200"
  by code_simp+

theorem list_page_witness:
  "fst (listNotifications nt_env (nt_main nt_env nt_cfg) (page_request ''2147483648'') nt_world) =
     nt_writeProblem 500 ''internal server error''"
proof -
  have "rq_claims (page_request ''2147483648'') = Some \<lparr>c_Subject = ''7'', c_AppID = ''9'', c_Scopes = []\<rparr>"
    by (simp add: page_request_def)
  from list_page [OF this, of nt_env nt_world nt_cfg] nt_env_net_up show ?thesis
    using page_examples(1) by (simp add: Let_def page_request_def net_up_def)
qed

subsection \<open>The event consumer\<close>





subsection \<open>The clients and the services they ask\<close>














subsection \<open>The access token\<close>

lemma fcm_Token_eq:
  "fcm_Token E s w =
     (let fetch = pass_err (fetchToken E s) (\<lambda>(tok, expiry) w.
            (Inr tok, w\<lparr>fcm_cache := Some \<lparr>ct_value = tok, ct_expiresAt = expiry\<rparr>\<rparr>))
      in if \<exists>c. fcm_cache w = Some c \<and> tokenRefreshLead < ct_expiresAt c - e_now E (n_now w)
         then (Inr (ct_value (the (fcm_cache w))), w\<lparr>n_now := Suc (n_now w)\<rparr>)
         else fetch (if fcm_cache w = None then w else w\<lparr>n_now := Suc (n_now w)\<rparr>))"
  by (auto simp: fcm_Token_def time_Now_def Let_def split: option.splits)

lemma fetchToken_Inr:
  assumes "fetchToken E s w = (Inr (tok, expiry), w')"
  obtains assertion life where "sa_sign s (sa_privateKeyID s) (fcm_claims s (e_now E (n_now w))) = Inr assertion"
    "token_answer (e_http E (http_log w) (token_request s assertion)) = Inr (tok, life)"
    "expiry = e_now E (n_now w) + life" "http_log w' = http_log w @ [token_request s assertion]"
    "fcm_cache w' = fcm_cache w"
  using assms by (auto simp: fetchToken_def time_Now_def Let_def split: sum.splits prod.splits)

lemma fetchToken_cache: "fcm_cache (snd (fetchToken E s w)) = fcm_cache w"
  by (auto simp: fetchToken_def time_Now_def Let_def split: sum.splits prod.splits)

lemma fcm_Token_failed:
  assumes "isl (fst (fcm_Token E s w))"
  shows "fcm_cache (snd (fcm_Token E s w)) = fcm_cache w"
proof -
  define w0 where "w0 = (if fcm_cache w = None then w else w\<lparr>n_now := Suc (n_now w)\<rparr>)"
  obtain r w' where fetch: "fetchToken E s w0 = (r, w')" by (cases "fetchToken E s w0")
  have "fcm_cache w' = fcm_cache w" using fetchToken_cache [of E s w0] fetch by (auto simp: w0_def)
  then show ?thesis
    using assms fetch by (cases r) (auto simp: fcm_Token_eq Let_def pass_err_def w0_def split: if_splits)
qed

text \<open>The cached token is used: it has more than the refresh lead left.\<close>

definition cached_now :: "env \<Rightarrow> cachedToken \<Rightarrow> nat \<Rightarrow> bool" where
  "cached_now E c k \<longleftrightarrow> tokenRefreshLead < ct_expiresAt c - e_now E k"

lemma fcm_Token_hit:
  "fcm_cache w = Some c \<Longrightarrow> cached_now E c (n_now w) \<Longrightarrow>
   fcm_Token E s w = (Inr (ct_value c), w\<lparr>n_now := Suc (n_now w)\<rparr>)"
  by (simp add: fcm_Token_eq cached_now_def)

lemma fcm_Token_hits:
  "fcm_cache w = Some c \<Longrightarrow> (\<forall>i < j. cached_now E c (n_now w + i)) \<Longrightarrow>
   ((\<lambda>w. snd (fcm_Token E s w)) ^^ j) w = w\<lparr>n_now := n_now w + j\<rparr>"
  by (induction j) (simp_all add: fcm_Token_hit)

lemma fcm_Token_fetched:
  assumes run: "fcm_Token E s w = (Inr tok, w1)"
    and miss: "\<not> (\<exists>c. fcm_cache w = Some c \<and> cached_now E c (n_now w))"
  shows "\<exists>k assertion life. n_now w \<le> k \<and>
    sa_sign s (sa_privateKeyID s) (fcm_claims s (e_now E k)) = Inr assertion \<and>
    token_answer (e_http E (http_log w) (token_request s assertion)) = Inr (tok, life) \<and> tok \<noteq> [] \<and>
    fcm_cache w1 = Some \<lparr>ct_value = tok, ct_expiresAt = e_now E k + life\<rparr> \<and>
    http_log w1 = http_log w @ [token_request s assertion]"
proof -
  define w0 where "w0 = (if fcm_cache w = None then w else w\<lparr>n_now := Suc (n_now w)\<rparr>)"
  have "pass_err (fetchToken E s) (\<lambda>(tok, expiry) w.
      (Inr tok, w\<lparr>fcm_cache := Some \<lparr>ct_value = tok, ct_expiresAt = expiry\<rparr>\<rparr>)) w0 = (Inr tok, w1)"
    using run miss by (auto simp: fcm_Token_eq cached_now_def w0_def Let_def)
  then obtain expiry w' where fetch: "fetchToken E s w0 = (Inr (tok, expiry), w')"
    and w1: "w1 = w'\<lparr>fcm_cache := Some \<lparr>ct_value = tok, ct_expiresAt = expiry\<rparr>\<rparr>"
    by (auto elim!: pass_err_cases split: prod.splits)
  from fetch obtain assertion life where f:
    "sa_sign s (sa_privateKeyID s) (fcm_claims s (e_now E (n_now w0))) = Inr assertion"
    "token_answer (e_http E (http_log w0) (token_request s assertion)) = Inr (tok, life)"
    "expiry = e_now E (n_now w0) + life" "http_log w' = http_log w0 @ [token_request s assertion]"
    by (rule fetchToken_Inr)
  have "tok \<noteq> []" using f(2) by (auto simp: token_answer_def split: sum.splits option.splits if_splits)
  moreover have "n_now w \<le> n_now w0" "http_log w0 = http_log w" by (simp_all add: w0_def)
  ultimately show ?thesis using f w1 by auto
qed

text \<open>C39: a token that Token returns is the cached one, with more than five minutes left and no request
  sent, or it is non-empty, fresh from the endpoint's answer to one signed request, and cached until
  the answer's lifetime is over. Then every further call returns it without a request, for as long as
  five minutes are left. A failure leaves the cache as it was.\<close>
theorem fcm_token_fresh:
  "(fcm_Token E s w = (Inr tok, w1) \<longrightarrow>
     (\<exists>c. fcm_cache w1 = Some c \<and> ct_value c = tok \<and>
        (if \<exists>c0. fcm_cache w = Some c0 \<and> cached_now E c0 (n_now w)
         then fcm_cache w = Some c \<and> http_log w1 = http_log w
         else \<exists>k assertion life. n_now w \<le> k \<and> sa_sign s (sa_privateKeyID s) (fcm_claims s (e_now E k)) = Inr assertion \<and>
           token_answer (e_http E (http_log w) (token_request s assertion)) = Inr (tok, life) \<and> tok \<noteq> [] \<and>
           ct_expiresAt c = e_now E k + life \<and> http_log w1 = http_log w @ [token_request s assertion]) \<and>
        (\<forall>j. (\<forall>i \<le> j. cached_now E c (n_now w1 + i)) \<longrightarrow>
           (let w2 = ((\<lambda>w. snd (fcm_Token E s w)) ^^ j) w1
            in fst (fcm_Token E s w2) = Inr tok \<and> http_log (snd (fcm_Token E s w2)) = http_log w1)))) \<and>
   (isl (fst (fcm_Token E s w)) \<longrightarrow> fcm_cache (snd (fcm_Token E s w)) = fcm_cache w)"
proof (intro conjI impI)
  assume run: "fcm_Token E s w = (Inr tok, w1)"
  have again: "let w2 = ((\<lambda>w. snd (fcm_Token E s w)) ^^ j) w1
      in fst (fcm_Token E s w2) = Inr (ct_value c) \<and> http_log (snd (fcm_Token E s w2)) = http_log w1"
    if "fcm_cache w1 = Some c" "\<forall>i \<le> j. cached_now E c (n_now w1 + i)" for c j
    using that by (simp add: fcm_Token_hits fcm_Token_hit Let_def)
  show "\<exists>c. fcm_cache w1 = Some c \<and> ct_value c = tok \<and>
        (if \<exists>c0. fcm_cache w = Some c0 \<and> cached_now E c0 (n_now w)
         then fcm_cache w = Some c \<and> http_log w1 = http_log w
         else \<exists>k assertion life. n_now w \<le> k \<and> sa_sign s (sa_privateKeyID s) (fcm_claims s (e_now E k)) = Inr assertion \<and>
           token_answer (e_http E (http_log w) (token_request s assertion)) = Inr (tok, life) \<and> tok \<noteq> [] \<and>
           ct_expiresAt c = e_now E k + life \<and> http_log w1 = http_log w @ [token_request s assertion]) \<and>
        (\<forall>j. (\<forall>i \<le> j. cached_now E c (n_now w1 + i)) \<longrightarrow>
           (let w2 = ((\<lambda>w. snd (fcm_Token E s w)) ^^ j) w1
            in fst (fcm_Token E s w2) = Inr tok \<and> http_log (snd (fcm_Token E s w2)) = http_log w1))"
  proof (cases "\<exists>c0. fcm_cache w = Some c0 \<and> cached_now E c0 (n_now w)")
    case True
    then obtain c where "fcm_cache w = Some c" "cached_now E c (n_now w)" by blast
    with run again [of c] show ?thesis by (auto simp: fcm_Token_hit)
  next
    case False
    from fcm_Token_fetched [OF run False] obtain k assertion life where f: "n_now w \<le> k"
      "sa_sign s (sa_privateKeyID s) (fcm_claims s (e_now E k)) = Inr assertion"
      "token_answer (e_http E (http_log w) (token_request s assertion)) = Inr (tok, life)" "tok \<noteq> []"
      "fcm_cache w1 = Some \<lparr>ct_value = tok, ct_expiresAt = e_now E k + life\<rparr>"
      "http_log w1 = http_log w @ [token_request s assertion]" by blast
    then show ?thesis
      using again [OF f(5)] False by (intro exI [of _ "\<lparr>ct_value = tok, ct_expiresAt = e_now E k + life\<rparr>"]) auto
  qed
next
  assume "isl (fst (fcm_Token E s w))"
  then show "fcm_cache (snd (fcm_Token E s w)) = fcm_cache w" by (rule fcm_Token_failed)
qed

definition nt_fcm_source :: ServiceAccountTokenSource where
  "nt_fcm_source = \<lparr>sa_sign = (\<lambda>kid claims. Inr ''jwt''), sa_privateKeyID = [], sa_clientEmail = [],
     sa_tokenURI = googleTokenURL\<rparr>"

theorem fcm_token_fresh_witness:
  "\<exists>w1 c. fcm_Token nt_env nt_fcm_source nt_empty = (Inr ''at'', w1) \<and> fcm_cache w1 = Some c \<and>
     fst (fcm_Token nt_env nt_fcm_source w1) = Inr ''at'' \<and>
     http_log (snd (fcm_Token nt_env nt_fcm_source w1)) = http_log w1"
proof -
  have run: "fcm_Token nt_env nt_fcm_source nt_empty = (Inr ''at'', snd (fcm_Token nt_env nt_fcm_source nt_empty))"
    (is "_ = (_, ?w1)") by (rule run_eqI) code_simp
  have "\<forall>c. fcm_cache ?w1 = Some c \<longrightarrow> cached_now nt_env c (n_now ?w1)"
  proof -
    have "map_option (\<lambda>c. cached_now nt_env c (n_now ?w1)) (fcm_cache ?w1) = Some True" by code_simp
    then show ?thesis by auto
  qed
  moreover have "\<exists>c. fcm_cache ?w1 = Some c \<and> (\<forall>j. (\<forall>i \<le> j. cached_now nt_env c (n_now ?w1 + i)) \<longrightarrow>
           (let w2 = ((\<lambda>w. snd (fcm_Token nt_env nt_fcm_source w)) ^^ j) ?w1
            in fst (fcm_Token nt_env nt_fcm_source w2) = Inr ''at'' \<and>
               http_log (snd (fcm_Token nt_env nt_fcm_source w2)) = http_log ?w1))"
    using fcm_token_fresh [of nt_env nt_fcm_source nt_empty "''at''" ?w1] run by blast
  ultimately show ?thesis using run by (auto dest!: spec [of _ 0] simp: Let_def)
qed

subsection \<open>The database\<close>

text \<open>C40: whatever requests and events the service handles, under every schedule of the fan-outs and with
  any faults, the primary keys hold, the data of every notification are an object and every delivery
  is pending; and no notification is lost or altered, except that its read mark is set once.\<close>
theorem nt_database_invariant:
  assumes "(nt_step E cfg)\<^sup>*\<^sup>* w w'" and "nt_inv w"
  shows "nt_inv w' \<and> (\<forall>r \<in> set (notifications w). row_kept r w')"
proof (intro conjI ballI)
  show "nt_inv w'" using assms by (rule nt_invariant.nt_steps_P)
  fix r assume "r \<in> set (notifications w)"
  then have "row_kept r w" by (auto simp: row_kept_def)
  with assms(1) show "row_kept r w'" by (rule nt_row.nt_steps_P)
qed


theorem nt_database_invariant_witness:
  "nt_inv (snd (subscriber_consume nt_env (nt_svc_main nt_env nt_cfg) (\<lambda>k. k) (Some nt_member_added) nt_world)) \<and>
   map rn_user_id (notifications (snd (subscriber_consume nt_env (nt_svc_main nt_env nt_cfg) (\<lambda>k. k)
     (Some nt_member_added) nt_world))) = [7, 7]"
proof -
  let ?w = "snd (subscriber_consume nt_env (nt_svc_main nt_env nt_cfg) (\<lambda>k. k) (Some nt_member_added) nt_world)"
  have "(nt_step nt_env nt_cfg)\<^sup>*\<^sup>* nt_world ?w" by (rule r_into_rtranclp) (rule nt_step.event)
  moreover have "nt_inv nt_world" by code_simp
  ultimately have "nt_inv ?w" by (rule nt_database_invariant [THEN conjunct1])
  moreover have "map rn_user_id (notifications ?w) = [7, 7]" by code_simp
  ultimately show ?thesis ..
qed

end
