(* ===== verification/Servers.thy ===== *)
theory Servers
  imports Org_Edge_Correct Identity_Refinement Notification_Edge_Correct
begin

text \<open>
  The three services as processes (\<^verbatim>\<open>cmd/*/main.go\<close> and \<^verbatim>\<open>internal/platform\<close>): what a start-up needs and in
  which order it fails, the public and the internal server of each with the middleware in front, and
  the properties of the servers as a whole.
\<close>

subsection \<open>Start-up\<close>

text \<open>\<open>os.Getenv\<close> gives the empty string for a variable that is not set. A start-up step of a library either
  succeeds or the process exits.\<close>

datatype start_step = OtelInit | PgConnect | NatsConnect | JetStreamInit | StreamSetup

datatype start_failure =
    EnvMissing string
  | StepFailed start_step

definition requireEnv :: "(string \<Rightarrow> string) \<Rightarrow> string \<Rightarrow> (string \<Rightarrow> start_failure + 'a) \<Rightarrow> start_failure + 'a" where
  "requireEnv getenv key k = (if getenv key = [] then Inl (EnvMissing key) else k (getenv key))"

definition start :: "(start_step \<Rightarrow> bool) \<Rightarrow> start_step \<Rightarrow> start_failure + 'a \<Rightarrow> start_failure + 'a" where
  "start ok s k = (if ok s then k else Inl (StepFailed s))"

record 'cfg process =
  pc_version :: string
  pc_postgresDSN :: string
  pc_natsURL :: string
  pc_config :: 'cfg
  pc_hydraAdminURL :: string
  pc_listenAddr :: string
  pc_internalAddr :: string

text \<open>What telemetry reports, and what all three do first.\<close>

definition version :: "(string \<Rightarrow> string) \<Rightarrow> string" where
  "version getenv = envOr (getenv ''SERVICE_VERSION'') ''dev''"

definition start_common ::
    "(string \<Rightarrow> string) \<Rightarrow> (start_step \<Rightarrow> bool) \<Rightarrow> (string \<Rightarrow> string \<Rightarrow> start_failure + 'a) \<Rightarrow> start_failure + 'a" where
  "start_common getenv ok k =
     start ok OtelInit (requireEnv getenv ''POSTGRES_DSN'' (\<lambda>dsn.
     start ok PgConnect (requireEnv getenv ''NATS_URL'' (\<lambda>nats.
     start ok NatsConnect (start ok JetStreamInit (k dsn nats))))))"

text \<open>The org service starts its workers before it asks for the last variable.\<close>

definition org_start :: "(string \<Rightarrow> string) \<Rightarrow> (start_step \<Rightarrow> bool) \<Rightarrow> start_failure + org_config process" where
  "org_start getenv ok =
     start_common getenv ok (\<lambda>dsn nats.
     start ok StreamSetup (
     requireEnv getenv ''KETO_READ_URL'' (\<lambda>keto_read.
     requireEnv getenv ''KETO_WRITE_URL'' (\<lambda>keto_write.
     requireEnv getenv ''HYDRA_ADMIN_URL'' (\<lambda>hydra.
     Inr \<lparr>pc_version = version getenv, pc_postgresDSN = dsn, pc_natsURL = nats,
          pc_config = \<lparr>KETO_READ_URL = keto_read, KETO_WRITE_URL = keto_write,
                       CENTRIFUGO_TOKEN_SECRET = getenv ''CENTRIFUGO_TOKEN_SECRET'',
                       CENTRIFUGO_PROXY_SECRET = getenv ''CENTRIFUGO_PROXY_SECRET''\<rparr>,
          pc_hydraAdminURL = hydra, pc_listenAddr = envOr (getenv ''LISTEN_ADDR'') '':8081'',
          pc_internalAddr = envOr (getenv ''INTERNAL_LISTEN_ADDR'') '':8082''\<rparr>)))))"

text \<open>The identity service does not set up the stream it publishes to. Its configuration is the key of
  its internal route.\<close>

definition id_start :: "(string \<Rightarrow> string) \<Rightarrow> (start_step \<Rightarrow> bool) \<Rightarrow> start_failure + string process" where
  "id_start getenv ok =
     start_common getenv ok (\<lambda>dsn nats.
     requireEnv getenv ''HYDRA_ADMIN_URL'' (\<lambda>hydra.
     Inr \<lparr>pc_version = version getenv, pc_postgresDSN = dsn, pc_natsURL = nats, pc_config = getenv ''INTERNAL_API_KEY'',
          pc_hydraAdminURL = hydra, pc_listenAddr = envOr (getenv ''LISTEN_ADDR'') '':8080'',
          pc_internalAddr = envOr (getenv ''INTERNAL_LISTEN_ADDR'') '':8084''\<rparr>))"

text \<open>The key of Centrifugo's API is required when its URL is set. There is no internal server.\<close>

definition nt_start :: "(string \<Rightarrow> string) \<Rightarrow> (start_step \<Rightarrow> bool) \<Rightarrow> start_failure + nt_config process" where
  "nt_start getenv ok =
     start_common getenv ok (\<lambda>dsn nats.
     start ok StreamSetup (
     (if getenv ''CENTRIFUGO_API_URL'' \<noteq> [] then requireEnv getenv ''CENTRIFUGO_API_KEY'' else (\<lambda>k. k [])) (\<lambda>centrifugo_key.
     requireEnv getenv ''ORG_SERVICE_URL'' (\<lambda>org_url.
     requireEnv getenv ''IDENTITY_SERVICE_URL'' (\<lambda>identity_url.
     requireEnv getenv ''HYDRA_ADMIN_URL'' (\<lambda>hydra.
     Inr \<lparr>pc_version = version getenv, pc_postgresDSN = dsn, pc_natsURL = nats,
          pc_config = \<lparr>SMTP_HOST = getenv ''SMTP_HOST'', SMTP_PORT = getenv ''SMTP_PORT'',
                       SMTP_FROM = getenv ''SMTP_FROM'', SMTP_USER = getenv ''SMTP_USER'',
                       SMTP_PASSWORD = getenv ''SMTP_PASSWORD'',
                       CENTRIFUGO_API_URL = getenv ''CENTRIFUGO_API_URL'', CENTRIFUGO_API_KEY = centrifugo_key,
                       NT_INTERNAL_API_KEY = envOr (getenv ''INTERNAL_API_KEY'') [],
                       ORG_SERVICE_URL = org_url, IDENTITY_SERVICE_URL = identity_url\<rparr>,
          pc_hydraAdminURL = hydra, pc_listenAddr = envOr (getenv ''LISTEN_ADDR'') '':8083'',
          pc_internalAddr = []\<rparr>))))))"

subsection \<open>The connection pool and the stream\<close>

record pg_config =
  pg_DSN :: string
  pg_MaxConns :: "32 word"
  pg_MinConns :: "32 word"
  pg_MaxConnLifetime :: time
  pg_MaxConnIdleTime :: time

definition DefaultConfig :: "string \<Rightarrow> pg_config" where
  "DefaultConfig dsn = \<lparr>pg_DSN = dsn, pg_MaxConns = 25, pg_MinConns = 2,
     pg_MaxConnLifetime = 30 * 60 * Second, pg_MaxConnIdleTime = 5 * 60 * Second\<rparr>"

text \<open>Parsing, creating, pinging and closing a pool are the library's. The parsed configuration takes the
  limits of ours.\<close>

definition NewPool ::
    "(string \<Rightarrow> string + 'c) \<Rightarrow> (pg_config \<Rightarrow> 'c \<Rightarrow> 'c) \<Rightarrow> ('c \<Rightarrow> 'w \<Rightarrow> (string + 'p) \<times> 'w) \<Rightarrow>
     ('p \<Rightarrow> 'w \<Rightarrow> string option \<times> 'w) \<Rightarrow> ('p \<Rightarrow> 'w \<Rightarrow> 'w) \<Rightarrow> pg_config \<Rightarrow> ('s, 'p, 'w) go_op" where
  "NewPool parse with_limits create ping close cfg w =
     (case parse (pg_DSN cfg) of
        Inl msg \<Rightarrow> (Inl (Wrapped ''postgres: parse config'' (ExtError msg)), w)
      | Inr poolCfg \<Rightarrow>
          (case create (with_limits cfg poolCfg) w of
             (Inl msg, w1) \<Rightarrow> (Inl (Wrapped ''postgres: create pool'' (ExtError msg)), w1)
           | (Inr pool, w1) \<Rightarrow>
               (case ping pool w1 of
                  (Some msg, w2) \<Rightarrow> (Inl (Wrapped ''postgres: ping'' (ExtError msg)), close pool w2)
                | (None, w2) \<Rightarrow> (Inr pool, w2))))"

datatype stream_storage = FileStorage | MemoryStorage

record stream_config =
  sc_Name :: string
  sc_Subjects :: "string list"
  sc_Storage :: stream_storage
  sc_MaxAge :: time

definition event_stream :: stream_config where
  "event_stream = \<lparr>sc_Name = ''MOBPILOT_EVENTS'', sc_Subjects = [''mobpilot.events.>''], sc_Storage = FileStorage,
     sc_MaxAge = 72 * Hour\<rparr>"

definition EnsureStream :: "(stream_config \<Rightarrow> ('s, 'a, 'w) go_op) \<Rightarrow> ('s, unit, 'w) go_op" where
  "EnsureStream createOrUpdate = check_err ''nats.EnsureStream'' (createOrUpdate event_stream) (\<lambda>_ w. (Inr (), w))"

subsection \<open>Telemetry\<close>

text \<open>A ratio is a number of traces out of a number of traces.\<close>

datatype sampler = TraceIDRatioBased nat nat | ParentBased sampler

datatype propagator = TraceContext | Baggage

record ('r, 'e) tracer_config =
  tc_resource :: 'r
  tc_exporter :: 'e
  tc_sampler :: sampler

text \<open>Building the resource and the exporter are the library's, and so is the provider made of them, whose
  shutdown function is returned. Setting the global provider and propagators changes the process.\<close>

definition InitProvider ::
    "((string \<times> string) list \<Rightarrow> ('s, 'r, 'w) go_op) \<Rightarrow> ('s, 'e, 'w) go_op \<Rightarrow>
     (('r, 'e) tracer_config \<Rightarrow> 'tp) \<Rightarrow> ('tp \<Rightarrow> propagator list \<Rightarrow> 'w \<Rightarrow> 'w) \<Rightarrow> ('tp \<Rightarrow> 'shutdown) \<Rightarrow>
     string \<Rightarrow> string \<Rightarrow> ('s, 'shutdown, 'w) go_op" where
  "InitProvider newResource newExporter newProvider set_global shutdown_of serviceName serviceVersion =
     check_err ''otel: build resource''
       (newResource [(''service.name'', serviceName), (''service.version'', serviceVersion)]) (\<lambda>res.
     check_err ''otel: create exporter'' newExporter (\<lambda>exporter w.
     let tp = newProvider \<lparr>tc_resource = res, tc_exporter = exporter,
                           tc_sampler = ParentBased (TraceIDRatioBased 1 10)\<rparr>
     in (Inr (shutdown_of tp), set_global tp [TraceContext, Baggage] w)))"

subsection \<open>The servers\<close>

definition healthz :: "'w handler" where
  "healthz r w = (writeJSON 200 (JObj [(''status'', JStr ''ok'')]), w)"

definition healthz_route :: "'w route" where
  "healthz_route = (''GET'', ''/healthz'', healthz)"

text \<open>The middleware of the servers, from the outside in: the request log, and on a public server the bearer
  check, in front of every route, the health check too. Request identifiers, the peer's address and the
  recovery from panics are the router's library.\<close>

definition public_server ::
    "env \<Rightarrow> (request \<Rightarrow> string \<times> string \<times> string) \<Rightarrow> (reply \<Rightarrow> nat) \<Rightarrow> string \<Rightarrow> 'x go_state_scheme route list \<Rightarrow>
     (access_entry list \<times> introspectCache \<times> 'x go_state_scheme) route list" where
  "public_server E about size_of hydra routes =
     map (\<lambda>rt. (fst rt, fst (snd rt), Logger E about size_of (BearerAuth E hydra (route_handler rt))))
       (healthz_route # routes)"

definition internal_server ::
    "env \<Rightarrow> (request \<Rightarrow> string \<times> string \<times> string) \<Rightarrow> (reply \<Rightarrow> nat) \<Rightarrow> 'x go_state_scheme route list \<Rightarrow>
     (access_entry list \<times> unit \<times> 'x go_state_scheme) route list" where
  "internal_server E about size_of routes =
     map (\<lambda>rt. (fst rt, fst (snd rt), Logger E about size_of
                 (\<lambda>r (u, w). let (rep, w1) = route_handler rt r w in (rep, u, w1)))) routes"

definition org_public ::
    "env \<Rightarrow> (request \<Rightarrow> string \<times> string \<times> string) \<Rightarrow> (reply \<Rightarrow> nat) \<Rightarrow> org_config process \<Rightarrow>
     (access_entry list \<times> introspectCache \<times> org_db) route list" where
  "org_public E about size_of p =
     public_server E about size_of (pc_hydraAdminURL p) (org_Mount E (org_main E (pc_config p)))"

definition org_internal ::
    "env \<Rightarrow> (request \<Rightarrow> string \<times> string \<times> string) \<Rightarrow> (reply \<Rightarrow> nat) \<Rightarrow> org_config process \<Rightarrow>
     (access_entry list \<times> unit \<times> org_db) route list" where
  "org_internal E about size_of p = internal_server E about size_of (org_MountInternal E (org_main E (pc_config p)))"


definition id_internal ::
    "env \<Rightarrow> (request \<Rightarrow> string \<times> string \<times> string) \<Rightarrow> (reply \<Rightarrow> nat) \<Rightarrow> string process \<Rightarrow>
     (access_entry list \<times> unit \<times> id_db) route list" where
  "id_internal E about size_of p = internal_server E about size_of (id_MountInternal E (pc_config p) (id_main E))"

definition nt_public ::
    "env \<Rightarrow> (request \<Rightarrow> string \<times> string \<times> string) \<Rightarrow> (reply \<Rightarrow> nat) \<Rightarrow> nt_config process \<Rightarrow>
     (access_entry list \<times> introspectCache \<times> nt_db) route list" where
  "nt_public E about size_of p =
     public_server E about size_of (pc_hydraAdminURL p) (nt_Mount E (nt_main E (pc_config p)))"

lemma start_simps [simp]:
  "requireEnv getenv key k = Inr x \<longleftrightarrow> getenv key \<noteq> [] \<and> k (getenv key) = Inr x"
  "start ok s m = Inr x \<longleftrightarrow> ok s \<and> m = Inr x"
  by (simp_all add: requireEnv_def start_def)

lemma all_start_step: "(\<forall>s. P s) \<longleftrightarrow> P OtelInit \<and> P PgConnect \<and> P NatsConnect \<and> P JetStreamInit \<and> P StreamSetup"
  by (metis start_step.exhaust)

lemmas start_defs = org_start_def id_start_def nt_start_def start_common_def

text \<open>A process comes up exactly when every library step succeeds and the variables it needs are set.\<close>

lemma start_complete:
  "(\<exists>p. org_start getenv ok = Inr p) \<longleftrightarrow> (\<forall>s. ok s) \<and>
     (\<forall>k \<in> set [''POSTGRES_DSN'', ''NATS_URL'', ''KETO_READ_URL'', ''KETO_WRITE_URL'', ''HYDRA_ADMIN_URL'']. getenv k \<noteq> [])"
  "(\<exists>p. id_start getenv ok = Inr p) \<longleftrightarrow> (\<forall>s. s \<noteq> StreamSetup \<longrightarrow> ok s) \<and>
     (\<forall>k \<in> set [''POSTGRES_DSN'', ''NATS_URL'', ''HYDRA_ADMIN_URL'']. getenv k \<noteq> [])"
  "(\<exists>p. nt_start getenv ok = Inr p) \<longleftrightarrow> (\<forall>s. ok s) \<and>
     (\<forall>k \<in> set [''POSTGRES_DSN'', ''NATS_URL'', ''ORG_SERVICE_URL'', ''IDENTITY_SERVICE_URL'', ''HYDRA_ADMIN_URL'']. getenv k \<noteq> []) \<and>
     (getenv ''CENTRIFUGO_API_URL'' \<noteq> [] \<longrightarrow> getenv ''CENTRIFUGO_API_KEY'' \<noteq> [])"
  by (auto simp: start_defs all_start_step)

lemma public_serverE:
  assumes "rt \<in> set (public_server E about size_of hydra routes)"
  obtains inner where "inner \<in> set (healthz_route # routes)"
    "route_handler rt = Logger E about size_of (BearerAuth E hydra (route_handler inner))"
  using assms unfolding public_server_def set_map by (elim imageE) simp

text \<open>A request without a bearer token gets a 401 from every public route, the health check among them.\<close>

lemma public_needs_token:
  assumes "rt \<in> set (public_server E about size_of hydra routes)" and "extractBearer r = []"
  shows "fst (route_handler rt r lw) = mw_writeProblem 401 ''missing or invalid Authorization header''"
  using assms by (auto simp: BearerAuth_def Logger_def time_Now_def Let_def elim!: public_serverE split: prod.splits)

subsection \<open>Error replies\<close>






subsection \<open>Isolation of the public identity server\<close>

lemma introspected_meanwhile [simp]:
  "introspected E url (es @ [Meanwhile f]) cw token claims t \<longleftrightarrow> introspected E url es cw token claims t"
proof
  assume "introspected E url (es @ [Meanwhile f]) cw token claims t"
  then obtain es1 nxt r es2 c1 w1 w2 where "es @ [Meanwhile f] = es1 @ Serve nxt r # es2" "extractBearer r = token"
    "token \<noteq> []" "cache_get E token (mw_run E url es1 cw) = (None, c1, w1)"
    "introspect E (introspect_url url) token w1 = (Inr claims, w2)" "t = e_now E (n_now w2)"
    unfolding introspected_def by blast
  moreover from this(1) obtain es3 where "es = es1 @ Serve nxt r # es3"
    by (cases es2 rule: rev_cases) auto
  ultimately show "introspected E url es cw token claims t" unfolding introspected_def by blast
qed (rule introspected_later)

text \<open>Hydra vouches for the token: it answered for an earlier request with it at most thirty seconds ago, or
  answers now. The request's own clock reading is the one after the log's.\<close>

definition vouched_now :: "env \<Rightarrow> string \<Rightarrow> 'x go_state_scheme mw_event list \<Rightarrow> introspectCache \<times> 'x go_state_scheme \<Rightarrow>
    'x go_state_scheme \<Rightarrow> string \<Rightarrow> Claims \<Rightarrow> bool" where
  "vouched_now E hydra es cw w token cl \<longleftrightarrow> token \<noteq> [] \<and>
     ((\<exists>t. introspected E hydra es cw token cl t \<and> e_now E (Suc (n_now w)) \<le> t + 30 * Second) \<or>
      introspect_answer (e_http E (http_log w) (introspect_request (introspect_url hydra) token)) = Inr cl)"

text \<open>The two ways of a request through a public server.\<close>

lemma public_gate:
  assumes hist: "mw_run E hydra es (Map.empty, w0) = (c, w)"
    and rt: "rt \<in> set (public_server E about size_of hydra routes)"
    and run: "route_handler rt r (log, c, w) = (rep, log', c', w')"
  obtains (rejected) "rp_status rep = 401" "tables_of w' = tables_of w"
  | (passed) inner cl w1 w2 where "inner \<in> set (healthz_route # routes)"
      "route_handler inner (WithClaims cl r) w1 = (rep, w2)" "tables_of w1 = tables_of w" "tables_of w' = tables_of w2"
      "vouched_now E hydra es (Map.empty, w0) w (extractBearer r) cl"
proof -
  let ?tick = "\<lambda>w. w\<lparr>n_now := Suc (n_now w)\<rparr>"
  from rt obtain inner where inner: "inner \<in> set (healthz_route # routes)"
    and h: "route_handler rt = Logger E about size_of (BearerAuth E hydra (route_handler inner))"
    by (rule public_serverE)
  from run [unfolded h] obtain w2 where run2: "BearerAuth E hydra (route_handler inner) r (c, ?tick w) = (rep, c', w2)"
    and w': "w' = ?tick w2" by (rule Logger_run)
  from hist have hist2: "mw_run E hydra (es @ [Meanwhile ?tick]) (Map.empty, w0) = (c, ?tick w)"
    by simp
  from BearerAuth_gate [OF hist2 run2]
  consider "rp_status rep = 401" "tables_of w2 = tables_of w"
    | cl w1 where "extractBearer r \<noteq> []" "route_handler inner (WithClaims cl r) w1 = (rep, w2)" "tables_of w1 = tables_of w"
      "(\<exists>t. introspected E hydra (es @ [Meanwhile ?tick]) (Map.empty, w0) (extractBearer r) cl t \<and>
             e_now E (Suc (n_now w)) \<le> t + 30 * Second) \<or>
        introspect_answer (e_http E (http_log w) (introspect_request (introspect_url hydra) (extractBearer r))) = Inr cl"
    by auto
  then show thesis
  proof cases
    case 1
    then show thesis by (intro rejected) (simp_all add: w')
  next
    case (2 cl w1)
    with inner show thesis by (intro passed [of inner cl w1 w2]) (simp_all add: w' vouched_now_def)
  qed
qed



definition ex_about :: "request \<Rightarrow> string \<times> string \<times> string" where
  "ex_about r = (''GET'', ''/v1/identity/me'', ''10.0.0.1'')"


subsection \<open>Isolation of the notification server\<close>

text \<open>The rows of everybody but one user.\<close>

definition nt_rows_of_others :: "uuid \<Rightarrow> nt_db \<Rightarrow> NotificationRow list \<times> PreferenceRow list" where
  "nt_rows_of_others u w = (filter (\<lambda>r. rn_user_id r \<noteq> u) (notifications w),
     filter (\<lambda>r. rp_user_id r \<noteq> u) (notification_preferences w))"

lemma nt_tables_of: "tables_of w = tables_of (w' :: nt_db) \<Longrightarrow> nt_tables w = nt_tables w'"
proof -
  have "nt_tables (tables_of w) = nt_tables w" for w :: nt_db by (simp add: tables_of_def nt_tables_def)
  then show "tables_of w = tables_of w' \<Longrightarrow> nt_tables w = nt_tables w'" by metis
qed

lemma nt_rows_tables: "nt_tables w = nt_tables w' \<Longrightarrow> nt_rows_of_others u w = nt_rows_of_others u w'"
  by (simp add: nt_rows_of_others_def nt_tables_def)

lemma MarkRead_others:
  assumes "nt_wf w"
  shows "nt_rows_of_others (mk_UserID cmd) (snd (MarkRead (nt_service E cfg p) cmd w)) = nt_rows_of_others (mk_UserID cmd) w"
proof -
  obtain res w1 where find: "NotificationRepo_FindByID E (mk_NotificationID cmd) w = (res, w1)"
    by (cases "NotificationRepo_FindByID E (mk_NotificationID cmd) w")
  have w1: "nt_tables w1 = nt_tables w"
    using keeps_eq [OF pg_notifications.find_keeps, of E "mk_NotificationID cmd" w] find by (simp add: NewNotificationRepo_def)
  show ?thesis
  proof (cases "\<exists>n. res = Inr n \<and> nf_UserID n = mk_UserID cmd")
    case True
    then obtain n where n: "res = Inr n" "nf_UserID n = mk_UserID cmd" by blast
    from pg_notifications.find_found [of E "mk_NotificationID cmd" w n w1] find n(1)
    have "notification_view (nt_tables w) (mk_NotificationID cmd) = Some n" by (simp add: NewNotificationRepo_def)
    then obtain r where r: "r \<in> set (notifications w)" "rn_id r = mk_NotificationID cmd" "rn_user_id r = mk_UserID cmd"
      using n(2) by (auto simp: notification_view_def nt_tables_def rowToNotification_def dest!: table_map_Some)
    have owner: "rn_user_id x = mk_UserID cmd" if "x \<in> set (notifications w)" "rn_id x = mk_NotificationID cmd" for x
      using assms that r inj_onD [of rn_id "set (notifications w)" x r] by (auto simp: nt_wf_def distinct_map)
    let ?w2 = "snd (NotificationRepo_MarkRead E (mk_NotificationID cmd) w1)"
    have n1: "notifications w1 = notifications w" "notification_preferences w1 = notification_preferences w"
      using w1 by (simp_all add: nt_tables_def)
    have user: "rn_user_id (mark_row t x) = rn_user_id x" for t x by (simp add: mark_row_def)
    have kept: "filter (\<lambda>r. rn_user_id r \<noteq> mk_UserID cmd) (map (\<lambda>r. if rn_id r = mk_NotificationID cmd then mark_row t r else r) rs) =
        filter (\<lambda>r. rn_user_id r \<noteq> mk_UserID cmd) rs" if "set rs \<subseteq> set (notifications w)" for rs t
      using that
    proof (induction rs)
      case (Cons x rs)
      then show ?case using owner [of x] by (simp add: user)
    qed simp
    from MarkRead_rows(1) [of E "mk_NotificationID cmd" w1]
    have "filter (\<lambda>r. rn_user_id r \<noteq> mk_UserID cmd) (notifications ?w2) =
        filter (\<lambda>r. rn_user_id r \<noteq> mk_UserID cmd) (notifications w)"
      by (elim disjE) (simp_all only: n1 kept [OF subset_refl])
    moreover have "notification_preferences ?w2 = notification_preferences w"
      using n1 by (simp add: NotificationRepo_MarkRead_def MarkNotificationRead_def conv_def net_call_def db_now_def Let_def
          split: net_outcome.splits sum.splits prod.splits)
    ultimately show ?thesis
      using find n by (simp add: MarkRead_def check_err_def NewNotificationRepo_def nt_rows_of_others_def)
  next
    case False
    then have "snd (MarkRead (nt_service E cfg p) cmd w) = w1"
      using find by (auto simp: MarkRead_def check_err_def NewNotificationRepo_def split: sum.splits)
    with nt_rows_tables [OF w1] show ?thesis by simp
  qed
qed

lemma UpsertPreference_others:
  "nt_rows_of_others (upc_UserID cmd) (snd (UpsertPreference \<lparr>ps_preferences = NewPreferenceRepo E\<rparr> cmd w)) =
   nt_rows_of_others (upc_UserID cmd) w"
proof -
  have "preserves (\<lambda>w'. nt_rows_of_others (upc_UserID cmd) w' = nt_rows_of_others (upc_UserID cmd) w)
      (UpsertNotificationPreference E (upc_UserID cmd) a ch ev b)" for a ch ev b
    unfolding UpsertNotificationPreference_def
  proof (rule net_call_writes, goal_cases)
    case (2 wa)
    have "filter (\<lambda>r. rp_user_id r \<noteq> upc_UserID cmd) (upsert_row pref_key
        \<lparr>rp_user_id = upc_UserID cmd, rp_app_id = a, rp_channel = ch, rp_event_type = ev, rp_enabled = b, rp_updated_at = t\<rparr>
        (\<lambda>x. x\<lparr>rp_enabled := b, rp_updated_at := t\<rparr>) rs) = filter (\<lambda>r. rp_user_id r \<noteq> upc_UserID cmd) rs" for rs t
      by (rule filter_upsert_row) auto
    with 2 show ?case by (simp add: nt_rows_of_others_def db_now_def Let_def)
  qed (simp add: nt_rows_of_others_def)
  then have "preserves (\<lambda>w'. nt_rows_of_others (upc_UserID cmd) w' = nt_rows_of_others (upc_UserID cmd) w)
      (UpsertPreference \<lparr>ps_preferences = NewPreferenceRepo E\<rparr> cmd)"
    unfolding UpsertPreference_def
    by (intro preserves_check_err preserves_const)
       (simp add: NewPreferenceRepo_def PreferenceRepo_Upsert_def preserves_conv)
  then show ?thesis by (simp add: preserves_def)
qed

lemma nt_Mount_others:
  assumes rt: "rt \<in> set (nt_Mount E (nt_main E cfg))" and c: "rq_claims r = Some c" and w: "nt_wf w"
  shows "nt_rows_of_others (uuid_Parse_lax E (c_Subject c)) (snd (route_handler rt r w)) =
    nt_rows_of_others (uuid_Parse_lax E (c_Subject c)) w"
proof -
  have "keeps nt_tables (ListForUser (nt_service E cfg NoopPushPort) u a l q)" for u a l q
    unfolding ListForUser_def by (simp add: NewNotificationRepo_def nt_invariant.nt_reads)
  moreover have "keeps nt_tables (GetPreferences \<lparr>ps_preferences = NewPreferenceRepo E\<rparr> u a)" for u a
    unfolding GetPreferences_def
    by (rule keeps_check_err) (simp_all add: NewPreferenceRepo_def nt_invariant.nt_reads keepsI)
  ultimately have lists: "nt_tables (snd (ListForUser (nt_service E cfg NoopPushPort) u a l q w)) = nt_tables w"
    "nt_tables (snd (GetPreferences \<lparr>ps_preferences = NewPreferenceRepo E\<rparr> u a w)) = nt_tables w" for u a l q
    by (simp_all add: keeps_def)
  show ?thesis
    using rt MarkRead_others [OF w, of "\<lparr>mk_NotificationID = i, mk_UserID = uuid_Parse_lax E (c_Subject c)\<rparr>" E cfg NoopPushPort for i]
      UpsertPreference_others [of "\<lparr>upc_UserID = uuid_Parse_lax E (c_Subject c), upc_AppID = a, upc_Channel = ch,
         upc_EventType = ev, upc_Enabled = b\<rparr>" E w for a ch ev b]
    unfolding nt_Mount_def
    by (auto simp: nt_handler_defs nt_main_def require_claims_def ClaimsFromContext_def c uuid_param_def parse_uuid_def
        decode_body_def nt_rows_tables [OF lists(1)] nt_rows_tables [OF lists(2)] split: option.splits)
qed

text \<open>C17: end to end, whatever a client sends to the public notification server, after any history and with any
  faults: the answer is a 401 and no table changes, or Hydra vouched for the token it presented, and
  the notifications and preferences of everybody but the user Hydra named are the rows they were.\<close>
theorem notification_isolation:
  assumes hist: "mw_run E (pc_hydraAdminURL p) es (Map.empty, w0) = (c, w)" and wf: "nt_wf w"
    and rt: "rt \<in> set (nt_public E about size_of p)"
    and run: "route_handler rt r (log, c, w) = (rep, log', c', w')"
  shows "rp_status rep = 401 \<and> tables_of w' = tables_of w \<or>
    (\<exists>claims. vouched_now E (pc_hydraAdminURL p) es (Map.empty, w0) w (extractBearer r) claims \<and>
       nt_rows_of_others (uuid_Parse_lax E (c_Subject claims)) w' =
       nt_rows_of_others (uuid_Parse_lax E (c_Subject claims)) w)"
  using hist rt [unfolded nt_public_def] run
proof (cases rule: public_gate)
  case (passed inner cl w1 w2)
  let ?rows = "nt_rows_of_others (uuid_Parse_lax E (c_Subject cl))"
  have w1: "nt_tables w1 = nt_tables w" and w': "nt_tables w' = nt_tables w2"
    using passed(3,4) by (auto intro: nt_tables_of)
  then have "nt_wf w1" using wf by (simp add: nt_wf_def nt_tables_def)
  have "?rows (snd (route_handler inner (WithClaims cl r) w1)) = ?rows w1"
  proof (cases "inner \<in> set (nt_Mount E (nt_main E (pc_config p)))")
    case True
    from nt_Mount_others [OF this _ \<open>nt_wf w1\<close>, of "WithClaims cl r" cl] show ?thesis by (simp add: WithClaims_def)
  next
    case False
    with passed(1) show ?thesis by (simp add: healthz_route_def healthz_def)
  qed
  then show ?thesis using passed nt_rows_tables [OF w1] nt_rows_tables [OF w'] by (metis snd_conv)
qed simp

definition ex_nt_process :: "nt_config process" where
  "ex_nt_process = \<lparr>pc_version = ''dev'', pc_postgresDSN = ''dsn'', pc_natsURL = ''nats'', pc_config = nt_cfg,
     pc_hydraAdminURL = ''http://hydra'', pc_listenAddr = '':8083'', pc_internalAddr = []\<rparr>"

theorem notification_isolation_witness:
  "\<exists>claims. vouched_now ex_env ''http://hydra'' [] (Map.empty, nt_empty) nt_empty ''t1'' claims \<and>
     nt_rows_of_others (uuid_Parse_lax ex_env (c_Subject claims))
       (snd (snd (snd (Logger ex_env ex_about (\<lambda>_. 0) (BearerAuth ex_env ''http://hydra''
         (getPreferences ex_env (nt_main ex_env nt_cfg))) (ex_bearer ''t1'') ([], Map.empty, nt_empty))))) =
     nt_rows_of_others (uuid_Parse_lax ex_env (c_Subject claims)) nt_empty"
proof -
  let ?h = "Logger ex_env ex_about (\<lambda>_. 0) (BearerAuth ex_env ''http://hydra'' (getPreferences ex_env (nt_main ex_env nt_cfg)))"
  let ?rt = "(''GET'', ''/v1/notifications/preferences'', ?h)"
  let ?run = "?h (ex_bearer ''t1'') ([], Map.empty, nt_empty)"
  have rt: "?rt \<in> set (nt_public ex_env ex_about (\<lambda>_. 0) ex_nt_process)"
    by (simp add: nt_public_def public_server_def nt_Mount_def ex_nt_process_def)
  have hist: "mw_run ex_env (pc_hydraAdminURL ex_nt_process) [] (Map.empty, nt_empty) = (Map.empty, nt_empty)"
    by simp
  have wf: "nt_wf nt_empty" by code_simp
  have s: "rp_status (fst ?run) = 200" by code_simp
  have run: "route_handler ?rt (ex_bearer ''t1'') ([], Map.empty, nt_empty) =
      (fst ?run, fst (snd ?run), fst (snd (snd ?run)), snd (snd (snd ?run)))"
    by simp
  from notification_isolation [OF hist wf rt run] s show ?thesis
    unfolding ex_t1 by (auto simp: ex_nt_process_def)
qed

end
