(* ===== verification/Lifecycle.thy ===== *)
theory Lifecycle
  imports Servers "HOL-Library.Sublist"
begin

text \<open>
  The life of a process after its start-up (\<^verbatim>\<open>cmd/*/main.go\<close>): the servers and workers run until the context
  is done, then \<^verbatim>\<open>main\<close> shuts the servers down and runs its deferred calls. The events are those of the
  operating system, the network and the Go runtime, in any order; \<open>proc_next\<close> says which of them a state
  admits. \<^verbatim>\<open>http.Server\<close> is modelled as documented: \<^verbatim>\<open>Shutdown\<close> closes the listener and returns when no
  request is active or its context has expired.
\<close>

subsection \<open>Servers and phases\<close>

datatype listener = Listening | ListenFailed | ListenClosed

record server =
  sv_Addr :: string
  sv_ReadTimeout :: time
  sv_WriteTimeout :: time
  sv_IdleTimeout :: time
  sv_listener :: listener
  sv_active :: nat

definition new_server :: "string \<Rightarrow> server" where
  "new_server addr = \<lparr>sv_Addr = addr, sv_ReadTimeout = 15 * Second, sv_WriteTimeout = 30 * Second,
     sv_IdleTimeout = 60 * Second, sv_listener = Listening, sv_active = 0\<rparr>"

definition Shutdown :: "server \<Rightarrow> server" where
  "Shutdown v = (if sv_listener v = Listening then v\<lparr>sv_listener := ListenClosed\<rparr> else v)"

text \<open>The deferred calls of \<^verbatim>\<open>main\<close>, in the order they run.\<close>

datatype deferred = CancelShutdown | DrainNats | ClosePool | ShutdownOtel | StopSignals

definition deferred_calls :: "deferred list" where
  "deferred_calls = rev [StopSignals, ShutdownOtel, ClosePool, DrainNats, CancelShutdown]"

datatype phase = Serving | StoppingPublic | StoppingInternal | Returning "deferred list"

datatype worker = OutboxWorker | ExpirySweeper | Subscriber

record process_run =
  pn_ctx_done :: bool
  pn_deadline :: bool
  pn_public :: server
  pn_internal :: "server option"
  pn_workers :: "worker list"
  pn_phase :: phase

definition main_run :: "string \<Rightarrow> string option \<Rightarrow> worker list \<Rightarrow> process_run" where
  "main_run addr internal workers =
     \<lparr>pn_ctx_done = False, pn_deadline = False, pn_public = new_server addr,
      pn_internal = map_option new_server internal, pn_workers = workers, pn_phase = Serving\<rparr>"

definition org_run :: "org_config process \<Rightarrow> process_run" where
  "org_run p = main_run (pc_listenAddr p) (Some (pc_internalAddr p)) [OutboxWorker, ExpirySweeper]"



subsection \<open>Events\<close>

datatype which = Public | Internal

datatype proc_event =
    Signal
  | ServeFails which
  | Accept which
  | Finish which
  | WorkerStops worker
  | ContextSeen
  | DeadlinePasses
  | ShutdownReturns
  | DeferredCall

definition server_of :: "which \<Rightarrow> process_run \<Rightarrow> server option" where
  "server_of x s = (case x of Public \<Rightarrow> Some (pn_public s) | Internal \<Rightarrow> pn_internal s)"

definition put_server :: "which \<Rightarrow> server \<Rightarrow> process_run \<Rightarrow> process_run" where
  "put_server x v s = (case x of Public \<Rightarrow> s\<lparr>pn_public := v\<rparr> | Internal \<Rightarrow> s\<lparr>pn_internal := Some v\<rparr>)"

text \<open>A failure of the public server cancels the context; one of the internal server is logged.\<close>

fun proc_next :: "proc_event \<Rightarrow> process_run \<Rightarrow> process_run option" where
  "proc_next Signal s = Some (s\<lparr>pn_ctx_done := True\<rparr>)"
| "proc_next (ServeFails x) s =
     (case server_of x s of
        None \<Rightarrow> None
      | Some v \<Rightarrow>
          if sv_listener v = Listening
          then Some ((put_server x (v\<lparr>sv_listener := ListenFailed\<rparr>) s)
                 \<lparr>pn_ctx_done := (pn_ctx_done s \<or> x = Public)\<rparr>)
          else None)"
| "proc_next (Accept x) s =
     (case server_of x s of
        None \<Rightarrow> None
      | Some v \<Rightarrow> if sv_listener v = Listening then Some (put_server x (v\<lparr>sv_active := Suc (sv_active v)\<rparr>) s) else None)"
| "proc_next (Finish x) s =
     (case server_of x s of
        None \<Rightarrow> None
      | Some v \<Rightarrow> if sv_active v > 0 then Some (put_server x (v\<lparr>sv_active := sv_active v - 1\<rparr>) s) else None)"
| "proc_next (WorkerStops k) s =
     (if pn_ctx_done s \<and> k \<in> set (pn_workers s) then Some (s\<lparr>pn_workers := remove1 k (pn_workers s)\<rparr>) else None)"
| "proc_next ContextSeen s =
     (if pn_ctx_done s \<and> pn_phase s = Serving
      then Some (s\<lparr>pn_phase := StoppingPublic, pn_public := Shutdown (pn_public s)\<rparr>) else None)"
| "proc_next DeadlinePasses s =
     (if pn_phase s = StoppingPublic \<or> pn_phase s = StoppingInternal then Some (s\<lparr>pn_deadline := True\<rparr>) else None)"
| "proc_next ShutdownReturns s =
     (case pn_phase s of
        StoppingPublic \<Rightarrow>
          if pn_deadline s \<or> sv_active (pn_public s) = 0
          then Some (case pn_internal s of
                 None \<Rightarrow> s\<lparr>pn_phase := Returning deferred_calls\<rparr>
               | Some v \<Rightarrow> s\<lparr>pn_phase := StoppingInternal, pn_internal := Some (Shutdown v)\<rparr>)
          else None
      | StoppingInternal \<Rightarrow>
          if pn_deadline s \<or> (case pn_internal s of None \<Rightarrow> True | Some v \<Rightarrow> sv_active v = 0)
          then Some (s\<lparr>pn_phase := Returning deferred_calls\<rparr>) else None
      | _ \<Rightarrow> None)"
| "proc_next DeferredCall s =
     (case pn_phase s of Returning (d # ds) \<Rightarrow> Some (s\<lparr>pn_phase := Returning ds\<rparr>) | _ \<Rightarrow> None)"

fun proc_run :: "proc_event list \<Rightarrow> process_run \<Rightarrow> process_run option" where
  "proc_run [] s = Some s"
| "proc_run (e # es) s = (if pn_phase s = Returning [] then None else Option.bind (proc_next e s) (proc_run es))"

subsection \<open>Shutdown\<close>


definition quiet_server :: "process_run \<Rightarrow> server \<Rightarrow> bool" where
  "quiet_server s v \<longleftrightarrow> sv_listener v \<noteq> Listening \<and> (pn_deadline s \<or> sv_active v = 0)"

text \<open>What holds in every state, given the events so far.\<close>

definition proc_inv :: "proc_event list \<Rightarrow> process_run \<Rightarrow> bool" where
  "proc_inv es s \<longleftrightarrow>
     (pn_ctx_done s \<longrightarrow> Signal \<in> set es \<or> ServeFails Public \<in> set es) \<and>
     (pn_deadline s \<longrightarrow> DeadlinePasses \<in> set es) \<and>
     (case pn_phase s of
        Serving \<Rightarrow> True
      | StoppingPublic \<Rightarrow> pn_ctx_done s \<and> sv_listener (pn_public s) \<noteq> Listening
      | StoppingInternal \<Rightarrow> pn_ctx_done s \<and> quiet_server s (pn_public s) \<and>
          (\<forall>v. pn_internal s = Some v \<longrightarrow> sv_listener v \<noteq> Listening)
      | Returning ds \<Rightarrow> pn_ctx_done s \<and> quiet_server s (pn_public s) \<and>
          (\<forall>v. pn_internal s = Some v \<longrightarrow> quiet_server s v) \<and> suffix ds deferred_calls)"

lemma proc_server_simps [simp]:
  "server_of Public s = Some (pn_public s)" "server_of Internal s = pn_internal s"
  "put_server Public v s = s\<lparr>pn_public := v\<rparr>" "put_server Internal v s = s\<lparr>pn_internal := Some v\<rparr>"
  by (simp_all add: server_of_def put_server_def)

lemma Shutdown_sel [simp]:
  "sv_listener (Shutdown v) \<noteq> Listening" "sv_active (Shutdown v) = sv_active v"
  by (simp_all add: Shutdown_def)

lemma quiet_server_fields [simp]:
  "quiet_server (s\<lparr>pn_ctx_done := b\<rparr>) v = quiet_server s v" "quiet_server (s\<lparr>pn_public := x\<rparr>) v = quiet_server s v"
  "quiet_server (s\<lparr>pn_internal := y\<rparr>) v = quiet_server s v" "quiet_server (s\<lparr>pn_workers := ws\<rparr>) v = quiet_server s v"
  "quiet_server (s\<lparr>pn_phase := ph\<rparr>) v = quiet_server s v"
  by (simp_all add: quiet_server_def)



lemma proc_inv_main [simp]: "proc_inv [] (main_run a i ws)"
  by (simp add: proc_inv_def main_run_def)






lemma length_deferred_calls [simp]: "length deferred_calls = 5"
  by (simp add: deferred_calls_def)





text \<open>Without the internal server, whose address may be taken, a process goes on.\<close>

lemma internal_failure_ignored:
  "map_option (\<lambda>s. (pn_phase s, pn_ctx_done s)) (proc_run [ServeFails Internal] (org_run p)) = Some (Serving, False)"
  by (simp add: org_run_def main_run_def new_server_def)

text \<open>The workers are not waited for: the process returns while one of them is in the middle of a tick.\<close>

lemma workers_not_awaited:
  "map_option pn_workers (proc_run [Signal, ContextSeen, ShutdownReturns, ShutdownReturns, DeferredCall, DeferredCall,
     DeferredCall, DeferredCall, DeferredCall] (org_run p)) = Some [OutboxWorker, ExpirySweeper]"
  by (simp add: org_run_def main_run_def new_server_def Shutdown_def deferred_calls_def)

end
