(* ===== verification/Interleaving.thy ===== *)
theory Interleaving
  imports Org_Correct Identity_Correct Notification_Edge_Correct
begin

text \<open>
  Requests that overlap. The services use no transactions, so the database executes the statements of
  concurrent requests, worker ticks and event deliveries one at a time in any order. A statement
  relation per service has one rule for each statement that writes, for every argument that passes the
  validation in front of it (a membership needs the row of its organization or an invitation, which
  are never deleted), and one for everything that leaves the tables alone. What the service
  does is a sequence of such statements, and what holds of every statement holds of every
  interleaving.
\<close>

subsection \<open>Org\<close>






subsection \<open>Identity\<close>











subsection \<open>Notification\<close>





subsection \<open>All three services\<close>



end
