(* ===== verification/Identity_Outbox.thy ===== *)
theory Identity_Outbox
  imports Identity_Store
begin

text \<open>
  The identity service's outbox table and its three statements
  (\<^verbatim>\<open>services/identity/infrastructure/postgres/sqlc/query.sql.go\<close>). Nothing in the service calls them, so the
  table extends the database the service works on, and the lemmas state what a worker could rely on.
\<close>

record IdOutboxRow =
  ix_id :: uuid
  ix_aggregate_id :: uuid
  ix_event_type :: string
  ix_payload :: json
  ix_created_at :: time
  ix_published_at :: "time option"

record id_outbox_db = id_db +
  id_outbox :: "IdOutboxRow list"

definition id_InsertOutboxEvent :: "env \<Rightarrow> uuid \<Rightarrow> string \<Rightarrow> json \<Rightarrow> (unit, id_outbox_db) id_op" where
  "id_InsertOutboxEvent E aggregate_id event_type payload =
     net_call E (\<lambda>w. let (ident, w1) = uuid_New E w; (now, w2) = db_now E w1 in
       if ident \<in> ix_id ` set (id_outbox w2)
         then (Inl (PgError ''23505'' ''outbox_pkey''), w2)
       else (Inr (), w2\<lparr>id_outbox := id_outbox w2 @
               [\<lparr>ix_id = ident, ix_aggregate_id = aggregate_id, ix_event_type = event_type,
                 ix_payload = payload, ix_created_at = now, ix_published_at = None\<rparr>]\<rparr>))"

text \<open>The statement reads \<^verbatim>\<open>LIMIT $1\<close> with a 32-bit count; a negative one is an error of the database.\<close>

definition id_GetUnpublishedOutboxEvents :: "env \<Rightarrow> int \<Rightarrow> (IdOutboxRow list, id_outbox_db) id_op" where
  "id_GetUnpublishedOutboxEvents E limit =
     net_call E (\<lambda>w. if limit < 0 then (Inl (PgError ''2201W'' []), w)
       else (Inr (take (nat limit) (sort_key ix_created_at
                    (filter (\<lambda>r. ix_published_at r = None) (id_outbox w)))), w))"

definition id_MarkOutboxEventPublished :: "env \<Rightarrow> uuid \<Rightarrow> (unit, id_outbox_db) id_op" where
  "id_MarkOutboxEventPublished E ident =
     net_call E (\<lambda>w. let (now, w1) = db_now E w in
       (Inr (), w1\<lparr>id_outbox :=
          map (\<lambda>r. if ix_id r = ident then r\<lparr>ix_published_at := Some now\<rparr> else r) (id_outbox w1)\<rparr>))"

text \<open>The unpublished rows, which is all a poll can see.\<close>

definition id_pending :: "id_outbox_db \<Rightarrow> IdOutboxRow list" where
  "id_pending w = filter (\<lambda>r. ix_published_at r = None) (id_outbox w)"

lemma id_insert_pending:
  assumes "id_InsertOutboxEvent E a ev pl w = (Inr (), w')"
  shows "\<exists>r. id_pending w' = id_pending w @ [r] \<and> ix_id r \<notin> ix_id ` set (id_outbox w) \<and> ix_aggregate_id r = a \<and>
    ix_event_type r = ev \<and> ix_payload r = pl"
  using net_call_Inr(2) [OF assms [unfolded id_InsertOutboxEvent_def]]
  by (auto simp: id_pending_def uuid_New_def db_now_def Let_def split: if_splits)

lemma id_poll_pending:
  assumes "id_GetUnpublishedOutboxEvents E limit w = (Inr rows, w')"
  shows "set rows \<subseteq> set (id_pending w) \<and> sorted (map ix_created_at rows) \<and>
    length rows = min (nat limit) (length (id_pending w)) \<and> id_outbox w' = id_outbox w"
  using net_call_Inr [OF assms [unfolded id_GetUnpublishedOutboxEvents_def]] assms
  by (auto simp: id_GetUnpublishedOutboxEvents_def net_call_def id_pending_def min.commute
      dest: in_set_takeD split: if_splits simp flip: take_map intro!: sorted_wrt_take)

lemma filter_mark:
  "filter (\<lambda>r. ix_published_at r = None) (map (\<lambda>r. if ix_id r = i then r\<lparr>ix_published_at := Some t\<rparr> else r) rs) =
   filter (\<lambda>r. ix_id r \<noteq> i) (filter (\<lambda>r. ix_published_at r = None) rs)"
  by (induction rs) auto

lemma id_mark_pending:
  assumes "id_MarkOutboxEventPublished E i w = (Inr (), w')"
  shows "id_pending w' = filter (\<lambda>r. ix_id r \<noteq> i) (id_pending w)"
  using net_call_Inr(2) [OF assms [unfolded id_MarkOutboxEventPublished_def]]
  by (auto simp: id_pending_def db_now_def Let_def filter_mark simp del: filter_filter)

end
