(* ===== verification/Notification_Delivery.thy ===== *)
theory Notification_Delivery
  imports Notification_Edge_Correct
begin

text \<open>
  What a notification to one user sends: with a valid access token in the cache of the push adapter, the
  requests to the identity service and to Firebase and the mail are determined by the preferences, the
  answer to the token lookup and the notification, on every path of \<open>SendToUser\<close> that saved it.
\<close>

subsection \<open>What should be sent\<close>

text \<open>The decision of the preferences for a channel and an event type.\<close>

definition preference_allows ::
    "NotificationRow list \<times> PreferenceRow list \<Rightarrow> uuid \<Rightarrow> uuid \<Rightarrow> string \<Rightarrow> string \<Rightarrow> bool" where
  "preference_allows t u a ch ev =
     (case preference_view t (u, a, ch, ev) of
        Some b \<Rightarrow> b
      | None \<Rightarrow> (case preference_view t (u, a, ch, ''*'') of Some b \<Rightarrow> b | None \<Rightarrow> ch = ChannelPush))"

text \<open>The device tokens in the identity service's answer; a failed lookup gives none.\<close>

definition tokens_in :: "string + http_response \<Rightarrow> NtDeviceToken list" where
  "tokens_in ans =
     (case ans of
        Inl msg \<Rightarrow> []
      | Inr resp \<Rightarrow>
          if hs_status resp \<noteq> 200 then []
          else (case Option.bind (hs_body resp) (dec_struct (dec_items dec_device_item)) of
                  None \<Rightarrow> [] | Some tokens \<Rightarrow> tokens))"






subsection \<open>The preference checks\<close>

lemma preference_allows_cong:
  "preference_view t = preference_view t' \<Longrightarrow> preference_allows t = preference_allows t'"
  by (intro ext) (simp add: preference_allows_def cong: option.case_cong)





lemma FindTokensByUser_sent:
  "snd (FindTokensByUser E i u a w) = w\<lparr>http_log := http_log w @ [device_tokens_request i u a]\<rparr>"
  "(case fst (FindTokensByUser E i u a w) of Inl _ \<Rightarrow> [] | Inr ts \<Rightarrow> ts) =
   tokens_in (e_http E (http_log w) (device_tokens_request i u a))"
  by (auto simp: FindTokensByUser_def http_Do_def check_err_def tokens_in_def Let_def split: sum.splits option.splits)


subsection \<open>The channels\<close>







subsection \<open>SendToUser\<close>






end
