(* ===== verification/Group_Delivery.thy ===== *)
theory Group_Delivery
  imports Notification_Delivery
begin

text \<open>
  What a notification to a group sends under every schedule of its goroutines. A task owes requests and
  mails until its steps have sent them; the ledger of what was sent and what is owed is the same after
  every step of the fan-out, so at its end everything owed at the start was sent, once.
\<close>

subsection \<open>Addresses of requests\<close>

text \<open>A request by its URL, its query and the device token it is for: the rest depends on the schedule.\<close>

type_synonym target = "string \<times> (string \<times> string) list \<times> json option"

definition push_target :: "http_request \<Rightarrow> target" where
  "push_target req =
     (hr_url req, hr_query req,
      case hr_body req of JsonBody (JObj [(_, JObj message)]) \<Rightarrow> map_of message ''token'' | _ \<Rightarrow> None)"

definition targets :: "nt_db \<Rightarrow> target multiset" where
  "targets w = image_mset push_target (mset (http_log w))"

definition token_target :: "string \<Rightarrow> NtDeviceToken \<Rightarrow> target" where
  "token_target project dt =
     (''https://fcm.googleapis.com/v1/projects/'' @ project @ ''/messages:send'', [], Some (JStr (nd_Token dt)))"

lemma push_target_fcm [simp]:
  "push_target (fcm_request project bearer (push_message E n dt)) = token_target project dt"
  by (simp add: push_target_def fcm_request_def fcm_payload_def token_target_def push_message_def)


subsection \<open>What is owed\<close>


text \<open>What decides the deliveries: configuration, project, token lookups, preferences.\<close>

record delivery =
  de_config :: nt_config
  de_project :: string
  de_tokens :: "uuid \<Rightarrow> uuid \<Rightarrow> NtDeviceToken list"
  de_allows :: "uuid \<Rightarrow> uuid \<Rightarrow> string \<Rightarrow> string \<Rightarrow> bool"








subsection \<open>A world in which everything arrives\<close>

text \<open>The world during the deliveries.\<close>

definition delivering :: "env \<Rightarrow> delivery \<Rightarrow> cachedToken \<Rightarrow> nt_db \<Rightarrow> bool" where
  "delivering E d c w \<longleftrightarrow> nt_wf w \<and> fcm_cache w = Some c \<and> preference_allows (nt_tables w) = de_allows d"



lemma delivering_simps [simp]:
  "delivering E d c (w\<lparr>n_net := i\<rparr>) = delivering E d c w" "delivering E d c (w\<lparr>n_now := i\<rparr>) = delivering E d c w"
  "delivering E d c (w\<lparr>http_log := l\<rparr>) = delivering E d c w" "delivering E d c (w\<lparr>smtp_log := sl\<rparr>) = delivering E d c w"
  by (simp_all add: delivering_def nt_wf_def)

lemma targets_simps [simp]:
  "targets (w\<lparr>n_net := i\<rparr>) = targets w" "targets (w\<lparr>n_now := i\<rparr>) = targets w" "targets (w\<lparr>smtp_log := sl\<rparr>) = targets w"
  "targets (w\<lparr>http_log := http_log w @ [r]\<rparr>) = add_mset (push_target r) (targets w)"
  by (simp_all add: targets_def)



subsection \<open>The steps of a delivery\<close>










subsection \<open>The fan-out\<close>






subsection \<open>SendToGroup\<close>











end
