(* ===== verification/Org_Memberships.thy ===== *)
theory Org_Memberships
  imports Org_Correct
begin

text \<open>
  Where memberships come from. Over any number of requests, worker ticks and faults a membership is the
  founder's or goes back to an invitation; and an invitation works, end to end: the token in the reply
  to the one who invites makes the one who sends it back a member.
\<close>

subsection \<open>Provenance\<close>

text \<open>C16: whatever requests and worker ticks a service handles and whatever fails, every membership that
  was not there before is the founder's, with the role of an owner, in an organization that names him as
  its owner, or an invitation to the same organization and the same role is in the database.\<close>
theorem membership_provenance:
  assumes "(org_step E cfg)\<^sup>*\<^sup>* w w'" and "r \<in> set (org_members w')" and "r \<notin> set (org_members w)"
  shows "rm_role r = ''owner'' \<and>
      (\<exists>founded \<in> set (organizations w'). ro_id founded = rm_org_id r \<and> ro_owner_user_id founded = rm_user_id r) \<or>
    (\<exists>invited \<in> set (org_invitations w'). ri_org_id invited = rm_org_id r \<and> ri_role invited = rm_role r)"
proof -
  have "memberships_sourced (set (org_members w)) w'"
    using assms(1) by (rule sourced.org_steps_P) (simp add: memberships_sourced_def)
  with assms(2,3) show ?thesis by (auto simp: memberships_sourced_def member_source_def RoleOwner_def)
qed

theorem membership_provenance_witness:
  "\<exists>founded \<in> set (organizations ex_w1). ro_id founded = 1 \<and> ro_owner_user_id founded = 7"
proof -
  let ?r = "\<lparr>rm_org_id = 1, rm_user_id = 7, rm_role = ''owner'', rm_invited_by = None, rm_joined_at = 0\<rparr>"
  have "org_members ex_w1 = [?r]" "org_invitations ex_w1 = []" "org_members ex_empty = []" by code_simp+
  with membership_provenance [OF r_into_rtranclp [of "org_step ex_env ex_cfg", OF ex_w1_step], of ?r]
  show ?thesis by simp
qed

subsection \<open>The way of an invitation\<close>

lemma accept_open_invitation:
  assumes up: "net_up E" and v: "invitation_view w tok = Some v" "i_AcceptedAt v = None"
    and time: "e_now E (n_now w) \<le> i_ExpiresAt v"
    and new: "member_view w (i_OrgID v, u) = None" and role: "ValidRole (i_Role v)"
  shows "\<exists>m w'. AcceptInvitation E (NewMemberService E) \<lparr>ai_Token = tok, ai_UserID = u\<rparr> w = (Inr m, w')"
proof -
  from v obtain row where row: "find (\<lambda>r. ri_token r = tok) (org_invitations w) = Some row" "v = rowToInvitation row"
    by (auto simp: invitation_view_def table_map_def)
  have key: "(ri_org_id row, u) \<notin> member_key ` set (org_members w)"
    using new row(2) by (auto simp: member_view_def table_map_def rowToInvitation_def find_None_iff split: option.splits)
  show ?thesis
    using v(2) time role row key
    by (simp add: AcceptInvitation_def check_err_def NewMemberService_sel NewInvitationRepo_def InvitationRepo_FindByToken_def
        GetInvitationByToken_def conv_def net_call_up [OF up] IsAccepted_def IsExpired_def time_Now_def Let_def
        NewMemberRepo_def MemberRepo_Add_def AddOrgMember_def rowToInvitation_def role_check_ValidRole
        InvitationRepo_MarkAccepted_def MarkInvitationAccepted_def db_now_def)
qed

lemma inviteMember_reply:
  assumes "inviteMember E h r w = (writeJSON 201 (JObj [(''id'', x), (''token'', JStr tok)]), w')"
  obtains claims i email role v where "rq_claims r = Some claims" "e_uuid_parse E (rq_param r ''orgID'') = Some i"
    "Option.bind (rq_body r) dec_inviteMemberRequest = Some (email, role)" "i_Token v = tok"
    "InviteMember E (h_members h) \<lparr>im_OrgID = i, im_Email = email, im_Role = role,
       im_InviterID = mustParseUUID E (c_Subject claims)\<rparr> w = (Inr v, w')"
  using assms
  by (auto simp: inviteMember_def require_claims_def ClaimsFromContext_def uuid_param_def parse_uuid_def decode_body_def
      respond_def writeJSON_def org_writeProblem_def org_writeError_def Let_def split: option.splits sum.splits prod.splits if_splits)

text \<open>C14: an invitation works, whoever made it and whoever sends it back: when the invite route answers with
  a token, then at any later time within the seven days, whatever other requests and ticks came in between,
  the accept route makes the caller who sends the token a member of the organization of the
  first request's path, with the role of its body, if the token is still open and the caller is not yet a
  member. Neither caller has to be a member, nor to have the address that was invited.\<close>
theorem invitation_flow:
  assumes up: "net_up E"
    and invited: "inviteMember E (org_main E cfg) r w =
      (writeJSON 201 (JObj [(''id'', x), (''token'', JStr tok)]), w1)"
    and later: "(org_step E cfg)\<^sup>*\<^sup>* w1 w2" and open_: "\<not> token_accepted tok w2"
    and "in_time": "e_now E (n_now w2) \<le> e_tsz E (e_now E (n_now w) + 7 * 24 * Hour)"
    and guest: "rq_claims g = Some c" "Option.bind (rq_body g) dec_acceptInvitationRequest = Some tok"
    and new: "\<And>i. e_uuid_parse E (rq_param r ''orgID'') = Some i \<Longrightarrow>
      member_view w2 (i, mustParseUUID E (c_Subject c)) = None"
  shows "\<exists>i email role m w3. e_uuid_parse E (rq_param r ''orgID'') = Some i \<and>
    Option.bind (rq_body r) dec_inviteMemberRequest = Some (email, role) \<and>
    acceptInvitation E (org_main E cfg) g w2 = (writeJSON 200 (memberToResponse E m), w3) \<and>
    m_OrgID m = i \<and> m_UserID m = mustParseUUID E (c_Subject c) \<and> m_Role m = role \<and>
    member_view w3 = (member_view w2)((i, mustParseUUID E (c_Subject c)) \<mapsto> stored_member E m) \<and>
    token_accepted tok w3"
proof -
  note s = NewMemberService_sel [of E]
  let ?u = "mustParseUUID E (c_Subject c)"
  from invited obtain claims i email role v where
    "rq_claims r = Some claims" and i: "e_uuid_parse E (rq_param r ''orgID'') = Some i" and body: "Option.bind (rq_body r) dec_inviteMemberRequest = Some (email, role)"
    and tok: "i_Token v = tok"
    and inv: "InviteMember E (h_members (org_main E cfg)) \<lparr>im_OrgID = i, im_Email = email, im_Role = role,
       im_InviterID = mustParseUUID E (c_Subject claims)\<rparr> w = (Inr v, w1)"
    by (rule inviteMember_reply) blast
  note inv = inv [unfolded org_invariant.org_main_sel]
  note made = org_mem.InviteMember_ok [OF s inv]
  have "invitation_kept tok i role (e_tsz E (e_now E (n_now w) + 7 * 24 * Hour)) w1"
    unfolding invitation_kept_view using made tok by (simp add: stored_invitation_def invitation_ttl_def)
  with later have "invitation_kept tok i role (e_tsz E (e_now E (n_now w) + 7 * 24 * Hour)) w2"
    by (rule kept_invitation.org_steps_P)
  then obtain v2 where v2: "invitation_view w2 tok = Some v2" "i_OrgID v2 = i" "i_Role v2 = role"
    "i_ExpiresAt v2 = e_tsz E (e_now E (n_now w) + 7 * 24 * Hour)"
    unfolding invitation_kept_view by blast
  have accepted: "i_AcceptedAt v2 = None" using open_ v2(1) by (auto simp: token_accepted_def)
  have "ValidRole role" using made(2) by simp
  with accept_open_invitation [OF up v2(1) accepted, of ?u] v2 in_time new [OF i]
  obtain m w3 where run: "AcceptInvitation E (NewMemberService E) \<lparr>ai_Token = tok, ai_UserID = ?u\<rparr> w2 = (Inr m, w3)"
    by auto
  have reply: "acceptInvitation E (org_main E cfg) g w2 = (writeJSON 200 (memberToResponse E m), w3)"
    using guest run by (simp add: acceptInvitation_def require_claims_def ClaimsFromContext_def decode_body_def respond_def)
  from org_mem.AcceptInvitation_ok [OF s run] v2(1-3)
  have m: "m_OrgID m = i" "m_UserID m = ?u" "m_Role m = role"
    "member_view w3 = (member_view w2)((i, ?u) \<mapsto> stored_member E m)" by auto
  have "token_accepted tok w3" using accept_invitation_marks [OF run] by simp
  with i body reply m show ?thesis by blast
qed

text \<open>User 7 invites an admin to the organization with identifier 1, and user 8 accepts.\<close>

definition ex_guest :: request where
  "ex_guest = \<lparr>rq_claims = Some \<lparr>c_Subject = ''8'', c_AppID = ''9'', c_Scopes = []\<rparr>, rq_header = (\<lambda>_. []),
     rq_param = (\<lambda>_. []), rq_query = (\<lambda>_. []),
     rq_body = Some (JObj [(''token'', JStr (hex_EncodeToString (replicate 32 CHR ''k'')))])\<rparr>"

theorem invitation_flow_witness:
  "\<exists>m w3. acceptInvitation ex_env (org_main ex_env ex_cfg) ex_guest ex_w2 = (writeJSON 200 (memberToResponse ex_env m), w3) \<and>
     m_OrgID m = 1 \<and> m_UserID m = 8 \<and> m_Role m = ''admin''"
proof -
  let ?tok = "hex_EncodeToString (replicate 32 CHR ''k'')"
  let ?run = "inviteMember ex_env (org_main ex_env ex_cfg) ex_invite ex_w1"
  have invited: "?run = (writeJSON 201 (JObj [(''id'', json_uuid ex_env 2), (''token'', JStr ?tok)]), ex_w2)"
  proof -
    have "fst ?run = writeJSON 201 (JObj [(''id'', json_uuid ex_env 2), (''token'', JStr ?tok)])" by code_simp
    then show ?thesis by (metis ex_w2_def prod.collapse)
  qed
  have open_: "\<not> token_accepted ?tok ex_w2" unfolding token_accepted_iff by code_simp
  have in_time: "e_now ex_env (n_now ex_w2) \<le> e_tsz ex_env (e_now ex_env (n_now ex_w1) + 7 * 24 * Hour)" by code_simp
  have guest: "rq_claims ex_guest = Some \<lparr>c_Subject = ''8'', c_AppID = ''9'', c_Scopes = []\<rparr>" by (simp add: ex_guest_def)
  have sent: "Option.bind (rq_body ex_guest) dec_acceptInvitationRequest = Some ?tok" by code_simp
  have org: "e_uuid_parse ex_env (rq_param ex_invite ''orgID'') = Some 1" by code_simp
  have body: "Option.bind (rq_body ex_invite) dec_inviteMemberRequest = Some (''a@b.c'', ''admin'')" by code_simp
  have user: "mustParseUUID ex_env ''8'' = 8" by code_simp
  have "map member_key (org_members ex_w2) = [(1, 7)]" by code_simp
  then have new: "member_view ex_w2 (1, 8) = None"
    by (auto simp: member_view_def table_map_def find_None_iff)
  from invitation_flow [OF ex_net_up invited rtranclp.rtrancl_refl open_ in_time guest sent] org body new
  show ?thesis by (auto simp: user)
qed

end
