(* ===== verification/Spec2Isabelle.thy ===== *)
theory Spec2Isabelle
  imports Lifecycle Interleaving Identity_Outbox Group_Delivery Org_Memberships
begin

text \<open>
  A verification development of the mobpilot services: org, identity and notification, with the platform
  packages they share. A service is a hexagon: a domain, use cases over ports, and adapters for the ports
  (PostgreSQL, NATS JetStream, Ory Keto, Centrifugo, Firebase, APNs, SMTP, HTTP). The theories follow
  that structure and translate the Go code function by function; names are the code's, with a
  prefix (\<open>id_\<close>, \<open>nt_\<close>, or the adapter's type) where two packages use one name.

  \<^bold>\<open>How the code is modelled.\<close> A struct is a record, an enumeration or error set a datatype, a method a
  definition on the world it changes. A fallible call is a function from the world to an error or a result
  and the new world (\<open>go_op\<close>); \<open>check_err\<close> and \<open>pass_err\<close> are the two forms of \<^verbatim>\<open>if err != nil\<close>,
  \<open>ignore_err\<close> is a call whose error is only logged. A port is a record of such operations, and its
  contract a locale; the adapters are records of that type and interpret the locale. What the services do
  not control (clock, fresh identifiers, random bytes, the outcome of every network call, the answers of
  HTTP servers, printing and parsing of uuids and instants, JWT signing, the database's collation) is the
  record \<open>env\<close>, about which nothing is assumed unless a property says so. A network call can be
  refused, or take effect while its reply is lost. Tables are lists of rows; a statement is one
  atomic step with the constraints of the schema.

  \<^bold>\<open>Theories.\<close>
  \<^item> \<open>Go_Prelude\<close>, \<open>Go_Json\<close>: errors with wrapping, the effect combinators with what they keep
    (\<open>keeps\<close>) and preserve (\<open>preserves\<close>), tables as maps, \<^verbatim>\<open>encoding/json\<close> decoding.
  \<^item> \<open>Httpmw\<close> (\<^verbatim>\<open>internal/platform/httpmw\<close>): the bearer middleware with its cache, the request log, and the
    blocks all handlers share. \<open>Keto_Checker\<close> (\<^verbatim>\<open>internal/platform/authz\<close>): the client of Ory Keto.
  \<^item> Org (\<^verbatim>\<open>services/org\<close>): \<open>Org_Domain\<close>, \<open>Org_Ports\<close> (ports, commands, contracts), \<open>Org_Store\<close> (sqlc queries),
    \<open>Org_Repos\<close>, \<open>Org_Contracts\<close> (the repositories keep their contracts), \<open>Org_Services\<close> (use cases and expiry
    sweeper), \<open>Org_Member_Service\<close> and \<open>Org_Group_Service\<close> (what they do, from the contracts), \<open>Org_Events\<close>
    (publisher and outbox worker), \<open>Org_Centrifugo\<close> (subscribe proxy, tokens), \<open>Org_Http\<close> (handlers, routes),
    \<open>Org_System\<close> (wiring, steps and reachable states), \<open>Org_Invariant\<close>, \<open>Org_Authz\<close>; properties in
    \<open>Org_Correct\<close>, \<open>Org_Memberships\<close> (where memberships come from, the way of an invitation),
    \<open>Org_Groups_Correct\<close> and \<open>Org_Edge_Correct\<close>; \<open>Example_World\<close> is the concrete
    environment of the witnesses.
  \<^item> Identity (\<^verbatim>\<open>services/identity\<close>): \<open>Identity_Domain\<close>, \<open>Identity_Store\<close> (queries and repositories),
    \<open>Identity_Outbox\<close> (the outbox statements, which nothing calls),
    \<open>Identity_Services\<close>, \<open>Identity_Http\<close>, \<open>Identity_Invariant\<close>; properties in \<open>Identity_Correct\<close>, and the
    refinement of an abstract key-value store by the artifact routes in \<open>Identity_Refinement\<close>.
  \<^item> Notification (\<^verbatim>\<open>services/notification\<close>): \<open>Notification_Domain\<close>, \<open>Notification_Store\<close>,
    \<open>Notification_Channels\<close> (Centrifugo, SMTP, FCM with its token source, APNs, dispatcher),
    \<open>Notification_Services\<close> (use cases; the goroutines of \<open>SendToGroup\<close> as tasks under a schedule),
    \<open>Notification_Http\<close> (clients of the other services, handlers, event consumer, wiring),
    \<open>Notification_Fanout\<close>, \<open>Notification_Invariant\<close> and \<open>Notification_Consumer\<close> (the event consumer as a
    process); properties in \<open>Notification_Correct\<close>,
    \<open>Notification_Edge_Correct\<close>, \<open>Notification_Delivery\<close> (what one notification sends) and
    \<open>Group_Delivery\<close> (what a group's notification sends, under every schedule).
  \<^item> \<open>Servers\<close> (\<^verbatim>\<open>cmd/*/main.go\<close>, \<^verbatim>\<open>internal/platform\<close>): start-up with its required variables, the
    connection pool, the event stream and telemetry, and the public and internal servers with their
    middleware; the error replies of all three services, and the isolation of the users on the public
    identity and notification servers, end to end.
  \<^item> \<open>Lifecycle\<close> (\<^verbatim>\<open>cmd/*/main.go\<close>): a process from its start-up until \<open>main\<close> returns, as a machine over the
    events of the system, the network and the Go runtime.
  \<^item> \<open>Interleaving\<close>: the statements of each service as a relation; every step of a service is a sequence
    of them, and what all of them keep holds under any interleaving of concurrent requests.

  \<^bold>\<open>What the lemmas show.\<close> For each service: the invariant of its database in every reachable
  state, under any requests, worker ticks, events and network faults; the functional behaviour of the use
  cases on their success and error paths; safety of the edges (who gets tokens, whose rows a
  request can touch, what is acknowledged or marked as published); every membership goes back to the
  founding of its organization or to an invitation; and what a notification, to one user or to a group under
  every schedule, sends to whom. Across services: the subscribe
  proxy follows the memberships written to Keto; the notification clients read exactly what the other
  services' routes answer; the org service's events do not reach the consumer, since the two disagree on
  the names of the fields. The locales \<open>org_predicate\<close>, \<open>account_predicate\<close>, \<open>caller_predicate\<close> and
  \<open>nt_predicate\<close> carry a predicate from the statements through all use cases and routes; each is
  interpreted on the invariant, on a permanence statement, and on being reached by single statements.

  \<^bold>\<open>Loops and bounds.\<close> No fuel is used: loops over lists are structural, a delivery and the fan-out have
  termination proofs under every schedule, the workers run a given number of ticks. Page
  offsets are cut to 32 bits and token lifetimes to 64 bits as in the code.

  \<^bold>\<open>Not modelled.\<close> Tracing spans, the printing of log lines, the sqlc plumbing (\<^verbatim>\<open>db.go\<close>, \<^verbatim>\<open>querier.go\<close>, generated
  around the queries), the chi router, and the SDKs and examples in other languages. The functional
  properties take the requests to one service one after the other; the interleaving of requests is the
  subject of \<open>Interleaving\<close>, of the group fan-outs, and of two acceptances of one invitation.
\<close>

end
